(* ===== verification/Prelude.thy ===== *)
theory Prelude
  imports Main "HOL-Library.Word" "HOL-Library.List_Lexorder" "HOL-Library.Char_ord"
    "HOL-Library.Multiset"
begin

text \<open>
  Shared vocabulary of the development: the outcome type of a fallible Rust function, the
  loops over it, Rust's string and integer primitives as the sources use them, ordered
  association lists for \<^verbatim>\<open>BTreeMap\<close>, and the stable \<^verbatim>\<open>slice::sort_by\<close>.
  A Rust \<^verbatim>\<open>String\<close> is its UTF-8 byte sequence, a HOL \<open>string\<close>; its order is the
  bytewise lexicographic order that \<open>List_Lexorder\<close> and \<open>Char_ord\<close> provide.
\<close>

named_theorems outcome_simps
named_theorems string_simps

section \<open>Outcomes of fallible code\<close>

text \<open>
  \<open>Ok\<close> and \<open>Err\<close> are the constructors of \<^verbatim>\<open>std::result::Result\<close>; \<open>Panic\<close> is a
  Rust panic, which no \<^verbatim>\<open>match\<close> on a result can catch.
\<close>

datatype ('a, 'e) result = Ok 'a | Err 'e | Panic string

fun and_then :: "('a, 'e) result \<Rightarrow> ('a \<Rightarrow> ('b, 'e) result) \<Rightarrow> ('b, 'e) result" where
  "and_then (Ok x) f = f x"
| "and_then (Err e) f = Err e"
| "and_then (Panic m) f = Panic m"

fun map_err :: "('e \<Rightarrow> 'f) \<Rightarrow> ('a, 'e) result \<Rightarrow> ('a, 'f) result" where
  "map_err f (Ok x) = Ok x"
| "map_err f (Err e) = Err (f e)"
| "map_err f (Panic m) = Panic m"

definition ok_or :: "'a option \<Rightarrow> 'e \<Rightarrow> ('a, 'e) result" where
  "ok_or x e = (case x of Some v \<Rightarrow> Ok v | None \<Rightarrow> Err e)"

definition unwrap_or :: "'a option \<Rightarrow> 'a \<Rightarrow> 'a" where
  "unwrap_or x d = (case x of Some v \<Rightarrow> v | None \<Rightarrow> d)"

fun is_ok :: "('a, 'e) result \<Rightarrow> bool" where
  "is_ok (Ok x) = True"
| "is_ok (Err e) = False"
| "is_ok (Panic m) = False"

fun_cases is_okE: "is_ok r"

fun panics :: "('a, 'e) result \<Rightarrow> bool" where
  "panics (Panic m) = True"
| "panics (Ok x) = False"
| "panics (Err e) = False"

text \<open>A \<^verbatim>\<open>for\<close> loop whose body uses \<^verbatim>\<open>?\<close>: collecting results, or threading a state.\<close>

fun map_res :: "('a \<Rightarrow> ('b, 'e) result) \<Rightarrow> 'a list \<Rightarrow> ('b list, 'e) result" where
  "map_res f [] = Ok []"
| "map_res f (x # xs) = and_then (f x) (\<lambda>y. and_then (map_res f xs) (\<lambda>ys. Ok (y # ys)))"

fun fold_res :: "('s \<Rightarrow> 'a \<Rightarrow> ('s, 'e) result) \<Rightarrow> 's \<Rightarrow> 'a list \<Rightarrow> ('s, 'e) result" where
  "fold_res f s [] = Ok s"
| "fold_res f s (x # xs) = and_then (f s x) (\<lambda>s'. fold_res f s' xs)"

fun filter_res :: "('a \<Rightarrow> (bool, 'e) result) \<Rightarrow> 'a list \<Rightarrow> ('a list, 'e) result" where
  "filter_res p [] = Ok []"
| "filter_res p (x # xs) =
     and_then (p x) (\<lambda>b. and_then (filter_res p xs) (\<lambda>ys. Ok (if b then x # ys else ys)))"

lemma and_then_eq_Ok [outcome_simps]:
  "and_then r f = Ok y \<longleftrightarrow> (\<exists>x. r = Ok x \<and> f x = Ok y)"
  by (cases r) auto

lemma and_then_eq_Panic [outcome_simps]:
  "and_then r f = Panic m \<longleftrightarrow> r = Panic m \<or> (\<exists>x. r = Ok x \<and> f x = Panic m)"
  by (cases r) auto

lemma and_then_eq_Err [outcome_simps]:
  "and_then r f = Err e \<longleftrightarrow> r = Err e \<or> (\<exists>x. r = Ok x \<and> f x = Err e)"
  by (cases r) auto

lemma panics_and_then [outcome_simps]:
  "panics (and_then r f) \<longleftrightarrow> panics r \<or> (\<exists>x. r = Ok x \<and> panics (f x))"
  by (cases r) auto

lemma and_then_cong [fundef_cong]:
  "r = r' \<Longrightarrow> (\<And>x. r' = Ok x \<Longrightarrow> f x = g x) \<Longrightarrow> and_then r f = and_then r' g"
  by (cases r') auto

lemma and_then_assoc: "and_then (and_then r f) g = and_then r (\<lambda>x. and_then (f x) g)"
  by (cases r) auto

lemma and_then_Ok_right [simp]: "and_then r Ok = r"
  by (cases r) auto

lemma ok_or_eq_Ok [outcome_simps]: "ok_or x e = Ok v \<longleftrightarrow> x = Some v"
  by (auto simp: ok_or_def split: option.splits)

lemma panics_ok_or [simp]: "\<not> panics (ok_or x e)"
  by (auto simp: ok_or_def split: option.splits)

lemma panics_iff: "panics r \<longleftrightarrow> (\<exists>m. r = Panic m)"
  by (cases r) auto

lemma map_res_cong [fundef_cong]:
  "xs = ys \<Longrightarrow> (\<And>x. x \<in> set ys \<Longrightarrow> f x = g x) \<Longrightarrow> map_res f xs = map_res g ys"
  by (induction ys arbitrary: xs) auto

lemma fold_res_cong [fundef_cong]:
  "s = t \<Longrightarrow> xs = ys \<Longrightarrow> (\<And>u y. y \<in> set ys \<Longrightarrow> f u y = g u y)
    \<Longrightarrow> fold_res f s xs = fold_res g t ys"
  by (induction ys arbitrary: xs s t) (auto intro!: and_then_cong)

lemma map_res_Ok_iff [outcome_simps]:
  "map_res f xs = Ok ys \<longleftrightarrow> list_all2 (\<lambda>x y. f x = Ok y) xs ys"
  by (induction xs arbitrary: ys) (auto simp: outcome_simps list_all2_Cons1)

lemma map_res_length: "map_res f xs = Ok ys \<Longrightarrow> length ys = length xs"
  by (simp add: map_res_Ok_iff list_all2_lengthD)

lemma map_res_nth: "map_res f xs = Ok ys \<Longrightarrow> i < length xs \<Longrightarrow> f (xs ! i) = Ok (ys ! i)"
  by (simp add: map_res_Ok_iff list_all2_conv_all_nth)

lemma map_res_set: "map_res f xs = Ok ys \<Longrightarrow> y \<in> set ys \<Longrightarrow> \<exists>x \<in> set xs. f x = Ok y"
  by (metis in_set_conv_nth map_res_length map_res_nth)

lemma map_res_Ok_map: "(\<And>x. x \<in> set xs \<Longrightarrow> f x = Ok (g x)) \<Longrightarrow> map_res f xs = Ok (map g xs)"
  by (induction xs) auto

lemma map_res_map: "map_res f (map g xs) = map_res (\<lambda>x. f (g x)) xs"
  by (induction xs) auto

lemma map_res_append:
  "map_res f (xs @ ys) = and_then (map_res f xs) (\<lambda>us. and_then (map_res f ys) (\<lambda>vs. Ok (us @ vs)))"
  by (induction xs) (auto simp: and_then_assoc)

lemma map_res_no_panic: "(\<And>x. x \<in> set xs \<Longrightarrow> \<not> panics (f x)) \<Longrightarrow> \<not> panics (map_res f xs)"
  by (induction xs) (auto simp: outcome_simps)

lemma fold_res_append:
  "fold_res f s (xs @ ys) = and_then (fold_res f s xs) (\<lambda>t. fold_res f t ys)"
  by (induction xs arbitrary: s) (auto simp: and_then_assoc)

lemma fold_res_invariant:
  assumes "fold_res f s xs = Ok t" and "P s"
    and "\<And>u x u'. x \<in> set xs \<Longrightarrow> P u \<Longrightarrow> f u x = Ok u' \<Longrightarrow> P u'"
  shows "P t"
  using assms by (induction xs arbitrary: s) (auto simp: outcome_simps)

lemma fold_res_no_panic:
  "(\<And>u x. x \<in> set xs \<Longrightarrow> \<not> panics (f u x)) \<Longrightarrow> \<not> panics (fold_res f s xs)"
  by (induction xs arbitrary: s) (auto simp: outcome_simps)

lemma filter_res_filter:
  "(\<And>x. x \<in> set xs \<Longrightarrow> p x = Ok (q x)) \<Longrightarrow> filter_res p xs = Ok (filter q xs)"
  by (induction xs) auto

lemma filter_res_eq_filter:
  "filter_res p xs = Ok ys \<Longrightarrow> ys = filter (\<lambda>x. p x = Ok True) xs"
  by (induction xs arbitrary: ys) (auto simp: outcome_simps)

lemma filter_res_no_panic:
  "(\<And>x. x \<in> set xs \<Longrightarrow> \<not> panics (p x)) \<Longrightarrow> \<not> panics (filter_res p xs)"
  by (induction xs) (auto simp: outcome_simps)

end
