(* ===== verification/Rust_Std.thy ===== *)
theory Rust_Std
  imports Prelude
begin

text \<open>
  The part of Rust's standard library the sources rely on: \<^verbatim>\<open>std::cmp::Ordering\<close>, ASCII
  case mapping, \<^verbatim>\<open>str::trim\<close>, \<^verbatim>\<open>join\<close>, decimal printing and \<^verbatim>\<open>i64::from_str\<close>, machine
  integers as words, \<^verbatim>\<open>slice::sort_by\<close> and \<^verbatim>\<open>BTreeMap\<close>. Integer overflow of \<open>+\<close>, \<open>-\<close>
  and \<open>*\<close> wraps, as in the release profile the Dockerfile builds.
\<close>

section \<open>Machine integers\<close>

type_synonym i32 = "32 word"
type_synonym i64 = "64 word"
type_synonym u64 = "64 word"

definition i32_as_i64 :: "i32 \<Rightarrow> i64" where
  "i32_as_i64 a = word_of_int (sint a)"

lemma sint_i32_bounds: "- (2 ^ 31) \<le> sint (a :: i32)" "sint (a :: i32) < 2 ^ 31"
  using sint_ge [of a] sint_lt [of a] by simp_all

lemma sint_i64_bounds: "- (2 ^ 63) \<le> sint (a :: i64)" "sint (a :: i64) < 2 ^ 63"
  using sint_ge [of a] sint_lt [of a] by simp_all

lemma sint_word_of_int_i64: "- (2 ^ 63) \<le> n \<Longrightarrow> n < 2 ^ 63 \<Longrightarrow> sint (word_of_int n :: i64) = n"
  by (simp add: int_word_sint)

lemma sint_i32_as_i64 [simp]: "sint (i32_as_i64 a) = sint a"
proof -
  have "- (2 ^ 63) \<le> sint a" and "sint a < 2 ^ 63"
    using sint_i32_bounds [of a] by simp_all
  then show ?thesis
    unfolding i32_as_i64_def by (rule sint_word_of_int_i64)
qed

text \<open>Rust's remainder truncates towards zero; \<^verbatim>\<open>i64::MIN % -1\<close> panics in every profile.\<close>

definition trunc_rem :: "int \<Rightarrow> int \<Rightarrow> int" where
  "trunc_rem a b = sgn a * (\<bar>a\<bar> mod \<bar>b\<bar>)"

lemma trunc_rem_bound: "b \<noteq> 0 \<Longrightarrow> \<bar>trunc_rem a b\<bar> < \<bar>b\<bar>"
  by (auto simp: trunc_rem_def abs_mult sgn_if)

lemma trunc_rem_cong: "\<exists>k. a = k * b + trunc_rem a b"
proof -
  have "a = sgn a * \<bar>a\<bar>" by (simp add: mult_sgn_abs)
  also have "\<dots> = sgn a * (\<bar>a\<bar> div \<bar>b\<bar> * \<bar>b\<bar> + \<bar>a\<bar> mod \<bar>b\<bar>)" by simp
  also have "\<dots> = (sgn a * (\<bar>a\<bar> div \<bar>b\<bar>) * sgn b) * b + trunc_rem a b"
    by (simp add: trunc_rem_def algebra_simps mult.assoc abs_sgn)
  finally show ?thesis by blast
qed

section \<open>Orderings\<close>

datatype ordering = Less | Equal | Greater

fun reverse_ord :: "ordering \<Rightarrow> ordering" where
  "reverse_ord Less = Greater"
| "reverse_ord Equal = Equal"
| "reverse_ord Greater = Less"

definition cmp_of :: "'a::linorder \<Rightarrow> 'a \<Rightarrow> ordering" where
  "cmp_of a b = (if a < b then Less else if a = b then Equal else Greater)"

lemma reverse_ord_involution [simp]: "reverse_ord (reverse_ord c) = c"
  by (cases c) auto

lemma reverse_ord_eq_Equal [simp]: "reverse_ord c = Equal \<longleftrightarrow> c = Equal"
  by (cases c) auto

lemma cmp_of_reverse: "reverse_ord (cmp_of a b) = cmp_of b a"
  by (auto simp: cmp_of_def)

lemma cmp_of_simps [simp]:
  "cmp_of a b = Less \<longleftrightarrow> a < b"
  "cmp_of a b = Equal \<longleftrightarrow> a = b"
  "cmp_of a b = Greater \<longleftrightarrow> b < a"
  by (auto simp: cmp_of_def)

text \<open>
  A comparator that is a total preorder: what \<^verbatim>\<open>sort_by\<close> documents as its precondition, on
  the elements it is given.
\<close>

locale total_preorder_cmp =
  fixes cmp :: "'a \<Rightarrow> 'a \<Rightarrow> ordering" and A :: "'a set"
  assumes cmp_reverse: "\<lbrakk>x \<in> A; y \<in> A\<rbrakk> \<Longrightarrow> cmp y x = reverse_ord (cmp x y)"
    and cmp_trans: "\<lbrakk>x \<in> A; y \<in> A; z \<in> A; cmp x y \<noteq> Greater; cmp y z \<noteq> Greater\<rbrakk>
      \<Longrightarrow> cmp x z \<noteq> Greater"
begin

lemma cmp_refl: "x \<in> A \<Longrightarrow> cmp x x = Equal"
  using cmp_reverse [of x x] by (cases "cmp x x") auto

lemma cmp_total: "\<lbrakk>x \<in> A; y \<in> A\<rbrakk> \<Longrightarrow> cmp x y \<noteq> Greater \<or> cmp y x \<noteq> Greater"
  using cmp_reverse [of x y] by (cases "cmp x y") auto

lemma cmp_Less_trans:
  assumes "x \<in> A" "y \<in> A" "z \<in> A" "cmp x y = Less" "cmp y z \<noteq> Greater"
  shows "cmp x z = Less"
proof (rule ccontr)
  assume "cmp x z \<noteq> Less"
  then have "cmp z x \<noteq> Greater"
    using cmp_reverse [of x z] assms(1,3) by (cases "cmp x z") auto
  then have "cmp y x \<noteq> Greater"
    using cmp_trans [of y z x] assms by auto
  then show False
    using cmp_reverse [of x y] assms(1,2,4) by auto
qed

lemma cmp_trans_Less:
  assumes "x \<in> A" "y \<in> A" "z \<in> A" "cmp x y \<noteq> Greater" "cmp y z = Less"
  shows "cmp x z = Less"
proof (rule ccontr)
  assume "cmp x z \<noteq> Less"
  then have "cmp z x \<noteq> Greater"
    using cmp_reverse [of x z] assms(1,3) by (cases "cmp x z") auto
  then have "cmp z y \<noteq> Greater"
    using cmp_trans [of z x y] assms by auto
  then show False
    using cmp_reverse [of y z] assms(2,3,5) by auto
qed

lemma cmp_Equal_trans:
  assumes "x \<in> A" "y \<in> A" "z \<in> A" "cmp x y = Equal" "cmp y z = Equal"
  shows "cmp x z = Equal"
proof -
  have "cmp x z \<noteq> Greater" using cmp_trans [of x y z] assms by auto
  moreover have "cmp z x \<noteq> Greater"
    using cmp_trans [of z y x] cmp_reverse [of x y] cmp_reverse [of y z] assms by auto
  ultimately show ?thesis using cmp_reverse [of x z] assms(1,3) by (cases "cmp x z") auto
qed

end

interpretation cmp_of: total_preorder_cmp "cmp_of :: 'a::linorder \<Rightarrow> 'a \<Rightarrow> ordering" UNIV
  by unfold_locales (auto simp: cmp_of_def split: if_splits)

section \<open>Stable sorting\<close>

text \<open>
  \<^verbatim>\<open>slice::sort_by\<close> is a stable sort for a comparator that is a total order. For other
  comparators its documentation leaves the order unspecified; the model then returns what
  stable insertion gives, and the theorems about order assume the precondition.
\<close>

fun insort_by :: "('a \<Rightarrow> 'a \<Rightarrow> ordering) \<Rightarrow> 'a \<Rightarrow> 'a list \<Rightarrow> 'a list" where
  "insort_by cmp x [] = [x]"
| "insort_by cmp x (y # ys) =
     (if cmp x y = Greater then y # insort_by cmp x ys else x # y # ys)"

fun sort_by :: "('a \<Rightarrow> 'a \<Rightarrow> ordering) \<Rightarrow> 'a list \<Rightarrow> 'a list" where
  "sort_by cmp [] = []"
| "sort_by cmp (x # xs) = insort_by cmp x (sort_by cmp xs)"

lemma mset_insort_by [simp]: "mset (insort_by cmp x xs) = add_mset x (mset xs)"
  by (induction xs) auto

lemma mset_sort_by [simp]: "mset (sort_by cmp xs) = mset xs"
  by (induction xs) auto

lemma set_sort_by [simp]: "set (sort_by cmp xs) = set xs"
  by (metis mset_sort_by set_mset_mset)

lemma length_sort_by [simp]: "length (sort_by cmp xs) = length xs"
  by (metis mset_sort_by size_mset)

lemma set_insort_by [simp]: "set (insort_by cmp x xs) = insert x (set xs)"
  by (induction xs) auto

context total_preorder_cmp
begin

lemma insort_by_sorted:
  assumes "sorted_wrt (\<lambda>a b. cmp a b \<noteq> Greater) ys" "x \<in> A" "set ys \<subseteq> A"
  shows "sorted_wrt (\<lambda>a b. cmp a b \<noteq> Greater) (insort_by cmp x ys)"
  using assms
proof (induction ys)
  case (Cons y ys)
  show ?case
  proof (cases "cmp x y = Greater")
    case True
    then have "cmp y x \<noteq> Greater"
      using Cons.prems cmp_total [of x y] by auto
    then show ?thesis using Cons True by auto
  next
    case False
    then have "cmp x z \<noteq> Greater" if "z \<in> set ys" for z
      using that Cons.prems cmp_trans [of x y z] by auto
    then show ?thesis using Cons False by auto
  qed
qed simp

lemma sort_by_sorted:
  "set xs \<subseteq> A \<Longrightarrow> sorted_wrt (\<lambda>a b. cmp a b \<noteq> Greater) (sort_by cmp xs)"
  by (induction xs) (auto intro!: insort_by_sorted)

lemma insort_by_stable:
  assumes "k \<in> A" "x \<in> A" "set ys \<subseteq> A"
  shows "filter (\<lambda>y. cmp k y = Equal) (insort_by cmp x ys) =
    (if cmp k x = Equal then x # filter (\<lambda>y. cmp k y = Equal) ys
     else filter (\<lambda>y. cmp k y = Equal) ys)"
  using assms
proof (induction ys)
  case (Cons y ys)
  have "\<not> (cmp k x = Equal \<and> cmp k y = Equal)" if "cmp x y = Greater"
  proof
    assume eq: "cmp k x = Equal \<and> cmp k y = Equal"
    then have "cmp x k \<noteq> Greater" "cmp k y \<noteq> Greater"
      using Cons.prems cmp_reverse [of k x] by auto
    then show False
      using Cons.prems cmp_trans [of x k y] that by auto
  qed
  then show ?case using Cons by auto
qed simp

lemma sort_by_stable:
  "k \<in> A \<Longrightarrow> set xs \<subseteq> A \<Longrightarrow>
    filter (\<lambda>y. cmp k y = Equal) (sort_by cmp xs) = filter (\<lambda>y. cmp k y = Equal) xs"
  by (induction xs) (auto simp: insort_by_stable)

end

section \<open>Ordered maps\<close>

text \<open>
  A \<^verbatim>\<open>BTreeMap\<close> is the list of its entries in key order: \<open>btree_get\<close> is \<^verbatim>\<open>get\<close>,
  \<open>btree_insert\<close> is \<^verbatim>\<open>insert\<close>, and iteration is the list itself.
\<close>

fun btree_get :: "('k::linorder \<times> 'v) list \<Rightarrow> 'k \<Rightarrow> 'v option" where
  "btree_get [] k = None"
| "btree_get ((a, v) # m) k = (if k = a then Some v else btree_get m k)"

fun btree_insert :: "('k::linorder \<times> 'v) list \<Rightarrow> 'k \<Rightarrow> 'v \<Rightarrow> ('k \<times> 'v) list" where
  "btree_insert [] k v = [(k, v)]"
| "btree_insert ((a, w) # m) k v =
     (if k < a then (k, v) # (a, w) # m
      else if k = a then (k, v) # m
      else (a, w) # btree_insert m k v)"

definition btree_wf :: "('k::linorder \<times> 'v) list \<Rightarrow> bool" where
  "btree_wf m \<longleftrightarrow> sorted_wrt (<) (map fst m)"

lemma btree_insert_keys [simp]: "set (map fst (btree_insert m k v)) = insert k (set (map fst m))"
  by (induction m k v rule: btree_insert.induct) auto

lemma btree_get_map_of: "btree_get m k = map_of m k"
  by (induction m k rule: btree_get.induct) auto

lemma btree_wf_insert [simp]: "btree_wf m \<Longrightarrow> btree_wf (btree_insert m k v)"
proof (induction m k v rule: btree_insert.induct)
  case (2 a w m k v)
  then have "\<forall>x \<in> set (map fst m). a < x" and "btree_wf m"
    by (auto simp: btree_wf_def)
  with 2 show ?case
    using btree_insert_keys [of m k v] by (force simp: btree_wf_def)
qed (simp add: btree_wf_def)

lemma btree_get_insert [simp]:
  "btree_get (btree_insert m k v) k' = (if k' = k then Some v else btree_get m k')"
  by (induction m k v rule: btree_insert.induct) auto

lemma btree_get_None_iff: "btree_get m k = None \<longleftrightarrow> k \<notin> set (map fst m)"
  by (induction m k rule: btree_get.induct) auto

lemma btree_wf_distinct: "btree_wf m \<Longrightarrow> distinct (map fst m)"
  by (simp add: btree_wf_def strict_sorted_iff)

lemma btree_get_Some_iff: "btree_wf m \<Longrightarrow> btree_get m k = Some v \<longleftrightarrow> (k, v) \<in> set m"
  by (simp add: btree_get_map_of btree_wf_distinct)

text \<open>The contract a client of a keyed store relies on, and that the ordered map provides.\<close>

locale keyed_store =
  fixes get :: "'m \<Rightarrow> 'k \<Rightarrow> 'v option"
    and put :: "'m \<Rightarrow> 'k \<Rightarrow> 'v \<Rightarrow> 'm"
    and invar :: "'m \<Rightarrow> bool"
  assumes get_put: "invar m \<Longrightarrow> get (put m k v) k' = (if k' = k then Some v else get m k')"
    and invar_put: "invar m \<Longrightarrow> invar (put m k v)"
begin

fun put_all :: "'m \<Rightarrow> ('k \<times> 'v) list \<Rightarrow> 'm" where
  "put_all m [] = m"
| "put_all m (p # ps) = put_all (put m (fst p) (snd p)) ps"

lemma put_overwrites: "invar m \<Longrightarrow> get (put (put m k v) k w) = get (put m k w)"
  by (auto simp: get_put invar_put)

lemma put_commutes: "invar m \<Longrightarrow> k \<noteq> k' \<Longrightarrow> get (put (put m k v) k' w) = get (put (put m k' w) k v)"
  by (auto simp: get_put invar_put)

lemma invar_put_all: "invar m \<Longrightarrow> invar (put_all m ps)"
  by (induction ps arbitrary: m) (auto simp: invar_put)

lemma get_put_all:
  "invar m \<Longrightarrow> get (put_all m ps) k =
    (case map_of (rev ps) k of None \<Rightarrow> get m k | Some v \<Rightarrow> Some v)"
  by (induction ps arbitrary: m)
    (auto simp: get_put invar_put map_add_def split: option.splits)

end

interpretation btree: keyed_store btree_get btree_insert btree_wf
  by unfold_locales simp_all

end
