(* ===== verification/IEEE_Float.thy ===== *)
theory IEEE_Float
  imports Rust_Text Complex_Main
begin

text \<open>
  Rust's \<^verbatim>\<open>f32\<close> and \<^verbatim>\<open>f64\<close>: IEEE 754 binary32 and binary64 bit patterns. A pattern decodes
  to an exact value (a NaN, a signed infinity or a signed rational magnitude); arithmetic is
  exact on values and rounds once, to nearest with ties to even, when it encodes. Printing
  is the shortest decimal that reads back as the same pattern, reading is correctly rounded.
\<close>

section \<open>Formats, decoding, rounding\<close>

type_synonym f32 = "32 word"
type_synonym f64 = "64 word"

text \<open>\<open>FFin s q\<close>: sign \<open>s\<close> (\<open>True\<close> is negative) and magnitude \<open>q\<close>.\<close>

datatype fval = FNaN | FInf bool | FFin bool rat

text \<open>A format is its stored significand bits \<open>p\<close> and exponent bits \<open>w\<close>: (23, 8), (52, 11).\<close>

definition f_bias :: "nat \<Rightarrow> nat" where
  "f_bias w = 2 ^ (w - 1) - 1"

definition f_decode :: "nat \<Rightarrow> nat \<Rightarrow> nat \<Rightarrow> fval" where
  "f_decode p w b =
     (let s = odd (b div 2 ^ (p + w)); e = (b div 2 ^ p) mod 2 ^ w; m = b mod 2 ^ p
      in if e = 2 ^ w - 1 then (if m = 0 then FInf s else FNaN)
         else if e = 0 then FFin s (of_nat m * 2 / 2 ^ (f_bias w + p))
         else FFin s (of_nat (2 ^ p + m) * 2 ^ e / 2 ^ (f_bias w + p)))"

fun bit_length :: "nat \<Rightarrow> nat" where
  "bit_length n = (if n = 0 then 0 else Suc (bit_length (n div 2)))"

declare bit_length.simps [simp del]

definition pow2 :: "int \<Rightarrow> rat" where
  "pow2 k = (if 0 \<le> k then 2 ^ nat k else 1 / 2 ^ nat (- k))"

definition floor_log2 :: "rat \<Rightarrow> int" where
  "floor_log2 q =
     (let (n, d) = quotient_of q;
          k = int (bit_length (nat n)) - int (bit_length (nat d))
      in if pow2 k \<le> q then k else k - 1)"

definition round_half_even :: "rat \<Rightarrow> int" where
  "round_half_even x =
     (let f = \<lfloor>x\<rfloor>; r = x - of_int f
      in if r < 1 / 2 then f else if 1 / 2 < r then f + 1 else if even f then f else f + 1)"

text \<open>The bits of a magnitude, rounded; beyond the largest finite value it is infinity.\<close>

definition f_round :: "nat \<Rightarrow> nat \<Rightarrow> rat \<Rightarrow> nat" where
  "f_round p w q =
     (if q = 0 then 0
      else let e = max (floor_log2 q) (1 - int (f_bias w));
               sig = round_half_even (q * 2 ^ p / pow2 e);
               bits = nat (e + int (f_bias w) - 1) * 2 ^ p + nat sig
           in min bits ((2 ^ w - 1) * 2 ^ p))"

fun f_encode :: "nat \<Rightarrow> nat \<Rightarrow> fval \<Rightarrow> nat" where
  "f_encode p w FNaN = (2 ^ w - 1) * 2 ^ p + 2 ^ (p - 1)"
| "f_encode p w (FInf s) = (if s then 2 ^ (p + w) else 0) + (2 ^ w - 1) * 2 ^ p"
| "f_encode p w (FFin s q) = (if s then 2 ^ (p + w) else 0) + f_round p w q"

definition f64_val :: "f64 \<Rightarrow> fval" where
  "f64_val x = f_decode 52 11 (unat x)"

definition f64_of :: "fval \<Rightarrow> f64" where
  "f64_of v = word_of_nat (f_encode 52 11 v)"

definition f32_val :: "f32 \<Rightarrow> fval" where
  "f32_val x = f_decode 23 8 (unat x)"

definition f32_of :: "fval \<Rightarrow> f32" where
  "f32_of v = word_of_nat (f_encode 23 8 v)"

section \<open>Exact arithmetic and comparison of values\<close>

definition signed_rat :: "bool \<Rightarrow> rat \<Rightarrow> rat" where
  "signed_rat s q = (if s then - q else q)"

fun fv_neg :: "fval \<Rightarrow> fval" where
  "fv_neg FNaN = FNaN"
| "fv_neg (FInf s) = FInf (\<not> s)"
| "fv_neg (FFin s q) = FFin (\<not> s) q"

fun fv_add :: "fval \<Rightarrow> fval \<Rightarrow> fval" where
  "fv_add (FInf s) (FInf t) = (if s = t then FInf s else FNaN)"
| "fv_add (FInf s) (FFin t r) = FInf s"
| "fv_add (FFin s q) (FInf t) = FInf t"
| "fv_add (FFin s q) (FFin t r) =
     (let x = signed_rat s q + signed_rat t r
      in if x = 0 then FFin (s \<and> t) 0 else FFin (x < 0) \<bar>x\<bar>)"
| "fv_add _ _ = FNaN"

fun fv_mul :: "fval \<Rightarrow> fval \<Rightarrow> fval" where
  "fv_mul (FInf s) (FInf t) = FInf (s \<noteq> t)"
| "fv_mul (FInf s) (FFin t r) = (if r = 0 then FNaN else FInf (s \<noteq> t))"
| "fv_mul (FFin s q) (FInf t) = (if q = 0 then FNaN else FInf (s \<noteq> t))"
| "fv_mul (FFin s q) (FFin t r) = FFin (s \<noteq> t) (q * r)"
| "fv_mul _ _ = FNaN"

fun fv_div :: "fval \<Rightarrow> fval \<Rightarrow> fval" where
  "fv_div (FInf s) (FFin t r) = FInf (s \<noteq> t)"
| "fv_div (FFin s q) (FInf t) = FFin (s \<noteq> t) 0"
| "fv_div (FFin s q) (FFin t r) =
     (if r = 0 then (if q = 0 then FNaN else FInf (s \<noteq> t)) else FFin (s \<noteq> t) (q / r))"
| "fv_div _ _ = FNaN"

text \<open>\<^verbatim>\<open>partial_cmp\<close>: undefined exactly when an operand is a NaN.\<close>

fun fv_cmp :: "fval \<Rightarrow> fval \<Rightarrow> ordering option" where
  "fv_cmp FNaN _ = None"
| "fv_cmp _ FNaN = None"
| "fv_cmp (FInf s) (FInf t) = Some (if s = t then Equal else if s then Less else Greater)"
| "fv_cmp (FInf s) (FFin t r) = Some (if s then Less else Greater)"
| "fv_cmp (FFin s q) (FInf t) = Some (if t then Greater else Less)"
| "fv_cmp (FFin s q) (FFin t r) = Some (cmp_of (signed_rat s q) (signed_rat t r))"

definition f64_cmp :: "f64 \<Rightarrow> f64 \<Rightarrow> ordering option" where
  "f64_cmp x y = fv_cmp (f64_val x) (f64_val y)"

definition f32_cmp :: "f32 \<Rightarrow> f32 \<Rightarrow> ordering option" where
  "f32_cmp x y = fv_cmp (f32_val x) (f32_val y)"

definition f64_eq :: "f64 \<Rightarrow> f64 \<Rightarrow> bool" where
  "f64_eq x y \<longleftrightarrow> f64_cmp x y = Some Equal"

definition f32_eq :: "f32 \<Rightarrow> f32 \<Rightarrow> bool" where
  "f32_eq x y \<longleftrightarrow> f32_cmp x y = Some Equal"

definition f64_add :: "f64 \<Rightarrow> f64 \<Rightarrow> f64" where
  "f64_add x y = f64_of (fv_add (f64_val x) (f64_val y))"

definition f64_sub :: "f64 \<Rightarrow> f64 \<Rightarrow> f64" where
  "f64_sub x y = f64_of (fv_add (f64_val x) (fv_neg (f64_val y)))"

definition f64_mul :: "f64 \<Rightarrow> f64 \<Rightarrow> f64" where
  "f64_mul x y = f64_of (fv_mul (f64_val x) (f64_val y))"

definition f64_div :: "f64 \<Rightarrow> f64 \<Rightarrow> f64" where
  "f64_div x y = f64_of (fv_div (f64_val x) (f64_val y))"

section \<open>Conversions (Rust's \<open>as\<close>)\<close>

definition fv_of_int :: "int \<Rightarrow> fval" where
  "fv_of_int i = FFin (i < 0) (of_int \<bar>i\<bar>)"

definition f64_of_int :: "int \<Rightarrow> f64" where
  "f64_of_int i = f64_of (fv_of_int i)"

text \<open>Float to integer truncates and saturates; a NaN becomes 0.\<close>

fun fv_to_int :: "int \<Rightarrow> int \<Rightarrow> fval \<Rightarrow> int" where
  "fv_to_int lo hi FNaN = 0"
| "fv_to_int lo hi (FInf s) = (if s then lo else hi)"
| "fv_to_int lo hi (FFin s q) = max lo (min hi (if s then - \<lfloor>q\<rfloor> else \<lfloor>q\<rfloor>))"

definition f64_as_i64 :: "f64 \<Rightarrow> i64" where
  "f64_as_i64 x = word_of_int (fv_to_int (- (2 ^ 63)) (2 ^ 63 - 1) (f64_val x))"

definition f32_as_i64 :: "f32 \<Rightarrow> i64" where
  "f32_as_i64 x = word_of_int (fv_to_int (- (2 ^ 63)) (2 ^ 63 - 1) (f32_val x))"

definition f32_as_f64 :: "f32 \<Rightarrow> f64" where
  "f32_as_f64 x = f64_of (f32_val x)"

definition f64_as_f32 :: "f64 \<Rightarrow> f32" where
  "f64_as_f32 x = f32_of (f64_val x)"

definition i64_as_f64 :: "i64 \<Rightarrow> f64" where
  "i64_as_f64 i = f64_of_int (sint i)"

definition i32_as_f64 :: "i32 \<Rightarrow> f64" where
  "i32_as_f64 i = f64_of_int (sint i)"

section \<open>Reading: \<open>f64::from_str\<close>\<close>

text \<open>
  Optional sign, then \<open>inf\<close>, \<open>infinity\<close> or \<open>nan\<close> in any case, or a decimal with digits
  on at least one side of an optional point and an optional exponent.
\<close>

definition split_sign :: "string \<Rightarrow> bool \<times> string" where
  "split_sign s = (case s of [] \<Rightarrow> (False, [])
     | c # cs \<Rightarrow> if c = CHR ''-'' then (True, cs)
                else if c = CHR ''+'' then (False, cs) else (False, s))"

definition parse_exponent :: "string \<Rightarrow> int option" where
  "parse_exponent s =
     (case s of [] \<Rightarrow> Some 0
      | c # cs \<Rightarrow>
          (let (neg, ds) = split_sign cs
           in if (c = CHR ''e'' \<or> c = CHR ''E'') \<and> ds \<noteq> [] \<and> list_all is_digit ds
              then Some (if neg then - int (digits_val ds) else int (digits_val ds)) else None))"

definition pow10 :: "int \<Rightarrow> rat" where
  "pow10 k = (if 0 \<le> k then 10 ^ nat k else 1 / 10 ^ nat (- k))"

definition parse_decimal :: "string \<Rightarrow> rat option" where
  "parse_decimal s =
     (let ip = takeWhile is_digit s; r = dropWhile is_digit s;
          (fp, r') = (case r of [] \<Rightarrow> ([], [])
             | c # cs \<Rightarrow> if c = CHR ''.'' then (takeWhile is_digit cs, dropWhile is_digit cs)
                        else ([], r))
      in if ip = [] \<and> fp = [] then None
         else map_option (\<lambda>e. of_nat (digits_val (ip @ fp)) * pow10 (e - int (length fp)))
                (parse_exponent r'))"

definition parse_fval :: "string \<Rightarrow> fval option" where
  "parse_fval s =
     (let (neg, t) = split_sign s; l = to_ascii_lowercase t
      in if l = ''inf'' \<or> l = ''infinity'' then Some (FInf neg)
         else if l = ''nan'' then Some FNaN
         else map_option (FFin neg) (parse_decimal t))"

definition parse_f64 :: "string \<Rightarrow> f64 option" where
  "parse_f64 s = map_option f64_of (parse_fval s)"

definition parse_f32 :: "string \<Rightarrow> f32 option" where
  "parse_f32 s = map_option f32_of (parse_fval s)"

section \<open>Printing: \<open>Display\<close>\<close>

text \<open>
  The shortest digit string that rounds back to the same bits, the nearer one if two of that
  length do (the upper one on a tie), printed without an exponent. Every binary64 needs at
  most 17 significant digits and every binary32 at most 9.
\<close>

text \<open>The \<open>k\<close> with \<open>10 ^ (k - 1) \<le> q < 10 ^ k\<close>.\<close>

definition dec_exp :: "rat \<Rightarrow> int" where
  "dec_exp q =
     (let i = nat \<lfloor>q\<rfloor>
      in if 0 < i then int (length (show_nat i))
         else let (n, d) = quotient_of q;
                  k = int (length (show_nat (nat n))) - int (length (show_nat (nat d)))
              in if pow10 k \<le> q then k + 1 else k)"

definition shortest_at :: "nat \<Rightarrow> nat \<Rightarrow> rat \<Rightarrow> nat \<Rightarrow> (nat \<times> int) option" where
  "shortest_at p w q n =
     (let s = dec_exp q - int n;
          lo = nat \<lfloor>q / pow10 s\<rfloor>; hi = lo + 1;
          back = (\<lambda>d. f_round p w (of_nat d * pow10 s) = f_round p w q);
          up = (back hi \<and> (\<not> back lo \<or> (of_nat hi * pow10 s - q \<le> q - of_nat lo * pow10 s)))
      in if back lo \<or> back hi then Some (if up then hi else lo, s) else None)"

fun shortest :: "nat \<Rightarrow> nat \<Rightarrow> rat \<Rightarrow> nat \<Rightarrow> nat \<Rightarrow> nat \<times> int" where
  "shortest p w q n 0 = (nat \<lfloor>q\<rfloor>, 0)"
| "shortest p w q n (Suc k) =
     (case shortest_at p w q n of Some r \<Rightarrow> r | None \<Rightarrow> shortest p w q (Suc n) k)"

definition strip_zeros :: "string \<Rightarrow> string" where
  "strip_zeros s = rev (dropWhile (\<lambda>c. c = CHR ''0'') (rev s))"

text \<open>\<open>d * 10 ^ s\<close> as a positional decimal.\<close>

definition show_positional :: "nat \<Rightarrow> int \<Rightarrow> string" where
  "show_positional d s =
     (if 0 \<le> s then show_nat (d * 10 ^ nat s)
      else let k = nat (- s); ip = d div 10 ^ k; f = show_nat (d mod 10 ^ k);
               fp = strip_zeros (replicate (k - length f) CHR ''0'' @ f)
           in if fp = [] then show_nat ip else show_nat ip @ ''.'' @ fp)"

fun show_fval :: "nat \<Rightarrow> nat \<Rightarrow> fval \<Rightarrow> string" where
  "show_fval p w FNaN = ''NaN''"
| "show_fval p w (FInf s) = (if s then ''-inf'' else ''inf'')"
| "show_fval p w (FFin s q) =
     (if s then ''-'' else []) @
     (if q = 0 then ''0'' else (let (d, e) = shortest p w q 1 17 in show_positional d e))"

definition show_f64 :: "f64 \<Rightarrow> string" where
  "show_f64 x = show_fval 52 11 (f64_val x)"

definition show_f32 :: "f32 \<Rightarrow> string" where
  "show_f32 x = show_fval 23 8 (f32_val x)"

section \<open>Order laws\<close>

lemma signed_rat_0 [simp]: "signed_rat s 0 = 0"
  by (simp add: signed_rat_def)

lemma fv_cmp_None_iff: "fv_cmp x y = None \<longleftrightarrow> x = FNaN \<or> y = FNaN"
  by (cases x; cases y) auto

lemma fv_cmp_reverse: "fv_cmp y x = map_option reverse_ord (fv_cmp x y)"
  by (cases x; cases y) (auto simp: cmp_of_reverse)

lemma fv_cmp_refl: "x \<noteq> FNaN \<Longrightarrow> fv_cmp x x = Some Equal"
  by (cases x) auto

lemma fv_cmp_trans:
  assumes "fv_cmp x y = Some a" "fv_cmp y z = Some b" "a \<noteq> Greater" "b \<noteq> Greater"
  shows "\<exists>c. fv_cmp x z = Some c \<and> c \<noteq> Greater"
  using assms by (cases x; cases y; cases z) (auto split: if_splits)

lemma f64_cmp_reverse: "f64_cmp y x = map_option reverse_ord (f64_cmp x y)"
  unfolding f64_cmp_def by (rule fv_cmp_reverse)

lemma f32_cmp_reverse: "f32_cmp y x = map_option reverse_ord (f32_cmp x y)"
  unfolding f32_cmp_def by (rule fv_cmp_reverse)

section \<open>Evaluation\<close>

lemma floor_rat_div [simp]: "\<lfloor>numeral a / (numeral b :: rat)\<rfloor> = numeral a div numeral b"
  by (metis floor_divide_of_int_eq of_int_numeral)

text \<open>Rewriting with these evaluates encodings and decodings of concrete doubles.\<close>

lemmas float_eval = f64_of_int_def f64_of_def fv_of_int_def f_round_def floor_log2_def Let_def
  pow2_def f_bias_def round_half_even_def bit_length.simps f64_val_def f_decode_def

end
