(* ===== verification/Value.thy ===== *)
theory Value
  imports IEEE_Float
begin

text \<open>
  \<^verbatim>\<open>rspark-core/src/error.rs\<close> and \<^verbatim>\<open>value.rs\<close>: the error enumeration, the runtime values,
  their casts, derived equality and \<open>try_cmp\<close>. The constructors carry the prefix \<open>V\<close>
  (values) and \<open>Err\<close> (errors).
\<close>

section \<open>Errors\<close>

text \<open>The payloads of foreign error types (\<^verbatim>\<open>std::io\<close>, \<^verbatim>\<open>serde_json\<close>, \<^verbatim>\<open>csv\<close>) are their messages.\<close>

datatype error =
    ErrIo string | ErrParse string | ErrType string | ErrSchema string | ErrExecution string
  | ErrStorage string | ErrCluster string | ErrSql string | ErrSerde string | ErrCsv string
  | ErrNetwork string | ErrNotFound string | ErrInvalidState string

type_synonym 'a res = "('a, error) result"

fun show_error :: "error \<Rightarrow> string" where
  "show_error (ErrIo m) = ''io error: '' @ m"
| "show_error (ErrParse m) = ''parse error: '' @ m"
| "show_error (ErrType m) = ''type error: '' @ m"
| "show_error (ErrSchema m) = ''schema error: '' @ m"
| "show_error (ErrExecution m) = ''execution error: '' @ m"
| "show_error (ErrStorage m) = ''storage error: '' @ m"
| "show_error (ErrCluster m) = ''cluster error: '' @ m"
| "show_error (ErrSql m) = ''sql error: '' @ m"
| "show_error (ErrSerde m) = ''serde error: '' @ m"
| "show_error (ErrCsv m) = ''csv error: '' @ m"
| "show_error (ErrNetwork m) = ''network error: '' @ m"
| "show_error (ErrNotFound m) = ''not found: '' @ m"
| "show_error (ErrInvalidState m) = ''invalid state: '' @ m"

section \<open>Values and casts\<close>

datatype val =
    VNull | VBoolean bool | VInt32 i32 | VInt64 i64 | VFloat32 f32 | VFloat64 f64
  | VString string

definition is_null :: "val \<Rightarrow> bool" where
  "is_null v = (case v of VNull \<Rightarrow> True | _ \<Rightarrow> False)"

fun data_type_name :: "val \<Rightarrow> string" where
  "data_type_name VNull = ''null''"
| "data_type_name (VBoolean _) = ''boolean''"
| "data_type_name (VInt32 _) = ''int''"
| "data_type_name (VInt64 _) = ''bigint''"
| "data_type_name (VFloat32 _) = ''float''"
| "data_type_name (VFloat64 _) = ''double''"
| "data_type_name (VString _) = ''string''"

fun cast_to_string :: "val \<Rightarrow> string" where
  "cast_to_string VNull = ''null''"
| "cast_to_string (VBoolean v) = show_bool v"
| "cast_to_string (VInt32 v) = show_i32 v"
| "cast_to_string (VInt64 v) = show_i64 v"
| "cast_to_string (VFloat32 v) = show_f32 v"
| "cast_to_string (VFloat64 v) = show_f64 v"
| "cast_to_string (VString v) = v"

fun cast_to_f64 :: "val \<Rightarrow> f64 option" where
  "cast_to_f64 VNull = None"
| "cast_to_f64 (VBoolean b) = Some (f64_of_int (if b then 1 else 0))"
| "cast_to_f64 (VInt32 v) = Some (i32_as_f64 v)"
| "cast_to_f64 (VInt64 v) = Some (i64_as_f64 v)"
| "cast_to_f64 (VFloat32 v) = Some (f32_as_f64 v)"
| "cast_to_f64 (VFloat64 v) = Some v"
| "cast_to_f64 (VString s) = parse_f64 s"

fun cast_to_i64 :: "val \<Rightarrow> i64 option" where
  "cast_to_i64 VNull = None"
| "cast_to_i64 (VBoolean b) = Some (if b then 1 else 0)"
| "cast_to_i64 (VInt32 v) = Some (i32_as_i64 v)"
| "cast_to_i64 (VInt64 v) = Some v"
| "cast_to_i64 (VFloat32 v) = Some (f32_as_i64 v)"
| "cast_to_i64 (VFloat64 v) = Some (f64_as_i64 v)"
| "cast_to_i64 (VString s) = parse_i64 s"

definition bool_of_text :: "string \<Rightarrow> bool option" where
  "bool_of_text s =
     (let l = to_ascii_lowercase s
      in if l \<in> {''true'', ''t'', ''1'', ''yes'', ''y''} then Some True
         else if l \<in> {''false'', ''f'', ''0'', ''no'', ''n''} then Some False
         else None)"

fun cast_to_bool :: "val \<Rightarrow> bool option" where
  "cast_to_bool VNull = None"
| "cast_to_bool (VBoolean b) = Some b"
| "cast_to_bool (VInt32 v) = Some (v \<noteq> 0)"
| "cast_to_bool (VInt64 v) = Some (v \<noteq> 0)"
| "cast_to_bool (VFloat32 v) = Some (\<not> f32_eq v 0)"
| "cast_to_bool (VFloat64 v) = Some (\<not> f64_eq v 0)"
| "cast_to_bool (VString s) = bool_of_text s"

text \<open>The derived \<^verbatim>\<open>PartialEq\<close>: structural, with IEEE equality on the float payloads.\<close>

fun value_eq :: "val \<Rightarrow> val \<Rightarrow> bool" where
  "value_eq VNull VNull = True"
| "value_eq (VBoolean a) (VBoolean b) = (a = b)"
| "value_eq (VInt32 a) (VInt32 b) = (a = b)"
| "value_eq (VInt64 a) (VInt64 b) = (a = b)"
| "value_eq (VFloat32 a) (VFloat32 b) = f32_eq a b"
| "value_eq (VFloat64 a) (VFloat64 b) = f64_eq a b"
| "value_eq (VString a) (VString b) = (a = b)"
| "value_eq _ _ = False"

text \<open>\<^verbatim>\<open>Display for Value\<close> prints what \<open>cast_to_string\<close> returns.\<close>

fun show_value :: "val \<Rightarrow> string" where
  "show_value VNull = ''null''"
| "show_value (VBoolean v) = show_bool v"
| "show_value (VInt32 v) = show_i32 v"
| "show_value (VInt64 v) = show_i64 v"
| "show_value (VFloat32 v) = show_f32 v"
| "show_value (VFloat64 v) = show_f64 v"
| "show_value (VString v) = v"

section \<open>Comparison\<close>

definition nan_error :: "string \<Rightarrow> string \<Rightarrow> error" where
  "nan_error a b = ErrType (''cannot compare NaN floats '' @ a @ '' and '' @ b)"

definition cmp_f64 :: "f64 \<Rightarrow> f64 \<Rightarrow> string \<Rightarrow> string \<Rightarrow> ordering res" where
  "cmp_f64 x y a b = ok_or (f64_cmp x y) (nan_error a b)"

fun try_cmp :: "val \<Rightarrow> val \<Rightarrow> ordering res" where
  "try_cmp VNull VNull = Ok Equal"
| "try_cmp VNull _ = Ok Less"
| "try_cmp _ VNull = Ok Greater"
| "try_cmp (VBoolean a) (VBoolean b) = Ok (cmp_of a b)"
| "try_cmp (VInt32 a) (VInt32 b) = Ok (cmp_of (sint a) (sint b))"
| "try_cmp (VInt64 a) (VInt64 b) = Ok (cmp_of (sint a) (sint b))"
| "try_cmp (VFloat32 a) (VFloat32 b) =
     ok_or (f32_cmp a b) (nan_error (show_f32 a) (show_f32 b))"
| "try_cmp (VFloat64 a) (VFloat64 b) = cmp_f64 a b (show_f64 a) (show_f64 b)"
| "try_cmp (VString a) (VString b) = Ok (cmp_of a b)"
| "try_cmp (VInt32 a) (VInt64 b) = Ok (cmp_of (sint (i32_as_i64 a)) (sint b))"
| "try_cmp (VInt64 a) (VInt32 b) = Ok (cmp_of (sint a) (sint (i32_as_i64 b)))"
| "try_cmp (VInt32 a) (VFloat64 b) = cmp_f64 (i32_as_f64 a) b (show_i32 a) (show_f64 b)"
| "try_cmp (VFloat64 a) (VInt32 b) = cmp_f64 a (i32_as_f64 b) (show_f64 a) (show_i32 b)"
| "try_cmp (VInt64 a) (VFloat64 b) = cmp_f64 (i64_as_f64 a) b (show_i64 a) (show_f64 b)"
| "try_cmp (VFloat64 a) (VInt64 b) = cmp_f64 a (i64_as_f64 b) (show_f64 a) (show_i64 b)"
| "try_cmp (VFloat32 a) (VFloat64 b) = cmp_f64 (f32_as_f64 a) b (show_f32 a) (show_f64 b)"
| "try_cmp (VFloat64 a) (VFloat32 b) = cmp_f64 a (f32_as_f64 b) (show_f64 a) (show_f32 b)"
| "try_cmp a b = Err (ErrType
     (''cannot compare '' @ data_type_name a @ '' and '' @ data_type_name b))"

section \<open>Laws\<close>

lemma is_null_iff [simp]: "is_null v \<longleftrightarrow> v = VNull"
  by (cases v) (auto simp: is_null_def)

lemma show_value_cast: "show_value v = cast_to_string v"
  by (cases v) auto

lemma panics_cmp_f64 [simp]: "\<not> panics (cmp_f64 x y a b)"
  by (simp add: cmp_f64_def)

lemma try_cmp_no_panic [simp]: "\<not> panics (try_cmp a b)"
  by (cases "(a, b)" rule: try_cmp.cases) auto

lemma cmp_f64_Ok: "cmp_f64 x y a b = Ok c \<longleftrightarrow> f64_cmp x y = Some c"
  by (simp add: cmp_f64_def outcome_simps)

text \<open>The comparison as an option, without its error text: what its callers look at.\<close>

definition cmp_opt :: "val \<Rightarrow> val \<Rightarrow> ordering option" where
  "cmp_opt a b = (case try_cmp a b of Ok c \<Rightarrow> Some c | _ \<Rightarrow> None)"

lemma cmp_opt_ok_or [simp]:
  "(case ok_or x e of Ok c \<Rightarrow> Some c | Err e' \<Rightarrow> None | Panic m \<Rightarrow> None) = x"
  by (cases x) (auto simp: ok_or_def)

lemma cmp_opt_cmp_f64 [simp]:
  "(case cmp_f64 x y a b of Ok c \<Rightarrow> Some c | Err e' \<Rightarrow> None | Panic m \<Rightarrow> None) = f64_cmp x y"
  by (simp add: cmp_f64_def)

lemma try_cmp_Ok_iff: "try_cmp a b = Ok c \<longleftrightarrow> cmp_opt a b = Some c"
  by (auto simp: cmp_opt_def split: result.splits)

lemma cmp_opt_reverse: "cmp_opt b a = map_option reverse_ord (cmp_opt a b)"
  by (cases a; cases b)
    (auto simp: cmp_opt_def cmp_of_reverse f64_cmp_reverse [symmetric] f32_cmp_reverse [symmetric])

end
