(* ===== verification/Schema.thy ===== *)
theory Schema
  imports Value
begin

text \<open>
  \<^verbatim>\<open>rspark-core/src/schema.rs\<close>: column types with their names and parser, fields and
  schemas, name lookup. Constructors of the type enumeration carry the prefix \<open>T\<close>.
\<close>

section \<open>Helpers\<close>

text \<open>Text between single quotes, as the message formats put it.\<close>

definition squote :: "string \<Rightarrow> string" where
  "squote s = CHR 0x27 # s @ [CHR 0x27]"

text \<open>\<^verbatim>\<open>Iterator::position\<close>.\<close>

fun position :: "('a \<Rightarrow> bool) \<Rightarrow> 'a list \<Rightarrow> nat option" where
  "position p [] = None"
| "position p (x # xs) = (if p x then Some 0 else map_option Suc (position p xs))"

lemma position_Some:
  "position p xs = Some i \<longleftrightarrow> i < length xs \<and> p (xs ! i) \<and> (\<forall>j < i. \<not> p (xs ! j))"
proof (induction xs arbitrary: i)
  case (Cons x xs)
  show ?case by (cases i) (auto simp: Cons less_Suc_eq_0_disj)
qed simp

lemma position_None: "position p xs = None \<longleftrightarrow> (\<forall>x \<in> set xs. \<not> p x)"
  by (induction xs) auto

lemma find_position: "find p xs = map_option (\<lambda>i. xs ! i) (position p xs)"
  by (induction xs) (auto simp: option.map_comp comp_def)

section \<open>Column types\<close>

datatype data_type =
    TBoolean | TInt32 | TInt64 | TFloat32 | TFloat64 | TString | TDate | TTimestamp | TNull

fun type_name :: "data_type \<Rightarrow> string" where
  "type_name TBoolean = ''boolean''"
| "type_name TInt32 = ''int''"
| "type_name TInt64 = ''bigint''"
| "type_name TFloat32 = ''float''"
| "type_name TFloat64 = ''double''"
| "type_name TString = ''string''"
| "type_name TDate = ''date''"
| "type_name TTimestamp = ''timestamp''"
| "type_name TNull = ''null''"

fun spark_name :: "data_type \<Rightarrow> string" where
  "spark_name TBoolean = ''BOOLEAN''"
| "spark_name TInt32 = ''INT''"
| "spark_name TInt64 = ''BIGINT''"
| "spark_name TFloat32 = ''FLOAT''"
| "spark_name TFloat64 = ''DOUBLE''"
| "spark_name TString = ''STRING''"
| "spark_name TDate = ''DATE''"
| "spark_name TTimestamp = ''TIMESTAMP''"
| "spark_name TNull = ''VOID''"

definition is_numeric :: "data_type \<Rightarrow> bool" where
  "is_numeric d = (d \<in> {TInt32, TInt64, TFloat32, TFloat64})"

definition type_from_str :: "string \<Rightarrow> data_type res" where
  "type_from_str s =
     (let u = to_ascii_uppercase s
      in if u \<in> {''BOOLEAN'', ''BOOL''} then Ok TBoolean
         else if u \<in> {''INT'', ''INTEGER'', ''INT32''} then Ok TInt32
         else if u \<in> {''BIGINT'', ''INT64'', ''LONG''} then Ok TInt64
         else if u \<in> {''FLOAT'', ''FLOAT32''} then Ok TFloat32
         else if u \<in> {''DOUBLE'', ''FLOAT64''} then Ok TFloat64
         else if u \<in> {''STRING'', ''VARCHAR'', ''TEXT''} then Ok TString
         else if u = ''DATE'' then Ok TDate
         else if u = ''TIMESTAMP'' then Ok TTimestamp
         else if u \<in> {''VOID'', ''NULL'', ''NONE''} then Ok TNull
         else Err (ErrType (''unknown data type: '' @ u)))"

section \<open>Fields and schemas\<close>

record schema_field =
  field_name :: string
  field_type :: data_type
  field_nullable :: bool

definition field_new :: "string \<Rightarrow> data_type \<Rightarrow> schema_field" where
  "field_new n d = \<lparr>field_name = n, field_type = d, field_nullable = True\<rparr>"

definition field_not_null :: "string \<Rightarrow> data_type \<Rightarrow> schema_field" where
  "field_not_null n d = \<lparr>field_name = n, field_type = d, field_nullable = False\<rparr>"

definition with_nullable :: "schema_field \<Rightarrow> bool \<Rightarrow> schema_field" where
  "with_nullable f b = f\<lparr>field_nullable := b\<rparr>"

record schema =
  schema_fields :: "schema_field list"

definition schema_new :: "schema_field list \<Rightarrow> schema" where
  "schema_new fs = \<lparr>schema_fields = fs\<rparr>"

definition schema_empty :: schema where
  "schema_empty = \<lparr>schema_fields = []\<rparr>"

definition field_names :: "schema \<Rightarrow> string list" where
  "field_names s = map field_name (schema_fields s)"

definition field_count :: "schema \<Rightarrow> nat" where
  "field_count s = length (schema_fields s)"

definition schema_field_by_name :: "schema \<Rightarrow> string \<Rightarrow> schema_field option" where
  "schema_field_by_name s n = find (\<lambda>f. field_name f = n) (schema_fields s)"

definition index_of :: "schema \<Rightarrow> string \<Rightarrow> nat option" where
  "index_of s n = position (\<lambda>f. field_name f = n) (schema_fields s)"

definition try_merge :: "schema \<Rightarrow> schema \<Rightarrow> schema res" where
  "try_merge a b = Ok \<lparr>schema_fields = schema_fields a @ schema_fields b\<rparr>"

definition show_schema :: "schema \<Rightarrow> string" where
  "show_schema s =
     ''struct<'' @
     join '', '' (map (\<lambda>f. field_name f @ '':'' @ spark_name (field_type f)) (schema_fields s)) @ ''>''"

section \<open>Laws\<close>

lemma fields_schema_new [simp]: "schema_fields (schema_new fs) = fs"
  by (simp add: schema_new_def)

lemma fields_schema_empty [simp]: "schema_fields schema_empty = []"
  by (simp add: schema_empty_def)

lemma schema_new_fields [simp]: "schema_new (schema_fields s) = s"
  by (cases s) (simp add: schema_new_def)

lemma field_new_simps [simp]:
  "field_name (field_new n d) = n" "field_type (field_new n d) = d"
  "field_nullable (field_new n d)"
  by (simp_all add: field_new_def)

lemma index_of_Some:
  "index_of s n = Some i \<Longrightarrow> i < length (schema_fields s) \<and> field_name (schema_fields s ! i) = n"
  by (simp add: index_of_def position_Some)

lemma index_of_first:
  "index_of s n = Some i \<Longrightarrow> j < i \<Longrightarrow> field_name (schema_fields s ! j) \<noteq> n"
  by (simp add: index_of_def position_Some)

lemma index_of_None: "index_of s n = None \<longleftrightarrow> n \<notin> set (field_names s)"
  by (auto simp: index_of_def position_None field_names_def)

lemma index_of_distinct:
  assumes "distinct (field_names s)" "i < length (schema_fields s)"
  shows "index_of s (field_name (schema_fields s ! i)) = Some i"
proof -
  have "field_name (schema_fields s ! j) \<noteq> field_name (schema_fields s ! i)" if "j < i" for j
    using assms that nth_eq_iff_index_eq [OF assms(1), of j i] by (simp add: field_names_def)
  then show ?thesis using assms(2) by (simp add: index_of_def position_Some)
qed

end
