(* ===== verification/Records.thy ===== *)
theory Records
  imports Schema
begin

text \<open>
  \<^verbatim>\<open>rspark-core/src/record.rs\<close>: rows, batches of rows under one schema, validation. The
  private field of \<^verbatim>\<open>Record\<close> is \<open>values\<close>; a batch built by its constructors satisfies
  \<open>batch_ok\<close>: every row validates against the batch's schema.
\<close>

record row =
  row_values :: "val list"

definition record_new :: "val list \<Rightarrow> row" where
  "record_new vs = \<lparr>row_values = vs\<rparr>"

definition record_get :: "row \<Rightarrow> nat \<Rightarrow> val option" where
  "record_get r i = (if i < length (row_values r) then Some (row_values r ! i) else None)"

definition get_by_name :: "row \<Rightarrow> schema \<Rightarrow> string \<Rightarrow> val option" where
  "get_by_name r s n = Option.bind (index_of s n) (record_get r)"

definition record_len :: "row \<Rightarrow> nat" where
  "record_len r = length (row_values r)"

definition record_push :: "row \<Rightarrow> val \<Rightarrow> row" where
  "record_push r v = r\<lparr>row_values := row_values r @ [v]\<rparr>"

fun validate_nulls :: "nat \<Rightarrow> (val \<times> schema_field) list \<Rightarrow> unit res" where
  "validate_nulls i [] = Ok ()"
| "validate_nulls i ((v, f) # ps) =
     (if is_null v \<and> \<not> field_nullable f
      then Err (ErrSchema (''field '' @ squote (field_name f) @ '' at index '' @ show_nat i @
             '' is null but declared not null''))
      else validate_nulls (Suc i) ps)"

definition validate :: "row \<Rightarrow> schema \<Rightarrow> unit res" where
  "validate r s =
     (if length (row_values r) \<noteq> field_count s
      then Err (ErrSchema (''record has '' @ show_nat (length (row_values r)) @
             '' fields but schema expects '' @ show_nat (field_count s)))
      else validate_nulls 0 (zip (row_values r) (schema_fields s)))"

record record_batch =
  batch_schema :: schema
  batch_records :: "row list"

definition batch_new :: "schema \<Rightarrow> record_batch" where
  "batch_new s = \<lparr>batch_schema = s, batch_records = []\<rparr>"

definition from_records :: "schema \<Rightarrow> row list \<Rightarrow> record_batch res" where
  "from_records s rs =
     and_then (map_res (\<lambda>r. validate r s) rs)
       (\<lambda>_. Ok \<lparr>batch_schema = s, batch_records = rs\<rparr>)"

definition batch_len :: "record_batch \<Rightarrow> nat" where
  "batch_len b = length (batch_records b)"

definition batch_is_empty :: "record_batch \<Rightarrow> bool" where
  "batch_is_empty b \<longleftrightarrow> batch_records b = []"

definition batch_push :: "record_batch \<Rightarrow> row \<Rightarrow> record_batch res" where
  "batch_push b r =
     and_then (validate r (batch_schema b))
       (\<lambda>_. Ok (b\<lparr>batch_records := batch_records b @ [r]\<rparr>))"

definition batch_extend :: "record_batch \<Rightarrow> record_batch \<Rightarrow> record_batch res" where
  "batch_extend b other =
     (if batch_schema b \<noteq> batch_schema other
      then Err (ErrSchema ''cannot extend RecordBatch with mismatched schema'')
      else Ok (b\<lparr>batch_records := batch_records b @ batch_records other\<rparr>))"

fun value_bytes :: "val \<Rightarrow> nat" where
  "value_bytes (VString s) = 24 + length s"
| "value_bytes _ = 8"

definition memory_bytes :: "record_batch \<Rightarrow> nat" where
  "memory_bytes b =
     sum_list (map (\<lambda>r. sum_list (map value_bytes (row_values r))) (batch_records b))"

section \<open>Validity\<close>

definition row_ok :: "schema \<Rightarrow> row \<Rightarrow> bool" where
  "row_ok s r \<longleftrightarrow> length (row_values r) = length (schema_fields s) \<and>
     (\<forall>i < length (schema_fields s). row_values r ! i = VNull \<longrightarrow> field_nullable (schema_fields s ! i))"

definition batch_ok :: "record_batch \<Rightarrow> bool" where
  "batch_ok b \<longleftrightarrow> (\<forall>r \<in> set (batch_records b). row_ok (batch_schema b) r)"

lemma row_values_record_new [simp]: "row_values (record_new vs) = vs"
  by (simp add: record_new_def)

lemma record_new_values [simp]: "record_new (row_values r) = r"
  by (simp add: record_new_def)

lemma batch_new_simps [simp]:
  "batch_schema (batch_new s) = s" "batch_records (batch_new s) = []"
  by (simp_all add: batch_new_def)

lemma batch_ok_new [simp]: "batch_ok (batch_new s)"
  by (simp add: batch_ok_def)

lemma validate_nulls_Ok:
  "validate_nulls i ps = Ok u \<longleftrightarrow> (\<forall>p \<in> set ps. fst p = VNull \<longrightarrow> field_nullable (snd p))"
  by (induction i ps rule: validate_nulls.induct) (auto split: if_splits)

lemma validate_Ok_iff: "validate r s = Ok u \<longleftrightarrow> row_ok s r"
proof (cases "length (row_values r) = length (schema_fields s)")
  case True
  then show ?thesis
    by (force simp: validate_def row_ok_def field_count_def validate_nulls_Ok set_zip)
next
  case False
  then show ?thesis by (simp add: validate_def row_ok_def field_count_def)
qed

lemma validate_nulls_no_panic [simp]: "\<not> panics (validate_nulls i ps)"
  by (induction i ps rule: validate_nulls.induct) auto

lemma validate_no_panic [simp]: "\<not> panics (validate r s)"
  by (simp add: validate_def)

lemma from_records_Ok_iff:
  "from_records s rs = Ok b \<longleftrightarrow>
     b = \<lparr>batch_schema = s, batch_records = rs\<rparr> \<and> (\<forall>r \<in> set rs. row_ok s r)"
proof -
  have "(\<exists>us. map_res (\<lambda>r. validate r s) rs = Ok us) \<longleftrightarrow> (\<forall>r \<in> set rs. row_ok s r)"
    by (induction rs) (auto simp: and_then_eq_Ok validate_Ok_iff)
  then show ?thesis by (auto simp: from_records_def and_then_eq_Ok)
qed

lemma from_records_no_panic [simp]: "\<not> panics (from_records s rs)"
  by (simp add: from_records_def outcome_simps map_res_no_panic)

lemma from_records_batch_ok: "from_records s rs = Ok b \<Longrightarrow> batch_ok b"
  by (auto simp: from_records_Ok_iff batch_ok_def)

lemma batch_push_Ok_iff:
  "batch_push b r = Ok b' \<longleftrightarrow>
     b' = b\<lparr>batch_records := batch_records b @ [r]\<rparr> \<and> row_ok (batch_schema b) r"
  by (auto simp: batch_push_def and_then_eq_Ok validate_Ok_iff)

lemma batch_push_ok: "batch_push b r = Ok b' \<Longrightarrow> batch_ok b \<Longrightarrow> batch_ok b'"
  by (auto simp: batch_push_Ok_iff batch_ok_def)

lemma batch_extend_Ok_iff:
  "batch_extend b c = Ok b' \<longleftrightarrow> batch_schema b = batch_schema c \<and>
     b' = b\<lparr>batch_records := batch_records b @ batch_records c\<rparr>"
  by (auto simp: batch_extend_def)

lemma batch_extend_ok: "batch_extend b c = Ok b' \<Longrightarrow> batch_ok b \<Longrightarrow> batch_ok c \<Longrightarrow> batch_ok b'"
  by (auto simp: batch_extend_Ok_iff batch_ok_def)

lemma batch_extend_no_panic [simp]: "\<not> panics (batch_extend b c)"
  by (simp add: batch_extend_def)

lemma all_nullable_row_ok:
  "\<forall>f \<in> set (schema_fields s). field_nullable f \<Longrightarrow> row_ok s r \<longleftrightarrow> length (row_values r) = length (schema_fields s)"
  by (auto simp: row_ok_def)

end
