(* ===== verification/Expr.thy ===== *)
theory Expr
  imports Records
begin

text \<open>
  \<^verbatim>\<open>rspark-core/src/expr.rs\<close>: literals, operators, aggregate functions, expression trees,
  row-wise evaluation and the binary operators. Constructors carry the prefixes \<open>L\<close>, \<open>Op\<close>,
  \<open>Agg\<close> and \<open>E\<close>. The \<^verbatim>\<open>regex\<close> crate behind LIKE is the parameter \<open>regex_lib\<close>.
\<close>

section \<open>Syntax\<close>

datatype literal = LNull | LBool bool | LInt i64 | LFloat f64 | LStr string

fun to_value :: "literal \<Rightarrow> val" where
  "to_value LNull = VNull"
| "to_value (LBool v) = VBoolean v"
| "to_value (LInt v) = VInt64 v"
| "to_value (LFloat v) = VFloat64 v"
| "to_value (LStr v) = VString v"

text \<open>The derived \<^verbatim>\<open>PartialEq\<close> of literals.\<close>

fun literal_eq :: "literal \<Rightarrow> literal \<Rightarrow> bool" where
  "literal_eq LNull LNull = True"
| "literal_eq (LBool a) (LBool b) = (a = b)"
| "literal_eq (LInt a) (LInt b) = (a = b)"
| "literal_eq (LFloat a) (LFloat b) = f64_eq a b"
| "literal_eq (LStr a) (LStr b) = (a = b)"
| "literal_eq _ _ = False"

datatype binary_op =
    OpEq | OpNotEq | OpLt | OpLtEq | OpGt | OpGtEq | OpAnd | OpOr | OpAdd | OpSub | OpMul
  | OpDiv | OpMod | OpLike

text \<open>\<^verbatim>\<open>{:?}\<close> of an operator: its variant name.\<close>

fun debug_op :: "binary_op \<Rightarrow> string" where
  "debug_op OpEq = ''Eq''"
| "debug_op OpNotEq = ''NotEq''"
| "debug_op OpLt = ''Lt''"
| "debug_op OpLtEq = ''LtEq''"
| "debug_op OpGt = ''Gt''"
| "debug_op OpGtEq = ''GtEq''"
| "debug_op OpAnd = ''And''"
| "debug_op OpOr = ''Or''"
| "debug_op OpAdd = ''Add''"
| "debug_op OpSub = ''Sub''"
| "debug_op OpMul = ''Mul''"
| "debug_op OpDiv = ''Div''"
| "debug_op OpMod = ''Mod''"
| "debug_op OpLike = ''Like''"

datatype aggregate_fn = AggCount | AggSum | AggAvg | AggMin | AggMax

fun agg_name :: "aggregate_fn \<Rightarrow> string" where
  "agg_name AggCount = ''count''"
| "agg_name AggSum = ''sum''"
| "agg_name AggAvg = ''avg''"
| "agg_name AggMin = ''min''"
| "agg_name AggMax = ''max''"

definition agg_from_name :: "string \<Rightarrow> aggregate_fn option" where
  "agg_from_name n =
     (let l = to_ascii_lowercase n
      in if l = ''count'' then Some AggCount
         else if l = ''sum'' then Some AggSum
         else if l \<in> {''avg'', ''average'', ''mean''} then Some AggAvg
         else if l = ''min'' then Some AggMin
         else if l = ''max'' then Some AggMax
         else None)"

datatype expr =
    EColumn string
  | ELiteral literal
  | EBinary binary_op expr expr
  | ENot expr
  | EIsNull expr
  | EIsNotNull expr
  | EIf expr expr expr
  | EAggregate aggregate_fn expr bool
  | EAliased expr string
  | EStar

fun display_name :: "expr \<Rightarrow> string" where
  "display_name (EColumn n) = n"
| "display_name (ELiteral LNull) = ''NULL''"
| "display_name (ELiteral (LBool v)) = show_bool v"
| "display_name (ELiteral (LInt v)) = show_i64 v"
| "display_name (ELiteral (LFloat v)) = show_f64 v"
| "display_name (ELiteral (LStr v)) = v"
| "display_name (EBinary op l r) = display_name l @ '' '' @ debug_op op @ '' '' @ display_name r"
| "display_name (ENot e) = ''NOT '' @ display_name e"
| "display_name (EIsNull e) = display_name e @ '' IS NULL''"
| "display_name (EIsNotNull e) = display_name e @ '' IS NOT NULL''"
| "display_name (EAggregate f a d) = agg_name f @ ''('' @ display_name a @ '')''"
| "display_name (EIf c t e) = ''if''"
| "display_name (EAliased e a) = a"
| "display_name EStar = ''*''"

section \<open>Operators on values\<close>

definition logical_and :: "val \<Rightarrow> val \<Rightarrow> val res" where
  "logical_and l r =
     (case (l, r) of
        (VBoolean a, VBoolean b) \<Rightarrow> Ok (VBoolean (a \<and> b))
      | _ \<Rightarrow> if is_null l \<or> is_null r then Ok VNull
             else Err (ErrType (''AND requires boolean operands, got '' @ data_type_name l)))"

definition logical_or :: "val \<Rightarrow> val \<Rightarrow> val res" where
  "logical_or l r =
     (case (l, r) of
        (VBoolean a, VBoolean b) \<Rightarrow> Ok (VBoolean (a \<or> b))
      | _ \<Rightarrow> if is_null l \<or> is_null r then Ok VNull
             else Err (ErrType (''OR requires boolean operands, got '' @ data_type_name l)))"

definition numeric_op ::
  "val \<Rightarrow> val \<Rightarrow> (i64 \<Rightarrow> i64 \<Rightarrow> i64) \<Rightarrow> (f64 \<Rightarrow> f64 \<Rightarrow> f64) \<Rightarrow> val res" where
  "numeric_op l r int_op float_op =
     (case (cast_to_i64 l, cast_to_i64 r) of
        (Some a, Some b) \<Rightarrow> Ok (VInt64 (int_op a b))
      | _ \<Rightarrow>
          (case (cast_to_f64 l, cast_to_f64 r) of
             (Some a, Some b) \<Rightarrow> Ok (VFloat64 (float_op a b))
           | _ \<Rightarrow> Err (ErrType (''cannot apply arithmetic to '' @ data_type_name l @
                    '' and '' @ data_type_name r))))"

definition numeric_div :: "val \<Rightarrow> val \<Rightarrow> val res" where
  "numeric_div l r =
     (case (cast_to_f64 l, cast_to_f64 r) of
        (Some a, Some b) \<Rightarrow> if f64_eq b 0 then Ok VNull else Ok (VFloat64 (f64_div a b))
      | _ \<Rightarrow> Err (ErrType (''cannot divide '' @ data_type_name l @ '' by '' @ data_type_name r)))"

definition numeric_mod :: "val \<Rightarrow> val \<Rightarrow> val res" where
  "numeric_mod l r =
     (case (cast_to_i64 l, cast_to_i64 r) of
        (Some a, Some b) \<Rightarrow>
          if b = 0 then Ok VNull
          else if sint a = - (2 ^ 63) \<and> sint b = - 1
          then Panic ''attempt to calculate the remainder with overflow''
          else Ok (VInt64 (word_of_int (trunc_rem (sint a) (sint b))))
      | _ \<Rightarrow> Err (ErrType (''cannot modulo '' @ data_type_name l @ '' by '' @ data_type_name r)))"

section \<open>LIKE\<close>

text \<open>
  The \<^verbatim>\<open>regex\<close> crate as far as LIKE uses it: \<open>rx_escape\<close> is \<^verbatim>\<open>regex::escape\<close>, and \<open>rx_new\<close>
  is \<^verbatim>\<open>Regex::new\<close>, giving the error text or the \<^verbatim>\<open>is_match\<close> of the compiled pattern.
\<close>

record regex_lib =
  rx_escape :: "string \<Rightarrow> string"
  rx_new :: "string \<Rightarrow> string + (string \<Rightarrow> bool)"

fun like_to_regex :: "regex_lib \<Rightarrow> string list \<Rightarrow> string" where
  "like_to_regex rx [] = []"
| "like_to_regex rx (c # cs) =
     (if c = ''%'' then ''.*'' @ like_to_regex rx cs
      else if c = ''_'' then ''.'' @ like_to_regex rx cs
      else if c = [CHR 0x5C] then
        (case cs of [] \<Rightarrow> [] | d # ds \<Rightarrow> CHR 0x5C # d @ like_to_regex rx ds)
      else rx_escape rx c @ like_to_regex rx cs)"

definition sql_like_to_regex :: "regex_lib \<Rightarrow> string \<Rightarrow> string" where
  "sql_like_to_regex rx pat = like_to_regex rx (chars pat)"

definition apply_like :: "regex_lib \<Rightarrow> val \<Rightarrow> val \<Rightarrow> val res" where
  "apply_like rx l r =
     (case r of
        VString pat \<Rightarrow>
          (case l of
             VString target \<Rightarrow>
               (case rx_new rx (''^'' @ sql_like_to_regex rx pat @ ''$'') of
                  Inl e \<Rightarrow> Err (ErrType (''invalid LIKE pattern: '' @ e))
                | Inr is_match \<Rightarrow> Ok (VBoolean (is_match target)))
           | VNull \<Rightarrow> Ok VNull
           | _ \<Rightarrow> Err (ErrType (''LIKE target must be a string, got '' @ data_type_name l)))
      | _ \<Rightarrow> Err (ErrType (''LIKE pattern must be a string, got '' @ data_type_name r)))"

fun apply_binary :: "regex_lib \<Rightarrow> binary_op \<Rightarrow> val \<Rightarrow> val \<Rightarrow> val res" where
  "apply_binary rx OpAnd l r = logical_and l r"
| "apply_binary rx OpOr l r = logical_or l r"
| "apply_binary rx OpEq l r = Ok (VBoolean (value_eq l r))"
| "apply_binary rx OpNotEq l r = Ok (VBoolean (\<not> value_eq l r))"
| "apply_binary rx OpLt l r = and_then (try_cmp l r) (\<lambda>c. Ok (VBoolean (c = Less)))"
| "apply_binary rx OpLtEq l r =
     and_then (try_cmp l r) (\<lambda>c. Ok (VBoolean (c = Less \<or> c = Equal)))"
| "apply_binary rx OpGt l r = and_then (try_cmp l r) (\<lambda>c. Ok (VBoolean (c = Greater)))"
| "apply_binary rx OpGtEq l r =
     and_then (try_cmp l r) (\<lambda>c. Ok (VBoolean (c = Greater \<or> c = Equal)))"
| "apply_binary rx OpLike l r = apply_like rx l r"
| "apply_binary rx OpAdd l r = numeric_op l r (+) f64_add"
| "apply_binary rx OpSub l r = numeric_op l r (-) f64_sub"
| "apply_binary rx OpMul l r = numeric_op l r (*) f64_mul"
| "apply_binary rx OpDiv l r = numeric_div l r"
| "apply_binary rx OpMod l r = numeric_mod l r"

section \<open>Evaluation\<close>

definition column_value :: "row \<Rightarrow> nat \<Rightarrow> val" where
  "column_value r i = unwrap_or (record_get r i) VNull"

fun eval :: "regex_lib \<Rightarrow> expr \<Rightarrow> row \<Rightarrow> record_batch \<Rightarrow> val res" where
  "eval rx (EColumn n) r b =
     and_then (ok_or (index_of (batch_schema b) n)
                (ErrSchema (''column '' @ squote n @ '' not found in schema'')))
       (\<lambda>i. Ok (column_value r i))"
| "eval rx (ELiteral l) r b = Ok (to_value l)"
| "eval rx (EBinary op le re) r b =
     and_then (eval rx le r b) (\<lambda>lv.
     and_then (eval rx re r b) (\<lambda>rv.
       if is_null lv \<or> is_null rv then Ok VNull else apply_binary rx op lv rv))"
| "eval rx (ENot e) r b =
     and_then (eval rx e r b) (\<lambda>v.
       case v of VNull \<Rightarrow> Ok VNull
       | VBoolean x \<Rightarrow> Ok (VBoolean (\<not> x))
       | _ \<Rightarrow> Err (ErrType (''NOT requires boolean operand, got '' @ data_type_name v)))"
| "eval rx (EIsNull e) r b = and_then (eval rx e r b) (\<lambda>v. Ok (VBoolean (is_null v)))"
| "eval rx (EIsNotNull e) r b = and_then (eval rx e r b) (\<lambda>v. Ok (VBoolean (\<not> is_null v)))"
| "eval rx (EIf c t e) r b =
     and_then (eval rx c r b) (\<lambda>v.
       if v = VBoolean True then eval rx t r b else eval rx e r b)"
| "eval rx (EAggregate f a d) r b = Err (ErrExecution
     ''aggregate expression cannot be evaluated against a row; use the aggregate operator'')"
| "eval rx (EAliased e a) r b = eval rx e r b"
| "eval rx EStar r b = Err (ErrExecution ''* cannot be evaluated as a scalar'')"

section \<open>Column references and aggregates\<close>

fun collect_columns :: "expr \<Rightarrow> string list \<Rightarrow> string list" where
  "collect_columns (EColumn n) out = out @ [n]"
| "collect_columns (ELiteral l) out = out"
| "collect_columns EStar out = out"
| "collect_columns (EBinary op l r) out = collect_columns r (collect_columns l out)"
| "collect_columns (ENot e) out = collect_columns e out"
| "collect_columns (EIsNull e) out = collect_columns e out"
| "collect_columns (EIsNotNull e) out = collect_columns e out"
| "collect_columns (EIf c t e) out =
     collect_columns e (collect_columns t (collect_columns c out))"
| "collect_columns (EAggregate f a d) out = collect_columns a out"
| "collect_columns (EAliased e a) out = collect_columns e out"

text \<open>\<^verbatim>\<open>Vec::dedup\<close>: consecutive repeats are dropped.\<close>

definition references :: "expr \<Rightarrow> string list" where
  "references e = remdups_adj (sort_by cmp_of (collect_columns e []))"

fun contains_aggregate :: "expr \<Rightarrow> bool" where
  "contains_aggregate (EAggregate f a d) = True"
| "contains_aggregate (EBinary op l r) = (contains_aggregate l \<or> contains_aggregate r)"
| "contains_aggregate (ENot e) = contains_aggregate e"
| "contains_aggregate (EIsNull e) = contains_aggregate e"
| "contains_aggregate (EIsNotNull e) = contains_aggregate e"
| "contains_aggregate (EIf c t e) =
     (contains_aggregate c \<or> contains_aggregate t \<or> contains_aggregate e)"
| "contains_aggregate (EAliased e a) = contains_aggregate e"
| "contains_aggregate (EColumn n) = False"
| "contains_aggregate (ELiteral l) = False"
| "contains_aggregate EStar = False"

section \<open>Laws\<close>

lemma logical_no_panic [simp]:
  "\<not> panics (logical_and l r)" "\<not> panics (logical_or l r)"
  by (auto simp: logical_and_def logical_or_def split: val.splits)

lemma numeric_op_no_panic [simp]: "\<not> panics (numeric_op l r f g)"
  by (auto simp: numeric_op_def split: option.splits)

lemma numeric_div_no_panic [simp]: "\<not> panics (numeric_div l r)"
  by (auto simp: numeric_div_def split: option.splits)

lemma apply_like_no_panic [simp]: "\<not> panics (apply_like rx l r)"
  by (auto simp: apply_like_def split: val.splits sum.splits)

lemma apply_binary_no_panic: "op \<noteq> OpMod \<Longrightarrow> \<not> panics (apply_binary rx op l r)"
  by (cases op) (auto simp: panics_and_then)

lemma numeric_mod_panics_iff:
  "panics (numeric_mod l r) \<longleftrightarrow>
     (\<exists>a. cast_to_i64 l = Some a \<and> sint a = - (2 ^ 63)) \<and>
     (\<exists>b. cast_to_i64 r = Some b \<and> sint b = - 1)"
  by (auto simp: numeric_mod_def split: option.splits)

text \<open>Whether an expression contains the remainder operator, the only one that can panic.\<close>

fun has_mod :: "expr \<Rightarrow> bool" where
  "has_mod (EBinary op l r) = (op = OpMod \<or> has_mod l \<or> has_mod r)"
| "has_mod (ENot e) = has_mod e"
| "has_mod (EIsNull e) = has_mod e"
| "has_mod (EIsNotNull e) = has_mod e"
| "has_mod (EIf c t e) = (has_mod c \<or> has_mod t \<or> has_mod e)"
| "has_mod (EAggregate f a d) = has_mod a"
| "has_mod (EAliased e a) = has_mod e"
| "has_mod _ = False"

lemma eval_no_panic: "\<not> has_mod e \<Longrightarrow> \<not> panics (eval rx e r b)"
  by (induction e) (auto simp: panics_and_then apply_binary_no_panic split: val.splits)

text \<open>The columns of an expression, as a set.\<close>

fun columns_of :: "expr \<Rightarrow> string set" where
  "columns_of (EColumn n) = {n}"
| "columns_of (ELiteral l) = {}"
| "columns_of EStar = {}"
| "columns_of (EBinary op l r) = columns_of l \<union> columns_of r"
| "columns_of (ENot e) = columns_of e"
| "columns_of (EIsNull e) = columns_of e"
| "columns_of (EIsNotNull e) = columns_of e"
| "columns_of (EIf c t e) = columns_of c \<union> columns_of t \<union> columns_of e"
| "columns_of (EAggregate f a d) = columns_of a"
| "columns_of (EAliased e a) = columns_of e"

lemma collect_columns_of: "set (collect_columns e out) = set out \<union> columns_of e"
  by (induction e arbitrary: out) auto

lemma set_references [simp]: "set (references e) = columns_of e"
  by (simp add: references_def collect_columns_of)

lemma distinct_remdups_adj_sorted: "sorted (xs :: string list) \<Longrightarrow> distinct (remdups_adj xs)"
  by (induction xs rule: remdups_adj.induct) auto

lemma sorted_references: "sorted (references e) \<and> distinct (references e)"
proof -
  have eq: "(\<lambda>a b :: string. cmp_of a b \<noteq> Greater) = (\<le>)"
    by (auto simp: cmp_of_def fun_eq_iff)
  have "sorted (sort_by cmp_of (collect_columns e []))"
    using cmp_of.sort_by_sorted [OF subset_UNIV, of "collect_columns e []"] by (simp only: eq)
  then show ?thesis
    by (simp add: references_def sorted_remdups_adj distinct_remdups_adj_sorted)
qed

text \<open>Evaluation looks at a row only through the columns of the expression.\<close>

lemma eval_columns:
  assumes "\<And>n i. n \<in> columns_of e \<Longrightarrow> index_of (batch_schema b) n = Some i \<Longrightarrow>
      column_value r i = column_value r' i"
  shows "eval rx e r b = eval rx e r' b"
  using assms
proof (induction e)
  case (EColumn n)
  then show ?case by (cases "index_of (batch_schema b) n") (auto simp: ok_or_def)
next
  case (EBinary op e1 e2)
  have "eval rx e1 r b = eval rx e1 r' b" "eval rx e2 r b = eval rx e2 r' b"
    using EBinary by auto
  then show ?case by simp
next
  case (EIf e1 e2 e3)
  have "eval rx e1 r b = eval rx e1 r' b" "eval rx e2 r b = eval rx e2 r' b"
    "eval rx e3 r b = eval rx e3 r' b"
    using EIf by auto
  then show ?case by (simp cong: if_cong)
qed auto

text \<open>Only the schema of the batch argument is looked at.\<close>

lemma eval_schema: "batch_schema b = batch_schema c \<Longrightarrow> eval rx e r b = eval rx e r c"
  by (induction e) (auto cong: and_then_cong if_cong)

lemma eval_binary_null:
  assumes "eval rx l r b = Ok lv" "eval rx e r b = Ok rv" "lv = VNull \<or> rv = VNull"
  shows "eval rx (EBinary op l e) r b = Ok VNull"
  using assms by auto

end
