(* ===== verification/Plan.thy ===== *)
theory Plan
  imports Expr
begin

text \<open>
  \<^verbatim>\<open>rspark-sql/src/plan.rs\<close>: the logical plan, its schema, the tables it reads, and the
  schema builders the planner calls. Constructors carry the prefix \<open>P\<close>; the fields of a
  constructor stand in the order the source declares them, with the output schema last.
\<close>

section \<open>Plans\<close>

record sort_expr =
  sort_key :: expr
  ascending :: bool

datatype join_type = JInner | JLeft | JRight | JFull

datatype logical_plan =
    PScan string string string "expr list option" "expr option" schema
  | PProject logical_plan "expr list" schema
  | PFilter logical_plan expr schema
  | PAggregate logical_plan "expr list" "expr list" schema
  | PSort logical_plan "sort_expr list" schema
  | PLimit logical_plan nat schema
  | PJoin logical_plan logical_plan "(string \<times> string) list" join_type schema
  | PUnion "logical_plan list" schema
  | PDistinct logical_plan schema
  | PEmpty

definition empty_schema :: schema where
  "empty_schema = schema_empty"

fun output_schema :: "logical_plan \<Rightarrow> schema" where
  "output_schema (PScan table path source projection flt s) = s"
| "output_schema (PProject input es s) = s"
| "output_schema (PFilter input e s) = s"
| "output_schema (PAggregate input gs as s) = s"
| "output_schema (PSort input order s) = s"
| "output_schema (PLimit input n s) = s"
| "output_schema (PJoin l r on how s) = s"
| "output_schema (PUnion ps s) = s"
| "output_schema (PDistinct input s) = s"
| "output_schema PEmpty = empty_schema"

fun output_schema_owned :: "logical_plan \<Rightarrow> schema" where
  "output_schema_owned PEmpty = schema_empty"
| "output_schema_owned p = output_schema p"

fun children :: "logical_plan \<Rightarrow> logical_plan list" where
  "children (PProject input es s) = [input]"
| "children (PFilter input e s) = [input]"
| "children (PAggregate input gs as s) = [input]"
| "children (PSort input order s) = [input]"
| "children (PLimit input n s) = [input]"
| "children (PDistinct input s) = [input]"
| "children (PJoin l r on how s) = [l, r]"
| "children (PUnion ps s) = ps"
| "children (PScan table path source projection flt s) = []"
| "children PEmpty = []"

fun collect_table_refs_into :: "logical_plan \<Rightarrow> string list \<Rightarrow> string list" where
  "collect_table_refs_into (PScan table path source projection flt s) out =
     (if table \<in> set out then out else out @ [table])"
| "collect_table_refs_into (PProject input es s) out = collect_table_refs_into input out"
| "collect_table_refs_into (PFilter input e s) out = collect_table_refs_into input out"
| "collect_table_refs_into (PAggregate input gs as s) out = collect_table_refs_into input out"
| "collect_table_refs_into (PSort input order s) out = collect_table_refs_into input out"
| "collect_table_refs_into (PLimit input n s) out = collect_table_refs_into input out"
| "collect_table_refs_into (PDistinct input s) out = collect_table_refs_into input out"
| "collect_table_refs_into (PJoin l r on how s) out =
     collect_table_refs_into r (collect_table_refs_into l out)"
| "collect_table_refs_into (PUnion ps s) out = fold collect_table_refs_into ps out"
| "collect_table_refs_into PEmpty out = out"

definition collect_table_refs :: "logical_plan \<Rightarrow> string list" where
  "collect_table_refs p = collect_table_refs_into p []"

section \<open>Schema builders\<close>

definition rename_table :: "schema \<Rightarrow> string \<Rightarrow> schema" where
  "rename_table s table = s"

definition build_scan_schema :: "string \<Rightarrow> string \<Rightarrow> string \<Rightarrow> schema \<Rightarrow> logical_plan" where
  "build_scan_schema name path source s =
     PScan name path source None None (rename_table s name)"

definition infer_literal :: "literal \<Rightarrow> data_type" where
  "infer_literal l =
     (case l of LNull \<Rightarrow> TNull | LBool _ \<Rightarrow> TBoolean | LInt _ \<Rightarrow> TInt64
      | LFloat _ \<Rightarrow> TFloat64 | LStr _ \<Rightarrow> TString)"

fun infer_data_type :: "expr \<Rightarrow> data_type" where
  "infer_data_type (ELiteral l) = infer_literal l"
| "infer_data_type (EAggregate f a d) =
     (case f of AggCount \<Rightarrow> TInt64 | AggSum \<Rightarrow> TFloat64 | AggAvg \<Rightarrow> TFloat64
      | AggMin \<Rightarrow> TString | AggMax \<Rightarrow> TString)"
| "infer_data_type (EBinary op l r) =
     (if op \<in> {OpAnd, OpOr, OpEq, OpNotEq, OpLt, OpLtEq, OpGt, OpGtEq, OpLike}
      then TBoolean else TFloat64)"
| "infer_data_type (ENot e) = TBoolean"
| "infer_data_type (EIsNull e) = TBoolean"
| "infer_data_type (EIsNotNull e) = TBoolean"
| "infer_data_type (EIf c t e) =
     (let then_ty = infer_data_type t; else_ty = infer_data_type e
      in if then_ty = else_ty then then_ty else TString)"
| "infer_data_type (EColumn n) = TString"
| "infer_data_type EStar = TString"
| "infer_data_type (EAliased e a) = infer_data_type e"

definition project_fields :: "schema \<Rightarrow> expr \<Rightarrow> schema_field list" where
  "project_fields input e =
     (case e of EStar \<Rightarrow> schema_fields input
      | _ \<Rightarrow> [field_new (display_name e) (infer_data_type e)])"

definition build_project_schema :: "expr list \<Rightarrow> schema \<Rightarrow> schema res" where
  "build_project_schema es input = Ok (schema_new (concat (map (project_fields input) es)))"

definition expr_field :: "expr \<Rightarrow> schema_field" where
  "expr_field e = field_new (display_name e) (infer_data_type e)"

definition build_aggregate_schema :: "expr list \<Rightarrow> expr list \<Rightarrow> schema res" where
  "build_aggregate_schema gs as = Ok (schema_new (map expr_field gs @ map expr_field as))"

definition build_join_schema :: "schema \<Rightarrow> schema \<Rightarrow> (string \<times> string) list \<Rightarrow> schema res" where
  "build_join_schema l r on =
     Ok (schema_new (schema_fields l @
       filter (\<lambda>f. field_name f \<notin> fst ` set on) (schema_fields r)))"

section \<open>Laws\<close>

text \<open>The tables a plan scans, as a set.\<close>

fun scan_tables :: "logical_plan \<Rightarrow> string set" where
  "scan_tables (PScan table path source projection flt s) = {table}"
| "scan_tables (PProject input es s) = scan_tables input"
| "scan_tables (PFilter input e s) = scan_tables input"
| "scan_tables (PAggregate input gs as s) = scan_tables input"
| "scan_tables (PSort input order s) = scan_tables input"
| "scan_tables (PLimit input n s) = scan_tables input"
| "scan_tables (PDistinct input s) = scan_tables input"
| "scan_tables (PJoin l r on how s) = scan_tables l \<union> scan_tables r"
| "scan_tables (PUnion ps s) = (\<Union>p \<in> set ps. scan_tables p)"
| "scan_tables PEmpty = {}"

lemma set_collect_table_refs_into:
  "set (collect_table_refs_into p out) = set out \<union> scan_tables p"
proof (induction p arbitrary: out)
  case (PUnion ps s)
  have "set (fold collect_table_refs_into qs out) = set out \<union> (\<Union>p \<in> set qs. scan_tables p)"
    if "set qs \<subseteq> set ps" for qs out
    using that by (induction qs arbitrary: out) (auto simp: PUnion)
  then show ?case by simp
qed auto

lemma distinct_collect_table_refs_into:
  "distinct out \<Longrightarrow> distinct (collect_table_refs_into p out)"
proof (induction p arbitrary: out)
  case (PUnion ps s)
  have "distinct (fold collect_table_refs_into qs out)"
    if "set qs \<subseteq> set ps" "distinct out" for qs out
    using that by (induction qs arbitrary: out) (auto simp: PUnion)
  then show ?case using PUnion.prems by simp
qed auto

lemma output_schema_owned_eq [simp]: "output_schema_owned p = output_schema p"
  by (cases p) (auto simp: empty_schema_def)

lemma build_schema_no_panic [simp]:
  "\<not> panics (build_project_schema es s)" "\<not> panics (build_aggregate_schema gs as)"
  "\<not> panics (build_join_schema l r on)"
  by (auto simp: build_project_schema_def build_aggregate_schema_def build_join_schema_def)

lemma build_schema_Ok_iff [outcome_simps]:
  "build_project_schema es s = Ok t \<longleftrightarrow> t = schema_new (concat (map (project_fields s) es))"
  "build_aggregate_schema gs as = Ok t \<longleftrightarrow> t = schema_new (map expr_field gs @ map expr_field as)"
  by (auto simp: build_project_schema_def build_aggregate_schema_def)

end
