(* ===== verification/Operators.thy ===== *)
theory Operators
  imports Plan
begin

text \<open>
  \<^verbatim>\<open>rspark-exec/src/operators.rs\<close>: the physical operators. Lowering of a plan node, predicates
  (WHERE and HAVING), projection of a row, grouping and aggregation, sorting, limit and the
  nested-loop join.
\<close>

section \<open>Physical operators and lowering\<close>

record scan_op =
  scan_path :: string
  scan_source :: string
  scan_schema :: schema

record project_op =
  project_exprs :: "expr list"
  project_schema :: schema

record filter_op =
  filter_predicate :: expr
  filter_schema :: schema

record aggregate_op =
  agg_groups :: "expr list"
  agg_exprs :: "expr list"
  agg_schema :: schema

record sort_op =
  sort_order :: "sort_expr list"
  sort_schema :: schema

record limit_op =
  limit_count :: nat
  limit_schema :: schema

record join_op =
  join_on :: "(string \<times> string) list"
  join_how :: join_type
  join_schema :: schema

datatype physical_op =
    PhScan scan_op | PhProject project_op | PhFilter filter_op | PhAggregate aggregate_op
  | PhSort sort_op | PhLimit limit_op | PhJoin join_op

fun op_output_schema :: "physical_op \<Rightarrow> schema" where
  "op_output_schema (PhScan x) = scan_schema x"
| "op_output_schema (PhProject x) = project_schema x"
| "op_output_schema (PhFilter x) = filter_schema x"
| "op_output_schema (PhAggregate x) = agg_schema x"
| "op_output_schema (PhSort x) = sort_schema x"
| "op_output_schema (PhLimit x) = limit_schema x"
| "op_output_schema (PhJoin x) = join_schema x"

fun lower_plan :: "logical_plan \<Rightarrow> physical_op" where
  "lower_plan (PScan table path source projection flt s) =
     PhScan \<lparr>scan_path = path, scan_source = source, scan_schema = s\<rparr>"
| "lower_plan (PProject input es s) = PhProject \<lparr>project_exprs = es, project_schema = s\<rparr>"
| "lower_plan (PFilter input e s) = PhFilter \<lparr>filter_predicate = e, filter_schema = s\<rparr>"
| "lower_plan (PAggregate input gs as s) =
     PhAggregate \<lparr>agg_groups = gs, agg_exprs = as, agg_schema = s\<rparr>"
| "lower_plan (PSort input order s) = PhSort \<lparr>sort_order = order, sort_schema = s\<rparr>"
| "lower_plan (PLimit input n s) = PhLimit \<lparr>limit_count = n, limit_schema = s\<rparr>"
| "lower_plan (PJoin l r on how s) = PhJoin \<lparr>join_on = on, join_how = how, join_schema = s\<rparr>"
| "lower_plan (PUnion ps s) = PhLimit \<lparr>limit_count = 0, limit_schema = s\<rparr>"
| "lower_plan (PDistinct input s) = PhLimit \<lparr>limit_count = 0, limit_schema = s\<rparr>"
| "lower_plan PEmpty = PhLimit \<lparr>limit_count = 0, limit_schema = schema_empty\<rparr>"

section \<open>Predicates\<close>

text \<open>The module's own \<^verbatim>\<open>contains_aggregate\<close>, which does not look into IF.\<close>

fun op_contains_aggregate :: "expr \<Rightarrow> bool" where
  "op_contains_aggregate (EAggregate f a d) = True"
| "op_contains_aggregate (EAliased e a) = op_contains_aggregate e"
| "op_contains_aggregate (EBinary op l r) = (op_contains_aggregate l \<or> op_contains_aggregate r)"
| "op_contains_aggregate (ENot e) = op_contains_aggregate e"
| "op_contains_aggregate (EIsNull e) = op_contains_aggregate e"
| "op_contains_aggregate (EIsNotNull e) = op_contains_aggregate e"
| "op_contains_aggregate _ = False"

fun apply_binary_op :: "binary_op \<Rightarrow> val \<Rightarrow> val \<Rightarrow> val res" where
  "apply_binary_op OpEq l r = Ok (VBoolean (value_eq l r))"
| "apply_binary_op OpNotEq l r = Ok (VBoolean (\<not> value_eq l r))"
| "apply_binary_op OpLt l r = and_then (try_cmp l r) (\<lambda>c. Ok (VBoolean (c = Less)))"
| "apply_binary_op OpLtEq l r =
     and_then (try_cmp l r) (\<lambda>c. Ok (VBoolean (c = Less \<or> c = Equal)))"
| "apply_binary_op OpGt l r = and_then (try_cmp l r) (\<lambda>c. Ok (VBoolean (c = Greater)))"
| "apply_binary_op OpGtEq l r =
     and_then (try_cmp l r) (\<lambda>c. Ok (VBoolean (c = Greater \<or> c = Equal)))"
| "apply_binary_op OpAnd l r =
     (case (l, r) of (VBoolean a, VBoolean b) \<Rightarrow> Ok (VBoolean (a \<and> b)) | _ \<Rightarrow> Ok VNull)"
| "apply_binary_op OpOr l r =
     (case (l, r) of (VBoolean a, VBoolean b) \<Rightarrow> Ok (VBoolean (a \<or> b)) | _ \<Rightarrow> Ok VNull)"
| "apply_binary_op OpLike l r = Err (ErrType ''LIKE is not yet supported in HAVING predicates'')"
| "apply_binary_op op l r =
     Err (ErrExecution (''unsupported binary op in predicate: '' @ debug_op op))"

definition lookup_aggregate :: "string \<Rightarrow> row \<Rightarrow> record_batch \<Rightarrow> val res" where
  "lookup_aggregate name r b =
     and_then (ok_or (index_of (batch_schema b) name)
                (ErrSchema (''aggregate '' @ squote name @ '' not found in input schema'')))
       (\<lambda>i. Ok (column_value r i))"

fun is_aggregate :: "expr \<Rightarrow> bool" where
  "is_aggregate (EAggregate f a d) = True"
| "is_aggregate _ = False"

fun substitute_aggregates :: "regex_lib \<Rightarrow> expr \<Rightarrow> row \<Rightarrow> record_batch \<Rightarrow> val res" where
  "substitute_aggregates rx (EAggregate f a d) r b =
     lookup_aggregate (display_name (EAggregate f a d)) r b"
| "substitute_aggregates rx (EAliased e a) r b =
     (if is_aggregate e then lookup_aggregate (display_name (EAliased e a)) r b
      else eval rx e r b)"
| "substitute_aggregates rx (EBinary op le re) r b =
     and_then (substitute_aggregates rx le r b) (\<lambda>lv.
     and_then (substitute_aggregates rx re r b) (\<lambda>rv.
       if is_null lv \<or> is_null rv then Ok VNull else apply_binary_op op lv rv))"
| "substitute_aggregates rx e r b = eval rx e r b"

definition predicate_result :: "val \<Rightarrow> bool res" where
  "predicate_result v =
     (case v of VNull \<Rightarrow> Ok False | VBoolean x \<Rightarrow> Ok x
      | _ \<Rightarrow> Err (ErrType (''predicate must return boolean, got '' @ data_type_name v)))"

definition eval_predicate :: "regex_lib \<Rightarrow> expr \<Rightarrow> row \<Rightarrow> record_batch \<Rightarrow> bool res" where
  "eval_predicate rx p r b =
     (if op_contains_aggregate p
      then and_then (substitute_aggregates rx p r b) predicate_result
      else and_then (eval rx p r b) predicate_result)"

section \<open>Projection\<close>

definition lookup_by_name :: "string \<Rightarrow> row \<Rightarrow> record_batch \<Rightarrow> val res" where
  "lookup_by_name name r b =
     and_then (ok_or (index_of (batch_schema b) name)
                (ErrSchema (''column '' @ squote name @ '' not found in input schema'')))
       (\<lambda>i. Ok (column_value r i))"

fun project_values :: "regex_lib \<Rightarrow> expr \<Rightarrow> row \<Rightarrow> record_batch \<Rightarrow> val list res" where
  "project_values rx EStar r b = Ok (row_values r)"
| "project_values rx (EAggregate f a d) r b =
     and_then (lookup_by_name (display_name (EAggregate f a d)) r b) (\<lambda>v. Ok [v])"
| "project_values rx (EAliased e a) r b =
     (if is_aggregate e
      then and_then (lookup_by_name (display_name (EAliased e a)) r b) (\<lambda>v. Ok [v])
      else and_then (eval rx e r b) (\<lambda>v. Ok [v]))"
| "project_values rx e r b = and_then (eval rx e r b) (\<lambda>v. Ok [v])"

definition project_record ::
  "regex_lib \<Rightarrow> expr list \<Rightarrow> row \<Rightarrow> record_batch \<Rightarrow> schema \<Rightarrow> row res" where
  "project_record rx es r b out =
     and_then (map_res (\<lambda>e. project_values rx e r b) es) (\<lambda>vss.
       let rec = record_new (concat vss)
       in and_then (validate rec out) (\<lambda>_. Ok rec))"

section \<open>Aggregation\<close>

text \<open>The variant \<^verbatim>\<open>CountDistinct\<close> is dead code; its hash set is a set.\<close>

datatype accumulator =
    AccCount i64
  | AccCountDistinct "string set"
  | AccSum f64
  | AccAvg f64 i64
  | AccMin "val option"
  | AccMax "val option"

fun acc_new :: "aggregate_fn \<Rightarrow> accumulator" where
  "acc_new AggCount = AccCount 0"
| "acc_new AggSum = AccSum 0"
| "acc_new AggAvg = AccAvg 0 0"
| "acc_new AggMin = AccMin None"
| "acc_new AggMax = AccMax None"

definition min_slot :: "val option \<Rightarrow> val \<Rightarrow> val" where
  "min_slot slot v =
     (case slot of None \<Rightarrow> v
      | Some cur \<Rightarrow> (case try_cmp cur v of Ok Greater \<Rightarrow> v | _ \<Rightarrow> cur))"

definition max_slot :: "val option \<Rightarrow> val \<Rightarrow> val" where
  "max_slot slot v =
     (case slot of None \<Rightarrow> v
      | Some cur \<Rightarrow> (case try_cmp cur v of Ok Less \<Rightarrow> v | _ \<Rightarrow> cur))"

fun acc_update :: "accumulator \<Rightarrow> val \<Rightarrow> bool \<Rightarrow> accumulator" where
  "acc_update (AccCount c) v d = AccCount (if is_null v then c else c + 1)"
| "acc_update (AccCountDistinct s) v d =
     AccCountDistinct (if is_null v then s else insert (cast_to_string v) s)"
| "acc_update (AccSum s) v d =
     (case cast_to_f64 v of Some x \<Rightarrow> AccSum (f64_add s x) | None \<Rightarrow> AccSum s)"
| "acc_update (AccAvg s n) v d =
     (case cast_to_f64 v of Some x \<Rightarrow> AccAvg (f64_add s x) (n + 1) | None \<Rightarrow> AccAvg s n)"
| "acc_update (AccMin slot) v d = AccMin (if is_null v then slot else Some (min_slot slot v))"
| "acc_update (AccMax slot) v d = AccMax (if is_null v then slot else Some (max_slot slot v))"

fun acc_finish :: "accumulator \<Rightarrow> val" where
  "acc_finish (AccCount c) = VInt64 c"
| "acc_finish (AccCountDistinct s) = VInt64 (word_of_nat (card s))"
| "acc_finish (AccSum s) = VFloat64 s"
| "acc_finish (AccAvg s n) = (if n = 0 then VNull else VFloat64 (f64_div s (i64_as_f64 n)))"
| "acc_finish (AccMin (Some v)) = v"
| "acc_finish (AccMin None) = VNull"
| "acc_finish (AccMax (Some v)) = v"
| "acc_finish (AccMax None) = VNull"

record group_state =
  group_values :: "val list"
  accumulators :: "accumulator list"

fun initial_acc :: "expr \<Rightarrow> accumulator" where
  "initial_acc (EAggregate f a d) = acc_new f"
| "initial_acc (EAliased (EAggregate f a d) n) = acc_new f"
| "initial_acc _ = acc_new AggCount"

fun agg_arg :: "expr \<Rightarrow> (expr \<times> bool) option" where
  "agg_arg (EAggregate f a d) = Some (a, d)"
| "agg_arg (EAliased (EAggregate f a d) n) = Some (a, d)"
| "agg_arg _ = None"

definition update_one ::
  "regex_lib \<Rightarrow> row \<Rightarrow> record_batch \<Rightarrow> expr \<times> accumulator \<Rightarrow> accumulator res" where
  "update_one rx r b p =
     (case agg_arg (fst p) of
        None \<Rightarrow> Ok (snd p)
      | Some (inner, d) \<Rightarrow> and_then (eval rx inner r b) (\<lambda>v. Ok (acc_update (snd p) v d)))"

definition group_key :: "val list \<Rightarrow> string list" where
  "group_key vs = map cast_to_string vs"

definition agg_step ::
  "regex_lib \<Rightarrow> expr list \<Rightarrow> expr list \<Rightarrow> record_batch \<Rightarrow> (string list \<times> group_state) list \<Rightarrow>
   row \<Rightarrow> (string list \<times> group_state) list res" where
  "agg_step rx gs as b groups r =
     and_then (map_res (\<lambda>g. eval rx g r b) gs) (\<lambda>gvs.
       let key = group_key gvs;
           entry = (case btree_get groups key of
                      Some st \<Rightarrow> st
                    | None \<Rightarrow> \<lparr>group_values = gvs, accumulators = map initial_acc as\<rparr>)
       in and_then (map_res (update_one rx r b) (zip as (accumulators entry))) (\<lambda>accs.
            Ok (btree_insert groups key (entry\<lparr>accumulators := accs\<rparr>))))"

definition group_row :: "group_state \<Rightarrow> row" where
  "group_row st = record_new (group_values st @ map acc_finish (accumulators st))"

definition aggregate_batch ::
  "regex_lib \<Rightarrow> expr list \<Rightarrow> expr list \<Rightarrow> record_batch \<Rightarrow> schema \<Rightarrow> record_batch res" where
  "aggregate_batch rx gs as b out =
     and_then (fold_res (agg_step rx gs as b) [] (batch_records b)) (\<lambda>groups.
       from_records out (map (\<lambda>kv. group_row (snd kv)) groups))"

section \<open>Sorting and limit\<close>

definition sort_keys :: "regex_lib \<Rightarrow> sort_expr list \<Rightarrow> record_batch \<Rightarrow> row \<Rightarrow> val list res" where
  "sort_keys rx order b r = map_res (\<lambda>s. eval rx (sort_key s) r b) order"

definition cmp_or_equal :: "val \<Rightarrow> val \<Rightarrow> ordering" where
  "cmp_or_equal a b = (case try_cmp a b of Ok c \<Rightarrow> c | _ \<Rightarrow> Equal)"

text \<open>
  The closure given to \<^verbatim>\<open>sort_by\<close>: it walks the two key vectors in step; both have one
  entry per sort expression, so the index into \<open>order\<close> is in range.
\<close>

fun cmp_keys :: "sort_expr list \<Rightarrow> val list \<Rightarrow> val list \<Rightarrow> ordering" where
  "cmp_keys (s # order) (a # as) (b # bs) =
     (let c = cmp_or_equal a b;
          c = (if ascending s then c else reverse_ord c)
      in if c \<noteq> Equal then c else cmp_keys order as bs)"
| "cmp_keys _ _ _ = Equal"

definition records_at :: "row list \<Rightarrow> nat \<Rightarrow> row list" where
  "records_at rs i = (if i < length rs then [rs ! i] else [])"

definition sort_batch :: "regex_lib \<Rightarrow> record_batch \<Rightarrow> sort_expr list \<Rightarrow> record_batch res" where
  "sort_batch rx b order =
     and_then (map_res (\<lambda>(i, r). and_then (sort_keys rx order b r) (\<lambda>ks. Ok (i, ks)))
                (enumerate 0 (batch_records b))) (\<lambda>indexed.
       let indexed = sort_by (\<lambda>x y. cmp_keys order (snd x) (snd y)) indexed
       in from_records (batch_schema b)
            (concat (map (\<lambda>x. records_at (batch_records b) (fst x)) indexed)))"

definition limit_batch :: "record_batch \<Rightarrow> nat \<Rightarrow> record_batch res" where
  "limit_batch b n = from_records (batch_schema b) (take n (batch_records b))"

section \<open>Join\<close>

fun debug_join :: "join_type \<Rightarrow> string" where
  "debug_join JInner = ''Inner''"
| "debug_join JLeft = ''Left''"
| "debug_join JRight = ''Right''"
| "debug_join JFull = ''Full''"

definition is_join_key :: "(string \<times> string) list \<Rightarrow> string \<Rightarrow> bool" where
  "is_join_key pairs n = list_ex (\<lambda>p. fst p = n) pairs"

text \<open>The inner condition loop; a pair naming an unknown column on either side is skipped.\<close>

fun join_cond :: "schema \<Rightarrow> schema \<Rightarrow> row \<Rightarrow> row \<Rightarrow> (string \<times> string) list \<Rightarrow> bool" where
  "join_cond ls rs l r [] = True"
| "join_cond ls rs l r ((lname, rname) # ps) =
     (case (index_of ls lname, index_of rs rname) of
        (Some li, Some ri) \<Rightarrow>
          if \<not> value_eq (column_value l li) (column_value r ri) then False
          else join_cond ls rs l r ps
      | _ \<Rightarrow> join_cond ls rs l r ps)"

definition joined_row :: "(string \<times> string) list \<Rightarrow> schema \<Rightarrow> row \<Rightarrow> row \<Rightarrow> row" where
  "joined_row pairs rs l r =
     record_new (row_values l @
       concat (map (\<lambda>f. if is_join_key pairs (field_name f) then []
                        else case index_of rs (field_name f) of
                          Some i \<Rightarrow> [column_value r i] | None \<Rightarrow> []) (schema_fields rs)))"

definition padded_row :: "(string \<times> string) list \<Rightarrow> schema \<Rightarrow> row \<Rightarrow> row" where
  "padded_row pairs rs l =
     record_new (row_values l @
       concat (map (\<lambda>f. if is_join_key pairs (field_name f) then [] else [VNull])
         (schema_fields rs)))"

fun join_right_loop ::
  "(string \<times> string) list \<Rightarrow> schema \<Rightarrow> schema \<Rightarrow> row \<Rightarrow> row list \<Rightarrow> bool \<times> row list \<Rightarrow> bool \<times> row list"
where
  "join_right_loop pairs ls rs l [] acc = acc"
| "join_right_loop pairs ls rs l (r # rest) (matched, out) =
     (if join_cond ls rs l r pairs
      then join_right_loop pairs ls rs l rest (True, out @ [joined_row pairs rs l r])
      else join_right_loop pairs ls rs l rest (matched, out))"

fun join_left_loop ::
  "(string \<times> string) list \<Rightarrow> join_type \<Rightarrow> schema \<Rightarrow> schema \<Rightarrow> row list \<Rightarrow> row list \<Rightarrow> row list \<Rightarrow> row list"
where
  "join_left_loop pairs how ls rs [] right out = out"
| "join_left_loop pairs how ls rs (l # rest) right out =
     (let (matched, out) = join_right_loop pairs ls rs l right (False, out);
          out = (if \<not> matched \<and> how = JLeft then out @ [padded_row pairs rs l] else out)
      in join_left_loop pairs how ls rs rest right out)"

definition joined_schema :: "schema \<Rightarrow> schema \<Rightarrow> (string \<times> string) list \<Rightarrow> schema" where
  "joined_schema ls rs pairs =
     schema_new (schema_fields ls @
       filter (\<lambda>f. \<not> is_join_key pairs (field_name f)) (schema_fields rs))"

definition join_batches ::
  "record_batch \<Rightarrow> record_batch \<Rightarrow> (string \<times> string) list \<Rightarrow> join_type \<Rightarrow> record_batch res" where
  "join_batches left right pairs how =
     (if how = JRight \<or> how = JFull
      then Err (ErrExecution (debug_join how @ '' join not implemented''))
      else from_records (joined_schema (batch_schema left) (batch_schema right) pairs)
             (join_left_loop pairs how (batch_schema left) (batch_schema right)
                (batch_records left) (batch_records right) []))"

end
