(* ===== verification/Core_Properties.thy ===== *)
theory Core_Properties
  imports Operator_Laws
begin

text \<open>
  Properties of the core crate: the comparison of values, casts and type names, validated
  batches, evaluation of expressions.
\<close>

section \<open>Comparison\<close>

text \<open>Swapping the operands of a comparison reverses its outcome, and a pair of values is
  comparable in one order exactly when it is in the other, for all seven kinds of values.\<close>

theorem try_cmp_antisymmetric:
  "try_cmp a b = Ok c \<longleftrightarrow> try_cmp b a = Ok (reverse_ord c)"
  by (metis cmp_opt_reverse map_option_eq_Some reverse_ord_involution try_cmp_Ok_iff)

text \<open>C36. Within one comparison class (NULLs, integers of both widths together, floats of one
  width other than NaN, booleans, strings) comparison never fails and is transitive.\<close>

theorem try_cmp_class_order:
  assumes "in_class c x" "in_class c y" "in_class c z"
  shows "\<exists>p q r. try_cmp x y = Ok p \<and> try_cmp y z = Ok q \<and> try_cmp x z = Ok r \<and>
    (p \<noteq> Greater \<longrightarrow> q \<noteq> Greater \<longrightarrow> r \<noteq> Greater)"
proof -
  obtain p q r where pqr: "try_cmp x y = Ok p" "try_cmp y z = Ok q" "try_cmp x z = Ok r"
    using try_cmp_class assms by metis
  then have "cmp_or_equal x y = p" "cmp_or_equal y z = q" "cmp_or_equal x z = r"
    by (auto simp: cmp_or_equal_def)
  then show ?thesis using pqr cmp_or_equal_trans [OF assms] by auto
qed

theorem try_cmp_class_order_witness:
  "\<exists>p q r. try_cmp VNull (VInt32 3) = Ok p \<and> try_cmp (VInt32 3) (VInt64 7) = Ok q \<and>
    try_cmp VNull (VInt64 7) = Ok r \<and> (p \<noteq> Greater \<longrightarrow> q \<noteq> Greater \<longrightarrow> r \<noteq> Greater)"
  using try_cmp_class_order [of CInt VNull "VInt32 3" "VInt64 7"] by simp

text \<open>Across classes it is not: a BIGINT is rounded to a double before it is compared with
  one, so two different BIGINTs compare equal to the same double.\<close>

theorem try_cmp_mixed_not_transitive:
  "try_cmp (VInt64 (2 ^ 53 + 1)) (VFloat64 (f64_of_int (2 ^ 53))) = Ok Equal \<and>
   try_cmp (VFloat64 (f64_of_int (2 ^ 53))) (VInt64 (2 ^ 53)) = Ok Equal \<and>
   try_cmp (VInt64 (2 ^ 53 + 1)) (VInt64 (2 ^ 53)) = Ok Greater"
proof -
  have "f64_of_int 9007199254740993 = f64_of_int 9007199254740992" by (simp add: float_eval)
  moreover have "f64_val (f64_of_int 9007199254740992) \<noteq> FNaN" by (simp add: float_eval)
  moreover have "sint (9007199254740993 :: i64) = 9007199254740993" by simp
  moreover have "sint (9007199254740992 :: i64) = 9007199254740992" by simp
  ultimately show ?thesis
    by (simp add: cmp_f64_Ok i64_as_f64_def f64_cmp_def fv_cmp_refl cmp_of_def)
qed

section \<open>Names and casts\<close>

text \<open>Every column type is read back from both of its printed names, in any letter case the
  two names use.\<close>

theorem type_names_round_trip:
  "type_from_str (type_name d) = Ok d \<and> type_from_str (spark_name d) = Ok d"
  by (cases d; simp only: type_name.simps spark_name.simps; code_simp)

text \<open>The text of an integer of either width parses back to the same integer.\<close>

theorem integer_text_round_trip:
  "cast_to_i64 (VString (cast_to_string (VInt64 i))) = Some i \<and>
   cast_to_i64 (VString (cast_to_string (VInt32 k))) = Some (i32_as_i64 k)"
proof -
  have "show_i32 k = show_i64 (i32_as_i64 k)" by (simp add: show_i32_def show_i64_def)
  then show ?thesis by simp
qed

section \<open>Batches\<close>

text \<open>The checking constructor of batches succeeds exactly on rows that all have one value
  per field of the schema and no NULL in a field declared not null, and then holds just
  these rows under that schema.\<close>

theorem from_records_validates:
  "from_records s rs = Ok b \<longleftrightarrow>
     b = \<lparr>batch_schema = s, batch_records = rs\<rparr> \<and> batch_ok \<lparr>batch_schema = s, batch_records = rs\<rparr>"
  by (auto simp: from_records_Ok_iff batch_ok_def)

section \<open>Expressions\<close>

text \<open>Evaluating an expression that contains no remainder operator never panics, on any row
  and any schema and for any behaviour of the regex engine.\<close>

theorem eval_never_panics:
  assumes "\<not> has_mod e"
  shows "\<not> panics (eval rx e r b)"
  using assms by (rule eval_no_panic)

theorem eval_never_panics_witness:
  "\<not> panics (eval \<lparr>rx_escape = (\<lambda>s. s), rx_new = (\<lambda>s. Inl [])\<rparr>
     (EBinary OpDiv (ELiteral (LInt 1)) (ELiteral (LInt 0))) (record_new []) (batch_new schema_empty))"
  by (rule eval_never_panics) simp

text \<open>The remainder operator panics exactly when the operands cast to the smallest 64-bit
  integer and to -1.\<close>

theorem remainder_panics_iff:
  "panics (apply_binary rx OpMod l r) \<longleftrightarrow>
     (\<exists>a. cast_to_i64 l = Some a \<and> sint a = - (2 ^ 63)) \<and>
     (\<exists>b. cast_to_i64 r = Some b \<and> sint b = - 1)"
  using numeric_mod_panics_iff by simp

text \<open>Evaluation looks only at the columns that \<open>references\<close> lists: rows that agree on them
  give the same outcome.\<close>

theorem eval_uses_references:
  assumes "\<forall>n \<in> set (references e). get_by_name r (batch_schema b) n = get_by_name r' (batch_schema b) n"
  shows "eval rx e r b = eval rx e r' b"
proof (rule eval_columns)
  fix n i assume "n \<in> columns_of e" "index_of (batch_schema b) n = Some i"
  then show "column_value r i = column_value r' i"
    using assms by (force simp: get_by_name_def column_value_def)
qed

theorem eval_uses_references_witness:
  "eval \<lparr>rx_escape = (\<lambda>s. s), rx_new = (\<lambda>s. Inl [])\<rparr> (EIsNull (EColumn ''a''))
     (record_new [VNull, VInt64 1]) (batch_new (schema_new [field_new ''a'' TInt64, field_new ''b'' TInt64])) =
   eval \<lparr>rx_escape = (\<lambda>s. s), rx_new = (\<lambda>s. Inl [])\<rparr> (EIsNull (EColumn ''a''))
     (record_new [VNull, VInt64 2]) (batch_new (schema_new [field_new ''a'' TInt64, field_new ''b'' TInt64]))"
  by (rule eval_uses_references)
    (simp add: references_def get_by_name_def index_of_def record_get_def)

text \<open>Addition, subtraction and multiplication of two doubles work on their truncations to
  64-bit integers, with wrap-around, and give a BIGINT.\<close>

theorem double_arithmetic_is_integer:
  "apply_binary rx OpAdd (VFloat64 x) (VFloat64 y) = Ok (VInt64 (f64_as_i64 x + f64_as_i64 y)) \<and>
   apply_binary rx OpSub (VFloat64 x) (VFloat64 y) = Ok (VInt64 (f64_as_i64 x - f64_as_i64 y)) \<and>
   apply_binary rx OpMul (VFloat64 x) (VFloat64 y) = Ok (VInt64 (f64_as_i64 x * f64_as_i64 y))"
  by (simp add: numeric_op_def)

end
