(* ===== verification/Sql_Ast.thy ===== *)
theory Sql_Ast
  imports Plan
begin

text \<open>
  The syntax trees of the \<^verbatim>\<open>sqlparser\<close> crate as far as the sources match on them. Each variant
  the sources name is a constructor; all other variants of a type are one constructor that
  carries the text (\<^verbatim>\<open>Display\<close> or \<^verbatim>\<open>Debug\<close>) the error messages show. Object names are their
  printed form. The parser itself is a parameter of the functions that call it.
\<close>

datatype sql_value =
    SvNull | SvBoolean bool | SvNumber string bool | SvSingleQuoted string
  | SvDoubleQuoted string | SvNational string | SvHex string | SvOther string

datatype sql_binop =
    SbPlus | SbMinus | SbMultiply | SbDivide | SbModulo | SbStringConcat | SbEq | SbNotEq
  | SbLt | SbLtEq | SbGt | SbGtEq | SbAnd | SbOr | SbOther string

datatype sql_unop = SuNot | SuMinus | SuPlus | SuOther string

datatype dup_treatment = DupDistinct | DupAll

datatype sql_expr =
    SIdentifier string
  | SCompoundIdentifier "string list"
  | SWildcard
  | SQualifiedWildcard "string list"
  | SValue sql_value
  | SBinary sql_expr sql_binop sql_expr
  | SUnary sql_unop sql_expr
  | SIsNull sql_expr
  | SIsNotNull sql_expr
  | SIsTrue sql_expr
  | SIsFalse sql_expr
  | SIsNotTrue sql_expr
  | SIsNotFalse sql_expr
  | SNested sql_expr
  | SLike bool sql_expr sql_expr
  | SILike bool sql_expr sql_expr
  | SBetween sql_expr bool sql_expr sql_expr
  | SInList sql_expr "sql_expr list" bool
  | SFunction string fn_arguments
  | SCast sql_expr
  | SSubquery
  | SOther string
and fn_arguments = FaNone | FaSubquery | FaList "fn_arg list" "dup_treatment option"
and fn_arg = ArgUnnamed fn_arg_expr | ArgNamed fn_arg_expr | ArgOther
and fn_arg_expr = AeExpr sql_expr | AeWildcard | AeQualifiedWildcard

datatype select_item =
    ItemUnnamed sql_expr | ItemAlias sql_expr string | ItemQualifiedWildcard | ItemWildcard

datatype group_by = GroupAll | GroupExprs "sql_expr list"

datatype join_constraint = ConOn sql_expr | ConUsing "string list" | ConNatural | ConNone

datatype join_operator =
    JoInner join_constraint | JoLeftOuter join_constraint | JoRightOuter join_constraint
  | JoFullOuter join_constraint | JoCross | JoLeftSemi join_constraint
  | JoRightSemi join_constraint | JoLeftAnti join_constraint | JoRightAnti join_constraint
  | JoOther

text \<open>A table factor: a table with its name and alias, or another factor's text.\<close>

datatype table_factor = FactorTable string "string option" | FactorOther string

record table_join =
  join_relation :: table_factor
  join_operator :: join_operator

record table_with_joins =
  twj_relation :: table_factor
  twj_joins :: "table_join list"

record sql_select =
  sel_distinct :: bool
  sel_projection :: "select_item list"
  sel_from :: "table_with_joins list"
  sel_selection :: "sql_expr option"
  sel_group_by :: group_by
  sel_having :: "sql_expr option"

record order_item =
  order_expr :: sql_expr
  order_asc :: "bool option"

datatype set_operator = SetUnion | SetOther string

text \<open>A query: whether it has a WITH clause, its body, ORDER BY, LIMIT, and OFFSET.\<close>

datatype sql_query = Query bool set_expr "order_item list option" "sql_expr option" "sql_expr option"
and set_expr =
    SeSelect sql_select | SeQuery sql_query | SeSetOperation set_operator set_expr set_expr
  | SeOther string

datatype show_create_object = ShowTable | ShowObjectOther

datatype statement =
    StQuery sql_query | StExplain statement | StShowTables | StUse
  | StShowCreate show_create_object string | StOther

end
