(* ===== verification/Aggregation.thy ===== *)
theory Aggregation
  imports Operator_Laws
begin

text \<open>
  What \<^verbatim>\<open>aggregate_batch\<close> computes: one output row per distinct group key, in key order, with
  the grouping values of the first row of the group and, for each aggregate, its accumulator
  run over the rows of the group in input order.
\<close>

section \<open>The reference grouping\<close>

definition value_or_null :: "val res \<Rightarrow> val" where
  "value_or_null r = (case r of Ok v \<Rightarrow> v | _ \<Rightarrow> VNull)"

definition group_vals :: "regex_lib \<Rightarrow> expr list \<Rightarrow> record_batch \<Rightarrow> row \<Rightarrow> val list" where
  "group_vals rx gs b r = map (\<lambda>g. value_or_null (eval rx g r b)) gs"

definition row_group :: "regex_lib \<Rightarrow> expr list \<Rightarrow> record_batch \<Rightarrow> row \<Rightarrow> string list" where
  "row_group rx gs b r = group_key (group_vals rx gs b r)"

definition agg_run :: "regex_lib \<Rightarrow> record_batch \<Rightarrow> row list \<Rightarrow> expr \<Rightarrow> accumulator" where
  "agg_run rx b rs e =
     (case agg_arg e of
        None \<Rightarrow> initial_acc e
      | Some (arg, d) \<Rightarrow>
          fold (\<lambda>r acc. acc_update acc (value_or_null (eval rx arg r b)) d) rs (initial_acc e))"

definition rows_in_group ::
  "regex_lib \<Rightarrow> expr list \<Rightarrow> record_batch \<Rightarrow> row list \<Rightarrow> string list \<Rightarrow> row list" where
  "rows_in_group rx gs b rs k = filter (\<lambda>r. row_group rx gs b r = k) rs"

definition group_spec ::
  "regex_lib \<Rightarrow> expr list \<Rightarrow> expr list \<Rightarrow> record_batch \<Rightarrow> row list \<Rightarrow> group_state" where
  "group_spec rx gs as b rs =
     \<lparr>group_values = group_vals rx gs b (hd rs), accumulators = map (agg_run rx b rs) as\<rparr>"

definition group_keys :: "regex_lib \<Rightarrow> expr list \<Rightarrow> record_batch \<Rightarrow> string list list" where
  "group_keys rx gs b = sorted_list_of_set (row_group rx gs b ` set (batch_records b))"

section \<open>The loop builds the reference grouping\<close>

lemma agg_run_snoc:
  "update_one rx r b (e, agg_run rx b rs e) = Ok acc \<Longrightarrow> acc = agg_run rx b (rs @ [r]) e"
  by (auto simp: update_one_def agg_run_def and_then_eq_Ok value_or_null_def split: option.splits)

lemma agg_run_Nil [simp]: "agg_run rx b [] e = initial_acc e"
  by (auto simp: agg_run_def split: option.splits)

lemma update_all:
  assumes "map_res (update_one rx r b) (zip as (map (agg_run rx b rs) as)) = Ok accs"
  shows "accs = map (agg_run rx b (rs @ [r])) as"
proof (rule nth_equalityI)
  show len: "length accs = length (map (agg_run rx b (rs @ [r])) as)"
    using map_res_length [OF assms] by simp
  show "accs ! i = map (agg_run rx b (rs @ [r])) as ! i" if "i < length accs" for i
    using map_res_nth [OF assms, of i] that len by (auto intro: agg_run_snoc)
qed

lemma map_res_group_vals:
  "map_res (\<lambda>g. eval rx g r b) gs = Ok vs \<Longrightarrow> vs = group_vals rx gs b r"
  by (auto simp: map_res_Ok_iff group_vals_def list_all2_conv_all_nth value_or_null_def
      intro!: nth_equalityI)

definition groups_match ::
  "regex_lib \<Rightarrow> expr list \<Rightarrow> expr list \<Rightarrow> record_batch \<Rightarrow> row list \<Rightarrow>
   (string list \<times> group_state) list \<Rightarrow> bool" where
  "groups_match rx gs as b rs groups \<longleftrightarrow> btree_wf groups \<and>
     (\<forall>k. btree_get groups k =
        (let m = rows_in_group rx gs b rs k
         in if m = [] then None else Some (group_spec rx gs as b m)))"

lemma agg_step_match:
  assumes inv: "groups_match rx gs as b rs groups" and step: "agg_step rx gs as b groups r = Ok groups'"
  shows "groups_match rx gs as b (rs @ [r]) groups'"
proof -
  let ?k = "row_group rx gs b r"
  let ?m = "rows_in_group rx gs b rs ?k"
  let ?e = "case btree_get groups ?k of Some st \<Rightarrow> st
     | None \<Rightarrow> \<lparr>group_values = group_vals rx gs b r, accumulators = map initial_acc as\<rparr>"
  obtain accs where accs: "map_res (update_one rx r b) (zip as (accumulators ?e)) = Ok accs"
    and g': "groups' = btree_insert groups ?k (?e\<lparr>accumulators := accs\<rparr>)"
    using step by (auto simp: agg_step_def and_then_eq_Ok Let_def row_group_def
        dest!: map_res_group_vals)
  have e: "?e = \<lparr>group_values = group_vals rx gs b (hd (?m @ [r])),
      accumulators = map (agg_run rx b ?m) as\<rparr>"
    using inv by (auto simp: groups_match_def Let_def group_spec_def)
  have "accs = map (agg_run rx b (?m @ [r])) as"
    using accs unfolding e by (auto dest: update_all)
  then have "?e\<lparr>accumulators := accs\<rparr> = group_spec rx gs as b (?m @ [r])"
    unfolding e by (simp add: group_spec_def)
  then show ?thesis
    using inv g' by (auto simp: groups_match_def Let_def rows_in_group_def)
qed

lemma aggregate_loop_match:
  "fold_res (agg_step rx gs as b) [] rs = Ok groups \<Longrightarrow> groups_match rx gs as b rs groups"
proof (induction rs arbitrary: groups rule: rev_induct)
  case Nil
  then show ?case by (simp add: groups_match_def rows_in_group_def btree_wf_def)
next
  case (snoc r rs)
  then show ?case by (auto simp: fold_res_append and_then_eq_Ok intro: agg_step_match)
qed

lemma groups_match_list:
  assumes "groups_match rx gs as b rs groups"
  shows "groups = map (\<lambda>k. (k, group_spec rx gs as b (rows_in_group rx gs b rs k)))
    (sorted_list_of_set (row_group rx gs b ` set rs))"
proof -
  have wf: "btree_wf groups"
    and get: "btree_get groups k = (if rows_in_group rx gs b rs k = [] then None
      else Some (group_spec rx gs as b (rows_in_group rx gs b rs k)))" for k
    using assms by (auto simp: groups_match_def Let_def)
  have "set (map fst groups) = row_group rx gs b ` set rs"
  proof -
    have "k \<in> set (map fst groups) \<longleftrightarrow> k \<in> row_group rx gs b ` set rs" for k
      using get [of k] btree_get_None_iff [of groups k]
      by (auto simp: rows_in_group_def filter_empty_conv split: if_splits)
    then show ?thesis by blast
  qed
  moreover have "sorted (map fst groups)" "distinct (map fst groups)"
    using wf btree_wf_distinct by (auto simp: btree_wf_def strict_sorted_iff)
  ultimately have keys: "map fst groups = sorted_list_of_set (row_group rx gs b ` set rs)"
    by (metis sorted_list_of_set.idem_if_sorted_distinct)
  have "snd p = group_spec rx gs as b (rows_in_group rx gs b rs (fst p))" if "p \<in> set groups" for p
    using that get [of "fst p"] btree_get_Some_iff [OF wf, of "fst p" "snd p"]
    by (auto split: if_splits)
  then have "groups = map (\<lambda>k. (k, group_spec rx gs as b (rows_in_group rx gs b rs k))) (map fst groups)"
    by (auto simp: comp_def intro!: map_idI [symmetric])
  then show ?thesis using keys by simp
qed

lemma aggregate_batch_Ok:
  assumes "aggregate_batch rx gs as b out = Ok b'"
  shows "batch_schema b' = out \<and> batch_records b' =
    map (\<lambda>k. group_row (group_spec rx gs as b (rows_in_group rx gs b (batch_records b) k)))
      (group_keys rx gs b)"
  using assms
  by (auto simp: aggregate_batch_def and_then_eq_Ok from_records_Ok_iff group_keys_def
      dest!: aggregate_loop_match groups_match_list)

section \<open>The accumulators\<close>

text \<open>The argument values of an aggregate over a group.\<close>

definition arg_values :: "regex_lib \<Rightarrow> record_batch \<Rightarrow> row list \<Rightarrow> expr \<Rightarrow> val list" where
  "arg_values rx b rs arg = map (\<lambda>r. value_or_null (eval rx arg r b)) rs"

lemma agg_run_fold:
  "agg_run rx b rs (EAggregate f arg d) =
     fold (\<lambda>v acc. acc_update acc v d) (arg_values rx b rs arg) (acc_new f)"
  by (simp add: agg_run_def arg_values_def fold_map comp_def)

lemma fold_count:
  "fold (\<lambda>v acc. acc_update acc v d) vs (AccCount c) =
     AccCount (c + of_nat (length (filter (\<lambda>v. v \<noteq> VNull) vs)))"
  by (induction vs arbitrary: c) (auto simp: algebra_simps)

lemma fold_sum:
  "fold (\<lambda>v acc. acc_update acc v d) vs (AccSum s) =
     AccSum (fold (\<lambda>x s. f64_add s x) (List.map_filter cast_to_f64 vs) s)"
  by (induction vs arbitrary: s) (auto simp: map_filter_simps split: option.splits)

lemma fold_avg:
  "fold (\<lambda>v acc. acc_update acc v d) vs (AccAvg s n) =
     AccAvg (fold (\<lambda>x s. f64_add s x) (List.map_filter cast_to_f64 vs) s)
       (n + of_nat (length (List.map_filter cast_to_f64 vs)))"
  by (induction vs arbitrary: s n) (auto simp: map_filter_simps algebra_simps split: option.splits)

text \<open>\<open>extremal le m vs\<close>: the slot holds an element of \<open>vs\<close> that \<open>le\<close> puts before all others.\<close>

definition extremal :: "(val \<Rightarrow> val \<Rightarrow> bool) \<Rightarrow> val option \<Rightarrow> val list \<Rightarrow> bool" where
  "extremal le slot vs \<longleftrightarrow>
     (case slot of None \<Rightarrow> vs = [] | Some m \<Rightarrow> m \<in> set vs \<and> (\<forall>w \<in> set vs. le m w))"

definition le_val :: "val \<Rightarrow> val \<Rightarrow> bool" where
  "le_val a b \<longleftrightarrow> cmp_or_equal a b \<noteq> Greater"

lemma le_val_trans: "\<lbrakk>in_class c x; in_class c y; in_class c z; le_val x y; le_val y z\<rbrakk> \<Longrightarrow> le_val x z"
  unfolding le_val_def by (rule cmp_or_equal_trans)

lemma le_val_refl: "in_class c x \<Longrightarrow> le_val x x"
  using vals.cmp_refl [of x c] by (simp add: le_val_def class_vals_def)

lemma le_val_linear: "le_val x y \<or> le_val y x"
  by (auto simp: le_val_def cmp_or_equal_reverse [of y x])

lemma min_slot_class:
  "in_class c m \<Longrightarrow> in_class c v \<Longrightarrow> min_slot (Some m) v = (if le_val m v then m else v)"
  using try_cmp_class [of c m v] by (auto simp: min_slot_def le_val_def cmp_or_equal_def split: ordering.splits)

lemma max_slot_class:
  "in_class c m \<Longrightarrow> in_class c v \<Longrightarrow> max_slot (Some m) v = (if le_val v m then m else v)"
  using try_cmp_class [of c m v] cmp_or_equal_reverse [of v m]
  by (auto simp: max_slot_def le_val_def cmp_or_equal_def [of m v] split: ordering.splits)

lemma extremal_min_step:
  assumes "extremal le_val slot seen" "in_class c v" "\<forall>w \<in> set seen. in_class c w"
  shows "extremal le_val (Some (min_slot slot v)) (seen @ [v])"
proof (cases slot)
  case None
  then show ?thesis using assms by (auto simp: extremal_def min_slot_def le_val_refl)
next
  case (Some m)
  then have m: "m \<in> set seen" "\<forall>w \<in> set seen. le_val m w" using assms by (auto simp: extremal_def)
  then show ?thesis
    using assms(2,3) Some le_val_linear [of m v] le_val_trans [of c v m]
    by (auto simp: extremal_def min_slot_class [of c] le_val_refl)
qed

lemma extremal_max_step:
  assumes "extremal (\<lambda>a b. le_val b a) slot seen" "in_class c v" "\<forall>w \<in> set seen. in_class c w"
  shows "extremal (\<lambda>a b. le_val b a) (Some (max_slot slot v)) (seen @ [v])"
proof (cases slot)
  case None
  then show ?thesis using assms by (auto simp: extremal_def max_slot_def le_val_refl)
next
  case (Some m)
  then have m: "m \<in> set seen" "\<forall>w \<in> set seen. le_val w m" using assms by (auto simp: extremal_def)
  then show ?thesis
    using assms(2,3) Some le_val_linear [of m v] le_val_trans [of c _ m v]
    by (auto simp: extremal_def max_slot_class [of c] le_val_refl)
qed

lemma fold_min:
  assumes "\<forall>v \<in> set vs. in_class c v"
  shows "\<exists>slot. fold (\<lambda>v acc. acc_update acc v d) vs (AccMin None) = AccMin slot
    \<and> extremal le_val slot (filter (\<lambda>v. v \<noteq> VNull) vs)"
  using assms
proof (induction vs rule: rev_induct)
  case Nil
  then show ?case by (auto simp: extremal_def)
next
  case (snoc v vs)
  then obtain slot where "fold (\<lambda>v acc. acc_update acc v d) vs (AccMin None) = AccMin slot"
    "extremal le_val slot (filter (\<lambda>v. v \<noteq> VNull) vs)" by auto
  then show ?case using snoc.prems extremal_min_step [of slot _ c v] by auto
qed

lemma fold_max:
  assumes "\<forall>v \<in> set vs. in_class c v"
  shows "\<exists>slot. fold (\<lambda>v acc. acc_update acc v d) vs (AccMax None) = AccMax slot
    \<and> extremal (\<lambda>a b. le_val b a) slot (filter (\<lambda>v. v \<noteq> VNull) vs)"
  using assms
proof (induction vs rule: rev_induct)
  case Nil
  then show ?case by (auto simp: extremal_def)
next
  case (snoc v vs)
  then obtain slot where "fold (\<lambda>v acc. acc_update acc v d) vs (AccMax None) = AccMax slot"
    "extremal (\<lambda>a b. le_val b a) slot (filter (\<lambda>v. v \<noteq> VNull) vs)" by auto
  then show ?case using snoc.prems extremal_max_step [of slot _ c v] by auto
qed

end
