(* ===== verification/Storage.thy ===== *)
theory Storage
  imports Records
begin

text \<open>
  \<^verbatim>\<open>rspark-storage\<close>: the data source trait and its registry (\<^verbatim>\<open>source.rs\<close>, \<^verbatim>\<open>registry.rs\<close>), the CSV
  and JSON sources (\<^verbatim>\<open>csv_source.rs\<close>, \<^verbatim>\<open>json_source.rs\<close>) and the writers (\<^verbatim>\<open>writer.rs\<close>). A data
  source is the record of its trait methods; the registry's locks are never poisoned, since
  no holder of one panics. The file system and the \<^verbatim>\<open>csv\<close> and \<^verbatim>\<open>serde_json\<close> crates are the
  parameters \<open>file_open\<close>, \<open>csv_lib\<close> and \<open>json_lib\<close>.
\<close>

section \<open>Data sources and their registry\<close>

record data_source =
  ds_name :: string
  ds_infer_schema :: "string \<Rightarrow> schema res"
  ds_scan :: "string \<Rightarrow> schema option \<Rightarrow> record_batch res"

record source_registry =
  sources :: "string \<rightharpoonup> data_source"
  async_sources :: "string \<rightharpoonup> data_source"

definition registry_with_defaults :: "data_source \<Rightarrow> data_source \<Rightarrow> source_registry" where
  "registry_with_defaults csv json =
     \<lparr>sources = [''csv'' \<mapsto> csv, ''json'' \<mapsto> json], async_sources = Map.empty\<rparr>"

definition registry_register :: "source_registry \<Rightarrow> string \<Rightarrow> data_source \<Rightarrow> source_registry res" where
  "registry_register reg name src = Ok (reg\<lparr>sources := (sources reg)(name \<mapsto> src)\<rparr>)"

definition registry_register_async ::
  "source_registry \<Rightarrow> string \<Rightarrow> data_source \<Rightarrow> source_registry res" where
  "registry_register_async reg name src =
     Ok (reg\<lparr>async_sources := (async_sources reg)(name \<mapsto> src)\<rparr>)"

definition registry_get :: "source_registry \<Rightarrow> string \<Rightarrow> data_source res" where
  "registry_get reg name =
     ok_or (sources reg name) (ErrNotFound (''data source '' @ squote name @ '' not registered''))"

definition registry_get_async :: "source_registry \<Rightarrow> string \<Rightarrow> data_source res" where
  "registry_get_async reg name =
     ok_or (async_sources reg name)
       (ErrNotFound (''async data source '' @ squote name @ '' not registered''))"

text \<open>\<^verbatim>\<open>Path::file_name\<close> and \<^verbatim>\<open>Path::extension\<close>.\<close>

definition path_file_name :: "string \<Rightarrow> string option" where
  "path_file_name p =
     (let cs = filter (\<lambda>c. c \<noteq> [] \<and> c \<noteq> ''.'') (split_on (CHR ''/'') p)
      in if cs = [] \<or> last cs = ''..'' then None else Some (last cs))"

definition file_extension :: "string \<Rightarrow> string option" where
  "file_extension name =
     (let ext = rev (takeWhile (\<lambda>c. c \<noteq> CHR ''.'') (rev name))
      in if CHR ''.'' \<notin> set name \<or> length name = Suc (length ext) then None else Some ext)"

definition path_extension :: "string \<Rightarrow> string option" where
  "path_extension p = Option.bind (path_file_name p) file_extension"

definition infer_from_path :: "source_registry \<Rightarrow> string \<Rightarrow> data_source res" where
  "infer_from_path reg path =
     (let ext = to_ascii_lowercase (unwrap_or (path_extension path) [])
      in if ext = ''csv'' then registry_get reg ''csv''
         else if ext \<in> {''json'', ''jsonl'', ''ndjson''} then registry_get reg ''json''
         else Err (ErrStorage (''unsupported file extension: .'' @ ext)))"

definition ensure_extension :: "string \<Rightarrow> string \<Rightarrow> unit res" where
  "ensure_extension path extension =
     (let got = to_ascii_lowercase (unwrap_or (path_extension path) [])
      in if got = to_ascii_lowercase extension then Ok ()
         else Err (ErrStorage (''expected .'' @ extension @ '' file, got '' @ squote path)))"

text \<open>
  What a client of a source relies on: a scan under a given schema returns a batch of that
  schema whose rows validate, or an error.
\<close>

locale source_contract =
  fixes src :: data_source
  assumes scan_schema: "ds_scan src path (Some s) = Ok b \<Longrightarrow> batch_schema b = s"
    and scan_valid: "ds_scan src path (Some s) = Ok b \<Longrightarrow> batch_ok b"
    and scan_total: "\<not> panics (ds_scan src path (Some s))"
begin

lemma scan_row_width:
  "ds_scan src path (Some s) = Ok b \<Longrightarrow> r \<in> set (batch_records b) \<Longrightarrow>
   length (row_values r) = length (schema_fields s)"
  using scan_schema scan_valid by (fastforce simp: batch_ok_def row_ok_def)

end

section \<open>CSV\<close>

text \<open>
  \<open>file_open path\<close> is the error of \<^verbatim>\<open>File::open\<close> or the contents; the CSV crate turns contents
  into the header row and the sequence of results its record iterator yields.
\<close>

type_synonym file_open = "string \<Rightarrow> string + string"

record csv_lib =
  csv_headers :: "string \<Rightarrow> string + string list"
  csv_records :: "string \<Rightarrow> (string + string list) list"

definition open_file :: "file_open \<Rightarrow> string \<Rightarrow> string res" where
  "open_file fs path = (case fs path of Inl e \<Rightarrow> Err (ErrIo e) | Inr c \<Rightarrow> Ok c)"

definition parse_csv_value :: "string \<Rightarrow> val" where
  "parse_csv_value raw =
     (let t = trim raw
      in if t = [] \<or> eq_ignore_ascii_case t ''null'' \<or> eq_ignore_ascii_case t ''none'' then VNull
         else if eq_ignore_ascii_case t ''true'' then VBoolean True
         else if eq_ignore_ascii_case t ''false'' then VBoolean False
         else case parse_i64 t of
           Some v \<Rightarrow> VInt64 v
         | None \<Rightarrow> (case parse_f64 t of Some v \<Rightarrow> VFloat64 v | None \<Rightarrow> VString t))"

record column_flags =
  all_int :: bool
  all_float :: bool
  all_bool :: bool
  any_value :: bool

definition column_step :: "nat \<Rightarrow> column_flags \<Rightarrow> val list \<Rightarrow> column_flags" where
  "column_step i fl row =
     (if i < length row then
        (case row ! i of
           VNull \<Rightarrow> fl
         | VInt64 _ \<Rightarrow> fl\<lparr>any_value := True\<rparr>
         | VBoolean _ \<Rightarrow> fl\<lparr>any_value := True, all_int := False, all_float := False\<rparr>
         | VFloat64 _ \<Rightarrow> fl\<lparr>any_value := True, all_int := False\<rparr>
         | _ \<Rightarrow> fl\<lparr>any_value := True, all_int := False, all_float := False, all_bool := False\<rparr>)
      else fl)"

definition column_type :: "column_flags \<Rightarrow> data_type" where
  "column_type fl =
     (if \<not> any_value fl then TString
      else if all_int fl then TInt64
      else if all_float fl then TFloat64
      else if all_bool fl then TBoolean
      else TString)"

definition infer_column :: "val list list \<Rightarrow> nat \<Rightarrow> data_type" where
  "infer_column rows i =
     column_type (foldl (column_step i)
       \<lparr>all_int = True, all_float = True, all_bool = True, any_value = False\<rparr> rows)"

definition infer_columns :: "val list list \<Rightarrow> string list \<Rightarrow> data_type list" where
  "infer_columns rows headers = map (infer_column rows) [0..<length headers]"

definition parsed_or_text :: "('a \<Rightarrow> val) \<Rightarrow> 'a option \<Rightarrow> string \<Rightarrow> val" where
  "parsed_or_text con x t = (case x of Some v \<Rightarrow> con v | None \<Rightarrow> VString t)"

definition coerce_value :: "string \<Rightarrow> data_type \<Rightarrow> val" where
  "coerce_value raw dt =
     (let t = trim raw
      in if t = [] \<or> eq_ignore_ascii_case t ''null'' then VNull
         else case dt of
           TBoolean \<Rightarrow> parsed_or_text VBoolean (bool_of_text t) t
         | TInt64 \<Rightarrow> parsed_or_text VInt64 (parse_i64 t) t
         | TInt32 \<Rightarrow> parsed_or_text VInt32 (parse_i32 t) t
         | TFloat64 \<Rightarrow> parsed_or_text VFloat64 (parse_f64 t) t
         | TFloat32 \<Rightarrow> parsed_or_text VFloat32 (parse_f32 t) t
         | _ \<Rightarrow> VString t)"

fun leading_records :: "(string + string list) list \<Rightarrow> string list list" where
  "leading_records (Inr r # rs) = r # leading_records rs"
| "leading_records _ = []"

definition csv_infer_schema_from_reader :: "csv_lib \<Rightarrow> string \<Rightarrow> schema res" where
  "csv_infer_schema_from_reader lib c =
     (case csv_headers lib c of
        Inl e \<Rightarrow> Err (ErrStorage (''failed to read csv headers: '' @ e))
      | Inr headers \<Rightarrow>
          let converted = map (map parse_csv_value) (leading_records (csv_records lib c))
          in Ok (if converted = [] then schema_new (map (\<lambda>h. field_new h TString) headers)
                 else schema_new (map (\<lambda>(h, t). field_new h t)
                        (zip headers (infer_columns converted headers)))))"

definition csv_row :: "schema \<Rightarrow> string + string list \<Rightarrow> row res" where
  "csv_row s x =
     (case x of
        Inl e \<Rightarrow> Err (ErrCsv e)
      | Inr cells \<Rightarrow> Ok (record_new
          (map (\<lambda>(raw, f). coerce_value raw (field_type f)) (zip cells (schema_fields s)))))"

definition csv_scan_reader :: "csv_lib \<Rightarrow> string \<Rightarrow> schema option \<Rightarrow> record_batch res" where
  "csv_scan_reader lib c so =
     and_then (case so of Some s \<Rightarrow> Ok s | None \<Rightarrow> csv_infer_schema_from_reader lib c) (\<lambda>s.
       and_then (map_res (csv_row s) (csv_records lib c)) (from_records s))"

definition csv_source :: "file_open \<Rightarrow> csv_lib \<Rightarrow> data_source" where
  "csv_source fs lib =
     \<lparr>ds_name = ''csv'',
      ds_infer_schema = (\<lambda>path. and_then (open_file fs path) (csv_infer_schema_from_reader lib)),
      ds_scan = (\<lambda>path so. and_then (open_file fs path) (\<lambda>c. csv_scan_reader lib c so))\<rparr>"

section \<open>JSON\<close>

text \<open>
  A \<^verbatim>\<open>serde_json::Value\<close>; a number is what its accessors \<^verbatim>\<open>as_i64\<close>, \<^verbatim>\<open>is_u64\<close> and \<^verbatim>\<open>as_f64\<close> return,
  an object its entries in iteration order.
\<close>

record json_number =
  num_as_i64 :: "i64 option"
  num_is_u64 :: bool
  num_as_f64 :: "f64 option"

datatype json =
    JNull | JBool bool | JNumber json_number | JString string | JArray "json list"
  | JObject "(string \<times> json) list"

text \<open>The stream deserialiser, \<^verbatim>\<open>to_string\<close>, and the conversions from Rust numbers.\<close>

record json_lib =
  js_stream :: "string \<Rightarrow> (string + json) list"
  js_text :: "json \<Rightarrow> string"
  js_from_i32 :: "i32 \<Rightarrow> json"
  js_from_i64 :: "i64 \<Rightarrow> json"
  js_from_f32 :: "f32 \<Rightarrow> json"
  js_from_f64 :: "f64 \<Rightarrow> json"

definition json_type :: "json \<Rightarrow> data_type" where
  "json_type v =
     (case v of JNull \<Rightarrow> TNull | JBool _ \<Rightarrow> TBoolean
      | JNumber n \<Rightarrow> if num_as_i64 n \<noteq> None \<or> num_is_u64 n then TInt64 else TFloat64
      | JString _ \<Rightarrow> TString | _ \<Rightarrow> TString)"

definition parse_bool :: "string \<Rightarrow> bool option" where
  "parse_bool s = (if s = ''true'' then Some True else if s = ''false'' then Some False else None)"

definition json_number_value :: "json_number \<Rightarrow> data_type \<Rightarrow> val" where
  "json_number_value n target =
     (case num_as_i64 n of
        Some i \<Rightarrow> (case target of TFloat64 \<Rightarrow> VFloat64 (i64_as_f64 i)
          | TString \<Rightarrow> VString (show_i64 i) | _ \<Rightarrow> VInt64 i)
      | None \<Rightarrow> (case num_as_f64 n of
          Some f \<Rightarrow> (case target of TInt64 \<Rightarrow> VFloat64 f
            | TString \<Rightarrow> VString (show_f64 f) | _ \<Rightarrow> VFloat64 f)
        | None \<Rightarrow> VNull))"

definition json_to_value :: "json_lib \<Rightarrow> json \<Rightarrow> data_type \<Rightarrow> val" where
  "json_to_value lib v target =
     (case v of
        JNull \<Rightarrow> VNull
      | JBool b \<Rightarrow> VBoolean b
      | JNumber n \<Rightarrow> json_number_value n target
      | JString s \<Rightarrow> (case target of
          TInt64 \<Rightarrow> parsed_or_text VInt64 (parse_i64 s) s
        | TFloat64 \<Rightarrow> parsed_or_text VFloat64 (parse_f64 s) s
        | TBoolean \<Rightarrow> parsed_or_text VBoolean (parse_bool s) s
        | _ \<Rightarrow> VString s)
      | _ \<Rightarrow> VString (js_text lib v))"

definition json_item :: "string + json \<Rightarrow> json res" where
  "json_item x = (case x of Inl e \<Rightarrow> Err (ErrSerde e) | Inr v \<Rightarrow> Ok v)"

fun add_json_fields :: "schema_field list \<Rightarrow> (string \<times> json) list \<Rightarrow> schema_field list" where
  "add_json_fields fs [] = fs"
| "add_json_fields fs ((k, v) # kvs) =
     (if list_ex (\<lambda>f. field_name f = k) fs then add_json_fields fs kvs
      else add_json_fields (fs @ [field_new k (json_type v)]) kvs)"

definition json_infer_schema_from_reader :: "json_lib \<Rightarrow> string \<Rightarrow> schema res" where
  "json_infer_schema_from_reader lib c =
     and_then (fold_res (\<lambda>fs x. and_then (json_item x) (\<lambda>v.
         Ok (case v of JObject kvs \<Rightarrow> add_json_fields fs kvs | _ \<Rightarrow> fs))) [] (js_stream lib c))
       (\<lambda>fs. Ok (schema_new fs))"

definition json_row :: "json_lib \<Rightarrow> schema \<Rightarrow> string + json \<Rightarrow> row res" where
  "json_row lib s x =
     and_then (json_item x) (\<lambda>v.
       case v of
         JObject kvs \<Rightarrow> Ok (record_new (map (\<lambda>f.
             json_to_value lib (unwrap_or (map_of kvs (field_name f)) JNull) (field_type f))
           (schema_fields s)))
       | _ \<Rightarrow> Err (ErrStorage ''each JSON line must be an object''))"

definition json_scan_reader :: "json_lib \<Rightarrow> string \<Rightarrow> schema option \<Rightarrow> record_batch res" where
  "json_scan_reader lib c so =
     and_then (case so of Some s \<Rightarrow> Ok s | None \<Rightarrow> json_infer_schema_from_reader lib c) (\<lambda>s.
       and_then (map_res (json_row lib s) (js_stream lib c)) (from_records s))"

definition json_source :: "file_open \<Rightarrow> json_lib \<Rightarrow> data_source" where
  "json_source fs lib =
     \<lparr>ds_name = ''json'',
      ds_infer_schema = (\<lambda>path. and_then (open_file fs path) (json_infer_schema_from_reader lib)),
      ds_scan = (\<lambda>path so. and_then (open_file fs path) (\<lambda>c. json_scan_reader lib c so))\<rparr>"

section \<open>Writers\<close>

fun value_to_csv_string :: "val \<Rightarrow> string" where
  "value_to_csv_string VNull = []"
| "value_to_csv_string (VString s) = s"
| "value_to_csv_string v = cast_to_string v"

fun value_to_json :: "json_lib \<Rightarrow> val \<Rightarrow> json" where
  "value_to_json lib VNull = JNull"
| "value_to_json lib (VBoolean b) = JBool b"
| "value_to_json lib (VInt32 i) = js_from_i32 lib i"
| "value_to_json lib (VInt64 i) = js_from_i64 lib i"
| "value_to_json lib (VFloat32 f) = js_from_f32 lib f"
| "value_to_json lib (VFloat64 f) = js_from_f64 lib f"
| "value_to_json lib (VString s) = JString s"

text \<open>The rows handed to the CSV writer and the objects handed to the JSON writer.\<close>

definition csv_output :: "record_batch \<Rightarrow> string list list" where
  "csv_output b = field_names (batch_schema b) #
     map (\<lambda>r. map value_to_csv_string (row_values r)) (batch_records b)"

text \<open>
  \<^verbatim>\<open>serde_json::Map::insert\<close> keeps one entry per key, ordered by key; a later value replaces
  an earlier one.
\<close>

definition json_output :: "json_lib \<Rightarrow> record_batch \<Rightarrow> json list" where
  "json_output lib b = map (\<lambda>r. JObject (foldl (\<lambda>m (f, v). btree_insert m (field_name f) (value_to_json lib v)) []
     (zip (schema_fields (batch_schema b)) (row_values r)))) (batch_records b)"

section \<open>Text tables\<close>

definition table_cell :: "val \<Rightarrow> string" where
  "table_cell v = (case v of VNull \<Rightarrow> ''NULL'' | _ \<Rightarrow> show_value v)"

text \<open>Padding counts characters; the widths count bytes.\<close>

definition pad_left :: "nat \<Rightarrow> string \<Rightarrow> string" where
  "pad_left w s = replicate (w - length (chars s)) (CHR '' '') @ s"

definition pad_right :: "nat \<Rightarrow> string \<Rightarrow> string" where
  "pad_right w s = s @ replicate (w - length (chars s)) (CHR '' '')"

text \<open>
  \<^verbatim>\<open>widths[idx]\<close> panics on a row longer than the schema, and \<^verbatim>\<open>widths[i]\<close> is otherwise in range.
\<close>

fun widen :: "nat list \<Rightarrow> string list \<Rightarrow> nat list res" where
  "widen ws [] = Ok ws"
| "widen (w # ws) (c # cs) = and_then (widen ws cs) (\<lambda>ws'. Ok (max w (length c) # ws'))"
| "widen [] (c # cs) = Panic ''index out of bounds''"

definition table_line :: "(nat \<Rightarrow> string \<Rightarrow> string) \<Rightarrow> nat list \<Rightarrow> string list \<Rightarrow> string" where
  "table_line pad ws cells = join '' | '' (map (\<lambda>(w, c). pad w c) (zip ws cells)) @ [CHR 0x0A]"

definition render_table :: "record_batch \<Rightarrow> string res" where
  "render_table b =
     (if batch_is_empty b then Ok (''(0 rows)'' @ [CHR 0x0A])
      else
        let names = field_names (batch_schema b);
            rows = map (\<lambda>r. map table_cell (row_values r)) (batch_records b)
        in and_then (fold_res widen (map length names) rows) (\<lambda>ws.
             Ok (table_line pad_left ws names @
                 join ''-+-'' (map (\<lambda>w. replicate w (CHR ''-'')) ws) @ [CHR 0x0A] @
                 concat (map (table_line pad_right ws) rows) @
                 ''('' @ show_nat (batch_len b) @ '' rows)'' @ [CHR 0x0A])))"

section \<open>Laws\<close>

lemma csv_row_no_panic [simp]: "\<not> panics (csv_row s x)"
  by (auto simp: csv_row_def split: sum.splits)

lemma json_row_no_panic [simp]: "\<not> panics (json_row lib s x)"
  by (auto simp: json_row_def json_item_def panics_and_then split: sum.splits json.splits)

lemma open_file_no_panic [simp]: "\<not> panics (open_file fs path)"
  by (auto simp: open_file_def split: sum.splits)

lemma map_res_from_records:
  assumes "\<not> panics (map_res f xs)"
  shows "and_then (map_res f xs) (from_records s) = Ok b \<Longrightarrow> batch_schema b = s \<and> batch_ok b"
    and "\<not> panics (and_then (map_res f xs) (from_records s))"
  using assms by (auto simp: and_then_eq_Ok panics_and_then from_records_Ok_iff batch_ok_def)

interpretation csv: source_contract "csv_source fs lib" for fs lib
proof unfold_locales
  fix path s b
  have np: "\<not> panics (map_res (csv_row s) (csv_records lib c))" for c
    by (simp add: map_res_no_panic)
  show "batch_schema b = s" "batch_ok b" if "ds_scan (csv_source fs lib) path (Some s) = Ok b"
    using that map_res_from_records(1) [OF np]
    by (auto simp: csv_source_def csv_scan_reader_def and_then_eq_Ok [of "open_file fs path"])
  show "\<not> panics (ds_scan (csv_source fs lib) path (Some s))"
    using map_res_from_records(2) [OF np]
    by (auto simp: csv_source_def csv_scan_reader_def panics_and_then [of "open_file fs path"])
qed

interpretation json: source_contract "json_source fs lib" for fs lib
proof unfold_locales
  fix path s b
  have np: "\<not> panics (map_res (json_row lib s) (js_stream lib c))" for c
    by (simp add: map_res_no_panic)
  show "batch_schema b = s" "batch_ok b" if "ds_scan (json_source fs lib) path (Some s) = Ok b"
    using that map_res_from_records(1) [OF np]
    by (auto simp: json_source_def json_scan_reader_def and_then_eq_Ok [of "open_file fs path"])
  show "\<not> panics (ds_scan (json_source fs lib) path (Some s))"
    using map_res_from_records(2) [OF np]
    by (auto simp: json_source_def json_scan_reader_def panics_and_then [of "open_file fs path"])
qed

section \<open>Writing and reading CSV\<close>

text \<open>Values whose CSV cell is read back as the same value in a column of the given type.\<close>

fun csv_stable :: "val \<Rightarrow> data_type \<Rightarrow> bool" where
  "csv_stable VNull d = True"
| "csv_stable (VInt64 i) d = (d = TInt64)"
| "csv_stable (VInt32 i) d = (d = TInt32)"
| "csv_stable (VBoolean b) d = (d = TBoolean)"
| "csv_stable (VString s) d =
     (d \<in> {TString, TDate, TTimestamp, TNull} \<and> trim s = s \<and> s \<noteq> [] \<and>
      \<not> eq_ignore_ascii_case s ''null'')"
| "csv_stable _ d = False"

lemma trim_plain:
  assumes "\<forall>c \<in> set s. 32 < byte c \<and> byte c < 128"
  shows "trim s = s"
proof -
  have "chars s = map (\<lambda>c. [c]) s"
    using assms by (intro chars_ascii) (auto simp: ascii_def list_all_iff)
  moreover have "dropWhile is_whitespace (map (\<lambda>c. [c]) t) = map (\<lambda>c. [c]) t"
    if "set t \<subseteq> set s" for t
    using that assms by (cases t) (auto simp: is_whitespace_def)
  then have "dropWhile is_whitespace (map (\<lambda>c. [c]) s) = map (\<lambda>c. [c]) s"
    "dropWhile is_whitespace (rev (map (\<lambda>c. [c]) s)) = rev (map (\<lambda>c. [c]) s)"
    by (simp_all add: rev_map)
  ultimately show ?thesis by (simp add: trim_def)
qed

lemma number_cell:
  assumes "\<forall>c \<in> set s. is_digit c \<or> c = CHR ''-''" "s \<noteq> []"
  shows "trim s = s" "\<not> eq_ignore_ascii_case s ''null''"
proof -
  show "trim s = s" using assms(1) by (intro trim_plain) (auto simp: is_digit_def byte_def)
  obtain c cs where s: "s = c # cs" using assms(2) by (cases s) auto
  have "ascii_lower c \<noteq> CHR ''n''"
    using assms(1) s by (auto simp: ascii_lower_def is_digit_def byte_def)
  moreover have "ascii_lower (CHR ''n'') = CHR ''n''" by code_simp
  ultimately show "\<not> eq_ignore_ascii_case s ''null''"
    by (simp add: s eq_ignore_ascii_case_def to_ascii_lowercase_def)
qed

lemma show_int_nonempty [simp]: "show_int i \<noteq> []"
  by (simp add: show_int_def)

lemma bool_cell:
  "trim (show_bool b) = show_bool b" "\<not> eq_ignore_ascii_case (show_bool b) ''null''"
  "bool_of_text (show_bool b) = Some b" "show_bool b \<noteq> []"
  by (cases b; simp add: show_bool_def; code_simp)+

lemma trim_Nil [simp]: "trim [] = []"
  by (simp add: trim_def)

lemma coerce_stable:
  assumes "csv_stable v d"
  shows "coerce_value (value_to_csv_string v) d = v"
proof (cases v)
  case (VInt64 i)
  have "trim (show_i64 i) = show_i64 i" "\<not> eq_ignore_ascii_case (show_i64 i) ''null''" "show_i64 i \<noteq> []"
    using number_cell [of "show_i64 i"] show_int_no_bar [of _ "sint i"] by (auto simp: show_i64_def)
  then show ?thesis using assms VInt64 by (simp add: coerce_value_def Let_def parsed_or_text_def)
next
  case (VInt32 i)
  have "trim (show_i32 i) = show_i32 i" "\<not> eq_ignore_ascii_case (show_i32 i) ''null''" "show_i32 i \<noteq> []"
    using number_cell [of "show_i32 i"] show_int_no_bar [of _ "sint i"] by (auto simp: show_i32_def)
  then show ?thesis using assms VInt32 by (simp add: coerce_value_def Let_def parsed_or_text_def)
qed (use assms bool_cell in \<open>auto simp: coerce_value_def Let_def parsed_or_text_def\<close>)

lemma csv_row_stable:
  assumes "list_all2 (\<lambda>v f. csv_stable v (field_type f)) vs (schema_fields s)"
  shows "csv_row s (Inr (map value_to_csv_string vs)) = Ok (record_new vs)"
  using assms coerce_stable
  by (auto simp: csv_row_def list_all2_conv_all_nth intro!: nth_equalityI
      arg_cong [where f = record_new])

end
