(* ===== verification/Executor.thy ===== *)
theory Executor
  imports Aggregation Storage
begin

text \<open>
  \<^verbatim>\<open>rspark-exec/src/partition.rs\<close> and \<^verbatim>\<open>executor.rs\<close>: partition discovery and the
  tree-walking local executor.
\<close>

section \<open>Partitions\<close>

datatype partition = WholeFile string | CsvSlice string u64 u64

fun partition_label :: "partition \<Rightarrow> string" where
  "partition_label (WholeFile path) = ''whole:'' @ path"
| "partition_label (CsvSlice path a b) =
     ''slice:'' @ path @ ''['' @ show_nat (unat a) @ ''..'' @ show_nat (unat b) @ '']''"

record partitioned_batch =
  pb_partition :: partition
  pb_batch :: record_batch
  pb_output_schema :: schema

fun collect_partitions :: "logical_plan \<Rightarrow> partition list \<Rightarrow> partition list" where
  "collect_partitions (PScan table path source projection flt s) out = out @ [WholeFile path]"
| "collect_partitions (PProject input es s) out = collect_partitions input out"
| "collect_partitions (PFilter input e s) out = collect_partitions input out"
| "collect_partitions (PAggregate input gs as s) out = collect_partitions input out"
| "collect_partitions (PSort input order s) out = collect_partitions input out"
| "collect_partitions (PLimit input n s) out = collect_partitions input out"
| "collect_partitions (PDistinct input s) out = collect_partitions input out"
| "collect_partitions (PJoin l r on how s) out = collect_partitions r (collect_partitions l out)"
| "collect_partitions (PUnion ps s) out = fold collect_partitions ps out"
| "collect_partitions PEmpty out = out"

definition find_scan_partitions :: "logical_plan \<Rightarrow> partition list res" where
  "find_scan_partitions p =
     (let ps = collect_partitions p [] in Ok (if ps = [] then [WholeFile []] else ps))"

section \<open>Execution context\<close>

record execution_context =
  source_registry :: source_registry
  default_parallelism :: nat

definition with_parallelism :: "execution_context \<Rightarrow> nat \<Rightarrow> execution_context" where
  "with_parallelism ctx p = ctx\<lparr>default_parallelism := max p 1\<rparr>"

definition read_full_file ::
  "execution_context \<Rightarrow> string \<Rightarrow> string \<Rightarrow> schema \<Rightarrow> record_batch res" where
  "read_full_file ctx path source s =
     and_then (registry_get (source_registry ctx) source) (\<lambda>src. ds_scan src path (Some s))"

text \<open>\<open>dbg\<close> is the derived \<^verbatim>\<open>Debug\<close> text of a physical operator, which only the message shows.\<close>

definition execute_partition ::
  "(physical_op \<Rightarrow> string) \<Rightarrow> execution_context \<Rightarrow> logical_plan \<Rightarrow> partition \<Rightarrow> record_batch res" where
  "execute_partition dbg ctx p part =
     (case lower_plan p of
        PhScan scan \<Rightarrow>
          (case part of
             WholeFile path \<Rightarrow> read_full_file ctx path (scan_source scan) (scan_schema scan)
           | CsvSlice path a b \<Rightarrow> read_full_file ctx path (scan_source scan) (scan_schema scan))
      | other \<Rightarrow> Err (ErrExecution (''cannot execute non-scan partition with op '' @ dbg other)))"

definition combine_batches :: "partitioned_batch list \<Rightarrow> schema \<Rightarrow> record_batch res" where
  "combine_batches parts out =
     fold_res (\<lambda>combined part. fold_res batch_push combined (batch_records (pb_batch part)))
       (batch_new out) parts"

text \<open>The calls made on the optional hooks object: the second carries the row count and the time.\<close>

datatype hook_event = StagesComplete | QueryComplete nat nat

definition run_partitions ::
  "(physical_op \<Rightarrow> string) \<Rightarrow> execution_context \<Rightarrow> logical_plan \<Rightarrow> partitioned_batch list res" where
  "run_partitions dbg ctx p =
     and_then (find_scan_partitions p) (map_res (\<lambda>part.
       and_then (execute_partition dbg ctx p part) (\<lambda>b.
         Ok \<lparr>pb_partition = part, pb_batch = b, pb_output_schema = output_schema p\<rparr>)))"

definition execute_plan ::
  "(physical_op \<Rightarrow> string) \<Rightarrow> execution_context \<Rightarrow> logical_plan \<Rightarrow> bool \<Rightarrow> nat \<Rightarrow>
   hook_event list \<times> record_batch res" where
  "execute_plan dbg ctx p hooks elapsed =
     (case run_partitions dbg ctx p of
        Ok current \<Rightarrow>
          (case combine_batches current (output_schema p) of
             Ok b \<Rightarrow> (if hooks then [StagesComplete, QueryComplete (batch_len b) elapsed] else [], Ok b)
           | other \<Rightarrow> (if hooks then [StagesComplete] else [], other))
      | Err e \<Rightarrow> ([], Err e)
      | Panic m \<Rightarrow> ([], Panic m))"

section \<open>The local executor\<close>

definition distinct_key :: "row \<Rightarrow> string" where
  "distinct_key r = join ''|'' (map cast_to_string (row_values r))"

fun distinct_loop :: "row list \<Rightarrow> string set \<Rightarrow> row list \<Rightarrow> row list" where
  "distinct_loop [] seen out = out"
| "distinct_loop (r # rs) seen out =
     (let key = distinct_key r
      in if key \<in> seen then distinct_loop rs seen out
         else distinct_loop rs (insert key seen) (out @ [r]))"

definition project_batch ::
  "regex_lib \<Rightarrow> expr list \<Rightarrow> schema \<Rightarrow> record_batch \<Rightarrow> record_batch res" where
  "project_batch rx es s b =
     (if EStar \<in> set es \<and> length es = 1 then from_records s (batch_records b)
      else and_then (map_res (\<lambda>r. project_record rx es r b s) (batch_records b)) (from_records s))"

definition filter_batch :: "regex_lib \<Rightarrow> expr \<Rightarrow> schema \<Rightarrow> record_batch \<Rightarrow> record_batch res" where
  "filter_batch rx p s b =
     and_then (filter_res (\<lambda>r. eval_predicate rx p r b) (batch_records b)) (from_records s)"

text \<open>
  The three mutually recursive functions of the source. \<open>apply_tree\<close> returns the new batch;
  the operator it also stores is the lowering of the node and is never read back.
\<close>

lemma children_size: "children p = c # cs \<Longrightarrow> size c < size p"
  by (cases p) (auto simp: less_Suc_eq_le)

function (sequential)
  execute :: "regex_lib \<Rightarrow> execution_context \<Rightarrow> logical_plan \<Rightarrow> record_batch res" and
  materialize_input :: "regex_lib \<Rightarrow> execution_context \<Rightarrow> logical_plan \<Rightarrow> record_batch res" and
  apply_tree :: "regex_lib \<Rightarrow> execution_context \<Rightarrow> logical_plan \<Rightarrow> record_batch \<Rightarrow> record_batch res"
where
  "execute rx ctx p = and_then (materialize_input rx ctx p) (\<lambda>b. apply_tree rx ctx p b)"
| "materialize_input rx ctx (PScan table path source projection flt s) =
     and_then (registry_get (source_registry ctx) source) (\<lambda>src. ds_scan src path (Some s))"
| "materialize_input rx ctx PEmpty = Ok (batch_new schema_empty)"
| "materialize_input rx ctx p =
     (case children p of
        child # _ \<Rightarrow> execute rx ctx child
      | [] \<Rightarrow> Ok (batch_new (output_schema p)))"
| "apply_tree rx ctx (PScan table path source projection flt s) b =
     Ok (if batch_is_empty b then batch_new s else b)"
| "apply_tree rx ctx PEmpty b = Ok (if batch_is_empty b then batch_new schema_empty else b)"
| "apply_tree rx ctx (PProject input es s) b = project_batch rx es s b"
| "apply_tree rx ctx (PFilter input p s) b = filter_batch rx p s b"
| "apply_tree rx ctx (PAggregate input gs as s) b = aggregate_batch rx gs as b s"
| "apply_tree rx ctx (PSort input order s) b =
     and_then (sort_batch rx b order) (\<lambda>c. from_records s (batch_records c))"
| "apply_tree rx ctx (PLimit input n s) b =
     and_then (limit_batch b n) (\<lambda>c. from_records s (batch_records c))"
| "apply_tree rx ctx (PJoin l r on how s) b =
     and_then (batch_extend (batch_new (output_schema l)) b) (\<lambda>left.
     and_then (execute rx ctx r) (\<lambda>right.
     and_then (join_batches left right on how) (\<lambda>joined.
       from_records s (batch_records joined))))"
| "apply_tree rx ctx (PUnion ps s) b =
     fold_res (\<lambda>combined p. and_then (execute rx ctx p) (batch_extend combined)) (batch_new s) ps"
| "apply_tree rx ctx (PDistinct input s) b =
     from_records s (distinct_loop (batch_records b) {} [])"
  by pat_completeness auto

termination
  by (relation "measures [\<lambda>x. case x of Inl (_, _, p) \<Rightarrow> size p
        | Inr (Inl (_, _, p)) \<Rightarrow> size p | Inr (Inr (_, _, p, _)) \<Rightarrow> size p,
      \<lambda>x. case x of Inl _ \<Rightarrow> 1 | _ \<Rightarrow> 0]")
    (auto dest!: children_size simp: size_list_estimation' less_Suc_eq_le)

definition execute_with_input ::
  "regex_lib \<Rightarrow> execution_context \<Rightarrow> logical_plan \<Rightarrow> record_batch \<Rightarrow> record_batch res" where
  "execute_with_input rx ctx p input =
     (let start = (case materialize_input rx ctx p of Ok b \<Rightarrow> Ok b | Err e \<Rightarrow> Ok input | Panic m \<Rightarrow> Panic m)
      in and_then start (\<lambda>b.
           apply_tree rx ctx p (if batch_is_empty b \<and> \<not> batch_is_empty input then input else b)))"

end
