(* ===== verification/Executor_Laws.thy ===== *)
theory Executor_Laws
  imports Executor "HOL-Library.Sublist"
begin

text \<open>
  The local executor: what each plan node does to the batch below it, that results carry the
  plan's schema and validate against it, when a query can panic, and what DISTINCT keeps.
\<close>

section \<open>Panics\<close>

fun plan_has_mod :: "logical_plan \<Rightarrow> bool" where
  "plan_has_mod (PScan table path source projection flt s) = False"
| "plan_has_mod (PProject input es s) = (plan_has_mod input \<or> list_ex has_mod es)"
| "plan_has_mod (PFilter input e s) = (plan_has_mod input \<or> has_mod e)"
| "plan_has_mod (PAggregate input gs as s) =
     (plan_has_mod input \<or> list_ex has_mod gs \<or> list_ex has_mod as)"
| "plan_has_mod (PSort input order s) = (plan_has_mod input \<or> list_ex (\<lambda>k. has_mod (sort_key k)) order)"
| "plan_has_mod (PLimit input n s) = plan_has_mod input"
| "plan_has_mod (PDistinct input s) = plan_has_mod input"
| "plan_has_mod (PJoin l r on how s) = (plan_has_mod l \<or> plan_has_mod r)"
| "plan_has_mod (PUnion ps s) = list_ex plan_has_mod ps"
| "plan_has_mod PEmpty = False"

definition sources_total :: "execution_context \<Rightarrow> bool" where
  "sources_total ctx \<longleftrightarrow>
     (\<forall>n src path s. sources (source_registry ctx) n = Some src \<longrightarrow> \<not> panics (ds_scan src path s))"

lemma lookup_no_panic [simp]:
  "\<not> panics (lookup_aggregate n r b)" "\<not> panics (lookup_by_name n r b)"
  by (auto simp: lookup_aggregate_def lookup_by_name_def panics_and_then)

lemma apply_binary_op_no_panic [simp]: "\<not> panics (apply_binary_op op l r)"
  by (cases op) (auto simp: panics_and_then split: val.splits)

lemma substitute_no_panic: "\<not> has_mod e \<Longrightarrow> \<not> panics (substitute_aggregates rx e r b)"
  by (induction e) (auto simp: panics_and_then eval_no_panic simp del: eval.simps)

lemma predicate_no_panic: "\<not> has_mod e \<Longrightarrow> \<not> panics (eval_predicate rx e r b)"
  by (auto simp: eval_predicate_def panics_and_then eval_no_panic substitute_no_panic
      predicate_result_def split: val.splits)

lemma project_values_no_panic: "\<not> has_mod e \<Longrightarrow> \<not> panics (project_values rx e r b)"
  by (cases e) (auto simp: panics_and_then eval_no_panic simp del: eval.simps)

lemma project_record_no_panic:
  "\<not> list_ex has_mod es \<Longrightarrow> \<not> panics (project_record rx es r b s)"
  by (auto simp: project_record_def panics_and_then Let_def list_ex_iff
      intro!: map_res_no_panic project_values_no_panic)

lemma agg_arg_has_mod: "agg_arg e = Some (a, d) \<Longrightarrow> \<not> has_mod e \<Longrightarrow> \<not> has_mod a"
  by (induction e rule: agg_arg.induct) auto

lemma update_one_no_panic: "\<not> has_mod (fst p) \<Longrightarrow> \<not> panics (update_one rx r b p)"
  by (auto simp: update_one_def panics_and_then agg_arg_has_mod eval_no_panic split: option.splits)

lemma aggregate_no_panic:
  assumes "\<not> list_ex has_mod gs" "\<not> list_ex has_mod as"
  shows "\<not> panics (aggregate_batch rx gs as b s)"
proof -
  have "\<not> panics (agg_step rx gs as b g r)" for g r
    using assms
    by (auto simp: agg_step_def panics_and_then Let_def list_ex_iff
        intro!: map_res_no_panic eval_no_panic update_one_no_panic dest!: set_zip_leftD)
  then show ?thesis
    by (simp add: aggregate_batch_def panics_and_then fold_res_no_panic)
qed

lemma sort_keys_no_panic:
  "\<forall>k \<in> set order. \<not> has_mod (sort_key k) \<Longrightarrow> \<not> panics (sort_keys rx order b r)"
  by (auto simp: sort_keys_def intro!: map_res_no_panic eval_no_panic)

lemma sort_batch_no_panic:
  "\<not> list_ex (\<lambda>k. has_mod (sort_key k)) order \<Longrightarrow> \<not> panics (sort_batch rx b order)"
  by (auto simp: sort_batch_def panics_and_then Let_def list_ex_iff sort_keys_no_panic
      intro!: map_res_no_panic)

lemma join_batches_no_panic [simp]: "\<not> panics (join_batches l r on how)"
  by (simp add: join_batches_def)

lemma limit_batch_no_panic [simp]: "\<not> panics (limit_batch b n)"
  by (simp add: limit_batch_def)

lemma project_batch_no_panic: "\<not> list_ex has_mod es \<Longrightarrow> \<not> panics (project_batch rx es s b)"
  by (auto simp: project_batch_def panics_and_then intro!: map_res_no_panic project_record_no_panic)

lemma filter_batch_no_panic: "\<not> has_mod e \<Longrightarrow> \<not> panics (filter_batch rx e s b)"
  by (auto simp: filter_batch_def panics_and_then intro!: filter_res_no_panic predicate_no_panic)

lemma read_source_no_panic:
  "sources_total ctx \<Longrightarrow>
   \<not> panics (and_then (registry_get (source_registry ctx) n) (\<lambda>src. ds_scan src path s))"
  by (auto simp: panics_and_then registry_get_def ok_or_eq_Ok sources_total_def)

lemmas node_no_panic =
  project_batch_no_panic filter_batch_no_panic aggregate_no_panic sort_batch_no_panic

declare execute.simps [simp del]

lemma execute_children:
  "children p = c # cs \<Longrightarrow> execute rx ctx p = and_then (execute rx ctx c) (apply_tree rx ctx p)"
proof -
  assume "children p = c # cs"
  then have "materialize_input rx ctx p = execute rx ctx c" by (cases p) auto
  then show ?thesis by (simp add: execute.simps [of rx ctx p])
qed

lemma execute_unary:
  "execute rx ctx (PProject input es s) = and_then (execute rx ctx input) (project_batch rx es s)"
  "execute rx ctx (PFilter input e s) = and_then (execute rx ctx input) (filter_batch rx e s)"
  "execute rx ctx (PAggregate input gs as s) =
     and_then (execute rx ctx input) (\<lambda>b. aggregate_batch rx gs as b s)"
  "execute rx ctx (PSort input order s) = and_then (execute rx ctx input)
     (\<lambda>b. and_then (sort_batch rx b order) (\<lambda>c. from_records s (batch_records c)))"
  "execute rx ctx (PLimit input n s) = and_then (execute rx ctx input)
     (\<lambda>b. and_then (limit_batch b n) (\<lambda>c. from_records s (batch_records c)))"
  "execute rx ctx (PDistinct input s) = and_then (execute rx ctx input)
     (\<lambda>b. from_records s (distinct_loop (batch_records b) {} []))"
  by (auto simp: execute_children intro!: and_then_cong)

lemma execute_no_panic:
  assumes "sources_total ctx" "\<not> plan_has_mod p"
  shows "\<not> panics (execute rx ctx p)"
  using assms(2)
proof (induction p)
  case (PScan table path source projection flt s)
  show ?case
    using read_source_no_panic [OF assms(1), of source path "Some s"]
    by (auto simp: execute.simps panics_and_then)
next
  case (PJoin l r on how s)
  then show ?case by (auto simp: execute_children panics_and_then)
next
  case (PUnion ps s)
  then have "\<not> panics (execute rx ctx q)" if "q \<in> set ps" for q
    using that by (auto simp: list_ex_iff)
  then show ?case
    by (cases ps) (auto simp: execute_children execute.simps [of _ _ "PUnion [] s"] panics_and_then
        intro!: fold_res_no_panic)
next
  case PEmpty
  then show ?case by (simp add: execute.simps)
qed (auto simp: execute_unary panics_and_then node_no_panic)

section \<open>Schemas and validity of results\<close>

text \<open>Every registered source keeps the contract of \<open>source_contract\<close>.\<close>

definition ctx_ok :: "execution_context \<Rightarrow> bool" where
  "ctx_ok ctx \<longleftrightarrow> (\<forall>n src. sources (source_registry ctx) n = Some src \<longrightarrow> source_contract src)"

lemma ctx_ok_defaults:
  "source_registry ctx = registry_with_defaults (csv_source fs clib) (json_source fs jlib) \<Longrightarrow> ctx_ok ctx"
  by (auto simp: ctx_ok_def registry_with_defaults_def csv.source_contract_axioms
      json.source_contract_axioms split: if_splits)

lemma ctx_ok_register:
  assumes "ctx_ok ctx" "source_contract src" "registry_register (source_registry ctx) n src = Ok reg"
  shows "ctx_ok (ctx\<lparr>source_registry := reg\<rparr>)"
  using assms by (auto simp: ctx_ok_def registry_register_def split: if_splits)

lemma scan_contract:
  assumes "ctx_ok ctx"
    "and_then (registry_get (source_registry ctx) n) (\<lambda>src. ds_scan src path (Some s)) = Ok b"
  shows "batch_schema b = s \<and> batch_ok b"
  using assms source_contract.scan_schema source_contract.scan_valid
  by (fastforce simp: ctx_ok_def and_then_eq_Ok registry_get_def ok_or_eq_Ok)

lemma from_records_schema: "from_records s rs = Ok b \<Longrightarrow> batch_schema b = s \<and> batch_ok b"
  by (auto simp: from_records_Ok_iff batch_ok_def)

lemma node_schema:
  "project_batch rx es s b = Ok c \<Longrightarrow> batch_schema c = s \<and> batch_ok c"
  "filter_batch rx e s b = Ok c \<Longrightarrow> batch_schema c = s \<and> batch_ok c"
  "aggregate_batch rx gs as b s = Ok c \<Longrightarrow> batch_schema c = s \<and> batch_ok c"
  by (auto simp: project_batch_def filter_batch_def aggregate_batch_def and_then_eq_Ok
      split: if_splits dest!: from_records_schema)

lemma union_schema:
  assumes "fold_res (\<lambda>acc p. and_then (f p) (batch_extend acc)) b ps = Ok c"
    and "batch_schema b = s \<and> batch_ok b" and "\<And>p d. p \<in> set ps \<Longrightarrow> f p = Ok d \<Longrightarrow> batch_ok d"
  shows "batch_schema c = s \<and> batch_ok c"
  using assms(1,2)
  by (rule fold_res_invariant)
    (auto simp: and_then_eq_Ok batch_extend_Ok_iff batch_ok_def dest!: assms(3))

lemma execute_schema:
  assumes "ctx_ok ctx" "execute rx ctx p = Ok b"
  shows "batch_schema b = output_schema p \<and> batch_ok b"
  using assms(2)
proof (induction p arbitrary: b)
  case (PScan table path source projection flt s)
  then obtain c where "and_then (registry_get (source_registry ctx) source)
      (\<lambda>src. ds_scan src path (Some s)) = Ok c" "b = (if batch_is_empty c then batch_new s else c)"
    by (simp only: execute.simps materialize_input.simps and_then_eq_Ok [of "and_then _ _"]) auto
  then show ?case using scan_contract [OF assms(1), of source path s c] by simp
next
  case (PJoin l r on how s)
  then show ?case
    by (auto simp: execute_children and_then_eq_Ok dest!: from_records_schema)
next
  case (PUnion ps s)
  have fold: "fold_res (\<lambda>acc p. and_then (execute rx ctx p) (batch_extend acc)) (batch_new s) ps = Ok b"
    using PUnion.prems by (cases ps) (auto simp: execute_children execute.simps [of _ _ "PUnion [] s"] and_then_eq_Ok)
  show ?case
    using union_schema [OF fold, of s] PUnion.IH by simp
next
  case PEmpty
  then show ?case by (auto simp: execute.simps empty_schema_def split: if_splits)
qed (auto simp: execute_unary and_then_eq_Ok dest: node_schema from_records_schema)

section \<open>DISTINCT\<close>

lemma distinct_loop_props:
  assumes "distinct_loop rs seen out = D"
  shows "\<exists>E. D = out @ E \<and> subseq E rs \<and> distinct (map distinct_key E)
    \<and> distinct_key ` set E = distinct_key ` set rs - seen"
  using assms
proof (induction rs arbitrary: seen out)
  case (Cons r rs)
  show ?case
  proof (cases "distinct_key r \<in> seen")
    case True
    then obtain E where "D = out @ E" "subseq E rs" "distinct (map distinct_key E)"
      "distinct_key ` set E = distinct_key ` set rs - seen"
      using Cons.IH [of seen out] Cons.prems by auto
    then show ?thesis using True by (intro exI [of _ E]) auto
  next
    case False
    then obtain E where E: "D = (out @ [r]) @ E" "subseq E rs" "distinct (map distinct_key E)"
      "distinct_key ` set E = distinct_key ` set rs - insert (distinct_key r) seen"
      using Cons.IH [of "insert (distinct_key r) seen" "out @ [r]"] Cons.prems by auto
    moreover have "distinct (map distinct_key (r # E))" using E by auto
    ultimately show ?thesis using False by (intro exI [of _ "r # E"]) auto
  qed
qed auto

text \<open>Cells whose text has no bar character make the concatenated key injective.\<close>

definition bar_free :: "row \<Rightarrow> bool" where
  "bar_free r \<longleftrightarrow> (\<forall>v \<in> set (row_values r). CHR ''|'' \<notin> set (cast_to_string v))"

lemma distinct_key_inj:
  assumes "bar_free r" "bar_free r'" "length (row_values r) = length (row_values r')"
    "distinct_key r = distinct_key r'"
  shows "map cast_to_string (row_values r) = map cast_to_string (row_values r')"
  using assms
  by (intro join_injective [where c = "CHR ''|''"]) (auto simp: distinct_key_def bar_free_def)

section \<open>Seeding an execution with a batch\<close>

lemma execute_with_input_failed:
  assumes "materialize_input rx ctx p = Err e"
  shows "execute_with_input rx ctx p input = apply_tree rx ctx p input"
  using assms by (auto simp: execute_with_input_def)

lemma execute_with_input_loaded:
  assumes "materialize_input rx ctx p = Ok b" "\<not> batch_is_empty b"
  shows "execute_with_input rx ctx p input = execute rx ctx p"
  using assms by (auto simp: execute_with_input_def execute.simps)

section \<open>Partitioned execution\<close>

lemma lower_plan_scan: "lower_plan p = PhScan x \<Longrightarrow> \<exists>t pa so pr f s. p = PScan t pa so pr f s"
  by (cases p) auto

lemma find_scan_partitions_nonempty:
  "find_scan_partitions p = Ok ps \<Longrightarrow> ps \<noteq> []"
  by (auto simp: find_scan_partitions_def Let_def split: if_splits)

lemma execute_plan_non_scan:
  assumes "children p \<noteq> [] \<or> p = PEmpty"
  shows "\<exists>m. execute_plan dbg ctx p hooks elapsed = ([], Err (ErrExecution m))"
proof -
  obtain q qs where parts: "find_scan_partitions p = Ok (q # qs)"
    by (cases "collect_partitions p []") (auto simp: find_scan_partitions_def Let_def)
  have "\<exists>m. execute_partition dbg ctx p q = Err (ErrExecution m)"
    using assms by (cases p) (auto simp: execute_partition_def)
  then show ?thesis by (auto simp: execute_plan_def run_partitions_def parts)
qed

end
