(* ===== verification/Expr_Builder.thy ===== *)
theory Expr_Builder
  imports Sql_Ast Executor_Laws
begin

text \<open>
  \<^verbatim>\<open>rspark-sql/src/expr_builder.rs\<close> and \<^verbatim>\<open>BinaryOp::from_sql\<close>: translation of parsed SQL
  expressions, function calls, select lists, table factors and join constraints into the
  engine's expressions.
\<close>

section \<open>Operators and literals\<close>

fun binop_from_sql :: "sql_binop \<Rightarrow> binary_op option" where
  "binop_from_sql SbPlus = Some OpAdd"
| "binop_from_sql SbMinus = Some OpSub"
| "binop_from_sql SbMultiply = Some OpMul"
| "binop_from_sql SbDivide = Some OpDiv"
| "binop_from_sql SbModulo = Some OpMod"
| "binop_from_sql SbEq = Some OpEq"
| "binop_from_sql SbNotEq = Some OpNotEq"
| "binop_from_sql SbLt = Some OpLt"
| "binop_from_sql SbLtEq = Some OpLtEq"
| "binop_from_sql SbGt = Some OpGt"
| "binop_from_sql SbGtEq = Some OpGtEq"
| "binop_from_sql SbAnd = Some OpAnd"
| "binop_from_sql SbOr = Some OpOr"
| "binop_from_sql SbStringConcat = Some OpAdd"
| "binop_from_sql (SbOther t) = None"

fun binop_debug :: "sql_binop \<Rightarrow> string" where
  "binop_debug (SbOther t) = t"
| "binop_debug _ = []"

fun binary_op_name :: "sql_binop \<Rightarrow> string" where
  "binary_op_name SbPlus = ''+''"
| "binary_op_name SbMinus = ''-''"
| "binary_op_name SbMultiply = ''*''"
| "binary_op_name SbDivide = ''/''"
| "binary_op_name SbModulo = ''%''"
| "binary_op_name SbStringConcat = ''||''"
| "binary_op_name SbEq = ''=''"
| "binary_op_name SbNotEq = ''<>''"
| "binary_op_name SbLt = ''<''"
| "binary_op_name SbLtEq = ''<=''"
| "binary_op_name SbGt = ''>''"
| "binary_op_name SbGtEq = ''>=''"
| "binary_op_name SbAnd = ''AND''"
| "binary_op_name SbOr = ''OR''"
| "binary_op_name (SbOther t) = ''?''"

definition is_commutative_op :: "binary_op \<Rightarrow> bool" where
  "is_commutative_op op = (op \<in> {OpEq, OpNotEq, OpAdd, OpMul})"

fun literal_from_value :: "sql_value \<Rightarrow> literal res" where
  "literal_from_value SvNull = Ok LNull"
| "literal_from_value (SvBoolean b) = Ok (LBool b)"
| "literal_from_value (SvNumber s l) =
     (case parse_i64 s of
        Some i \<Rightarrow> Ok (LInt i)
      | None \<Rightarrow> (case parse_f64 s of
          Some f \<Rightarrow> Ok (LFloat f)
        | None \<Rightarrow> Err (ErrSql (''invalid numeric literal: '' @ s))))"
| "literal_from_value (SvSingleQuoted s) = Ok (LStr s)"
| "literal_from_value (SvDoubleQuoted s) = Ok (LStr s)"
| "literal_from_value (SvNational s) = Ok (LStr s)"
| "literal_from_value (SvHex s) = Ok (LStr s)"
| "literal_from_value (SvOther t) = Err (ErrSql (''unsupported literal value: '' @ t))"

fun from_value :: "val \<Rightarrow> literal" where
  "from_value VNull = LNull"
| "from_value (VBoolean b) = LBool b"
| "from_value (VInt32 i) = LInt (i32_as_i64 i)"
| "from_value (VInt64 i) = LInt i"
| "from_value (VFloat32 f) = LFloat (f32_as_f64 f)"
| "from_value (VFloat64 f) = LFloat f"
| "from_value (VString s) = LStr s"

section \<open>Functions\<close>

datatype arg_spec = ArgExpr expr | ArgWildcard

definition materialize_arg :: "arg_spec \<Rightarrow> expr res" where
  "materialize_arg a =
     (case a of ArgExpr e \<Rightarrow> Ok e
      | ArgWildcard \<Rightarrow> Err (ErrSql ''* not allowed in non-aggregate argument position''))"

definition materialize_args :: "arg_spec list \<Rightarrow> expr list res" where
  "materialize_args as = map_res materialize_arg as"

definition coalesce_step :: "expr \<Rightarrow> expr \<Rightarrow> expr" where
  "coalesce_step acc next = EIf (EIsNotNull acc) acc next"

definition aggregate_call :: "string \<Rightarrow> aggregate_fn \<Rightarrow> arg_spec list \<Rightarrow> bool \<Rightarrow> expr res" where
  "aggregate_call name f args dup =
     (case args of
        [a] \<Rightarrow> (case a of
            ArgWildcard \<Rightarrow> Ok (EAggregate f (ELiteral (LInt 1)) dup)
          | ArgExpr e \<Rightarrow>
              Ok (EAggregate f (if e = EStar then ELiteral (LInt 1) else e) dup))
      | _ \<Rightarrow> Err (ErrSql (name @ ''() requires exactly one argument'')))"

definition scalar_call :: "string \<Rightarrow> expr list \<Rightarrow> expr res" where
  "scalar_call name args =
     (if name = ''coalesce'' then
        (case args of [] \<Rightarrow> Ok (ELiteral LNull) | a # rest \<Rightarrow> Ok (foldl coalesce_step a rest))
      else if name = ''nvl'' then
        (case args of
           [expr2, expr1] \<Rightarrow> Ok (EIf (EIsNotNull expr1) expr1 expr2)
         | _ \<Rightarrow> Err (ErrSql ''NVL requires two arguments''))
      else if name \<in> {''abs'', ''upper'', ''ucase'', ''lower'', ''lcase''} then
        (case args of [a] \<Rightarrow> Ok a | _ \<Rightarrow> Err (ErrSql (name @ ''() requires one argument'')))
      else if name \<in> {''length'', ''char_length'', ''character_length''} then
        Err (ErrSql (name @ ''() requires runtime function support not yet implemented''))
      else Err (ErrSql (''unsupported function: '' @ name @ ''()'')))"

definition function_call :: "string \<Rightarrow> arg_spec list \<times> bool \<Rightarrow> expr res" where
  "function_call name spec =
     (case agg_from_name name of
        Some f \<Rightarrow> aggregate_call name f (fst spec) (snd spec)
      | None \<Rightarrow> and_then (materialize_args (fst spec)) (scalar_call name))"

section \<open>Expressions\<close>

definition negate_if :: "bool \<Rightarrow> expr \<Rightarrow> expr" where
  "negate_if negated e = (if negated then ENot e else e)"

definition eq_bool :: "binary_op \<Rightarrow> bool \<Rightarrow> expr \<Rightarrow> expr" where
  "eq_bool op b e = EBinary op e (ELiteral (LBool b))"

definition in_list_step :: "expr \<Rightarrow> expr option \<Rightarrow> expr \<Rightarrow> expr option" where
  "in_list_step target chain item =
     (let cmp = EBinary OpEq target item
      in Some (case chain of None \<Rightarrow> cmp | Some prev \<Rightarrow> EBinary OpOr prev cmp))"

definition in_list_expr :: "expr \<Rightarrow> expr list \<Rightarrow> bool \<Rightarrow> expr" where
  "in_list_expr target items negated =
     negate_if negated (unwrap_or (foldl (in_list_step target) None items) (ELiteral (LBool False)))"

definition between_expr :: "expr \<Rightarrow> expr \<Rightarrow> expr \<Rightarrow> bool \<Rightarrow> expr" where
  "between_expr e low high negated =
     negate_if negated (EBinary OpAnd (EBinary OpGtEq e low) (EBinary OpLtEq e high))"

definition unwrap_none :: string where
  "unwrap_none = ''called `Option::unwrap()` on a `None` value''"

fun build_expr :: "sql_expr \<Rightarrow> expr res"
and extract_args :: "fn_arguments \<Rightarrow> (arg_spec list \<times> bool) res"
and extract_arg :: "fn_arg \<Rightarrow> arg_spec res"
and extract_arg_expr :: "string \<Rightarrow> fn_arg_expr \<Rightarrow> arg_spec res" where
  "build_expr (SIdentifier n) = Ok (EColumn n)"
| "build_expr (SCompoundIdentifier parts) =
     (if parts = [] then Panic unwrap_none else Ok (EColumn (last parts)))"
| "build_expr SWildcard = Ok EStar"
| "build_expr (SQualifiedWildcard parts) =
     (if parts = [] then Err (ErrSql ''qualified wildcard with no parts'')
      else Ok (EColumn (last parts)))"
| "build_expr (SValue v) = and_then (literal_from_value v) (\<lambda>l. Ok (ELiteral l))"
| "build_expr (SBinary l op r) =
     and_then (ok_or (binop_from_sql op)
                (ErrSql (''unsupported binary operator: '' @ binop_debug op))) (\<lambda>bop.
     and_then (build_expr l) (\<lambda>le. and_then (build_expr r) (\<lambda>re. Ok (EBinary bop le re))))"
| "build_expr (SUnary op e) =
     (case op of
        SuNot \<Rightarrow> and_then (build_expr e) (\<lambda>x. Ok (ENot x))
      | SuMinus \<Rightarrow> and_then (build_expr e) (\<lambda>x. Ok (EBinary OpSub (ELiteral (LInt 0)) x))
      | SuPlus \<Rightarrow> build_expr e
      | SuOther t \<Rightarrow> Err (ErrSql (''unsupported unary operator: '' @ t)))"
| "build_expr (SIsNull e) = and_then (build_expr e) (\<lambda>x. Ok (EIsNull x))"
| "build_expr (SIsNotNull e) = and_then (build_expr e) (\<lambda>x. Ok (EIsNotNull x))"
| "build_expr (SIsTrue e) = and_then (build_expr e) (\<lambda>x. Ok (eq_bool OpEq True x))"
| "build_expr (SIsFalse e) = and_then (build_expr e) (\<lambda>x. Ok (eq_bool OpEq False x))"
| "build_expr (SIsNotTrue e) = and_then (build_expr e) (\<lambda>x. Ok (eq_bool OpNotEq True x))"
| "build_expr (SIsNotFalse e) = and_then (build_expr e) (\<lambda>x. Ok (eq_bool OpNotEq False x))"
| "build_expr (SNested e) = build_expr e"
| "build_expr (SLike negated e pat) =
     and_then (build_expr e) (\<lambda>x. and_then (build_expr pat) (\<lambda>p.
       Ok (negate_if negated (EBinary OpLike x p))))"
| "build_expr (SILike negated e pat) =
     and_then (build_expr e) (\<lambda>x. and_then (build_expr pat) (\<lambda>p.
       Ok (negate_if negated (EBinary OpLike x p))))"
| "build_expr (SBetween e negated low high) =
     and_then (build_expr e) (\<lambda>x. and_then (build_expr low) (\<lambda>lo.
     and_then (build_expr high) (\<lambda>hi. Ok (between_expr x lo hi negated))))"
| "build_expr (SInList e items negated) =
     and_then (build_expr e) (\<lambda>target. and_then (map_res build_expr items) (\<lambda>xs.
       Ok (in_list_expr target xs negated)))"
| "build_expr (SFunction name args) =
     and_then (extract_args args) (function_call (to_ascii_lowercase name))"
| "build_expr (SCast e) = build_expr e"
| "build_expr SSubquery = Err (ErrSql ''scalar subqueries are not yet supported'')"
| "build_expr (SOther t) = Err (ErrSql (''unsupported SQL expression: '' @ t))"
| "extract_args FaNone = Ok ([], False)"
| "extract_args FaSubquery = Err (ErrSql ''function subquery arguments are not supported'')"
| "extract_args (FaList args dup) =
     and_then (map_res extract_arg args) (\<lambda>out. Ok (out, dup = Some DupDistinct))"
| "extract_arg (ArgUnnamed a) = extract_arg_expr ''unsupported function argument kind'' a"
| "extract_arg (ArgNamed a) = extract_arg_expr ''unsupported qualified function argument'' a"
| "extract_arg ArgOther = Err (ErrSql ''unsupported function argument kind'')"
| "extract_arg_expr msg (AeExpr e) = and_then (build_expr e) (\<lambda>x. Ok (ArgExpr x))"
| "extract_arg_expr msg AeWildcard = Ok ArgWildcard"
| "extract_arg_expr msg AeQualifiedWildcard = Err (ErrSql msg)"

section \<open>Clauses\<close>

definition select_item_expr :: "select_item \<Rightarrow> expr res" where
  "select_item_expr item =
     (case item of
        ItemUnnamed e \<Rightarrow> build_expr e
      | ItemAlias e a \<Rightarrow> and_then (build_expr e) (\<lambda>x. Ok (EAliased x a))
      | ItemQualifiedWildcard \<Rightarrow> Ok EStar
      | ItemWildcard \<Rightarrow> Ok EStar)"

definition build_select_expressions :: "sql_select \<Rightarrow> expr list res" where
  "build_select_expressions sel = map_res select_item_expr (sel_projection sel)"

definition build_group_by :: "group_by \<Rightarrow> expr list res" where
  "build_group_by g = (case g of GroupAll \<Rightarrow> Ok [] | GroupExprs es \<Rightarrow> map_res build_expr es)"

definition combine_and :: "expr list \<Rightarrow> expr" where
  "combine_and es =
     (case es of [] \<Rightarrow> ELiteral (LBool True) | e # rest \<Rightarrow> foldl (EBinary OpAnd) e rest)"

definition qualified_column :: "string option \<Rightarrow> string \<Rightarrow> expr" where
  "qualified_column alias n = EColumn (case alias of Some a \<Rightarrow> a @ ''.'' @ n | None \<Rightarrow> n)"

definition build_join_constraint ::
  "join_constraint \<Rightarrow> string option \<Rightarrow> string option \<Rightarrow> expr option res" where
  "build_join_constraint c la ra =
     (case c of
        ConOn e \<Rightarrow> and_then (build_expr e) (\<lambda>x. Ok (Some x))
      | ConUsing ids \<Rightarrow> Ok (Some (combine_and
          (map (\<lambda>n. EBinary OpEq (qualified_column la n) (qualified_column ra n)) ids)))
      | ConNatural \<Rightarrow> Ok None
      | ConNone \<Rightarrow> Ok None)"

definition build_table_factor :: "table_factor \<Rightarrow> (string \<times> string option \<times> string list) res" where
  "build_table_factor f =
     (case f of FactorTable n a \<Rightarrow> Ok (n, a, [])
      | FactorOther t \<Rightarrow> Err (ErrSql (''unsupported table factor: '' @ t)))"

datatype join_kind = KInner | KLeft | KRight | KFull

fun build_join_operator :: "join_operator \<Rightarrow> join_kind" where
  "build_join_operator (JoInner c) = KInner"
| "build_join_operator (JoLeftOuter c) = KLeft"
| "build_join_operator (JoRightOuter c) = KRight"
| "build_join_operator (JoFullOuter c) = KFull"
| "build_join_operator _ = KInner"

definition factor_name :: "table_factor \<Rightarrow> (string \<times> string option) res" where
  "factor_name f = and_then (build_table_factor f) (\<lambda>(n, a, _). Ok (n, a))"

definition build_from_tables :: "table_with_joins list \<Rightarrow> (string \<times> string option) list res" where
  "build_from_tables tables =
     and_then (map_res (\<lambda>t.
         and_then (factor_name (twj_relation t)) (\<lambda>x.
         and_then (map_res (\<lambda>j. factor_name (join_relation j)) (twj_joins t)) (\<lambda>xs.
           Ok (x # xs)))) tables)
       (\<lambda>xss. Ok (concat xss))"

end
