(* ===== verification/Planner.thy ===== *)
theory Planner
  imports Expr_Builder "HOL-Library.AList"
begin

text \<open>
  \<^verbatim>\<open>rspark-sql/src/parser.rs\<close>, \<^verbatim>\<open>planner.rs\<close>, \<^verbatim>\<open>session.rs\<close>, \<^verbatim>\<open>table_kind.rs\<close>: from SQL text to a
  logical plan against a catalog, and the in-memory catalog of a session. The SQL parser, the
  \<^verbatim>\<open>Debug\<close> text of a plan (shown by EXPLAIN) and the \<^verbatim>\<open>Display\<close> texts of syntax trees (shown by
  messages) are the parameter \<open>sql_lib\<close>.
\<close>

section \<open>Parsing\<close>

record sql_lib =
  parse_statements :: "string \<Rightarrow> string + statement list"
  plan_debug :: "logical_plan \<Rightarrow> string"
  expr_text :: "sql_expr \<Rightarrow> string"
  statement_text :: "statement \<Rightarrow> string"

definition normalize_trailing_semicolon :: "string \<Rightarrow> string" where
  "normalize_trailing_semicolon sql = unwrap_or (strip_suffix '';'' sql) sql"

definition parse_sql :: "sql_lib \<Rightarrow> string \<Rightarrow> statement list res" where
  "parse_sql lib sql =
     (let trimmed = trim sql
      in if trimmed = [] then Err (ErrSql ''empty SQL statement'')
         else case parse_statements lib (normalize_trailing_semicolon trimmed) of
           Inl e \<Rightarrow> Err (ErrSql (''syntax error: '' @ e))
         | Inr sts \<Rightarrow> if sts = [] then Err (ErrSql ''no statements parsed'') else Ok sts)"

section \<open>Table kinds and the catalog trait\<close>

datatype table_kind = Batch | StreamingTable | MaterializedView

fun kind_as_str :: "table_kind \<Rightarrow> string" where
  "kind_as_str Batch = ''batch''"
| "kind_as_str StreamingTable = ''streaming_table''"
| "kind_as_str MaterializedView = ''materialized_view''"

text \<open>The methods of \<^verbatim>\<open>dyn Catalog\<close> that the planner calls.\<close>

record catalog =
  cat_table_schema :: "string \<Rightarrow> schema res"
  cat_table_location :: "string \<Rightarrow> (string \<times> string) res"

section \<open>Planning\<close>

definition eval_limit :: "sql_lib \<Rightarrow> sql_expr \<Rightarrow> nat res" where
  "eval_limit lib e =
     (case e of
        SValue (SvNumber s l) \<Rightarrow>
          (case parse_i64 s of
             None \<Rightarrow> Err (ErrSql (''invalid LIMIT: '' @ s))
           | Some n \<Rightarrow> if sint n < 0 then Err (ErrSql ''LIMIT must be non-negative'')
               else Ok (nat (sint n)))
      | _ \<Rightarrow> Err (ErrSql (''unsupported LIMIT expression: '' @ expr_text lib e)))"

definition join_pairs :: "schema \<Rightarrow> schema \<Rightarrow> (string \<times> string) list" where
  "join_pairs l r =
     concat (map (\<lambda>f. case schema_field_by_name r (field_name f) of
         Some g \<Rightarrow> [(field_name f, field_name g)] | None \<Rightarrow> []) (schema_fields l))"

text \<open>The two alias rules of the match strip aliases, on the left first and then on the right.\<close>

fun unalias :: "expr \<Rightarrow> expr" where
  "unalias (EAliased e a) = unalias e"
| "unalias e = e"

fun expr_strictly_matches :: "expr \<Rightarrow> expr \<Rightarrow> bool" where
  "expr_strictly_matches (EAggregate fa aa da) b =
     (case unalias b of
        EAggregate fb ab db \<Rightarrow> fa = fb \<and> da = db \<and> expr_strictly_matches aa ab | _ \<Rightarrow> False)"
| "expr_strictly_matches (EColumn na) b =
     (case unalias b of EColumn nb \<Rightarrow> na = nb | _ \<Rightarrow> False)"
| "expr_strictly_matches (ELiteral la) b =
     (case unalias b of ELiteral lb \<Rightarrow> literal_eq la lb | _ \<Rightarrow> False)"
| "expr_strictly_matches (EBinary oa la ra) b =
     (case unalias b of
        EBinary ob lb rb \<Rightarrow> oa = ob \<and> expr_strictly_matches la lb \<and> expr_strictly_matches ra rb
      | _ \<Rightarrow> False)"
| "expr_strictly_matches (EAliased aa x) b = expr_strictly_matches aa b"
| "expr_strictly_matches _ b = False"

definition find_projection :: "expr list \<Rightarrow> expr \<Rightarrow> expr option" where
  "find_projection projections e = find (\<lambda>p. expr_strictly_matches p e) projections"

fun rewrite_having :: "expr \<Rightarrow> expr list \<Rightarrow> expr" where
  "rewrite_having (EBinary op l r) ps =
     (case find_projection ps (EBinary op l r) of Some p \<Rightarrow> p
      | None \<Rightarrow> EBinary op (rewrite_having l ps) (rewrite_having r ps))"
| "rewrite_having (ENot e) ps =
     (case find_projection ps (ENot e) of Some p \<Rightarrow> p | None \<Rightarrow> ENot (rewrite_having e ps))"
| "rewrite_having (EIsNull e) ps =
     (case find_projection ps (EIsNull e) of Some p \<Rightarrow> p | None \<Rightarrow> EIsNull (rewrite_having e ps))"
| "rewrite_having (EIsNotNull e) ps =
     (case find_projection ps (EIsNotNull e) of Some p \<Rightarrow> p
      | None \<Rightarrow> EIsNotNull (rewrite_having e ps))"
| "rewrite_having e ps = (case find_projection ps e of Some p \<Rightarrow> p | None \<Rightarrow> e)"

definition build_table_scan :: "catalog \<Rightarrow> string \<Rightarrow> string option \<Rightarrow> logical_plan res" where
  "build_table_scan cat name alias =
     and_then (cat_table_location cat name) (\<lambda>(path, source).
     and_then (cat_table_schema cat name) (\<lambda>s. Ok (build_scan_schema name path source s)))"

definition join_step :: "catalog \<Rightarrow> logical_plan \<Rightarrow> string \<times> string option \<Rightarrow> logical_plan res" where
  "join_step cat p t =
     and_then (build_table_scan cat (fst t) (snd t)) (\<lambda>right.
       let pairs = join_pairs (output_schema p) (output_schema right)
       in and_then (build_join_schema (output_schema p) (output_schema right) pairs) (\<lambda>s.
            Ok (PJoin p right pairs JInner s)))"

definition build_from_clause :: "catalog \<Rightarrow> (string \<times> string option) list \<Rightarrow> logical_plan res" where
  "build_from_clause cat tables =
     (case tables of
        [] \<Rightarrow> Ok PEmpty
      | t # rest \<Rightarrow>
          and_then (build_table_scan cat (fst t) (snd t)) (\<lambda>p. fold_res (join_step cat) p rest))"

definition project_onto :: "logical_plan \<Rightarrow> expr list \<Rightarrow> logical_plan res" where
  "project_onto p es =
     and_then (build_project_schema es (output_schema p)) (\<lambda>s. Ok (PProject p es s))"

definition plan_where :: "sql_expr option \<Rightarrow> logical_plan \<Rightarrow> logical_plan res" where
  "plan_where w p =
     (case w of None \<Rightarrow> Ok p
      | Some e \<Rightarrow> and_then (build_expr e) (\<lambda>x. Ok (PFilter p x (output_schema_owned p))))"

definition plan_having :: "sql_expr option \<Rightarrow> expr list \<Rightarrow> logical_plan \<Rightarrow> logical_plan res" where
  "plan_having h projections p =
     (case h of None \<Rightarrow> Ok p
      | Some e \<Rightarrow> and_then (build_expr e) (\<lambda>x.
          Ok (PFilter p (rewrite_having x projections) (output_schema_owned p))))"

definition plan_output :: "sql_select \<Rightarrow> expr list \<Rightarrow> expr list \<Rightarrow> logical_plan \<Rightarrow> logical_plan res" where
  "plan_output sel projections groups p =
     (let aggs = filter contains_aggregate projections
      in if aggs \<noteq> [] \<or> groups \<noteq> [] then
           and_then (build_aggregate_schema groups aggs) (\<lambda>s.
           and_then (project_onto (PAggregate p groups aggs s) projections) (\<lambda>q.
             plan_having (sel_having sel) projections q))
         else if sel_distinct sel then
           and_then (project_onto p projections) (\<lambda>q. Ok (PDistinct q (output_schema_owned q)))
         else project_onto p projections)"

definition plan_select :: "catalog \<Rightarrow> sql_select \<Rightarrow> logical_plan res" where
  "plan_select cat sel =
     and_then (build_from_tables (sel_from sel)) (\<lambda>tables.
     and_then (build_from_clause cat tables) (\<lambda>p0.
     and_then (plan_where (sel_selection sel) p0) (\<lambda>p1.
     and_then (build_select_expressions sel) (\<lambda>projections.
     and_then (build_group_by (sel_group_by sel)) (\<lambda>groups.
       plan_output sel projections groups p1)))))"

definition plan_order :: "order_item list option \<Rightarrow> logical_plan \<Rightarrow> logical_plan res" where
  "plan_order ob p =
     and_then (map_res (\<lambda>item. and_then (build_expr (order_expr item)) (\<lambda>x.
         Ok \<lparr>sort_key = x, ascending = unwrap_or (order_asc item) True\<rparr>)) (unwrap_or ob []))
       (\<lambda>keys. Ok (if keys \<noteq> [] then PSort p keys (output_schema_owned p) else p))"

definition plan_limit :: "sql_lib \<Rightarrow> sql_expr option \<Rightarrow> logical_plan \<Rightarrow> logical_plan res" where
  "plan_limit lib lm p =
     (case lm of None \<Rightarrow> Ok p
      | Some e \<Rightarrow> and_then (eval_limit lib e) (\<lambda>n. Ok (PLimit p n (output_schema_owned p))))"

fun plan_query :: "sql_lib \<Rightarrow> catalog \<Rightarrow> sql_query \<Rightarrow> logical_plan res"
and plan_setexpr :: "sql_lib \<Rightarrow> catalog \<Rightarrow> set_expr \<Rightarrow> logical_plan res" where
  "plan_query lib cat (Query has_with body ob lm off) =
     (if has_with then Err (ErrSql ''CTE (WITH) not yet supported'')
      else and_then (plan_setexpr lib cat body) (\<lambda>p.
           and_then (plan_order ob p) (plan_limit lib lm)))"
| "plan_setexpr lib cat (SeSelect sel) = plan_select cat sel"
| "plan_setexpr lib cat (SeQuery q) = plan_query lib cat q"
| "plan_setexpr lib cat (SeSetOperation op l r) =
     (case op of
        SetUnion \<Rightarrow> and_then (plan_setexpr lib cat l) (\<lambda>pl. and_then (plan_setexpr lib cat r) (\<lambda>pr.
          Ok (PUnion [pl, pr] (output_schema_owned pl))))
      | SetOther t \<Rightarrow> Err (ErrSql (''unsupported set operation: '' @ t)))"
| "plan_setexpr lib cat (SeOther t) = Err (ErrSql (''unsupported set expression: '' @ t))"

fun plan_statement :: "sql_lib \<Rightarrow> catalog \<Rightarrow> statement \<Rightarrow> logical_plan res" where
  "plan_statement lib cat (StQuery q) = plan_query lib cat q"
| "plan_statement lib cat (StExplain st) =
     and_then (plan_statement lib cat st) (\<lambda>inner.
       Ok (PProject inner [ELiteral (LStr (plan_debug lib inner))]
             (schema_new [field_new ''plan'' TString])))"
| "plan_statement lib cat StShowTables = Ok PEmpty"
| "plan_statement lib cat StUse = Ok PEmpty"
| "plan_statement lib cat st = Err (ErrSql (''unsupported statement: '' @ statement_text lib st))"

definition plan_sql :: "sql_lib \<Rightarrow> catalog \<Rightarrow> string \<Rightarrow> logical_plan res" where
  "plan_sql lib cat sql =
     and_then (parse_sql lib sql) (\<lambda>sts.
     and_then (fold_res (\<lambda>_ st. and_then (plan_statement lib cat st) (\<lambda>p. Ok (Some p))) None sts)
       (\<lambda>last_plan. ok_or last_plan (ErrSql ''no statements to plan'')))"

section \<open>The session catalog\<close>

record table_entry =
  te_path :: string
  te_source :: string
  te_schema :: schema
  te_kind :: table_kind

record session_state =
  tables :: "(string \<times> table_entry) list"

definition session_new :: session_state where
  "session_new = \<lparr>tables = []\<rparr>"

definition register_with_kind ::
  "session_state \<Rightarrow> string \<Rightarrow> string \<Rightarrow> string \<Rightarrow> schema \<Rightarrow> table_kind \<Rightarrow> session_state res" where
  "register_with_kind st name path source s kind =
     Ok (st\<lparr>tables := AList.update name
       \<lparr>te_path = path, te_source = source, te_schema = s, te_kind = kind\<rparr> (tables st)\<rparr>)"

definition session_register ::
  "session_state \<Rightarrow> string \<Rightarrow> string \<Rightarrow> string \<Rightarrow> schema \<Rightarrow> session_state res" where
  "session_register st name path source s = register_with_kind st name path source s Batch"

definition session_unregister :: "session_state \<Rightarrow> string \<Rightarrow> session_state res" where
  "session_unregister st name = Ok (st\<lparr>tables := AList.delete name (tables st)\<rparr>)"

definition register_inferred ::
  "session_state \<Rightarrow> string \<Rightarrow> string \<Rightarrow> string \<Rightarrow> string list \<Rightarrow> session_state res" where
  "register_inferred st name path source names =
     session_register st name path source (schema_new (map (\<lambda>n. field_new n TString) names))"

definition session_lookup :: "session_state \<Rightarrow> string \<Rightarrow> table_entry res" where
  "session_lookup st name =
     ok_or (map_of (tables st) name) (ErrNotFound (''table '' @ squote name @ '' not found''))"

definition session_table_schema :: "session_state \<Rightarrow> string \<Rightarrow> schema res" where
  "session_table_schema st name = and_then (session_lookup st name) (\<lambda>t. Ok (te_schema t))"

definition session_table_location :: "session_state \<Rightarrow> string \<Rightarrow> (string \<times> string) res" where
  "session_table_location st name =
     and_then (session_lookup st name) (\<lambda>t. Ok (te_path t, te_source t))"

definition session_table_kind :: "session_state \<Rightarrow> string \<Rightarrow> table_kind res" where
  "session_table_kind st name = and_then (session_lookup st name) (\<lambda>t. Ok (te_kind t))"

definition session_list_tables :: "session_state \<Rightarrow> string list res" where
  "session_list_tables st = Ok (map fst (tables st))"

definition list_tables_with_kind :: "session_state \<Rightarrow> (string \<times> table_kind) list res" where
  "list_tables_with_kind st = Ok (map (\<lambda>(n, t). (n, te_kind t)) (tables st))"

definition session_catalog :: "session_state \<Rightarrow> catalog" where
  "session_catalog st =
     \<lparr>cat_table_schema = session_table_schema st, cat_table_location = session_table_location st\<rparr>"

end
