(* ===== verification/Show_Create.thy ===== *)
theory Show_Create
  imports Planner
begin

text \<open>
  \<^verbatim>\<open>rspark-sql/src/show_create.rs\<close>: the CREATE TABLE text of a catalog table, with quoting of
  identifiers and of the location, and recognition of SHOW CREATE TABLE.
\<close>

section \<open>Rendering\<close>

fun sql_type :: "data_type \<Rightarrow> string" where
  "sql_type TNull = ''NULL''"
| "sql_type TBoolean = ''BOOLEAN''"
| "sql_type TInt32 = ''INT''"
| "sql_type TInt64 = ''BIGINT''"
| "sql_type TFloat32 = ''FLOAT''"
| "sql_type TFloat64 = ''DOUBLE''"
| "sql_type TString = ''STRING''"
| "sql_type TDate = ''DATE''"
| "sql_type TTimestamp = ''TIMESTAMP''"

definition is_ascii_alphabetic :: "char \<Rightarrow> bool" where
  "is_ascii_alphabetic c = (65 \<le> byte c \<and> byte c \<le> 90 \<or> 97 \<le> byte c \<and> byte c \<le> 122)"

definition ident_start :: "char \<Rightarrow> bool" where
  "ident_start c = (is_ascii_alphabetic c \<or> c = CHR ''_'')"

definition ident_char :: "char \<Rightarrow> bool" where
  "ident_char c = (is_ascii_alphabetic c \<or> is_digit c \<or> c = CHR ''_'')"

text \<open>
  No byte of a non-ASCII character is an ASCII letter, digit or underscore, so the tests on
  characters are the same tests on bytes.
\<close>

definition quote_ident :: "string \<Rightarrow> string" where
  "quote_ident name =
     (if name = [] then [CHR 0x22, CHR 0x22]
      else if \<not> ident_start (hd name) \<or> list_ex (\<lambda>c. \<not> ident_char c) name
      then CHR 0x22 # replace_char (CHR 0x22) [CHR 0x22, CHR 0x22] name @ [CHR 0x22]
      else name)"

definition column_line :: "schema_field \<Rightarrow> string" where
  "column_line f =
     ''  '' @ quote_ident (field_name f) @ '' '' @ sql_type (field_type f) @
     (if field_nullable f then [] else '' NOT NULL'')"

definition newline :: string where
  "newline = [CHR 0x0A]"

definition columns_text :: "schema_field list \<Rightarrow> string" where
  "columns_text fs =
     (if fs = [] then []
      else ''('' @ newline @ join ('','' @ newline) (map column_line fs) @ newline @ '')'')"

definition render_create_table :: "catalog \<Rightarrow> string \<Rightarrow> string res" where
  "render_create_table cat name =
     and_then (cat_table_schema cat name) (\<lambda>s.
     and_then (cat_table_location cat name) (\<lambda>(path, source).
       Ok (''CREATE TABLE '' @ quote_ident name @ '' '' @ columns_text (schema_fields s) @ newline @
           ''USING '' @ source @ newline @
           ''LOCATION '' @ squote (replace_char (CHR 0x27) [CHR 0x27, CHR 0x27] path))))"

section \<open>SHOW CREATE TABLE\<close>

definition try_show_create :: "sql_lib \<Rightarrow> string \<Rightarrow> string option res" where
  "try_show_create lib sql =
     (case parse_statements lib (trim (trim_end_matches (CHR '';'') (trim sql))) of
        Inl e \<Rightarrow> Err (ErrSql (''syntax error: '' @ e))
      | Inr sts \<Rightarrow>
          Ok (case sts of
                StShowCreate ShowTable name # _ \<Rightarrow> Some name
              | _ \<Rightarrow> None))"

end
