(* ===== verification/Sql_Laws.thy ===== *)
theory Sql_Laws
  imports Show_Create
begin

text \<open>
  Laws of the SQL layer: what the built expressions evaluate to, well-formedness of planned
  trees, the catalog contract with the session as its provider, and the quoting of names.
\<close>

section \<open>Built expressions\<close>

lemma eval_coalesce_step:
  assumes "eval rx a r b = Ok v"
  shows "eval rx (coalesce_step a e) r b = (if v = VNull then eval rx e r b else Ok v)"
  using assms by (simp add: coalesce_step_def)

lemma eval_coalesce_stop:
  "eval rx a r b = Ok v \<Longrightarrow> v \<noteq> VNull \<Longrightarrow> eval rx (foldl coalesce_step a es) r b = Ok v"
  by (induction es arbitrary: a) (auto simp: eval_coalesce_step)

lemma eval_coalesce:
  assumes "list_all2 (\<lambda>e v. eval rx e r b = Ok v) (a # es) vs"
  shows "eval rx (foldl coalesce_step a es) r b =
    Ok (case find (\<lambda>v. v \<noteq> VNull) vs of Some v \<Rightarrow> v | None \<Rightarrow> VNull)"
  using assms
proof (induction es arbitrary: a vs)
  case Nil
  then show ?case by (auto simp: list_all2_Cons1)
next
  case (Cons e es)
  obtain v w ws where vs: "vs = v # w # ws" "eval rx a r b = Ok v" "eval rx e r b = Ok w"
    and rest: "list_all2 (\<lambda>e v. eval rx e r b = Ok v) es ws"
    using Cons.prems by (auto simp: list_all2_Cons1)
  show ?case
  proof (cases "v = VNull")
    case True
    then have "eval rx (coalesce_step a e) r b = Ok w" using vs by (simp add: eval_coalesce_step)
    then show ?thesis using Cons.IH [of "coalesce_step a e" "w # ws"] rest vs True by simp
  next
    case False
    then have "eval rx (coalesce_step a e) r b = Ok v" using vs by (simp add: eval_coalesce_step)
    then show ?thesis using eval_coalesce_stop [of rx "coalesce_step a e" r b v es] vs False by simp
  qed
qed

lemma foldl_in_list_Some:
  "\<exists>c. foldl (in_list_step t) (Some p) es = Some c"
  by (induction es arbitrary: p) (auto simp: in_list_step_def)

lemma eval_in_list_chain:
  assumes "eval rx t r b = Ok tv" "tv \<noteq> VNull" "eval rx p r b = Ok (VBoolean x)"
    "list_all2 (\<lambda>e v. eval rx e r b = Ok v \<and> v \<noteq> VNull) es vs"
  shows "eval rx (the (foldl (in_list_step t) (Some p) es)) r b =
    Ok (VBoolean (x \<or> (\<exists>v \<in> set vs. value_eq tv v)))"
  using assms(3,4)
proof (induction es arbitrary: p x vs)
  case (Cons e es)
  obtain v ws where vs: "vs = v # ws" "eval rx e r b = Ok v" "v \<noteq> VNull"
    and rest: "list_all2 (\<lambda>e v. eval rx e r b = Ok v \<and> v \<noteq> VNull) es ws"
    using Cons.prems(2) by (auto simp: list_all2_Cons1)
  have "eval rx (EBinary OpOr p (EBinary OpEq t e)) r b = Ok (VBoolean (x \<or> value_eq tv v))"
    using assms(1,2) Cons.prems(1) vs by (simp add: logical_or_def)
  then show ?case
    using Cons.IH [OF _ rest] vs by (simp add: in_list_step_def Let_def disj_assoc del: eval.simps)
qed simp

lemma eval_in_list:
  assumes "eval rx t r b = Ok tv" "tv \<noteq> VNull"
    "list_all2 (\<lambda>e v. eval rx e r b = Ok v \<and> v \<noteq> VNull) es vs"
  shows "eval rx (in_list_expr t es negated) r b =
    Ok (VBoolean ((\<exists>v \<in> set vs. value_eq tv v) \<noteq> negated))"
proof (cases es)
  case Nil
  then show ?thesis
    using assms(3) by (cases negated) (auto simp: in_list_expr_def unwrap_or_def negate_if_def)
next
  case (Cons e es')
  obtain v ws where vs: "vs = v # ws" "eval rx e r b = Ok v" "v \<noteq> VNull"
    and rest: "list_all2 (\<lambda>e v. eval rx e r b = Ok v \<and> v \<noteq> VNull) es' ws"
    using assms(3) Cons by (auto simp: list_all2_Cons1)
  obtain c where c: "foldl (in_list_step t) (Some (EBinary OpEq t e)) es' = Some c"
    using foldl_in_list_Some by blast
  have "eval rx (EBinary OpEq t e) r b = Ok (VBoolean (value_eq tv v))"
    using assms(1,2) vs by simp
  from eval_in_list_chain [OF assms(1,2) this rest]
  have "eval rx c r b = Ok (VBoolean (\<exists>v \<in> set vs. value_eq tv v))"
    using c vs by simp
  then show ?thesis
    using Cons c by (cases negated) (simp_all add: in_list_expr_def in_list_step_def unwrap_or_def negate_if_def)
qed

text \<open>The whole chain is NULL as soon as one item is, whatever else matched.\<close>

lemma eval_in_list_chain_null:
  assumes "\<exists>tv. eval rx t r b = Ok tv" "eval rx p r b = Ok VNull"
    "\<forall>e \<in> set es. \<exists>v. eval rx e r b = Ok v"
  shows "eval rx (the (foldl (in_list_step t) (Some p) es)) r b = Ok VNull"
  using assms(2,3)
proof (induction es arbitrary: p)
  case (Cons e es)
  obtain tv v where "eval rx t r b = Ok tv" "eval rx e r b = Ok v" using assms(1) Cons.prems by auto
  then have "\<exists>w. eval rx (EBinary OpEq t e) r b = Ok w" by auto
  then have "eval rx (EBinary OpOr p (EBinary OpEq t e)) r b = Ok VNull"
    using eval_binary_null [of rx p r b VNull] Cons.prems(1) by blast
  then show ?case using Cons by (simp add: in_list_step_def Let_def del: eval.simps)
qed simp

lemma eval_between:
  assumes "eval rx e r b = Ok v" "eval rx lo r b = Ok l" "eval rx hi r b = Ok h"
    and "v \<noteq> VNull" "l \<noteq> VNull" "h \<noteq> VNull"
    and "try_cmp v l = Ok p" "try_cmp v h = Ok q"
  shows "eval rx (between_expr e lo hi negated) r b =
    Ok (VBoolean ((p \<noteq> Less \<and> q \<noteq> Greater) \<noteq> negated))"
  using assms
  by (cases negated; cases p; cases q) (simp_all add: between_expr_def negate_if_def logical_and_def)

section \<open>Well-formed plans\<close>

definition projected_width :: "schema \<Rightarrow> expr list \<Rightarrow> nat" where
  "projected_width s es = sum_list (map (\<lambda>e. if e = EStar then field_count s else 1) es)"

text \<open>
  Node by node: filtering, ordering, limiting and removing duplicates keep the schema of the
  input, a projection has one field per expression (a star has the input's), grouping has its
  keys then its aggregates, a join has the merged schema and a union that of its first input.
\<close>

fun plan_wf :: "logical_plan \<Rightarrow> bool" where
  "plan_wf (PScan table path source projection flt s) = True"
| "plan_wf (PProject input es s) =
     (plan_wf input \<and> field_count s = projected_width (output_schema input) es)"
| "plan_wf (PFilter input e s) = (plan_wf input \<and> s = output_schema input)"
| "plan_wf (PAggregate input gs as s) =
     (plan_wf input \<and> s = schema_new (map expr_field gs @ map expr_field as))"
| "plan_wf (PSort input order s) = (plan_wf input \<and> s = output_schema input)"
| "plan_wf (PLimit input n s) = (plan_wf input \<and> s = output_schema input)"
| "plan_wf (PDistinct input s) = (plan_wf input \<and> s = output_schema input)"
| "plan_wf (PJoin l r on how s) =
     (plan_wf l \<and> plan_wf r \<and> how = JInner \<and> s = joined_schema (output_schema l) (output_schema r) on
      \<and> on = join_pairs (output_schema l) (output_schema r))"
| "plan_wf (PUnion ps s) =
     (list_all plan_wf ps \<and> (case ps of p # _ \<Rightarrow> s = output_schema p | [] \<Rightarrow> False))"
| "plan_wf PEmpty = True"

text \<open>Every scan of the plan reads what the catalog says of its table.\<close>

fun scans_from :: "catalog \<Rightarrow> logical_plan \<Rightarrow> bool" where
  "scans_from cat (PScan table path source projection flt s) =
     (cat_table_location cat table = Ok (path, source) \<and> cat_table_schema cat table = Ok s)"
| "scans_from cat (PProject input es s) = scans_from cat input"
| "scans_from cat (PFilter input e s) = scans_from cat input"
| "scans_from cat (PAggregate input gs as s) = scans_from cat input"
| "scans_from cat (PSort input order s) = scans_from cat input"
| "scans_from cat (PLimit input n s) = scans_from cat input"
| "scans_from cat (PDistinct input s) = scans_from cat input"
| "scans_from cat (PJoin l r on how s) = (scans_from cat l \<and> scans_from cat r)"
| "scans_from cat (PUnion ps s) = list_all (scans_from cat) ps"
| "scans_from cat PEmpty = True"

definition planned :: "catalog \<Rightarrow> logical_plan \<Rightarrow> bool" where
  "planned cat p \<longleftrightarrow> plan_wf p \<and> scans_from cat p"

lemma project_fields_width:
  "length (concat (map (project_fields s) es)) = projected_width s es"
  by (induction es)
    (auto simp: projected_width_def project_fields_def field_count_def split: expr.splits)

lemma build_table_scan_planned: "build_table_scan cat n a = Ok p \<Longrightarrow> planned cat p"
  by (auto simp: build_table_scan_def and_then_eq_Ok build_scan_schema_def rename_table_def planned_def)

lemma join_step_planned: "join_step cat p t = Ok q \<Longrightarrow> planned cat p \<Longrightarrow> planned cat q"
  by (auto simp: join_step_def and_then_eq_Ok Let_def joined_schema_build planned_def
      dest!: build_table_scan_planned [unfolded planned_def])

lemma build_from_clause_planned: "build_from_clause cat ts = Ok p \<Longrightarrow> planned cat p"
  by (auto simp: build_from_clause_def and_then_eq_Ok planned_def [of cat PEmpty]
      intro: build_table_scan_planned join_step_planned
      elim!: fold_res_invariant [where P = "planned cat"] split: list.splits)

lemma project_onto_planned: "project_onto p es = Ok q \<Longrightarrow> planned cat p \<Longrightarrow> planned cat q"
  by (auto simp: project_onto_def and_then_eq_Ok build_schema_Ok_iff planned_def field_count_def
      project_fields_width)

lemma plan_clause_planned:
  "plan_where w p = Ok q \<Longrightarrow> planned cat p \<Longrightarrow> planned cat q"
  "plan_having h ps p = Ok q \<Longrightarrow> planned cat p \<Longrightarrow> planned cat q"
  "plan_order ob p = Ok q \<Longrightarrow> planned cat p \<Longrightarrow> planned cat q"
  "plan_limit lib lm p = Ok q \<Longrightarrow> planned cat p \<Longrightarrow> planned cat q"
  by (auto simp: plan_where_def plan_having_def plan_order_def plan_limit_def and_then_eq_Ok
      planned_def split: option.splits if_splits)

lemma plan_output_planned:
  "plan_output sel ps gs p = Ok q \<Longrightarrow> planned cat p \<Longrightarrow> planned cat q"
proof -
  assume ok: "plan_output sel ps gs p = Ok q" and p: "planned cat p"
  have agg: "planned cat (PAggregate p gs as (schema_new (map expr_field gs @ map expr_field as)))" for as
    using p by (simp add: planned_def)
  have dist: "planned cat (PDistinct x (output_schema_owned x))" if "planned cat x" for x
    using that by (simp add: planned_def)
  have proj: "planned cat x" if "project_onto (PAggregate p gs as
      (schema_new (map expr_field gs @ map expr_field as))) es = Ok x" for as es x
    using that agg project_onto_planned by blast
  show ?thesis
    using ok p unfolding plan_output_def Let_def
    by (auto simp: and_then_eq_Ok build_schema_Ok_iff simp del: output_schema_owned_eq
        dest: proj intro: project_onto_planned dist split: if_splits)
      (metis proj plan_clause_planned(2))+
qed

lemma plan_select_planned: "plan_select cat sel = Ok p \<Longrightarrow> planned cat p"
  unfolding plan_select_def and_then_eq_Ok
  by (metis plan_output_planned plan_clause_planned(1) build_from_clause_planned)

lemma plan_query_planned:
  "plan_query lib cat q = Ok p \<Longrightarrow> planned cat p"
  "plan_setexpr lib cat e = Ok p \<Longrightarrow> planned cat p"
proof (induction q and e arbitrary: p and p)
  case (Query has_with body ob lm off)
  then show ?case
    by (auto simp: and_then_eq_Ok intro: plan_clause_planned(3,4) split: if_splits)
next
  case (SeSetOperation op l r)
  then show ?case by (auto simp: and_then_eq_Ok planned_def split: set_operator.splits)
qed (auto intro: plan_select_planned)

lemma plan_statement_planned: "plan_statement lib cat st = Ok p \<Longrightarrow> planned cat p"
proof (induction st arbitrary: p)
  case (StQuery q)
  then show ?case using plan_query_planned(1) by simp
qed (auto simp: and_then_eq_Ok planned_def field_count_def projected_width_def)

lemma plan_sql_planned:
  assumes "plan_sql lib cat sql = Ok p"
  shows "planned cat p"
proof -
  obtain sts where
    f: "fold_res (\<lambda>_ st. and_then (plan_statement lib cat st) (\<lambda>p. Ok (Some p))) None sts = Ok (Some p)"
    using assms by (auto simp: plan_sql_def and_then_eq_Ok ok_or_eq_Ok)
  have "\<forall>q. Some p = Some q \<longrightarrow> planned cat q"
    by (rule fold_res_invariant [OF f, where P = "\<lambda>x. \<forall>q. x = Some q \<longrightarrow> planned cat q"])
      (auto simp: and_then_eq_Ok intro: plan_statement_planned)
  then show ?thesis by simp
qed

section \<open>Executing well-formed plans\<close>

lemma from_records_subset:
  assumes "batch_ok b" "batch_schema b = s" "set rs \<subseteq> set (batch_records b)"
  shows "from_records s rs = Ok \<lparr>batch_schema = s, batch_records = rs\<rparr>"
  using assms by (auto simp: from_records_Ok_iff batch_ok_def)

lemma execute_limit:
  assumes "ctx_ok ctx" "plan_wf (PLimit p n s)" "execute rx ctx p = Ok b"
  shows "execute rx ctx (PLimit p n s) = Ok \<lparr>batch_schema = s, batch_records = take n (batch_records b)\<rparr>"
  using assms execute_schema [OF assms(1,3)] from_records_subset [of b s "take n (batch_records b)"]
  by (auto simp: execute_unary limit_batch_total dest: in_set_takeD)

lemma subseq_set: "subseq xs ys \<Longrightarrow> x \<in> set xs \<Longrightarrow> x \<in> set ys"
  using list_emb_set [of "(=)" xs ys x] by auto

lemma execute_distinct:
  assumes "ctx_ok ctx" "plan_wf (PDistinct p s)" "execute rx ctx p = Ok b"
  shows "execute rx ctx (PDistinct p s) =
    Ok \<lparr>batch_schema = s, batch_records = distinct_loop (batch_records b) {} []\<rparr>"
proof -
  have "set (distinct_loop (batch_records b) {} []) \<subseteq> set (batch_records b)"
    using distinct_loop_props [OF refl, of "batch_records b" "{}" "[]"] subseq_set by auto
  then show ?thesis
    using assms execute_schema [OF assms(1,3)] by (auto simp: execute_unary intro: from_records_subset)
qed

lemma execute_sort:
  assumes "ctx_ok ctx" "plan_wf (PSort p order s)" "execute rx ctx p = Ok b"
    and "sort_batch rx b order = Ok c"
  shows "execute rx ctx (PSort p order s) =
    Ok \<lparr>batch_schema = s, batch_records = sort_by (row_cmp rx order b) (batch_records b)\<rparr>"
  using assms execute_schema [OF assms(1,3)] sort_batch_Ok [OF assms(4)]
    from_records_subset [of b s "sort_by (row_cmp rx order b) (batch_records b)"]
  by (auto simp: execute_unary)

lemma row_ok_list_all2:
  "row_ok s r \<longleftrightarrow> list_all2 (\<lambda>f v. v = VNull \<longrightarrow> field_nullable f) (schema_fields s) (row_values r)"
  by (auto simp: row_ok_def list_all2_conv_all_nth)

lemma list_all2_filter_concat:
  "\<forall>f \<in> set fs. Q f \<longrightarrow> P f (g f) \<Longrightarrow>
   list_all2 P (filter Q fs) (concat (map (\<lambda>f. if Q f then [g f] else []) fs))"
  by (induction fs) auto

lemma joined_row_ok:
  assumes l: "row_ok ls l" and r: "row_ok rs r" and d: "distinct (field_names rs)"
  shows "row_ok (joined_schema ls rs pairs) (joined_row pairs rs l r)"
proof -
  define g where "g f = column_value r (the (index_of rs (field_name f)))" for f :: schema_field
  have idx: "\<exists>i < length (schema_fields rs). f = schema_fields rs ! i \<and> index_of rs (field_name f) = Some i"
    if "f \<in> set (schema_fields rs)" for f
    using that index_of_distinct [OF d] by (auto simp: in_set_conv_nth)
  have "concat (map (\<lambda>f. if is_join_key pairs (field_name f) then []
          else case index_of rs (field_name f) of Some i \<Rightarrow> [column_value r i] | None \<Rightarrow> []) (schema_fields rs))
      = concat (map (\<lambda>f. if \<not> is_join_key pairs (field_name f) then [g f] else []) (schema_fields rs))"
    using idx by (intro arg_cong [where f = concat] map_cong) (auto simp: g_def dest!: idx)
  moreover have "\<forall>f \<in> set (schema_fields rs). g f = VNull \<longrightarrow> field_nullable f"
    using idx r by (fastforce simp: g_def row_ok_def column_value_def record_get_def unwrap_or_def)
  ultimately show ?thesis
    using l by (auto simp: row_ok_list_all2 joined_schema_def joined_row_def
        intro!: list_all2_appendI list_all2_filter_concat)
qed

lemma execute_join:
  assumes "ctx_ok ctx" "plan_wf (PJoin p q on how s)"
    and "execute rx ctx p = Ok lb" "execute rx ctx q = Ok rb"
    and "distinct (field_names (output_schema q))"
  shows "execute rx ctx (PJoin p q on how s) = Ok \<lparr>batch_schema = s, batch_records =
    concat (map (\<lambda>l. map (joined_row on (batch_schema rb) l) (join_matches rb on (batch_schema lb) l))
      (batch_records lb))\<rparr>"
proof -
  have how: "how = JInner" "s = joined_schema (output_schema p) (output_schema q) on"
    using assms(2) by auto
  have lb: "batch_schema lb = output_schema p" "batch_ok lb"
    and rb: "batch_schema rb = output_schema q" "batch_ok rb"
    using execute_schema [OF assms(1)] assms(3,4) by auto
  define out where "out = concat (map (join_rows_of rb on how (batch_schema lb)) (batch_records lb))"
  have out: "out = concat (map (\<lambda>l. map (joined_row on (batch_schema rb) l)
      (join_matches rb on (batch_schema lb) l)) (batch_records lb))"
    by (simp add: out_def join_rows_of_def how cong: map_cong)
  have ok: "\<forall>r \<in> set out. row_ok s r"
    unfolding out how(2)
    using lb rb assms(5) by (auto simp: join_matches_def batch_ok_def intro!: joined_row_ok)
  have "batch_extend (batch_new (output_schema p)) lb = Ok lb"
    using lb by (cases lb) (auto simp: batch_extend_Ok_iff batch_new_def)
  moreover have "join_batches lb rb on how = Ok \<lparr>batch_schema = s, batch_records = out\<rparr>"
  proof -
    have "join_left_loop on how (batch_schema lb) (batch_schema rb) (batch_records lb)
        (batch_records rb) [] = out"
      by (simp add: join_left_loop_eq out_def)
    then show ?thesis using ok lb rb how by (simp add: join_batches_def from_records_Ok_iff)
  qed
  ultimately show ?thesis
    using assms(3,4) ok out by (simp add: execute_children from_records_Ok_iff)
qed

section \<open>The catalog contract\<close>

text \<open>
  What the planner relies on: lookups see the latest registration of a name, registering one
  name leaves the others alone, and a name has a location exactly when it has a schema.
\<close>

locale catalog_contract =
  fixes schema_of :: "'c \<Rightarrow> string \<Rightarrow> schema res"
    and location_of :: "'c \<Rightarrow> string \<Rightarrow> (string \<times> string) res"
    and reg :: "'c \<Rightarrow> string \<Rightarrow> string \<Rightarrow> string \<Rightarrow> schema \<Rightarrow> 'c res"
  assumes reg_total: "\<exists>c'. reg c n path source s = Ok c'"
    and reg_schema: "reg c n path source s = Ok c' \<Longrightarrow>
      schema_of c' m = (if m = n then Ok s else schema_of c m)"
    and reg_location: "reg c n path source s = Ok c' \<Longrightarrow>
      location_of c' m = (if m = n then Ok (path, source) else location_of c m)"
    and same_names: "is_ok (schema_of c n) \<longleftrightarrow> is_ok (location_of c n)"
    and lookup_total: "\<not> panics (schema_of c n)" "\<not> panics (location_of c n)"
begin

definition view :: "'c \<Rightarrow> catalog" where
  "view c = \<lparr>cat_table_schema = schema_of c, cat_table_location = location_of c\<rparr>"

lemma scan_after_reg:
  "reg c n path source s = Ok c' \<Longrightarrow>
   build_table_scan (view c') n a = Ok (PScan n path source None None s)"
  by (simp add: build_table_scan_def view_def reg_schema reg_location build_scan_schema_def
      rename_table_def)

lemma scan_other:
  "reg c n path source s = Ok c' \<Longrightarrow> m \<noteq> n \<Longrightarrow>
   build_table_scan (view c') m a = build_table_scan (view c) m a"
  by (simp add: build_table_scan_def view_def reg_schema reg_location)

lemma scan_known_iff: "is_ok (build_table_scan (view c) n a) \<longleftrightarrow> is_ok (schema_of c n)"
  using same_names [of c n]
  by (cases "location_of c n"; cases "schema_of c n") (auto simp: build_table_scan_def view_def)

lemma scan_no_panic: "\<not> panics (build_table_scan (view c) n a)"
  using lookup_total by (auto simp: build_table_scan_def view_def panics_and_then)

end

lemma session_lookup_register:
  "register_with_kind st n path source s k = Ok st' \<Longrightarrow>
   session_lookup st' m = (if m = n
     then Ok \<lparr>te_path = path, te_source = source, te_schema = s, te_kind = k\<rparr>
     else session_lookup st m)"
  by (auto simp: register_with_kind_def session_lookup_def update_conv' ok_or_def)

interpretation session: catalog_contract session_table_schema session_table_location session_register
proof unfold_locales
  show "\<exists>c'. session_register c n path source s = Ok c'" for c n path source s
    by (simp add: session_register_def register_with_kind_def)
  show "session_table_schema c' m = (if m = n then Ok s else session_table_schema c m)"
    "session_table_location c' m = (if m = n then Ok (path, source) else session_table_location c m)"
    if "session_register c n path source s = Ok c'" for c n path source s c' m
    using that
    by (simp_all add: session_register_def session_table_schema_def session_table_location_def
        session_lookup_register)
  show "is_ok (session_table_schema c n) \<longleftrightarrow> is_ok (session_table_location c n)" for c n
    by (cases "session_lookup c n") (auto simp: session_table_schema_def session_table_location_def)
  show "\<not> panics (session_table_schema c n)" "\<not> panics (session_table_location c n)" for c n
    by (auto simp: session_table_schema_def session_table_location_def session_lookup_def panics_and_then)
qed

lemma session_view: "session.view st = session_catalog st"
  by (simp add: session.view_def session_catalog_def)

lemma session_unregister_lookup:
  "session_unregister st n = Ok st' \<Longrightarrow>
   session_lookup st' m = (if m = n then Err (ErrNotFound (''table '' @ squote n @ '' not found''))
     else session_lookup st m)"
  by (auto simp: session_unregister_def session_lookup_def delete_conv' ok_or_def)

section \<open>Quoting\<close>

text \<open>Reading a quoted identifier back: strip the quotes and undouble the inner ones.\<close>

fun undouble :: "string \<Rightarrow> string" where
  "undouble (a # b # cs) =
     (if a = CHR 0x22 \<and> b = CHR 0x22 then a # undouble cs else a # undouble (b # cs))"
| "undouble cs = cs"

definition unquote_ident :: "string \<Rightarrow> string" where
  "unquote_ident s = (if s \<noteq> [] \<and> hd s = CHR 0x22 then undouble (butlast (tl s)) else s)"

lemma undouble_double:
  "undouble (replace_char (CHR 0x22) [CHR 0x22, CHR 0x22] s) = s"
proof (induction s)
  case (Cons c s)
  show ?case
  proof (cases "c = CHR 0x22")
    case False
    have "undouble (c # t) = c # undouble t" for t using False by (cases t) auto
    then show ?thesis using Cons False by (simp add: replace_char_def)
  qed (use Cons in \<open>simp add: replace_char_def\<close>)
qed (simp add: replace_char_def)

lemma unquote_quote: "unquote_ident (quote_ident n) = n"
proof (cases n)
  case (Cons c cs)
  then show ?thesis
    using undouble_double [of n]
    by (auto simp: quote_ident_def unquote_ident_def ident_start_def is_ascii_alphabetic_def byte_def
        split: if_splits)
qed (simp add: quote_ident_def unquote_ident_def)

end
