(* ===== verification/Exec_Properties.thy ===== *)
theory Exec_Properties
  imports Sql_Laws
begin

text \<open>
  Properties of the operators, the local executor and the file sources.
\<close>

section \<open>Sample data\<close>

definition no_regex :: regex_lib where
  "no_regex = \<lparr>rx_escape = (\<lambda>s. s), rx_new = (\<lambda>s. Inl [])\<rparr>"

definition sales_schema :: schema where
  "sales_schema = schema_new [field_new ''dept'' TString, field_new ''amount'' TInt64]"

definition sales :: record_batch where
  "sales = \<lparr>batch_schema = sales_schema, batch_records =
     [record_new [VString ''b'', VInt64 2], record_new [VString ''a'', VInt64 5],
      record_new [VString ''b'', VNull], record_new [VString ''a'', VInt64 1]]\<rparr>"

definition sales_rows :: "nat list \<Rightarrow> record_batch" where
  "sales_rows is = sales\<lparr>batch_records := map (\<lambda>i. batch_records sales ! i) is\<rparr>"

definition by_amount :: "sort_expr list" where
  "by_amount = [\<lparr>sort_key = EColumn ''amount'', ascending = True\<rparr>]"

text \<open>A source that returns the sample whatever the path, under any schema that fits it.\<close>

definition sales_source :: data_source where
  "sales_source = \<lparr>ds_name = ''sales'', ds_infer_schema = (\<lambda>p. Ok sales_schema),
     ds_scan = (\<lambda>p so. case so of Some s \<Rightarrow> from_records s (batch_records sales) | None \<Rightarrow> Ok sales)\<rparr>"

definition sales_ctx :: execution_context where
  "sales_ctx = \<lparr>source_registry = \<lparr>sources = [''sales'' \<mapsto> sales_source], async_sources = Map.empty\<rparr>,
     default_parallelism = 1\<rparr>"

definition scan_sales :: logical_plan where
  "scan_sales = PScan ''sales'' ''f'' ''sales'' None None sales_schema"

lemmas sample_defs = no_regex_def sales_schema_def sales_def sales_rows_def by_amount_def
  sales_source_def sales_ctx_def scan_sales_def

lemma sort_sales: "sort_batch no_regex sales by_amount = Ok (sales_rows [2, 3, 0, 1])"
  by code_simp

lemma execute_scan_sales: "execute no_regex sales_ctx scan_sales = Ok sales"
  by code_simp

lemma sales_contract: "source_contract sales_source"
  by unfold_locales (auto simp: sales_source_def from_records_Ok_iff batch_ok_def)

lemma sales_ctx_ok: "ctx_ok sales_ctx" "sources_total sales_ctx"
  using sales_contract
  by (auto simp: ctx_ok_def sources_total_def sales_ctx_def sales_source_def split: if_splits option.splits)

section \<open>Sorting and limiting\<close>



text \<open>A well-formed LIMIT over a query that succeeds succeeds, and returns the first rows of
  its result, at most the given number.\<close>

theorem limit_takes_prefix:
  assumes "ctx_ok ctx" "plan_wf (PLimit p n s)" "execute rx ctx p = Ok b"
  shows "\<exists>c. execute rx ctx (PLimit p n s) = Ok c \<and> batch_records c = take n (batch_records b) \<and>
    batch_len c = min n (batch_len b)"
  using execute_limit [OF assms] by (auto simp: batch_len_def min.commute)

theorem limit_takes_prefix_witness:
  "\<exists>c. execute no_regex sales_ctx (PLimit scan_sales 3 sales_schema) = Ok c \<and>
    batch_records c = take 3 (batch_records sales) \<and> batch_len c = min 3 (batch_len sales)"
  by (rule limit_takes_prefix [OF sales_ctx_ok(1) _ execute_scan_sales]) (simp add: scan_sales_def)

section \<open>Filtering, DISTINCT\<close>

text \<open>A filter that succeeds has evaluated its predicate on every row below it, and keeps, in
  order, exactly the rows on which the predicate is true (neither false nor NULL).\<close>

theorem filter_keeps_true_rows:
  assumes "execute rx ctx (PFilter p e s) = Ok b"
  shows "\<exists>c. execute rx ctx p = Ok c \<and>
    batch_records b = filter (\<lambda>r. eval_predicate rx e r c = Ok True) (batch_records c) \<and>
    list_all (\<lambda>r. is_ok (eval_predicate rx e r c)) (batch_records c)"
proof -
  obtain c rs where c: "execute rx ctx p = Ok c"
    "filter_res (\<lambda>r. eval_predicate rx e r c) (batch_records c) = Ok rs" "from_records s rs = Ok b"
    using assms by (auto simp: execute_unary filter_batch_def and_then_eq_Ok)
  have "list_all (\<lambda>r. is_ok (eval_predicate rx e r c)) xs"
    if "filter_res (\<lambda>r. eval_predicate rx e r c) xs = Ok ys" for xs ys
    using that by (induction xs arbitrary: ys) (auto simp: and_then_eq_Ok)
  then show ?thesis
    using c filter_res_eq_filter [OF c(2)] by (auto simp: from_records_Ok_iff)
qed

theorem filter_keeps_true_rows_witness:
  "\<exists>c. execute no_regex sales_ctx scan_sales = Ok c \<and>
    batch_records (sales_rows [2]) =
      filter (\<lambda>r. eval_predicate no_regex (EIsNull (EColumn ''amount'')) r c = Ok True) (batch_records c) \<and>
    list_all (\<lambda>r. is_ok (eval_predicate no_regex (EIsNull (EColumn ''amount'')) r c)) (batch_records c)"
proof (rule filter_keeps_true_rows)
  show "execute no_regex sales_ctx (PFilter scan_sales (EIsNull (EColumn ''amount'')) sales_schema) =
      Ok (sales_rows [2])" by code_simp
qed

text \<open>C31. DISTINCT over a well-formed input keeps a subsequence of the rows, one row per key, and
  every key of the input. When no cell contains a bar, rows share a key exactly when the
  texts of their cells agree.\<close>

theorem distinct_keeps_one_row_per_key:
  assumes "ctx_ok ctx" "plan_wf (PDistinct p s)" "execute rx ctx p = Ok b"
  shows "\<exists>c. execute rx ctx (PDistinct p s) = Ok c \<and> subseq (batch_records c) (batch_records b) \<and>
    distinct (map distinct_key (batch_records c)) \<and>
    distinct_key ` set (batch_records c) = distinct_key ` set (batch_records b) \<and>
    (\<forall>r \<in> set (batch_records b). \<forall>r' \<in> set (batch_records b). bar_free r \<longrightarrow> bar_free r' \<longrightarrow>
       (distinct_key r = distinct_key r' \<longleftrightarrow>
        map cast_to_string (row_values r) = map cast_to_string (row_values r')))"
proof -
  have "length (row_values r) = length (row_values r')"
    if "r \<in> set (batch_records b)" "r' \<in> set (batch_records b)" for r r'
    using that execute_schema [OF assms(1,3)] by (auto simp: batch_ok_def row_ok_def)
  then have "distinct_key r = distinct_key r' \<longleftrightarrow>
      map cast_to_string (row_values r) = map cast_to_string (row_values r')"
    if "r \<in> set (batch_records b)" "r' \<in> set (batch_records b)" "bar_free r" "bar_free r'" for r r'
    using that by (metis distinct_key_def distinct_key_inj)
  moreover obtain D where "D = distinct_loop (batch_records b) {} []" "subseq D (batch_records b)"
    "distinct (map distinct_key D)" "distinct_key ` set D = distinct_key ` set (batch_records b)"
    using distinct_loop_props [OF refl, of "batch_records b" "{}" "[]"] by auto
  ultimately show ?thesis using execute_distinct [OF assms] by simp
qed

theorem distinct_keeps_one_row_per_key_witness:
  "\<exists>c. execute no_regex sales_ctx (PDistinct scan_sales sales_schema) = Ok c \<and>
    subseq (batch_records c) (batch_records sales)"
proof -
  have "plan_wf (PDistinct scan_sales sales_schema)" by (simp add: scan_sales_def)
  from distinct_keeps_one_row_per_key [OF sales_ctx_ok(1) this execute_scan_sales]
  show ?thesis by blast
qed

text \<open>Cells with a bar defeat the concatenated key: two different rows are treated as
  duplicates and the second is dropped.\<close>

theorem distinct_drops_different_row:
  "distinct_loop [record_new [VString ''a|b'', VString ''c''], record_new [VString ''a'', VString ''b|c'']] {} [] =
     [record_new [VString ''a|b'', VString ''c'']]"
  by code_simp

section \<open>Joins\<close>

text \<open>A join that succeeds is an inner or a left join, and its rows are, for each left row in
  order, the left row combined with every matching right row in order; a left join adds,
  for a left row with no match, the row padded with NULLs.\<close>

theorem join_batches_relational:
  assumes "join_batches left right pairs how = Ok b"
  shows "how \<in> {JInner, JLeft} \<and>
    batch_schema b = joined_schema (batch_schema left) (batch_schema right) pairs \<and>
    batch_records b = concat (map (\<lambda>l.
      let ms = filter (\<lambda>r. join_cond (batch_schema left) (batch_schema right) l r pairs) (batch_records right)
      in if ms = [] \<and> how = JLeft then [padded_row pairs (batch_schema right) l]
         else map (joined_row pairs (batch_schema right) l) ms) (batch_records left))"
proof -
  have "how \<in> {JInner, JLeft}" using assms by (cases how) (auto simp: join_batches_def)
  moreover have "join_rows_of right pairs how (batch_schema left) = (\<lambda>l.
      let ms = filter (\<lambda>r. join_cond (batch_schema left) (batch_schema right) l r pairs) (batch_records right)
      in if ms = [] \<and> how = JLeft then [padded_row pairs (batch_schema right) l]
         else map (joined_row pairs (batch_schema right) l) ms)"
    by (simp add: fun_eq_iff join_rows_of_def join_matches_def Let_def)
  ultimately show ?thesis using join_batches_Ok [OF assms] by simp
qed

theorem join_batches_relational_witness:
  "[record_new [VString ''a'', VInt64 5, VInt64 1]] = concat (map (\<lambda>l.
      let ms = filter (\<lambda>r. join_cond sales_schema sales_schema l r [(''dept'', ''dept'')])
                 (batch_records (sales_rows [3]))
      in if ms = [] \<and> JInner = JLeft then [padded_row [(''dept'', ''dept'')] sales_schema l]
         else map (joined_row [(''dept'', ''dept'')] sales_schema l) ms) (batch_records (sales_rows [1])))"
proof -
  have "join_batches (sales_rows [1]) (sales_rows [3]) [(''dept'', ''dept'')] JInner =
      Ok \<lparr>batch_schema = schema_new (schema_fields sales_schema @ [field_new ''amount'' TInt64]),
         batch_records = [record_new [VString ''a'', VInt64 5, VInt64 1]]\<rparr>" by code_simp
  moreover have "batch_schema (sales_rows is) = sales_schema" for "is"
    by (simp add: sales_rows_def sales_def)
  ultimately show ?thesis using join_batches_relational by fastforce
qed



section \<open>Aggregation\<close>

text \<open>C4. Grouping returns one row per distinct group key, in the order of the keys. The row holds
  the grouping values of the first row of the group, then for every aggregate the final
  value of its accumulator run over the group's rows in input order.\<close>

theorem aggregate_batch_groups:
  assumes "aggregate_batch rx gs as b out = Ok b'"
  shows "batch_schema b' = out \<and> batch_records b' =
    map (\<lambda>k. let rows = filter (\<lambda>r. row_group rx gs b r = k) (batch_records b)
             in record_new (group_vals rx gs b (hd rows) @ map (\<lambda>e. acc_finish (agg_run rx b rows e)) as))
      (sorted_list_of_set (row_group rx gs b ` set (batch_records b)))"
  using aggregate_batch_Ok [OF assms]
  by (simp add: group_row_def group_spec_def rows_in_group_def group_keys_def Let_def comp_def)

text \<open>The grouped sample: one row per department, with its row count.\<close>

definition dept_counts :: record_batch where
  "dept_counts = \<lparr>batch_schema = schema_new [field_new ''dept'' TString, field_new ''n'' TInt64],
     batch_records = [record_new [VString ''a'', VInt64 2], record_new [VString ''b'', VInt64 1]]\<rparr>"

theorem aggregate_batch_groups_witness:
  "batch_records dept_counts =
    map (\<lambda>k. let rows = filter (\<lambda>r. row_group no_regex [EColumn ''dept''] sales r = k) (batch_records sales)
             in record_new (group_vals no_regex [EColumn ''dept''] sales (hd rows) @
                  map (\<lambda>e. acc_finish (agg_run no_regex sales rows e))
                    [EAggregate AggCount (EColumn ''amount'') False]))
      (sorted_list_of_set (row_group no_regex [EColumn ''dept''] sales ` set (batch_records sales)))"
proof -
  have "aggregate_batch no_regex [EColumn ''dept''] [EAggregate AggCount (EColumn ''amount'') False]
      sales (batch_schema dept_counts) = Ok dept_counts" by code_simp
  from aggregate_batch_groups [OF this] show ?thesis by blast
qed

text \<open>COUNT gives the number of rows of the group whose argument is not NULL, modulo the
  64-bit width, and DISTINCT makes no difference to it.\<close>

theorem count_counts_non_null:
  "acc_finish (agg_run rx b rs (EAggregate AggCount arg d)) =
     VInt64 (of_nat (length (filter (\<lambda>v. v \<noteq> VNull) (arg_values rx b rs arg))))"
  by (simp add: agg_run_fold fold_count)

text \<open>C34. Over arguments of one comparison class, MIN and MAX are NULL when no argument is
  present, and otherwise an argument that is at most (at least) every other.\<close>

theorem min_max_extremal:
  assumes "\<forall>v \<in> set (arg_values rx b rs arg). in_class c v"
  shows "extremal le_val
      (case acc_finish (agg_run rx b rs (EAggregate AggMin arg d)) of VNull \<Rightarrow> None | v \<Rightarrow> Some v)
      (filter (\<lambda>v. v \<noteq> VNull) (arg_values rx b rs arg)) \<and>
    extremal (\<lambda>x y. le_val y x)
      (case acc_finish (agg_run rx b rs (EAggregate AggMax arg d)) of VNull \<Rightarrow> None | v \<Rightarrow> Some v)
      (filter (\<lambda>v. v \<noteq> VNull) (arg_values rx b rs arg))"
proof -
  have id: "(case acc_finish (AccMin slot) of VNull \<Rightarrow> None | v \<Rightarrow> Some v) = slot"
    "(case acc_finish (AccMax slot) of VNull \<Rightarrow> None | v \<Rightarrow> Some v) = slot"
    if "extremal P slot (filter (\<lambda>v. v \<noteq> VNull) vs)" for P slot vs
    using that by (cases slot; auto simp: extremal_def split: val.splits)+
  show ?thesis
    using fold_min [OF assms, of d] fold_max [OF assms, of d]
    by (auto simp: agg_run_fold) (metis id)+
qed

theorem min_max_extremal_witness:
  "extremal le_val
      (case acc_finish (agg_run no_regex sales (batch_records sales) (EAggregate AggMin (EColumn ''amount'') False))
       of VNull \<Rightarrow> None | v \<Rightarrow> Some v)
      (filter (\<lambda>v. v \<noteq> VNull) (arg_values no_regex sales (batch_records sales) (EColumn ''amount'')))"
proof -
  have "arg_values no_regex sales (batch_records sales) (EColumn ''amount'') =
      [VInt64 2, VInt64 5, VNull, VInt64 1]" by code_simp
  then have "\<forall>v \<in> set (arg_values no_regex sales (batch_records sales) (EColumn ''amount'')). in_class CInt v"
    by simp
  from min_max_extremal [OF this] show ?thesis by blast
qed

section \<open>Executing plans\<close>

text \<open>C1. A query that succeeds returns a batch with the output schema of its plan, all of whose
  rows are valid under that schema, provided every registered source returns what it is
  asked for.\<close>

theorem execute_result_valid:
  assumes "ctx_ok ctx" "execute rx ctx p = Ok b"
  shows "batch_schema b = output_schema p \<and> batch_ok b"
  using assms by (rule execute_schema)

theorem execute_result_valid_witness:
  "batch_schema sales = output_schema scan_sales \<and> batch_ok sales"
  by (rule execute_result_valid [OF sales_ctx_ok(1) execute_scan_sales])

text \<open>C33. The default registry's CSV and JSON sources do: whatever the files and the parsing
  crates return, a scan is an error or a valid batch of the requested schema, and never a
  panic.\<close>

theorem default_sources_keep_contract:
  "ctx_ok \<lparr>source_registry = registry_with_defaults (csv_source fs clib) (json_source fs jlib),
     default_parallelism = n\<rparr>"
  by (rule ctx_ok_defaults) simp



text \<open>Seeding an execution with a batch bypasses all operators below the root when the file
  scan fails: under a projection over a filter the seeded rows are projected unfiltered.\<close>

theorem seeded_execution_skips_filter:
  assumes "execute rx ctx (PFilter q e f) = Err err"
  shows "execute_with_input rx ctx (PProject (PFilter q e f) es s) input = project_batch rx es s input"
proof -
  have "materialize_input rx ctx (PProject (PFilter q e f) es s) = Err err" using assms by simp
  from execute_with_input_failed [OF this] show ?thesis by simp
qed

theorem seeded_execution_skips_filter_witness:
  "execute_with_input no_regex sales_ctx
     (PProject (PFilter (PScan ''t'' ''f'' ''kafka'' None None sales_schema) (ELiteral (LBool False)) sales_schema)
       [EStar] sales_schema) sales = project_batch no_regex [EStar] sales_schema sales"
proof (rule seeded_execution_skips_filter)
  show "execute no_regex sales_ctx
      (PFilter (PScan ''t'' ''f'' ''kafka'' None None sales_schema) (ELiteral (LBool False)) sales_schema) =
    Err (ErrNotFound (''data source '' @ squote ''kafka'' @ '' not registered''))" by code_simp
qed

section \<open>Files\<close>



text \<open>Type inference reads the cell \<open>none\<close> as a missing value, the scan under the inferred
  integer type reads the same cell as the string.\<close>

theorem csv_none_inferred_but_not_read_as_null:
  "infer_columns (map (map parse_csv_value) [[''1''], [''none'']]) [''n''] = [TInt64] \<and>
   coerce_value ''none'' TInt64 = VString ''none''"
  by code_simp

end
