(* ===== verification/Query_Properties.thy ===== *)
theory Query_Properties
  imports Exec_Properties
begin

text \<open>
  The relational meaning of a query plan, and that the local executor computes it. A plan denotes
  a relation to lists of rows, given clause by clause without the batches, accumulating loops,
  validation passes and hash sets of the executor: \<open>answers rx ctx p rows\<close> says that \<open>rows\<close> is an
  answer to \<open>p\<close> over what the registered sources return.
\<close>

section \<open>Meaning of plans\<close>

text \<open>The rows of an answer with the column names they are read by.\<close>

definition relation_of :: "logical_plan \<Rightarrow> row list \<Rightarrow> record_batch" where
  "relation_of p rows = \<lparr>batch_schema = output_schema p, batch_records = rows\<rparr>"

definition projects :: "regex_lib \<Rightarrow> expr list \<Rightarrow> record_batch \<Rightarrow> row \<Rightarrow> row \<Rightarrow> bool" where
  "projects rx es b r r' \<longleftrightarrow>
     (\<exists>vss. list_all2 (\<lambda>e vs. project_values rx e r b = Ok vs) es vss \<and> r' = record_new (concat vss))"

definition satisfies :: "regex_lib \<Rightarrow> expr \<Rightarrow> record_batch \<Rightarrow> row \<Rightarrow> bool" where
  "satisfies rx e b r \<longleftrightarrow> eval_predicate rx e r b = Ok True"

definition group_answer :: "regex_lib \<Rightarrow> expr list \<Rightarrow> expr list \<Rightarrow> record_batch \<Rightarrow> string list \<Rightarrow> row" where
  "group_answer rx gs as b k =
     (let rows = filter (\<lambda>r. row_group rx gs b r = k) (batch_records b)
      in record_new (group_vals rx gs b (hd rows) @ map (\<lambda>e. acc_finish (agg_run rx b rows e)) as))"

text \<open>
  Rows rearranged by their keys: nothing is lost or added, and where the keys of a column are
  comparable (all integers, all texts) the rows come in order, equal keys in their old order.
\<close>

definition rearranged :: "regex_lib \<Rightarrow> sort_expr list \<Rightarrow> record_batch \<Rightarrow> row list \<Rightarrow> bool" where
  "rearranged rx order b rows' \<longleftrightarrow> mset rows' = mset (batch_records b) \<and>
     (\<forall>cs. set (batch_records b) \<subseteq> keyed_rows rx order b cs \<longrightarrow>
        sorted_wrt (\<lambda>r r'. row_cmp rx order b r r' \<noteq> Greater) rows' \<and>
        (\<forall>k \<in> keyed_rows rx order b cs. filter (\<lambda>r. row_cmp rx order b k r = Equal) rows' =
           filter (\<lambda>r. row_cmp rx order b k r = Equal) (batch_records b)))"

definition one_per_key :: "row list \<Rightarrow> row list \<Rightarrow> bool" where
  "one_per_key rows rows' \<longleftrightarrow> subseq rows' rows \<and> distinct (map distinct_key rows') \<and>
     distinct_key ` set rows' = distinct_key ` set rows"

definition join_answer ::
  "(string \<times> string) list \<Rightarrow> join_type \<Rightarrow> record_batch \<Rightarrow> record_batch \<Rightarrow> row list" where
  "join_answer on how left right = concat (map (\<lambda>l.
     let ms = filter (\<lambda>r. join_cond (batch_schema left) (batch_schema right) l r on) (batch_records right)
     in if ms = [] \<and> how = JLeft then [padded_row on (batch_schema right) l]
        else map (joined_row on (batch_schema right) l) ms) (batch_records left))"

inductive answers :: "regex_lib \<Rightarrow> execution_context \<Rightarrow> logical_plan \<Rightarrow> row list \<Rightarrow> bool"
  for rx :: regex_lib and ctx :: execution_context where
  scan: "registry_get (source_registry ctx) source = Ok src \<Longrightarrow> ds_scan src path (Some s) = Ok b \<Longrightarrow>
     answers rx ctx (PScan table path source projection flt s) (batch_records b)"
| empty: "answers rx ctx PEmpty []"
| star: "answers rx ctx p rows \<Longrightarrow> answers rx ctx (PProject p [EStar] s) rows"
| project: "es \<noteq> [EStar] \<Longrightarrow> answers rx ctx p rows \<Longrightarrow>
     list_all2 (projects rx es (relation_of p rows)) rows rows' \<Longrightarrow> answers rx ctx (PProject p es s) rows'"
| filter: "answers rx ctx p rows \<Longrightarrow>
     \<forall>r \<in> set rows. is_ok (eval_predicate rx e r (relation_of p rows)) \<Longrightarrow>
     answers rx ctx (PFilter p e s) (filter (satisfies rx e (relation_of p rows)) rows)"
| aggregate: "answers rx ctx p rows \<Longrightarrow> b = relation_of p rows \<Longrightarrow>
     answers rx ctx (PAggregate p gs as s)
       (map (group_answer rx gs as b) (sorted_list_of_set (row_group rx gs b ` set rows)))"
| sort: "answers rx ctx p rows \<Longrightarrow> rearranged rx order (relation_of p rows) rows' \<Longrightarrow>
     answers rx ctx (PSort p order s) rows'"
| limit: "answers rx ctx p rows \<Longrightarrow> answers rx ctx (PLimit p n s) (take n rows)"
| distinct: "answers rx ctx p rows \<Longrightarrow> one_per_key rows rows' \<Longrightarrow> answers rx ctx (PDistinct p s) rows'"
| join: "how \<in> {JInner, JLeft} \<Longrightarrow> answers rx ctx l ls \<Longrightarrow> answers rx ctx r rs \<Longrightarrow>
     answers rx ctx (PJoin l r on how s) (join_answer on how (relation_of l ls) (relation_of r rs))"
| union: "length rss = length ps \<Longrightarrow> (\<And>i. i < length ps \<Longrightarrow> answers rx ctx (ps ! i) (rss ! i)) \<Longrightarrow>
     answers rx ctx (PUnion ps s) (concat rss)"

section \<open>What the nodes compute\<close>

lemma project_batch_rows:
  assumes "project_batch rx es s b = Ok c"
  shows "if es = [EStar] then batch_records c = batch_records b
    else list_all2 (projects rx es b) (batch_records b) (batch_records c)"
proof -
  have star: "EStar \<in> set es \<and> length es = 1 \<longleftrightarrow> es = [EStar]" by (cases es) auto
  have row: "projects rx es b r r'" if "project_record rx es r b s = Ok r'" for r r'
    using that by (auto simp: project_record_def and_then_eq_Ok map_res_Ok_iff projects_def Let_def)
  show ?thesis
  proof (cases "es = [EStar]")
    case True
    then show ?thesis using assms by (simp add: project_batch_def from_records_Ok_iff)
  next
    case False
    then have "\<not> (EStar \<in> set es \<and> length es = 1)" using star by blast
    then have eq: "project_batch rx es s b = and_then (map_res (\<lambda>r. project_record rx es r b s) (batch_records b)) (from_records s)"
      unfolding project_batch_def by (rule if_not_P)
    have "list_all2 (\<lambda>r r'. project_record rx es r b s = Ok r') (batch_records b) (batch_records c)"
      using assms [unfolded eq] by (auto simp: and_then_eq_Ok map_res_Ok_iff from_records_Ok_iff)
    then show ?thesis using False row by (auto intro: list_all2_mono)
  qed
qed

lemma filter_res_all_ok: "filter_res f xs = Ok ys \<Longrightarrow> x \<in> set xs \<Longrightarrow> is_ok (f x)"
  by (induction xs arbitrary: ys) (auto simp: and_then_eq_Ok)

lemma filter_batch_rows:
  assumes "filter_batch rx e s b = Ok c"
  shows "batch_records c = filter (satisfies rx e b) (batch_records b)"
    "\<forall>r \<in> set (batch_records b). is_ok (eval_predicate rx e r b)"
proof -
  obtain rs where rs: "filter_res (\<lambda>r. eval_predicate rx e r b) (batch_records b) = Ok rs" "batch_records c = rs"
    using assms by (auto simp: filter_batch_def and_then_eq_Ok from_records_Ok_iff)
  then show "batch_records c = filter (satisfies rx e b) (batch_records b)"
    using filter_res_eq_filter [OF rs(1)] by (simp add: satisfies_def [abs_def])
  show "\<forall>r \<in> set (batch_records b). is_ok (eval_predicate rx e r b)"
    using filter_res_all_ok [OF rs(1)] by blast
qed

lemma aggregate_batch_rows:
  assumes "aggregate_batch rx gs as b s = Ok c"
  shows "batch_records c = map (group_answer rx gs as b) (sorted_list_of_set (row_group rx gs b ` set (batch_records b)))"
  using aggregate_batch_Ok [OF assms]
  by (simp add: group_row_def group_spec_def rows_in_group_def group_keys_def group_answer_def Let_def comp_def)

lemma sort_batch_rows:
  assumes "sort_batch rx b order = Ok c"
  shows "rearranged rx order b (batch_records c)"
  using sort_batch_Ok [OF assms] sort_batch_sorted [OF assms] rows.sort_by_stable
  by (auto simp: rearranged_def)

lemma distinct_rows: "one_per_key rows (distinct_loop rows {} [])"
  using distinct_loop_props [OF refl, of rows "{}" "[]"] by (auto simp: one_per_key_def)

lemma join_batches_rows:
  assumes "join_batches left right on how = Ok c"
  shows "how \<in> {JInner, JLeft}" "batch_records c = join_answer on how left right"
proof -
  show "how \<in> {JInner, JLeft}" using assms by (cases how) (auto simp: join_batches_def)
  have "join_rows_of right on how (batch_schema left) = (\<lambda>l.
      let ms = filter (\<lambda>r. join_cond (batch_schema left) (batch_schema right) l r on) (batch_records right)
      in if ms = [] \<and> how = JLeft then [padded_row on (batch_schema right) l]
         else map (joined_row on (batch_schema right) l) ms)"
    by (simp add: fun_eq_iff join_rows_of_def join_matches_def Let_def)
  then show "batch_records c = join_answer on how left right"
    using join_batches_Ok [OF assms] by (simp add: join_answer_def)
qed

lemma union_rows:
  assumes "fold_res (\<lambda>acc p. and_then (f p) (batch_extend acc)) b ps = Ok c"
  shows "\<exists>bs. list_all2 (\<lambda>p d. f p = Ok d) ps bs \<and> batch_records c = batch_records b @ concat (map batch_records bs)"
  using assms
proof (induction ps arbitrary: b)
  case (Cons p ps)
  then obtain d b' where d: "f p = Ok d" "batch_extend b d = Ok b'"
    "fold_res (\<lambda>acc p. and_then (f p) (batch_extend acc)) b' ps = Ok c"
    by (auto simp: and_then_eq_Ok)
  then obtain bs where "list_all2 (\<lambda>p d. f p = Ok d) ps bs" "batch_records c = batch_records b' @ concat (map batch_records bs)"
    using Cons.IH by blast
  then show ?case using d by (intro exI [of _ "d # bs"]) (simp add: batch_extend_Ok_iff)
qed simp

section \<open>Execution computes answers\<close>

lemma execution_answers:
  assumes "ctx_ok ctx" "execute rx ctx p = Ok b"
  shows "answers rx ctx p (batch_records b)"
proof -
  have rel: "relation_of p (batch_records b) = b" if "execute rx ctx p = Ok b" for p b
    using execute_schema [OF assms(1) that] by (simp add: relation_of_def)
  show "answers rx ctx p (batch_records b)"
    using assms(2)
  proof (induction p arbitrary: b)
    case (PScan table path source projection flt s)
    then obtain src c where "registry_get (source_registry ctx) source = Ok src" "ds_scan src path (Some s) = Ok c"
      "batch_records b = batch_records c"
      by (auto simp: execute.simps [of rx ctx "PScan table path source projection flt s"] and_then_eq_Ok
          batch_is_empty_def batch_new_def split: if_splits)
    then show ?case using answers.scan by metis
  next
    case (PProject p es s)
    then obtain c where c: "execute rx ctx p = Ok c" "project_batch rx es s c = Ok b"
      by (auto simp: execute_unary and_then_eq_Ok)
    then show ?case
      using PProject.IH [OF c(1)] project_batch_rows [OF c(2)] rel [OF c(1)] answers.star answers.project
      by (metis (no_types, lifting))
  next
    case (PFilter p e s)
    then obtain c where c: "execute rx ctx p = Ok c" "filter_batch rx e s c = Ok b"
      by (auto simp: execute_unary and_then_eq_Ok)
    then show ?case
      using answers.filter [OF PFilter.IH [OF c(1)], of e s] filter_batch_rows [OF c(2)] rel [OF c(1)] by simp
  next
    case (PAggregate p gs as s)
    then obtain c where c: "execute rx ctx p = Ok c" "aggregate_batch rx gs as c s = Ok b"
      by (auto simp: execute_unary and_then_eq_Ok)
    then show ?case
      using answers.aggregate [OF PAggregate.IH [OF c(1)] refl, of gs as s] aggregate_batch_rows [OF c(2)] rel [OF c(1)]
      by simp
  next
    case (PSort p order s)
    then obtain c d where c: "execute rx ctx p = Ok c" "sort_batch rx c order = Ok d" "batch_records b = batch_records d"
      by (auto simp: execute_unary and_then_eq_Ok from_records_Ok_iff)
    then show ?case
      using answers.sort [OF PSort.IH [OF c(1)], of order _ s] sort_batch_rows [OF c(2)] rel [OF c(1)] by simp
  next
    case (PLimit p n s)
    then obtain c where c: "execute rx ctx p = Ok c" "batch_records b = take n (batch_records c)"
      by (auto simp: execute_unary and_then_eq_Ok from_records_Ok_iff dest!: limit_batch_Ok)
    then show ?case using answers.limit [OF PLimit.IH [OF c(1)], of n s] by simp
  next
    case (PDistinct p s)
    then obtain c where c: "execute rx ctx p = Ok c" "batch_records b = distinct_loop (batch_records c) {} []"
      by (auto simp: execute_unary and_then_eq_Ok from_records_Ok_iff)
    then show ?case using answers.distinct [OF PDistinct.IH(1) [OF c(1)] distinct_rows, of s] by simp
  next
    case (PJoin l r on how s)
    then obtain lb rb left d where c: "execute rx ctx l = Ok lb" "execute rx ctx r = Ok rb"
      "batch_extend (batch_new (output_schema l)) lb = Ok left" "join_batches left rb on how = Ok d"
      "batch_records b = batch_records d"
      by (auto simp: execute_children and_then_eq_Ok from_records_Ok_iff)
    have "left = lb" using c(3) by (simp add: batch_extend_Ok_iff batch_new_def)
    then show ?case
      using answers.join [OF join_batches_rows(1) [OF c(4)] PJoin.IH(1) [OF c(1)] PJoin.IH(2) [OF c(2)], of on s]
        join_batches_rows(2) [OF c(4)] rel [OF c(1)] rel [OF c(2)] c(5) by simp
  next
    case (PUnion ps s)
    have fold: "fold_res (\<lambda>acc p. and_then (execute rx ctx p) (batch_extend acc)) (batch_new s) ps = Ok b"
      using PUnion.prems by (cases ps) (auto simp: execute_children execute.simps [of _ _ "PUnion [] s"] and_then_eq_Ok)
    obtain bs where bs: "list_all2 (\<lambda>p d. execute rx ctx p = Ok d) ps bs" "batch_records b = concat (map batch_records bs)"
      using union_rows [OF fold] by (auto simp: batch_new_def)
    then have "answers rx ctx (PUnion ps s) (concat (map batch_records bs))"
      by (intro answers.union) (auto simp: list_all2_conv_all_nth intro: PUnion.IH)
    then show ?case using bs(2) by simp
  next
    case PEmpty
    then have "batch_records b = []"
      by (auto simp: execute.simps [of rx ctx PEmpty] batch_is_empty_def batch_new_def split: if_splits)
    then show ?case by (simp add: answers.empty)
  qed
qed

text \<open>C2. Whatever plan it is given, a query that succeeds returns an answer to the plan: the rows of
  its scans, filtered, projected, grouped, sorted, cut, made distinct, joined and united as the
  nodes of the plan say, under the plan's output schema.\<close>

theorem execution_computes_answer:
  assumes "ctx_ok ctx" "execute rx ctx p = Ok b"
  shows "answers rx ctx p (batch_records b) \<and> batch_schema b = output_schema p"
  using execution_answers [OF assms] execute_schema [OF assms] by simp

theorem execution_computes_answer_witness:
  "answers no_regex sales_ctx (PLimit (PSort (PFilter scan_sales
       (EBinary OpGt (EColumn ''amount'') (ELiteral (LInt 1))) sales_schema) by_amount sales_schema) 1 sales_schema)
     [record_new [VString ''b'', VInt64 2]]"
proof -
  have "execute no_regex sales_ctx (PLimit (PSort (PFilter scan_sales
       (EBinary OpGt (EColumn ''amount'') (ELiteral (LInt 1))) sales_schema) by_amount sales_schema) 1 sales_schema) =
     Ok (sales_rows [0])" by code_simp
  from execution_computes_answer [OF sales_ctx_ok(1) this] show ?thesis by (simp add: sample_defs)
qed

end
