(* ===== verification/Sql_Properties.thy ===== *)
theory Sql_Properties
  imports Exec_Properties
begin

text \<open>
  Properties of the SQL layer: planning, built expressions, the session catalog, quoting.
\<close>

section \<open>Sample data\<close>

definition no_row :: row where
  "no_row = record_new []"

definition no_batch :: record_batch where
  "no_batch = batch_new schema_empty"

definition int_lit :: "i64 \<Rightarrow> sql_expr" where
  "int_lit i = SValue (SvNumber (show_i64 i) False)"

definition sales_session :: session_state where
  "sales_session = \<lparr>tables = [(''sales'', \<lparr>te_path = ''f'', te_source = ''sales'',
     te_schema = sales_schema, te_kind = Batch\<rparr>)]\<rparr>"

text \<open>A parser that knows one statement: SELECT * FROM sales WHERE amount IS NULL LIMIT 2.\<close>

definition sales_query :: sql_query where
  "sales_query = Query False (SeSelect \<lparr>sel_distinct = False, sel_projection = [ItemWildcard],
     sel_from = [\<lparr>twj_relation = FactorTable ''sales'' None, twj_joins = []\<rparr>],
     sel_selection = Some (SIsNull (SIdentifier ''amount'')), sel_group_by = GroupExprs [],
     sel_having = None\<rparr>) None (Some (SValue (SvNumber ''2'' False))) None"

definition sales_lib :: sql_lib where
  "sales_lib = \<lparr>parse_statements = (\<lambda>s. Inr [StQuery sales_query]), plan_debug = (\<lambda>p. []),
     expr_text = (\<lambda>e. []), statement_text = (\<lambda>s. [])\<rparr>"

definition sales_plan :: logical_plan where
  "sales_plan = PLimit (PProject (PFilter scan_sales (EIsNull (EColumn ''amount'')) sales_schema)
     [EStar] sales_schema) 2 sales_schema"

lemma plan_sales: "plan_sql sales_lib (session_catalog sales_session) ''q'' = Ok sales_plan"
  by code_simp

section \<open>Planning\<close>



text \<open>What the session catalog was told last about a table is what the planner scans, and
  registering a table changes the scan of no other.\<close>

theorem registered_table_is_scanned:
  assumes "session_register st n path source s = Ok st'"
  shows "build_table_scan (session_catalog st') n a = Ok (PScan n path source None None s) \<and>
    (m \<noteq> n \<longrightarrow> build_table_scan (session_catalog st') m a = build_table_scan (session_catalog st) m a)"
  using session.scan_after_reg [OF assms, unfolded session_view]
    session.scan_other [OF assms, unfolded session_view] by blast

theorem registered_table_is_scanned_witness:
  "build_table_scan (session_catalog sales_session) ''sales'' None =
     Ok (PScan ''sales'' ''f'' ''sales'' None None sales_schema)"
proof -
  have "session_register session_new ''sales'' ''f'' ''sales'' sales_schema = Ok sales_session"
    by (simp add: session_register_def register_with_kind_def session_new_def sales_session_def)
  from registered_table_is_scanned [OF this] show ?thesis by blast
qed

section \<open>Built expressions\<close>

text \<open>COALESCE of arguments that evaluate gives the first that is not NULL, or NULL when all
  are.\<close>

theorem coalesce_first_non_null:
  assumes "scalar_call ''coalesce'' es = Ok e" "list_all2 (\<lambda>e v. eval rx e r b = Ok v) es vs"
  shows "eval rx e r b = Ok (case find (\<lambda>v. v \<noteq> VNull) vs of Some v \<Rightarrow> v | None \<Rightarrow> VNull)"
proof (cases es)
  case Nil
  then show ?thesis using assms by (auto simp: scalar_call_def)
next
  case (Cons a rest)
  then show ?thesis using assms eval_coalesce [of rx r b a rest vs] by (auto simp: scalar_call_def)
qed

theorem coalesce_first_non_null_witness:
  "eval no_regex (EIf (EIsNotNull (ELiteral LNull)) (ELiteral LNull) (ELiteral (LInt 7))) no_row no_batch =
     Ok (case find (\<lambda>v. v \<noteq> VNull) [VNull, VInt64 7] of Some v \<Rightarrow> v | None \<Rightarrow> VNull)"
  by (rule coalesce_first_non_null [where es = "[ELiteral LNull, ELiteral (LInt 7)]"])
    (simp_all add: scalar_call_def coalesce_step_def)

text \<open>NVL(a, b) takes its arguments in the wrong order: it returns b when b is not NULL, and a
  only when b is NULL.\<close>

theorem nvl_prefers_second_argument:
  assumes "build_expr a = Ok ea" "build_expr b = Ok eb"
    and "eval rx ea r t = Ok va" "eval rx eb r t = Ok vb"
  shows "\<exists>e. build_expr (SFunction ''NVL'' (FaList [ArgUnnamed (AeExpr a), ArgUnnamed (AeExpr b)] None)) = Ok e \<and>
    eval rx e r t = Ok (if vb = VNull then va else vb)"
proof -
  have "to_ascii_lowercase ''NVL'' = ''nvl''" "agg_from_name ''nvl'' = None" by code_simp+
  then show ?thesis
    using assms
    by (simp add: function_call_def materialize_args_def materialize_arg_def scalar_call_def)
qed

theorem nvl_prefers_second_argument_witness:
  "\<exists>e. build_expr (SFunction ''NVL'' (FaList [ArgUnnamed (AeExpr (SValue (SvBoolean True))),
       ArgUnnamed (AeExpr (SValue (SvBoolean False)))] None)) = Ok e \<and>
    eval no_regex e no_row no_batch = Ok (if VBoolean False = VNull then VBoolean True else VBoolean False)"
  by (rule nvl_prefers_second_argument [where ea = "ELiteral (LBool True)" and eb = "ELiteral (LBool False)"])
    simp_all

text \<open>With a target and items that are not NULL, IN evaluates to whether the target equals
  some item, and NOT IN to its negation.\<close>

theorem in_list_membership:
  assumes "eval rx t r b = Ok tv" "tv \<noteq> VNull"
    and "list_all2 (\<lambda>e v. eval rx e r b = Ok v \<and> v \<noteq> VNull) es vs"
  shows "eval rx (in_list_expr t es negated) r b = Ok (VBoolean (list_ex (value_eq tv) vs \<noteq> negated))"
  using eval_in_list [OF assms] by (simp add: list_ex_iff)

theorem in_list_membership_witness:
  "eval no_regex (in_list_expr (ELiteral (LInt 2)) [ELiteral (LInt 1), ELiteral (LInt 2)] False) no_row no_batch =
     Ok (VBoolean (list_ex (value_eq (VInt64 2)) [VInt64 1, VInt64 2] \<noteq> False))"
  by (rule in_list_membership) simp_all

text \<open>A NULL as the first item makes IN evaluate to NULL even when a later item equals the
  target, where SQL's three-valued logic gives true.\<close>

theorem in_list_null_item:
  assumes "eval rx t r b = Ok tv" "eval rx e r b = Ok VNull" "\<forall>x \<in> set es. \<exists>v. eval rx x r b = Ok v"
  shows "eval rx (in_list_expr t (e # es) False) r b = Ok VNull"
proof -
  obtain c where c: "foldl (in_list_step t) (Some (EBinary OpEq t e)) es = Some c"
    using foldl_in_list_Some by blast
  have "eval rx (EBinary OpEq t e) r b = Ok VNull" using assms(1,2) by simp
  from eval_in_list_chain_null [of rx t, OF _ this assms(3)] assms(1) c
  have "eval rx c r b = Ok VNull" by auto
  then show ?thesis using c by (simp add: in_list_expr_def in_list_step_def unwrap_or_def negate_if_def)
qed

theorem in_list_null_item_witness:
  "eval no_regex (in_list_expr (ELiteral (LInt 1)) [ELiteral LNull, ELiteral (LInt 1)] False) no_row no_batch =
     Ok VNull"
  by (rule in_list_null_item [of _ _ _ _ "VInt64 1"]) simp_all

section \<open>SHOW CREATE TABLE\<close>

text \<open>A quoted identifier reads back as the name it was made from, so different names are
  rendered differently.\<close>

theorem quote_ident_round_trip:
  "unquote_ident (quote_ident n) = n"
  by (rule unquote_quote)

end
