(* ===== verification/Cluster.thy ===== *)
theory Cluster
  imports Planner
begin

text \<open>
  \<^verbatim>\<open>rspark-cluster\<close>: jobs, stages, tasks and workers, the shared cluster state, splitting of a
  plan into task partitions, and the master's handlers. Times are integers (nanoseconds),
  \<^verbatim>\<open>Utc::now()\<close> and fresh identifiers are arguments of the handlers, hash maps are association
  lists, and 64-bit counters and row counts are words. Each handler is one atomic step here; \<open>Interleaving\<close> has
  its single accesses.
\<close>

type_synonym time = int
type_synonym usize = "64 word"

text \<open>\<^verbatim>\<open>TimeDelta::num_milliseconds\<close>: whole milliseconds, toward zero.\<close>

definition num_milliseconds :: "time \<Rightarrow> int" where
  "num_milliseconds d = (if 0 \<le> d then d div 1000000 else - ((- d) div 1000000))"

section \<open>Tasks, stages, jobs, workers\<close>

datatype task_status = TkPending | TkAssigned | TkRunning | TkSucceeded | TkFailed string

record task =
  task_id :: string
  task_stage_id :: string
  task_job_id :: string
  task_partition_label :: string
  task_sql :: string
  task_status :: task_status
  task_assigned_worker :: "string option"
  task_started_at :: "time option"
  task_completed_at :: "time option"
  task_result_rows :: "usize option"
  task_error :: "string option"

definition task_new :: "string \<Rightarrow> string \<Rightarrow> string \<Rightarrow> string \<Rightarrow> string \<Rightarrow> task" where
  "task_new tid job_id stage_id label sql =
     \<lparr>task_id = tid, task_stage_id = stage_id, task_job_id = job_id, task_partition_label = label,
      task_sql = sql, task_status = TkPending, task_assigned_worker = None,
      task_started_at = None, task_completed_at = None, task_result_rows = None,
      task_error = None\<rparr>"

definition task_duration_ms :: "task \<Rightarrow> int option" where
  "task_duration_ms t =
     (case (task_started_at t, task_completed_at t) of
        (Some a, Some b) \<Rightarrow> Some (num_milliseconds (b - a)) | _ \<Rightarrow> None)"

definition is_failed :: "task \<Rightarrow> bool" where
  "is_failed t = (case task_status t of TkFailed m \<Rightarrow> True | _ \<Rightarrow> False)"

definition is_succeeded :: "task \<Rightarrow> bool" where
  "is_succeeded t = (task_status t = TkSucceeded)"

definition is_terminal :: "task \<Rightarrow> bool" where
  "is_terminal t = (is_succeeded t \<or> is_failed t)"

datatype stage_status = StgPending | StgRunning | StgSucceeded | StgFailed string

record stage =
  stage_id :: string
  stage_job_id :: string
  stage_index :: nat
  stage_label :: string
  stage_status :: stage_status
  stage_started_at :: "time option"
  stage_completed_at :: "time option"
  stage_tasks :: "task list"

definition stage_new :: "string \<Rightarrow> string \<Rightarrow> nat \<Rightarrow> string \<Rightarrow> stage" where
  "stage_new sid job_id i label =
     \<lparr>stage_id = sid, stage_job_id = job_id, stage_index = i, stage_label = label,
      stage_status = StgPending, stage_started_at = None, stage_completed_at = None,
      stage_tasks = []\<rparr>"

definition stage_progress :: "stage \<Rightarrow> nat \<times> nat" where
  "stage_progress s = (length (filter is_terminal (stage_tasks s)), length (stage_tasks s))"

definition stage_is_complete :: "stage \<Rightarrow> bool" where
  "stage_is_complete s \<longleftrightarrow> stage_tasks s \<noteq> [] \<and> list_all is_succeeded (stage_tasks s)"

record job_request =
  req_name :: string
  req_sql :: string
  req_submission_time :: time
  req_parallelism :: nat
  req_input_paths :: "string list"

definition job_request_new :: "string \<Rightarrow> string \<Rightarrow> time \<Rightarrow> job_request" where
  "job_request_new name sql now =
     \<lparr>req_name = name, req_sql = sql, req_submission_time = now, req_parallelism = 1,
      req_input_paths = []\<rparr>"

definition req_with_parallelism :: "job_request \<Rightarrow> nat \<Rightarrow> job_request" where
  "req_with_parallelism r p = r\<lparr>req_parallelism := max p 1\<rparr>"

definition req_with_input_paths :: "job_request \<Rightarrow> string list \<Rightarrow> job_request" where
  "req_with_input_paths r ps = r\<lparr>req_input_paths := ps\<rparr>"

datatype job_status = JbPending | JbRunning | JbSucceeded | JbFailed string | JbCancelled

fun job_status_is_terminal :: "job_status \<Rightarrow> bool" where
  "job_status_is_terminal JbSucceeded = True"
| "job_status_is_terminal (JbFailed m) = True"
| "job_status_is_terminal JbCancelled = True"
| "job_status_is_terminal JbPending = False"
| "job_status_is_terminal JbRunning = False"

record job =
  job_id :: string
  job_name :: string
  job_sql :: string
  job_status :: job_status
  job_submitted_at :: time
  job_started_at :: "time option"
  job_completed_at :: "time option"
  job_stages :: "string list"
  job_result_rows :: "usize option"
  job_error :: "string option"
  job_submission_time :: time
  job_parallelism :: nat

definition job_new :: "string \<Rightarrow> string \<Rightarrow> string \<Rightarrow> time \<Rightarrow> job" where
  "job_new jid name sql now =
     \<lparr>job_id = jid, job_name = name, job_sql = sql, job_status = JbPending,
      job_submitted_at = now, job_started_at = None, job_completed_at = None, job_stages = [],
      job_result_rows = None, job_error = None, job_submission_time = now, job_parallelism = 1\<rparr>"

definition job_duration_ms :: "job \<Rightarrow> int option" where
  "job_duration_ms j =
     (case (job_started_at j, job_completed_at j) of
        (Some a, Some b) \<Rightarrow> Some (num_milliseconds (b - a)) | _ \<Rightarrow> None)"

definition job_is_running :: "job \<Rightarrow> bool" where
  "job_is_running j = (job_status j = JbRunning)"

datatype worker_status = WkAlive | WkDead

record worker_info =
  worker_id :: string
  worker_address :: string
  worker_last_heartbeat :: time
  worker_cores :: nat
  worker_memory_mb :: nat
  worker_status :: worker_status
  worker_running_tasks :: "string list"

definition worker_info_new :: "string \<Rightarrow> string \<Rightarrow> nat \<Rightarrow> nat \<Rightarrow> time \<Rightarrow> worker_info" where
  "worker_info_new wid addr cores mem now =
     \<lparr>worker_id = wid, worker_address = addr, worker_last_heartbeat = now, worker_cores = cores,
      worker_memory_mb = mem, worker_status = WkAlive, worker_running_tasks = []\<rparr>"

definition worker_is_alive :: "worker_info \<Rightarrow> bool" where
  "worker_is_alive w = (worker_status w = WkAlive)"

section \<open>Cluster state\<close>

record cluster_state =
  master_id :: string
  workers :: "(string \<times> worker_info) list"
  jobs :: "(string \<times> job) list"
  stages :: "(string \<times> stage) list"
  tasks :: "(string \<times> task) list"
  pending :: "string list"
  running_round :: u64
  total_runs :: u64
  total_completed_rounds :: u64

definition cluster_new :: "string \<Rightarrow> cluster_state" where
  "cluster_new mid =
     \<lparr>master_id = mid, workers = [], jobs = [], stages = [], tasks = [], pending = [],
      running_round = 0, total_runs = 0, total_completed_rounds = 0\<rparr>"

definition register_worker :: "cluster_state \<Rightarrow> worker_info \<Rightarrow> cluster_state" where
  "register_worker st w = st\<lparr>workers := AList.update (worker_id w) w (workers st)\<rparr>"

definition remove_worker :: "cluster_state \<Rightarrow> string \<Rightarrow> cluster_state" where
  "remove_worker st wid = st\<lparr>workers := AList.delete wid (workers st)\<rparr>"

definition update_worker_heartbeat :: "cluster_state \<Rightarrow> string \<Rightarrow> time \<Rightarrow> cluster_state" where
  "update_worker_heartbeat st wid now =
     (case map_of (workers st) wid of
        Some w \<Rightarrow> st\<lparr>workers := AList.update wid (w\<lparr>worker_last_heartbeat := now\<rparr>) (workers st)\<rparr>
      | None \<Rightarrow> st)"

definition list_workers :: "cluster_state \<Rightarrow> worker_info list" where
  "list_workers st = map snd (workers st)"

definition insert_job :: "cluster_state \<Rightarrow> job \<Rightarrow> cluster_state" where
  "insert_job st j = st\<lparr>jobs := AList.update (job_id j) j (jobs st)\<rparr>"

definition update_job :: "cluster_state \<Rightarrow> job \<Rightarrow> cluster_state" where
  "update_job st j = st\<lparr>jobs := AList.update (job_id j) j (jobs st)\<rparr>"

definition get_job :: "cluster_state \<Rightarrow> string \<Rightarrow> job option" where
  "get_job st jid = map_of (jobs st) jid"

definition list_jobs :: "cluster_state \<Rightarrow> job list" where
  "list_jobs st = map snd (jobs st)"

definition insert_stage :: "cluster_state \<Rightarrow> stage \<Rightarrow> cluster_state" where
  "insert_stage st s = st\<lparr>stages := AList.update (stage_id s) s (stages st)\<rparr>"

definition update_stage :: "cluster_state \<Rightarrow> stage \<Rightarrow> cluster_state" where
  "update_stage st s = st\<lparr>stages := AList.update (stage_id s) s (stages st)\<rparr>"

definition get_stage :: "cluster_state \<Rightarrow> string \<Rightarrow> stage option" where
  "get_stage st sid = map_of (stages st) sid"

definition stages_for_job :: "cluster_state \<Rightarrow> string \<Rightarrow> stage list" where
  "stages_for_job st jid = filter (\<lambda>s. stage_job_id s = jid) (map snd (stages st))"

definition insert_task :: "cluster_state \<Rightarrow> task \<Rightarrow> cluster_state" where
  "insert_task st t =
     st\<lparr>tasks := AList.update (task_id t) t (tasks st), pending := pending st @ [task_id t]\<rparr>"

definition get_task :: "cluster_state \<Rightarrow> string \<Rightarrow> task option" where
  "get_task st tid = map_of (tasks st) tid"

definition update_task :: "cluster_state \<Rightarrow> task \<Rightarrow> cluster_state" where
  "update_task st t =
     (let was_terminal = (case get_task st (task_id t) of Some u \<Rightarrow> is_terminal u | None \<Rightarrow> False);
          st = st\<lparr>tasks := AList.update (task_id t) t (tasks st)\<rparr>
      in if \<not> was_terminal \<and> is_terminal t
         then st\<lparr>pending := filter (\<lambda>x. x \<noteq> task_id t) (pending st),
                 total_runs := (if is_succeeded t then total_runs st + 1 else total_runs st)\<rparr>
         else st)"

definition list_tasks :: "cluster_state \<Rightarrow> task list" where
  "list_tasks st = map snd (tasks st)"

definition tasks_for_job :: "cluster_state \<Rightarrow> string \<Rightarrow> task list" where
  "tasks_for_job st jid = filter (\<lambda>t. task_job_id t = jid) (map snd (tasks st))"

definition pop_pending_task :: "cluster_state \<Rightarrow> task option \<times> cluster_state" where
  "pop_pending_task st =
     (case pending st of
        [] \<Rightarrow> (None, st)
      | tid # rest \<Rightarrow> (get_task st tid, st\<lparr>pending := rest\<rparr>))"

definition pending_count :: "cluster_state \<Rightarrow> nat" where
  "pending_count st = length (pending st)"

definition inc_running_round :: "cluster_state \<Rightarrow> u64 \<times> cluster_state" where
  "inc_running_round st = (running_round st + 1, st\<lparr>running_round := running_round st + 1\<rparr>)"

definition record_completed_round :: "cluster_state \<Rightarrow> cluster_state" where
  "record_completed_round st = st\<lparr>total_completed_rounds := total_completed_rounds st + 1\<rparr>"

record cluster_snapshot =
  snap_master_id :: string
  snap_captured_at :: time
  snap_workers :: "worker_info list"
  snap_jobs :: "job list"
  snap_stages :: "stage list"
  snap_tasks :: "task list"
  snap_pending_queue :: "string list"
  snap_running_round :: u64
  snap_total_completed_rounds :: u64
  snap_total_runs :: u64

definition snapshot :: "cluster_state \<Rightarrow> time \<Rightarrow> cluster_snapshot" where
  "snapshot st now =
     \<lparr>snap_master_id = master_id st, snap_captured_at = now, snap_workers = list_workers st,
      snap_jobs = list_jobs st, snap_stages = map snd (stages st), snap_tasks = list_tasks st,
      snap_pending_queue = pending st, snap_running_round = running_round st,
      snap_total_completed_rounds = total_completed_rounds st, snap_total_runs = total_runs st\<rparr>"

section \<open>Partitions\<close>

record partition_spec =
  part_index :: nat
  part_label :: string

definition scan_label :: "string \<Rightarrow> nat \<Rightarrow> string" where
  "scan_label path i = ''scan['' @ path @ '']:p'' @ show_nat i"

definition push_partition :: "string \<Rightarrow> partition_spec list \<Rightarrow> nat \<Rightarrow> partition_spec list" where
  "push_partition path out i = out @ [\<lparr>part_index = length out, part_label = scan_label path i\<rparr>]"

text \<open>The scan counter of the source is threaded through but never used; it is left out.\<close>

fun collect_scans :: "logical_plan \<Rightarrow> nat \<Rightarrow> partition_spec list \<Rightarrow> partition_spec list" where
  "collect_scans (PScan table path source projection flt s) n out =
     foldl (push_partition path) out [0..<n]"
| "collect_scans (PProject input es s) n out = collect_scans input n out"
| "collect_scans (PFilter input e s) n out = collect_scans input n out"
| "collect_scans (PAggregate input gs as s) n out = collect_scans input n out"
| "collect_scans (PSort input order s) n out = collect_scans input n out"
| "collect_scans (PLimit input k s) n out = collect_scans input n out"
| "collect_scans (PDistinct input s) n out = collect_scans input n out"
| "collect_scans (PJoin l r on how s) n out = collect_scans r n (collect_scans l n out)"
| "collect_scans (PUnion ps s) n out = fold (\<lambda>p out. collect_scans p n out) ps out"
| "collect_scans PEmpty n out = out"

definition plan_partitions :: "logical_plan \<Rightarrow> nat \<Rightarrow> partition_spec list res" where
  "plan_partitions p n =
     (let out = collect_scans p n []
      in Ok (if out = [] then [\<lparr>part_index = 0, part_label = ''no-input''\<rparr>] else out))"

section \<open>The master\<close>

text \<open>
  \<open>submit_job\<close> takes the fresh identifiers of the job, of the stage and of the \<open>i\<close>-th task, and
  the times it reads. Beside the job it returns the stage shown to a callback, if one is set.
\<close>

record fresh_ids =
  fresh_job :: string
  fresh_stage :: string
  fresh_task :: "nat \<Rightarrow> string"

definition new_tasks :: "fresh_ids \<Rightarrow> string \<Rightarrow> partition_spec list \<Rightarrow> task list" where
  "new_tasks ids sql parts =
     map (\<lambda>(i, p). task_new (fresh_task ids i) (fresh_job ids) (fresh_stage ids) (part_label p) sql)
       (enumerate 0 parts)"

definition submit_job ::
  "sql_lib \<Rightarrow> catalog \<Rightarrow> cluster_state \<Rightarrow> job_request \<Rightarrow> fresh_ids \<Rightarrow> time \<Rightarrow> time \<Rightarrow>
   (job \<times> stage option \<times> cluster_state) res" where
  "submit_job lib cat st req ids now now' =
     (let job = (job_new (fresh_job ids) (req_name req) (req_sql req) now)
                  \<lparr>job_parallelism := max (req_parallelism req) 1\<rparr>
      in and_then (plan_sql lib cat (req_sql req)) (\<lambda>p.
         and_then (plan_partitions p (req_parallelism req)) (\<lambda>parts.
           let stage = (stage_new (fresh_stage ids) (job_id job) 0 ''main'')
                         \<lparr>stage_tasks := new_tasks ids (req_sql req) parts\<rparr>;
               st = insert_stage st stage
           in case get_stage st (stage_id stage) of
                None \<Rightarrow> Panic unwrap_none
              | Some s \<Rightarrow>
                  let st = foldl insert_task st (stage_tasks s);
                      job = job\<lparr>job_stages := [stage_id stage]\<rparr>;
                      st = insert_job st job;
                      st = update_job st (job\<lparr>job_status := JbRunning, job_started_at := Some now'\<rparr>)
                  in Ok (unwrap_or (get_job st (job_id job)) job,
                         get_stage st (stage_id stage), st))))"

definition submit_job_skip_plan ::
  "cluster_state \<Rightarrow> job_request \<Rightarrow> string \<Rightarrow> time \<Rightarrow> time \<Rightarrow> (job \<times> cluster_state) res" where
  "submit_job_skip_plan st req jid now now' =
     (let job = (job_new jid (req_name req) (req_sql req) now)
                  \<lparr>job_parallelism := max (req_parallelism req) 1,
                   job_status := JbRunning, job_started_at := Some now'\<rparr>
      in Ok (job, insert_job st job))"

text \<open>Updating the first task of a stage with the given identifier, if there is one.\<close>

fun update_slot :: "string \<Rightarrow> (task \<Rightarrow> task) \<Rightarrow> task list \<Rightarrow> task list" where
  "update_slot tid f [] = []"
| "update_slot tid f (t # ts) = (if task_id t = tid then f t # ts else t # update_slot tid f ts)"

definition try_assign_task :: "cluster_state \<Rightarrow> string \<Rightarrow> task option \<times> cluster_state" where
  "try_assign_task st wid =
     (case pop_pending_task st of
        (None, st) \<Rightarrow> (None, st)
      | (Some t, st) \<Rightarrow>
          let t = t\<lparr>task_assigned_worker := Some wid, task_status := TkAssigned\<rparr>;
              st = update_task st t;
              st = (case get_stage st (task_stage_id t) of
                      None \<Rightarrow> st
                    | Some s \<Rightarrow> update_stage st (s\<lparr>stage_tasks :=
                        update_slot (task_id t) (\<lambda>u. u\<lparr>task_assigned_worker := task_assigned_worker t,
                          task_status := task_status t\<rparr>) (stage_tasks s)\<rparr>))
          in (Some t, st))"

definition completed_task :: "task \<Rightarrow> usize \<Rightarrow> bool \<Rightarrow> string option \<Rightarrow> time \<Rightarrow> task" where
  "completed_task t rows success err now =
     (let t = t\<lparr>task_completed_at := Some now, task_result_rows := Some rows,
                task_status := (if success then TkSucceeded else TkFailed (unwrap_or err []))\<rparr>
      in if success then t else t\<lparr>task_error := err\<rparr>)"

definition recomputed_stage :: "stage \<Rightarrow> task \<Rightarrow> stage" where
  "recomputed_stage s t =
     (let s = s\<lparr>stage_tasks := update_slot (task_id t) (\<lambda>u. u\<lparr>task_status := task_status t,
                 task_completed_at := task_completed_at t, task_result_rows := task_result_rows t,
                 task_error := task_error t\<rparr>) (stage_tasks s)\<rparr>
      in s\<lparr>stage_status :=
             (if stage_is_complete s then StgSucceeded
              else if list_ex is_failed (stage_tasks s) then StgFailed ''one or more tasks failed''
              else StgRunning)\<rparr>)"

fun first_failure :: "task list \<Rightarrow> string option" where
  "first_failure [] = None"
| "first_failure (t # ts) = (case task_status t of TkFailed m \<Rightarrow> Some m | _ \<Rightarrow> first_failure ts)"

definition recomputed_job :: "job \<Rightarrow> task list \<Rightarrow> time \<Rightarrow> job" where
  "recomputed_job j ts now =
     (if ts \<noteq> [] \<and> list_all is_succeeded ts then
        j\<lparr>job_status := JbSucceeded, job_completed_at := Some now,
          job_result_rows := Some (sum_list (List.map_filter task_result_rows ts))\<rparr>
      else if list_ex is_failed ts then
        j\<lparr>job_status := JbFailed (unwrap_or (first_failure ts) ''task failed''),
          job_completed_at := Some now\<rparr>
      else j)"

definition complete_task ::
  "cluster_state \<Rightarrow> string \<Rightarrow> usize \<Rightarrow> bool \<Rightarrow> string option \<Rightarrow> time \<Rightarrow> time \<Rightarrow> cluster_state res" where
  "complete_task st tid rows success err now now' =
     and_then (ok_or (get_task st tid) (ErrNotFound (''task '' @ tid @ '' not found''))) (\<lambda>t0.
       let t = completed_task t0 rows success err now;
           st = update_task st t;
           st = (case get_stage st (task_stage_id t) of
                   None \<Rightarrow> st | Some s \<Rightarrow> update_stage st (recomputed_stage s t))
       in case get_job st (task_job_id t) of
            None \<Rightarrow> Panic unwrap_none
          | Some j \<Rightarrow> Ok (update_job st (recomputed_job j (tasks_for_job st (task_job_id t)) now')))"

section \<open>The worker\<close>

definition worker_register :: "cluster_state \<Rightarrow> worker_info \<Rightarrow> time \<Rightarrow> worker_info \<times> cluster_state" where
  "worker_register st info now =
     (let info = info\<lparr>worker_last_heartbeat := now\<rparr> in (info, register_worker st info))"

definition worker_heartbeat :: "cluster_state \<Rightarrow> worker_info \<Rightarrow> time \<Rightarrow> cluster_state" where
  "worker_heartbeat st info now = update_worker_heartbeat st (worker_id info) now"

definition execute_task ::
  "regex_lib \<Rightarrow> sql_lib \<Rightarrow> execution_context \<Rightarrow> catalog \<Rightarrow> task \<Rightarrow> record_batch res" where
  "execute_task rx lib ctx cat t = and_then (plan_sql lib cat (task_sql t)) (execute rx ctx)"

end
