(* ===== verification/Cluster_Laws.thy ===== *)
theory Cluster_Laws
  imports Cluster Executor_Laws
begin

text \<open>
  The master as a state machine: its steps, the invariant of the states they reach (what is
  queued is exactly what is pending, stages mirror tasks, jobs follow their tasks), and the
  partitions a plan is split into.
\<close>

section \<open>Views of the state\<close>

named_theorems view_simps

lemma get_update_task [view_simps]:
  "get_task (update_task st t) k = (if k = task_id t then Some t else get_task st k)"
  "get_stage (update_task st t) = get_stage st" "get_job (update_task st t) = get_job st"
  by (auto simp: update_task_def get_task_def get_stage_def get_job_def Let_def update_conv' fun_eq_iff)

lemma get_insert_task [view_simps]:
  "get_task (insert_task st t) k = (if k = task_id t then Some t else get_task st k)"
  "get_stage (insert_task st t) = get_stage st" "get_job (insert_task st t) = get_job st"
  "pending (insert_task st t) = pending st @ [task_id t]"
  by (auto simp: insert_task_def get_task_def get_stage_def get_job_def update_conv' fun_eq_iff)

lemma get_update_stage [view_simps]:
  "get_stage (update_stage st s) k = (if k = stage_id s then Some s else get_stage st k)"
  "get_task (update_stage st s) = get_task st" "get_job (update_stage st s) = get_job st"
  "pending (update_stage st s) = pending st" "tasks (update_stage st s) = tasks st"
  by (auto simp: update_stage_def get_task_def get_stage_def get_job_def update_conv' fun_eq_iff)

lemma insert_stage_update: "insert_stage = update_stage" "insert_job = update_job"
  by (auto simp: insert_stage_def update_stage_def insert_job_def update_job_def fun_eq_iff)

lemma get_update_job [view_simps]:
  "get_job (update_job st j) k = (if k = job_id j then Some j else get_job st k)"
  "get_task (update_job st j) = get_task st" "get_stage (update_job st j) = get_stage st"
  "pending (update_job st j) = pending st" "tasks (update_job st j) = tasks st"
  by (auto simp: update_job_def get_task_def get_stage_def get_job_def update_conv' fun_eq_iff)

lemma pending_update_task [view_simps]:
  "pending (update_task st t) =
     (if \<not> (case get_task st (task_id t) of Some u \<Rightarrow> is_terminal u | None \<Rightarrow> False) \<and> is_terminal t
      then filter (\<lambda>x. x \<noteq> task_id t) (pending st) else pending st)"
  "tasks (update_task st t) = AList.update (task_id t) t (tasks st)"
  by (simp_all add: update_task_def Let_def)

lemma get_pending_update [view_simps]:
  "get_task (st\<lparr>pending := q\<rparr>) = get_task st" "get_stage (st\<lparr>pending := q\<rparr>) = get_stage st"
  "get_job (st\<lparr>pending := q\<rparr>) = get_job st"
  by (auto simp: get_task_def get_stage_def get_job_def fun_eq_iff)

lemma tasks_for_job_cong: "tasks a = tasks b \<Longrightarrow> tasks_for_job a = tasks_for_job b"
  by (simp add: tasks_for_job_def fun_eq_iff)

lemma filter_update_other:
  assumes "map_of xs k = Some u" "\<not> P u" "\<not> P v"
  shows "filter P (map snd (AList.update k v xs)) = filter P (map snd xs)"
  using assms by (induction xs) auto

lemma tasks_for_job_set:
  "distinct (map fst (tasks st)) \<Longrightarrow>
   set (tasks_for_job st j) = {t. \<exists>k. get_task st k = Some t \<and> task_job_id t = j}"
  by (force simp: tasks_for_job_def get_task_def)

section \<open>Steps\<close>

definition ids_fresh :: "cluster_state \<Rightarrow> fresh_ids \<Rightarrow> bool" where
  "ids_fresh st ids \<longleftrightarrow> inj (fresh_task ids) \<and> (\<forall>i. get_task st (fresh_task ids i) = None) \<and>
     get_stage st (fresh_stage ids) = None \<and> get_job st (fresh_job ids) = None"

text \<open>The handlers of the master and of the state; identifiers drawn by a step are fresh.\<close>

inductive cluster_step :: "cluster_state \<Rightarrow> cluster_state \<Rightarrow> bool" where
  submit: "submit_job lib cat st req ids now now' = Ok (j, cb, st') \<Longrightarrow> ids_fresh st ids \<Longrightarrow>
     cluster_step st st'"
| skip: "submit_job_skip_plan st req jid now now' = Ok (j, st') \<Longrightarrow> get_job st jid = None \<Longrightarrow>
     cluster_step st st'"
| assign: "try_assign_task st wid = (r, st') \<Longrightarrow> cluster_step st st'"
| complete: "complete_task st tid rows success err now now' = Ok st' \<Longrightarrow> cluster_step st st'"
| worker_in: "cluster_step st (register_worker st w)"
| worker_out: "cluster_step st (remove_worker st wid)"
| heartbeat: "cluster_step st (update_worker_heartbeat st wid now)"
| round: "cluster_step st (snd (inc_running_round st))"
| round_done: "cluster_step st (record_completed_round st)"

inductive reachable :: "cluster_state \<Rightarrow> bool" where
  start: "reachable (cluster_new mid)"
| step: "reachable st \<Longrightarrow> cluster_step st st' \<Longrightarrow> reachable st'"

section \<open>Invariant\<close>

definition keyed :: "cluster_state \<Rightarrow> bool" where
  "keyed st \<longleftrightarrow> distinct (map fst (tasks st)) \<and>
     (\<forall>k t. get_task st k = Some t \<longrightarrow> task_id t = k) \<and>
     (\<forall>k s. get_stage st k = Some s \<longrightarrow> stage_id s = k) \<and>
     (\<forall>k j. get_job st k = Some j \<longrightarrow> job_id j = k)"

definition queue_ok :: "cluster_state \<Rightarrow> bool" where
  "queue_ok st \<longleftrightarrow> distinct (pending st) \<and>
     (\<forall>k. k \<in> set (pending st) \<longleftrightarrow> (\<exists>t. get_task st k = Some t \<and> task_status t = TkPending))"

definition stages_ok :: "cluster_state \<Rightarrow> bool" where
  "stages_ok st \<longleftrightarrow>
     (\<forall>k s. get_stage st k = Some s \<longrightarrow> distinct (map task_id (stage_tasks s)) \<and>
        (\<forall>u \<in> set (stage_tasks s). get_task st (task_id u) = Some u \<and> task_stage_id u = k)) \<and>
     (\<forall>k t. get_task st k = Some t \<longrightarrow>
        (\<exists>s. get_stage st (task_stage_id t) = Some s \<and> t \<in> set (stage_tasks s)))"

definition job_follows :: "job \<Rightarrow> task list \<Rightarrow> bool" where
  "job_follows j ts \<longleftrightarrow>
     (job_status j = JbSucceeded \<longleftrightarrow> ts \<noteq> [] \<and> list_all is_succeeded ts) \<and>
     (job_status j = JbSucceeded \<longrightarrow>
        job_result_rows j = Some (sum_list (List.map_filter task_result_rows ts))) \<and>
     (list_ex is_failed ts \<longrightarrow> (\<exists>m. job_status j = JbFailed m))"

definition jobs_ok :: "cluster_state \<Rightarrow> bool" where
  "jobs_ok st \<longleftrightarrow>
     (\<forall>k t. get_task st k = Some t \<longrightarrow> get_job st (task_job_id t) \<noteq> None) \<and>
     (\<forall>k j. get_job st k = Some j \<longrightarrow> job_follows j (tasks_for_job st k))"

definition cluster_inv :: "cluster_state \<Rightarrow> bool" where
  "cluster_inv st \<longleftrightarrow> keyed st \<and> queue_ok st \<and> stages_ok st \<and> jobs_ok st"

lemma cluster_inv_new: "cluster_inv (cluster_new mid)"
  by (simp add: cluster_inv_def keyed_def queue_ok_def stages_ok_def jobs_ok_def cluster_new_def
      get_task_def get_stage_def get_job_def)

text \<open>Steps that touch none of the four components keep the invariant.\<close>

lemma cluster_inv_frame:
  assumes "tasks st' = tasks st" "stages st' = stages st" "jobs st' = jobs st" "pending st' = pending st"
  shows "cluster_inv st' = cluster_inv st"
  using assms
  by (simp add: cluster_inv_def keyed_def queue_ok_def stages_ok_def jobs_ok_def get_task_def
      get_stage_def get_job_def tasks_for_job_def)

section \<open>Replacing one task\<close>

text \<open>The task \<open>t\<close> is rewritten by \<open>f\<close>, in the task table and in its slot of its stage.\<close>

definition rewrites_task ::
  "cluster_state \<Rightarrow> string \<Rightarrow> task \<Rightarrow> (task \<Rightarrow> task) \<Rightarrow> stage \<Rightarrow> cluster_state \<Rightarrow> bool" where
  "rewrites_task st k t f s' st' \<longleftrightarrow>
     get_task st k = Some t \<and> task_id (f t) = k \<and> task_stage_id (f t) = task_stage_id t \<and>
     task_job_id (f t) = task_job_id t \<and>
     tasks st' = AList.update k (f t) (tasks st) \<and>
     (\<forall>s. get_stage st (task_stage_id t) = Some s \<longrightarrow>
        stage_tasks s' = update_slot k f (stage_tasks s) \<and> stage_id s' = stage_id s) \<and>
     (\<forall>i. get_stage st' i = (if i = task_stage_id t then Some s' else get_stage st i))"

lemma stage_of_task:
  assumes "stages_ok st" "get_task st k = Some t"
  obtains s where "get_stage st (task_stage_id t) = Some s" "t \<in> set (stage_tasks s)"
  using assms unfolding stages_ok_def by blast

lemma tasks_of_stage:
  assumes "stages_ok st" "get_stage st k = Some s"
  shows "distinct (map task_id (stage_tasks s))"
    "u \<in> set (stage_tasks s) \<Longrightarrow> get_task st (task_id u) = Some u \<and> task_stage_id u = k"
  using assms unfolding stages_ok_def by blast+

lemma rewritesD:
  "rewrites_task st k t f s' st' \<Longrightarrow> get_task st k = Some t"
  by (simp add: rewrites_task_def)

lemma rewrites_get_task:
  "rewrites_task st k t f s' st' \<Longrightarrow> get_task st' i = (if i = k then Some (f t) else get_task st i)"
  by (auto simp: rewrites_task_def get_task_def update_conv')

lemma update_slot_map:
  "distinct (map task_id ts) \<Longrightarrow>
   update_slot k f ts = map (\<lambda>u. if task_id u = k then f u else u) ts"
proof (induction ts)
  case (Cons u ts)
  have "map (\<lambda>v. if task_id v = task_id u then f v else v) ts = ts"
    using Cons.prems by (intro map_idI) (auto simp: image_iff)
  then show ?case using Cons by auto
qed simp

lemma rewrites_keyed:
  assumes "rewrites_task st k t f s' st'" "keyed st" "stages_ok st"
    and "\<And>i j. get_job st' i = Some j \<Longrightarrow> job_id j = i"
  shows "keyed st'"
proof -
  obtain s where "get_stage st (task_stage_id t) = Some s"
    using stage_of_task [OF assms(3) rewritesD [OF assms(1)]] by blast
  then have "stage_id s' = task_stage_id t"
    using assms(1,2) by (auto simp: rewrites_task_def keyed_def)
  then show ?thesis
    using assms rewrites_get_task [OF assms(1)]
    by (auto simp: keyed_def rewrites_task_def distinct_update)
qed

lemma rewrites_stages_ok:
  assumes rw: "rewrites_task st k t f s' st'" and key: "keyed st" and ok: "stages_ok st"
  shows "stages_ok st'"
proof -
  let ?g = "\<lambda>u. if task_id u = k then f u else u"
  obtain s where s: "get_stage st (task_stage_id t) = Some s" "t \<in> set (stage_tasks s)"
    using stage_of_task [OF ok rewritesD [OF rw]] by blast
  note d = tasks_of_stage(1) [OF ok s(1)] and mem = tasks_of_stage(2) [OF ok s(1)]
  have tk: "get_task st k = Some t" "task_id t = k" "task_id (f t) = k" "task_stage_id (f t) = task_stage_id t"
    using rw key by (auto simp: rewrites_task_def keyed_def)
  have eqt: "u = t" if "u \<in> set (stage_tasks s)" "task_id u = k" for u
    using mem [OF that(1)] that(2) tk(1) by simp
  have s': "stage_tasks s' = map ?g (stage_tasks s)"
    using rw s(1) d by (simp add: rewrites_task_def update_slot_map)
  have "map task_id (stage_tasks s') = map task_id (stage_tasks s)"
    using eqt tk by (auto simp: s')
  then have d': "distinct (map task_id (stage_tasks s'))" using d by simp
  have st': "get_stage st' i = (if i = task_stage_id t then Some s' else get_stage st i)" for i
    using rw by (simp add: rewrites_task_def)
  have in': "get_task st' (task_id u) = Some u \<and> task_stage_id u = task_stage_id t"
    if "u \<in> set (stage_tasks s')" for u
    using that mem eqt tk by (auto simp: s' rewrites_get_task [OF rw])
  have other: "task_id u \<noteq> k" if "get_stage st i = Some z" "i \<noteq> task_stage_id t" "u \<in> set (stage_tasks z)" for i z u
    using tasks_of_stage(2) [OF ok that(1,3)] that(2) tk(1) by auto
  have one: "distinct (map task_id (stage_tasks z)) \<and>
      (\<forall>u \<in> set (stage_tasks z). get_task st' (task_id u) = Some u \<and> task_stage_id u = i)"
    if z: "get_stage st' i = Some z" for i z
  proof (cases "i = task_stage_id t")
    case True
    then show ?thesis using z d' in' by (simp add: st')
  next
    case False
    then show ?thesis
      using z other tasks_of_stage [OF ok, of i z] by (simp add: st' rewrites_get_task [OF rw])
  qed
  have two: "\<exists>z. get_stage st' (task_stage_id u) = Some z \<and> u \<in> set (stage_tasks z)"
    if u: "get_task st' i = Some u" for i u
  proof (cases "i = k")
    case True
    then have "u = f t" using u by (simp add: rewrites_get_task [OF rw])
    then show ?thesis using s(2) tk by (force simp: st' s')
  next
    case False
    then have u: "get_task st i = Some u" "task_id u \<noteq> k"
      using u key by (auto simp: rewrites_get_task [OF rw] keyed_def)
    then obtain z where "get_stage st (task_stage_id u) = Some z" "u \<in> set (stage_tasks z)"
      using stage_of_task [OF ok u(1)] by blast
    then show ?thesis using u(2) s(1) by (cases "task_stage_id u = task_stage_id t") (force simp: st' s')+
  qed
  show ?thesis using one two unfolding stages_ok_def by blast
qed

lemma rewrites_other_job:
  assumes "rewrites_task st k t f s' st'" "j \<noteq> task_job_id t"
  shows "tasks_for_job st' j = tasks_for_job st j"
  using assms filter_update_other [of "tasks st" k t "\<lambda>t. task_job_id t = j" "f t"]
  by (simp add: rewrites_task_def tasks_for_job_def get_task_def)

lemma rewrites_own_job:
  assumes "rewrites_task st k t f s' st'" "keyed st"
  shows "set (tasks_for_job st' (task_job_id t)) =
    insert (f t) {u \<in> set (tasks_for_job st (task_job_id t)). task_id u \<noteq> k}"
proof -
  have d: "distinct (map fst (tasks st))" "distinct (map fst (tasks st'))"
    using assms by (auto simp: keyed_def rewrites_task_def distinct_update)
  show ?thesis
    using assms d
    by (auto simp: tasks_for_job_set rewrites_get_task [OF assms(1)] rewrites_task_def keyed_def)
      (metis+)?
qed

lemma rewrites_jobs_ok:
  assumes rw: "rewrites_task st k t f s' st'" and key: "keyed st" and ok: "jobs_ok st"
    and jobs: "\<And>i. get_job st' i = (if i = task_job_id t then Some j else get_job st i)"
    and fol: "job_follows j (tasks_for_job st' (task_job_id t))"
  shows "jobs_ok st'"
  using ok jobs fol rewrites_other_job [OF rw] rw
  by (auto simp: jobs_ok_def rewrites_get_task [OF rw] rewrites_task_def)

section \<open>Every step keeps the invariant\<close>

lemma job_follows_running:
  assumes "job_follows j ts" "u \<in> set ts" "\<not> is_succeeded u"
    and "v \<in> set ts'" "\<not> is_succeeded v" "\<forall>w \<in> set ts'. is_failed w \<longrightarrow> w \<in> set ts"
  shows "job_follows j ts'"
  using assms by (auto simp: job_follows_def list_all_iff list_ex_iff)

lemma assign_inv:
  assumes inv: "cluster_inv st" and step: "try_assign_task st wid = (r, st')"
  shows "cluster_inv st'"
proof (cases "pending st")
  case Nil
  then show ?thesis using inv step by (simp add: try_assign_task_def pop_pending_task_def)
next
  case (Cons k rest)
  have parts: "keyed st" "queue_ok st" "stages_ok st" "jobs_ok st"
    using inv by (auto simp: cluster_inv_def)
  obtain t where t: "get_task st k = Some t" "task_status t = TkPending"
    using parts(2) Cons by (auto simp: queue_ok_def)
  obtain s where s: "get_stage st (task_stage_id t) = Some s"
    using stage_of_task [OF parts(3) t(1)] by blast
  have k: "task_id t = k" using parts(1) t by (auto simp: keyed_def)
  define f where "f = (\<lambda>u :: task. u\<lparr>task_assigned_worker := Some wid, task_status := TkAssigned\<rparr>)"
  define s' where "s' = s\<lparr>stage_tasks := update_slot k f (stage_tasks s)\<rparr>"
  have st': "st' = update_stage (update_task (st\<lparr>pending := rest\<rparr>) (f t)) s'"
    using step Cons t(1) s k
    by (simp add: try_assign_task_def pop_pending_task_def view_simps f_def s'_def Let_def)
  have frame: "get_job st' = get_job st" "pending st' = rest"
    by (auto simp: st' view_simps f_def is_terminal_def is_succeeded_def is_failed_def)
  have rw: "rewrites_task st k t f s' st'"
    using t k s parts(1)
    by (auto simp: rewrites_task_def st' view_simps s'_def f_def keyed_def)
  have key: "keyed st'"
    using rewrites_keyed [OF rw parts(1,3)] parts(1) frame(1) by (auto simp: keyed_def)
  have "queue_ok st'"
    using parts(2) Cons frame(2) by (auto simp: queue_ok_def rewrites_get_task [OF rw] f_def)
  moreover have "stages_ok st'" using rewrites_stages_ok [OF rw parts(1,3)] .
  moreover have "jobs_ok st'"
  proof -
    obtain j where j: "get_job st (task_job_id t) = Some j" "job_follows j (tasks_for_job st (task_job_id t))"
      using parts(4) t(1) by (force simp: jobs_ok_def)
    have "t \<in> set (tasks_for_job st (task_job_id t))"
      using parts(1) t(1) tasks_for_job_set by (auto simp: keyed_def)
    then have "job_follows j (tasks_for_job st' (task_job_id t))"
      using job_follows_running [OF j(2), of t "f t"] t(2) rewrites_own_job [OF rw parts(1)]
      by (auto simp: f_def is_succeeded_def is_failed_def)
    then show ?thesis using rewrites_jobs_ok [OF rw parts(1,4), of j] frame(1) j(1) by auto
  qed
  ultimately show ?thesis using key by (simp add: cluster_inv_def)
qed

lemma completed_task_simps [simp]:
  "task_id (completed_task t rows success err now) = task_id t"
  "task_stage_id (completed_task t rows success err now) = task_stage_id t"
  "task_job_id (completed_task t rows success err now) = task_job_id t"
  "task_status (completed_task t rows success err now) =
     (if success then TkSucceeded else TkFailed (unwrap_or err []))"
  by (simp_all add: completed_task_def Let_def)

lemma completed_terminal [simp]: "is_terminal (completed_task t rows success err now)"
  by (simp add: is_terminal_def is_succeeded_def is_failed_def)

text \<open>The slot of the stage, which held the same task, receives the whole completed task.\<close>

lemma slot_completed:
  "c = completed_task t rows success err now \<Longrightarrow> t\<lparr>task_status := task_status c, task_completed_at := task_completed_at c,
    task_result_rows := task_result_rows c, task_error := task_error c\<rparr> = c"
  by (cases t) (simp add: completed_task_def Let_def)

lemma update_slot_cong:
  "(\<And>u. u \<in> set ts \<Longrightarrow> task_id u = k \<Longrightarrow> f u = g u) \<Longrightarrow> update_slot k f ts = update_slot k g ts"
  by (induction ts) auto

lemma recomputed_job_follows:
  assumes "job_follows j ts" "\<forall>u \<in> set ts'. u = c \<or> u \<in> set ts" "is_terminal c" "ts' \<noteq> []"
  shows "job_follows (recomputed_job j ts' now) ts'"
proof (cases "list_all is_succeeded ts'")
  case False
  show ?thesis
  proof (cases "list_ex is_failed ts'")
    case none: False
    then have "job_status j \<noteq> JbSucceeded"
      using assms False by (auto simp: job_follows_def list_all_iff list_ex_iff is_terminal_def)
    then show ?thesis using False none by (simp add: job_follows_def recomputed_job_def)
  qed (use False in \<open>simp add: job_follows_def recomputed_job_def\<close>)
next
  case True
  then have "\<not> list_ex is_failed ts'"
    by (auto simp: list_all_iff list_ex_iff is_succeeded_def is_failed_def)
  then show ?thesis using True assms(4) by (simp add: job_follows_def recomputed_job_def)
qed

lemma complete_inv:
  assumes inv: "cluster_inv st" and step: "complete_task st k rows success err now now' = Ok st'"
  shows "cluster_inv st'"
proof -
  have parts: "keyed st" "queue_ok st" "stages_ok st" "jobs_ok st"
    using inv by (auto simp: cluster_inv_def)
  obtain t where t: "get_task st k = Some t"
    using step by (auto simp: complete_task_def and_then_eq_Ok ok_or_eq_Ok)
  obtain s where s: "get_stage st (task_stage_id t) = Some s" "t \<in> set (stage_tasks s)"
    using stage_of_task [OF parts(3) t] by blast
  have k: "task_id t = k" using parts(1) t by (auto simp: keyed_def)
  define f where "f = (\<lambda>u. completed_task u rows success err now)"
  define s' where "s' = recomputed_stage s (f t)"
  define mid where "mid = update_stage (update_task st (f t)) s'"
  obtain j where j: "get_job st (task_job_id t) = Some j"
    "job_follows j (tasks_for_job st (task_job_id t))"
    using parts(4) t by (force simp: jobs_ok_def)
  define j' where "j' = recomputed_job j (tasks_for_job mid (task_job_id t)) now'"
  have st': "st' = update_job mid j'"
    using step t s j
    by (simp add: complete_task_def ok_or_def view_simps f_def [symmetric] s'_def mid_def j'_def Let_def)
      (simp add: f_def view_simps)
  have slot: "stage_tasks s' = update_slot k f (stage_tasks s)"
  proof -
    have "u = t" if "u \<in> set (stage_tasks s)" "task_id u = k" for u
      using tasks_of_stage(2) [OF parts(3) s(1) that(1)] that(2) t by simp
    then show ?thesis
      by (auto simp: s'_def recomputed_stage_def Let_def f_def k slot_completed [OF refl]
          simp del: completed_task_simps(4) intro!: update_slot_cong)
  qed
  have sid: "stage_id s' = stage_id s" "stage_id s = task_stage_id t"
    using parts(1) s by (auto simp: s'_def recomputed_stage_def Let_def keyed_def)
  have jid: "job_id j' = task_job_id t"
    using parts(1) j(1) by (auto simp: j'_def recomputed_job_def keyed_def)
  have rw: "rewrites_task st k t f s' st'"
    using t k s slot sid by (auto simp: rewrites_task_def st' mid_def view_simps f_def)
  have jobs': "get_job st' i = (if i = task_job_id t then Some j' else get_job st i)" for i
    by (simp add: st' view_simps mid_def jid)
  have "keyed st'"
    using parts(1) jobs' jid by (intro rewrites_keyed [OF rw parts(1,3)]) (auto simp: keyed_def split: if_splits)
  moreover have "queue_ok st'"
    using parts(2) t k
    by (auto simp: queue_ok_def rewrites_get_task [OF rw] st' mid_def view_simps f_def is_terminal_def
        is_succeeded_def is_failed_def split: task_status.splits if_splits)
  moreover have "stages_ok st'" using rewrites_stages_ok [OF rw parts(1,3)] .
  moreover have "jobs_ok st'"
  proof -
    have same: "tasks_for_job st' = tasks_for_job mid"
      by (rule tasks_for_job_cong) (simp add: st' view_simps)
    have own: "set (tasks_for_job mid (task_job_id t)) =
        insert (f t) {u \<in> set (tasks_for_job st (task_job_id t)). task_id u \<noteq> k}"
      using rewrites_own_job [OF rw parts(1)] by (simp add: same)
    then have "tasks_for_job mid (task_job_id t) \<noteq> []" by (metis empty_not_insert set_empty2)
    then have "job_follows j' (tasks_for_job st' (task_job_id t))"
      using own recomputed_job_follows [OF j(2), of "tasks_for_job mid (task_job_id t)" "f t"]
      by (simp add: same j'_def f_def)
    then show ?thesis using rewrites_jobs_ok [OF rw parts(1,4), of j'] jobs' by blast
  qed
  ultimately show ?thesis by (simp add: cluster_inv_def)
qed

section \<open>Submitting\<close>

lemma update_new_key: "k \<notin> fst ` set al \<Longrightarrow> AList.update k v al = al @ [(k, v)]"
  by (induction al) auto

lemma insert_tasks:
  assumes "distinct (map task_id ts)" "\<forall>t \<in> set ts. get_task st (task_id t) = None"
  shows "tasks (foldl insert_task st ts) = tasks st @ map (\<lambda>t. (task_id t, t)) ts \<and>
    pending (foldl insert_task st ts) = pending st @ map task_id ts \<and>
    get_stage (foldl insert_task st ts) = get_stage st \<and> get_job (foldl insert_task st ts) = get_job st"
  using assms
proof (induction ts arbitrary: st)
  case (Cons t ts)
  have new: "task_id t \<notin> fst ` set (tasks st)"
    using Cons.prems(2) by (simp add: get_task_def map_of_eq_None_iff)
  have tk: "tasks (insert_task st t) = tasks st @ [(task_id t, t)]"
    by (simp add: insert_task_def update_new_key [OF new])
  have "task_id u \<noteq> task_id t" if "u \<in> set ts" for u
    using that Cons.prems(1) by (metis distinct.simps(2) imageI list.set_map list.simps(9))
  then have "\<forall>u \<in> set ts. get_task (insert_task st t) (task_id u) = None"
    using Cons.prems(2) by (simp add: view_simps)
  then show ?case
    using Cons.IH [of "insert_task st t"] Cons.prems(1) tk by (simp add: view_simps)
qed simp

lemma new_tasks_simps:
  "map task_id (new_tasks ids sql parts) = map (fresh_task ids) [0..<length parts]"
  "t \<in> set (new_tasks ids sql parts) \<Longrightarrow>
   task_status t = TkPending \<and> task_job_id t = fresh_job ids \<and> task_stage_id t = fresh_stage ids
   \<and> task_sql t = sql"
  "length (new_tasks ids sql parts) = length parts"
  by (auto simp: new_tasks_def task_new_def comp_def case_prod_unfold map_nth [symmetric]
      enumerate_eq_zip in_set_zip intro!: nth_equalityI)

text \<open>What a submission does to the state, for a plan split into \<open>parts\<close>.\<close>

lemma submit_job_Ok:
  assumes "submit_job lib cat st req ids now now' = Ok (j, cb, st')"
  obtains p parts base s jb where
    "plan_sql lib cat (req_sql req) = Ok p"
    "plan_partitions p (req_parallelism req) = Ok parts"
    "s = (stage_new (fresh_stage ids) (fresh_job ids) 0 ''main'')
       \<lparr>stage_tasks := new_tasks ids (req_sql req) parts\<rparr>"
    "base = foldl insert_task (update_stage st s) (new_tasks ids (req_sql req) parts)"
    "job_status jb = JbPending" "job_id jb = fresh_job ids"
    "j = jb\<lparr>job_status := JbRunning, job_started_at := Some now'\<rparr>"
    "st' = update_job (update_job base jb) j"
proof -
  define jb0 where "jb0 = (job_new (fresh_job ids) (req_name req) (req_sql req) now)
      \<lparr>job_parallelism := max (req_parallelism req) 1\<rparr>"
  obtain p parts where pp: "plan_sql lib cat (req_sql req) = Ok p"
    "plan_partitions p (req_parallelism req) = Ok parts"
    using assms by (auto simp: submit_job_def Let_def and_then_eq_Ok)
  define s where "s = (stage_new (fresh_stage ids) (fresh_job ids) 0 ''main'')
      \<lparr>stage_tasks := new_tasks ids (req_sql req) parts\<rparr>"
  define jb where "jb = jb0\<lparr>job_stages := [fresh_stage ids]\<rparr>"
  have s: "stage_id s = fresh_stage ids" "stage_tasks s = new_tasks ids (req_sql req) parts"
    by (simp_all add: s_def stage_new_def)
  have jb: "job_status jb = JbPending" "job_id jb = fresh_job ids"
    by (simp_all add: jb_def jb0_def job_new_def)
  define base where "base = foldl insert_task (update_stage st s) (new_tasks ids (req_sql req) parts)"
  have "j = jb\<lparr>job_status := JbRunning, job_started_at := Some now'\<rparr> \<and>
      st' = update_job (update_job base jb) (jb\<lparr>job_status := JbRunning, job_started_at := Some now'\<rparr>)"
    using assms pp
    by (auto simp: submit_job_def Let_def insert_stage_update view_simps stage_new_def job_new_def
        unwrap_or_def base_def s_def jb_def jb0_def)
  then show thesis using that pp jb s_def base_def by blast
qed

lemma submit_inv:
  assumes inv: "cluster_inv st" and step: "submit_job lib cat st req ids now now' = Ok (j, cb, st')"
    and fresh: "ids_fresh st ids"
  shows "cluster_inv st'"
proof -
  obtain p parts base s jb where sub:
    "s = (stage_new (fresh_stage ids) (fresh_job ids) 0 ''main'')
       \<lparr>stage_tasks := new_tasks ids (req_sql req) parts\<rparr>"
    "base = foldl insert_task (update_stage st s) (new_tasks ids (req_sql req) parts)"
    "job_status jb = JbPending" "job_id jb = fresh_job ids"
    "j = jb\<lparr>job_status := JbRunning, job_started_at := Some now'\<rparr>"
    "st' = update_job (update_job base jb) j"
    using submit_job_Ok [OF step] by metis
  define ts where "ts = new_tasks ids (req_sql req) parts"
  have parts: "keyed st" "queue_ok st" "stages_ok st" "jobs_ok st"
    using inv by (auto simp: cluster_inv_def)
  have s: "stage_id s = fresh_stage ids" "stage_tasks s = ts"
    by (simp_all add: sub(1) stage_new_def ts_def)
  have ids: "map task_id ts = map (fresh_task ids) [0..<length parts]"
    by (simp add: ts_def new_tasks_simps)
  have d: "distinct (map task_id ts)"
    using fresh by (simp add: ids distinct_map ids_fresh_def inj_on_def)
  have new: "get_task st (task_id t) = None" if "t \<in> set ts" for t
  proof -
    have "task_id t \<in> set (map task_id ts)" using that by simp
    then show ?thesis using fresh unfolding ids by (auto simp: ids_fresh_def)
  qed
  have kind: "task_status t = TkPending" "task_job_id t = fresh_job ids" "task_stage_id t = fresh_stage ids"
    if "t \<in> set ts" for t
    using that new_tasks_simps(2) by (auto simp: ts_def)
  have base: "tasks base = tasks st @ map (\<lambda>t. (task_id t, t)) ts"
    "pending base = pending st @ map task_id ts"
    "get_stage base = get_stage (update_stage st s)" "get_job base = get_job st"
    using insert_tasks [OF d, of "update_stage st s"] new
    by (auto simp: sub(2) view_simps ts_def)
  have tk: "get_task st' k = Some t \<longleftrightarrow> get_task st k = Some t \<or> t \<in> set ts \<and> task_id t = k" for k t
  proof -
    have m: "map_of (map (\<lambda>t. (task_id t, t)) ts) k = Some t \<longleftrightarrow> t \<in> set ts \<and> task_id t = k"
      using d by (subst map_of_eq_Some_iff) (auto simp: comp_def)
    show ?thesis
      using new base(1) m
      by (auto simp: sub(6) view_simps get_task_def map_add_Some_iff)
  qed
  have stg: "get_stage st' k = (if k = fresh_stage ids then Some s else get_stage st k)" for k
    by (simp add: sub(6) view_simps base s)
  have jb: "get_job st' k = (if k = fresh_job ids then Some j else get_job st k)" for k
    by (simp add: sub(4,5,6) view_simps base)
  have pend: "pending st' = pending st @ map task_id ts" by (simp add: sub(6) view_simps base)
  have tks: "tasks st' = tasks st @ map (\<lambda>t. (task_id t, t)) ts" by (simp add: sub(6) view_simps base)
  have oldjob: "task_job_id t \<noteq> fresh_job ids" if "get_task st k = Some t" for k t
    using parts(4) fresh that by (force simp: jobs_ok_def ids_fresh_def)
  have "keyed st'"
  proof -
    have "map fst (tasks st') = map fst (tasks st) @ map task_id ts" by (simp add: tks comp_def)
    moreover have "set (map fst (tasks st)) \<inter> set (map task_id ts) = {}"
      using new by (force simp: get_task_def map_of_eq_None_iff image_iff)
    ultimately have "distinct (map fst (tasks st'))" using d parts(1) by (simp add: keyed_def)
    then show ?thesis
      using parts(1) s sub(4,5) by (auto simp: keyed_def tk stg jb split: if_splits)
  qed
  moreover have "queue_ok st'"
    using parts(2) d new kind
    by (auto simp: queue_ok_def pend tk)
  moreover have "stages_ok st'"
    unfolding stages_ok_def
  proof (intro conjI allI impI)
    fix k z assume z: "get_stage st' k = Some z"
    show "distinct (map task_id (stage_tasks z))"
      using z d s tasks_of_stage(1) [OF parts(3), of k z] by (auto simp: stg split: if_splits)
    show "\<forall>u \<in> set (stage_tasks z). get_task st' (task_id u) = Some u \<and> task_stage_id u = k"
      using z s kind(3) tasks_of_stage(2) [OF parts(3), of k z]
      by (simp add: stg tk split: if_splits)
  next
    fix k t assume "get_task st' k = Some t"
    then consider "get_task st k = Some t" | "t \<in> set ts" by (auto simp: tk)
    then show "\<exists>z. get_stage st' (task_stage_id t) = Some z \<and> t \<in> set (stage_tasks z)"
    proof cases
      case 1
      then obtain z where "get_stage st (task_stage_id t) = Some z" "t \<in> set (stage_tasks z)"
        using stage_of_task [OF parts(3)] by blast
      moreover have "get_stage st (fresh_stage ids) = None" using fresh by (simp add: ids_fresh_def)
      ultimately show ?thesis by (metis stg option.distinct(1))
    qed (simp add: stg kind s)
  qed
  moreover have "jobs_ok st'"
    unfolding jobs_ok_def
  proof (intro conjI allI impI)
    fix k t assume "get_task st' k = Some t"
    then show "get_job st' (task_job_id t) \<noteq> None"
      using parts(4) kind(2) by (auto simp: tk jb jobs_ok_def)
  next
    fix k x assume x: "get_job st' k = Some x"
    have split: "tasks_for_job st' k = tasks_for_job st k @ (if k = fresh_job ids then ts else [])"
      using kind(2) by (auto simp: tasks_for_job_def tks comp_def filter_empty_conv filter_id_conv)
    show "job_follows x (tasks_for_job st' k)"
    proof (cases "k = fresh_job ids")
      case True
      have "set (tasks_for_job st k) = {}"
        using oldjob parts(1) True by (subst tasks_for_job_set) (auto simp: keyed_def)
      then have "tasks_for_job st' k = ts" using split True by simp
      moreover have "job_status x = JbRunning" using x True by (auto simp: jb sub(5))
      ultimately show ?thesis
        using kind(1) by (auto simp: job_follows_def list_all_iff list_ex_iff is_succeeded_def is_failed_def)
    next
      case False
      then show ?thesis using x split parts(4) by (simp add: jb jobs_ok_def)
    qed
  qed
  ultimately show ?thesis by (simp add: cluster_inv_def)
qed

lemma skip_inv:
  assumes inv: "cluster_inv st" and step: "submit_job_skip_plan st req jid now now' = Ok (j, st')"
    and fresh: "get_job st jid = None"
  shows "cluster_inv st'"
proof -
  have st': "st' = update_job st j" "job_id j = jid" "job_status j = JbRunning"
    using step by (auto simp: submit_job_skip_plan_def Let_def insert_stage_update job_new_def)
  have parts: "keyed st" "queue_ok st" "stages_ok st" "jobs_ok st"
    using inv by (auto simp: cluster_inv_def)
  have "task_job_id t \<noteq> jid" if "get_task st k = Some t" for k t
    using parts(4) that fresh unfolding jobs_ok_def by blast
  then have "set (tasks_for_job st jid) = {}"
    using parts(1) by (subst tasks_for_job_set) (auto simp: keyed_def)
  then have "tasks_for_job st jid = []" by simp
  moreover have "tasks_for_job st' = tasks_for_job st"
    by (rule tasks_for_job_cong) (simp add: st' view_simps)
  ultimately have "jobs_ok st'"
    using parts(4) st' by (auto simp: jobs_ok_def view_simps job_follows_def)
  moreover have "keyed st'" "queue_ok st'" "stages_ok st'"
    using parts st' by (simp_all add: keyed_def queue_ok_def stages_ok_def view_simps)
  ultimately show ?thesis by (simp add: cluster_inv_def)
qed

lemma step_inv:
  assumes "cluster_step st st'" "cluster_inv st"
  shows "cluster_inv st'"
  using assms
proof (cases rule: cluster_step.cases)
  case (submit lib cat req ids now now' j cb)
  then show ?thesis using submit_inv assms(2) by blast
next
  case (skip req jid now now' j)
  then show ?thesis using skip_inv assms(2) by blast
next
  case (assign wid r)
  then show ?thesis using assign_inv assms(2) by blast
next
  case (complete tid rows success err now now')
  then show ?thesis using complete_inv assms(2) by blast
qed (use assms(2) cluster_inv_frame [of st' st] in
  \<open>auto simp: register_worker_def remove_worker_def inc_running_round_def
     record_completed_round_def update_worker_heartbeat_def split: option.splits\<close>)

lemma reachable_inv: "reachable st \<Longrightarrow> cluster_inv st"
  by (induction rule: reachable.induct) (auto intro: cluster_inv_new step_inv)

section \<open>Progress\<close>

text \<open>In a reachable state the lookup of the job in \<^verbatim>\<open>complete_task\<close> cannot fail.\<close>

lemma complete_total:
  assumes "cluster_inv st"
  shows "complete_task st k rows success err now now' =
    Err (ErrNotFound (''task '' @ k @ '' not found'')) \<and> get_task st k = None \<or>
    (\<exists>st'. complete_task st k rows success err now now' = Ok st')"
proof (cases "get_task st k")
  case (Some t)
  then have "get_job st (task_job_id t) \<noteq> None"
    using assms by (auto simp: cluster_inv_def jobs_ok_def)
  then show ?thesis
    using Some by (auto simp: complete_task_def ok_or_def Let_def view_simps split: option.splits)
qed (simp add: complete_task_def ok_or_def)

lemma complete_without_job:
  assumes "get_task st k = Some t" "get_job st (task_job_id t) = None"
  shows "complete_task st k rows success err now now' = Panic unwrap_none"
  using assms by (auto simp: complete_task_def ok_or_def Let_def view_simps split: option.splits)

section \<open>Partitions\<close>

fun scan_count :: "logical_plan \<Rightarrow> nat" where
  "scan_count (PScan table path source projection flt s) = 1"
| "scan_count (PProject input es s) = scan_count input"
| "scan_count (PFilter input e s) = scan_count input"
| "scan_count (PAggregate input gs as s) = scan_count input"
| "scan_count (PSort input order s) = scan_count input"
| "scan_count (PLimit input n s) = scan_count input"
| "scan_count (PDistinct input s) = scan_count input"
| "scan_count (PJoin l r on how s) = scan_count l + scan_count r"
| "scan_count (PUnion ps s) = sum_list (map scan_count ps)"
| "scan_count PEmpty = 0"

lemma push_partitions:
  "map part_index out = [0..<length out] \<Longrightarrow>
   map part_index (foldl (push_partition path) out xs) = [0..<length out + length xs]"
  by (induction xs arbitrary: out) (auto simp: push_partition_def)

lemma collect_scans_index:
  "map part_index out = [0..<length out] \<Longrightarrow>
   map part_index (collect_scans p n out) = [0..<length out + n * scan_count p]"
proof (induction p arbitrary: out)
  case (PScan table path source projection flt s)
  then show ?case using push_partitions [of out path "[0..<n]"] by simp
next
  case (PJoin l r on how s)
  have "map part_index (collect_scans l n out) = [0..<length (collect_scans l n out)]"
    using PJoin.IH(1) [OF PJoin.prems] by (metis length_map diff_zero length_upt)
  then show ?case
    using PJoin.IH(1) [OF PJoin.prems] PJoin.IH(2) [of "collect_scans l n out"]
    by (metis add.assoc collect_scans.simps(8) diff_zero distrib_left length_map length_upt scan_count.simps(8))
next
  case (PUnion ps s)
  have "map part_index (fold (\<lambda>p out. collect_scans p n out) qs out) =
      [0..<length out + n * sum_list (map scan_count qs)]"
    if "set qs \<subseteq> set ps" "map part_index out = [0..<length out]" for qs out
    using that
  proof (induction qs arbitrary: out)
    case (Cons q qs)
    have q: "map part_index (collect_scans q n out) = [0..<length out + n * scan_count q]"
      using PUnion.IH [of q out] Cons.prems by auto
    then have l: "length (collect_scans q n out) = length out + n * scan_count q"
      by (metis length_map diff_zero length_upt)
    then show ?case using Cons.IH [of "collect_scans q n out"] Cons.prems q
      by (simp add: distrib_left add.assoc)
  qed simp
  then show ?case using PUnion.prems by simp
qed auto

lemma plan_partitions_count:
  assumes "plan_partitions p n = Ok parts"
  shows "length parts = max 1 (n * scan_count p)" "map part_index parts = [0..<length parts]"
proof -
  have c: "map part_index (collect_scans p n []) = [0..<n * scan_count p]"
    using collect_scans_index [of "[]" p n] by simp
  then have l: "length (collect_scans p n []) = n * scan_count p"
    by (metis length_map diff_zero length_upt)
  show "length parts = max 1 (n * scan_count p)" "map part_index parts = [0..<length parts]"
    using assms c l
    by (cases "n * scan_count p"; auto simp: plan_partitions_def Let_def split: if_splits)+
qed

section \<open>The tasks of a submission\<close>

lemma submitted_tasks:
  assumes sub: "submit_job lib cat st req ids now now' = Ok (j, cb, st')" and fresh: "ids_fresh st ids"
    and inv: "cluster_inv st"
  obtains p parts where "plan_sql lib cat (req_sql req) = Ok p"
    "plan_partitions p (req_parallelism req) = Ok parts"
    "tasks_for_job st' (fresh_job ids) = new_tasks ids (req_sql req) parts"
proof -
  obtain p parts base s jb where r:
    "plan_sql lib cat (req_sql req) = Ok p" "plan_partitions p (req_parallelism req) = Ok parts"
    "base = foldl insert_task (update_stage st s) (new_tasks ids (req_sql req) parts)"
    "st' = update_job (update_job base jb) j"
    using submit_job_Ok [OF sub] by metis
  define ts where "ts = new_tasks ids (req_sql req) parts"
  have ids: "map task_id ts = map (fresh_task ids) [0..<length parts]"
    by (simp add: ts_def new_tasks_simps)
  have d: "distinct (map task_id ts)"
    using fresh by (simp add: ids distinct_map ids_fresh_def inj_on_def)
  have new: "\<forall>t \<in> set ts. get_task (update_stage st s) (task_id t) = None"
  proof
    fix t assume "t \<in> set ts"
    then have "task_id t \<in> set (map task_id ts)" by simp
    then show "get_task (update_stage st s) (task_id t) = None"
      using fresh unfolding ids by (auto simp: ids_fresh_def view_simps)
  qed
  have tks: "tasks st' = tasks st @ map (\<lambda>t. (task_id t, t)) ts"
    using insert_tasks [OF d new] by (simp add: r(3,4) view_simps ts_def)
  have old: "task_job_id t \<noteq> fresh_job ids" if "get_task st k = Some t" for k t
    using inv fresh that unfolding cluster_inv_def jobs_ok_def ids_fresh_def by metis
  have "set (tasks_for_job st (fresh_job ids)) = {}"
    using old inv by (subst tasks_for_job_set) (auto simp: cluster_inv_def keyed_def)
  moreover have "tasks_for_job st' (fresh_job ids) = tasks_for_job st (fresh_job ids) @ ts"
    using new_tasks_simps(2) by (auto simp: tasks_for_job_def tks comp_def filter_id_conv ts_def)
  ultimately show thesis using that r(1,2) by (simp add: ts_def)
qed

end
