(* ===== verification/Cluster_Properties.thy ===== *)
theory Cluster_Properties
  imports Cluster_Laws Sql_Properties Query_Properties
begin

text \<open>
  Properties of the cluster master as a state machine, and of a worker's execution of a task.
\<close>

section \<open>Sample run\<close>

text \<open>Identifiers of the sample run: tasks are numbered, jobs and stages have one name.\<close>

definition sample_ids :: fresh_ids where
  "sample_ids = \<lparr>fresh_job = ''j'', fresh_stage = ''s'', fresh_task = show_nat\<rparr>"

definition sample_request :: job_request where
  "sample_request = req_with_parallelism (job_request_new ''q'' ''q'' 0) 2"

definition submitted :: cluster_state where
  "submitted = (case submit_job sales_lib (session_catalog sales_session) (cluster_new ''m'')
       sample_request sample_ids 0 1 of Ok (j, cb, st) \<Rightarrow> st | _ \<Rightarrow> cluster_new ''m'')"

lemma show_nat_inj: "inj show_nat"
  by (metis digits_val_show_nat injI)

lemma submitted_Ok: "\<exists>j cb. submit_job sales_lib (session_catalog sales_session) (cluster_new ''m'')
    sample_request sample_ids 0 1 = Ok (j, cb, submitted)"
proof -
  have "is_ok (submit_job sales_lib (session_catalog sales_session) (cluster_new ''m'')
      sample_request sample_ids 0 1)" by code_simp
  then show ?thesis
    by (cases "submit_job sales_lib (session_catalog sales_session) (cluster_new ''m'')
        sample_request sample_ids 0 1") (auto simp: submitted_def)
qed

lemma submitted_reachable: "reachable submitted"
proof -
  have "ids_fresh (cluster_new ''m'') sample_ids"
    using show_nat_inj
    by (simp add: ids_fresh_def sample_ids_def cluster_new_def get_task_def get_stage_def get_job_def)
  then show ?thesis
    using submitted_Ok reachable.start cluster_step.submit reachable.step by metis
qed

section \<open>The queue, the stages and the jobs\<close>

text \<open>C6. In every reachable state the queue holds each pending task exactly once and nothing
  else, so no task is handed out twice and none is lost.\<close>

theorem queue_is_pending_tasks:
  assumes "reachable st"
  shows "distinct (pending st) \<and>
    (k \<in> set (pending st) \<longleftrightarrow> (\<exists>t. get_task st k = Some t \<and> task_status t = TkPending))"
  using reachable_inv [OF assms] by (auto simp: cluster_inv_def queue_ok_def)

theorem queue_is_pending_tasks_witness:
  "distinct (pending submitted) \<and>
    (''0'' \<in> set (pending submitted) \<longleftrightarrow> (\<exists>t. get_task submitted ''0'' = Some t \<and> task_status t = TkPending))"
  by (rule queue_is_pending_tasks [OF submitted_reachable])





section \<open>Completing and submitting\<close>

text \<open>In a reachable state completing a task either reports that the task is unknown or
  succeeds; the unchecked lookup of its job never panics.\<close>

theorem complete_task_never_panics:
  assumes "reachable st"
  shows "(get_task st k = None \<and> complete_task st k rows success err now now' =
      Err (ErrNotFound (''task '' @ k @ '' not found''))) \<or>
    (\<exists>st'. complete_task st k rows success err now now' = Ok st' \<and> reachable st')"
  using complete_total [OF reachable_inv [OF assms]] cluster_step.complete reachable.step [OF assms] by metis

theorem complete_task_never_panics_witness:
  "(get_task submitted ''0'' = None \<and> complete_task submitted ''0'' 5 True None 2 3 =
      Err (ErrNotFound (''task '' @ ''0'' @ '' not found''))) \<or>
    (\<exists>st'. complete_task submitted ''0'' 5 True None 2 3 = Ok st' \<and> reachable st')"
  by (rule complete_task_never_panics [OF submitted_reachable])

text \<open>A submission queues its tasks before it stores its job. A completion that arrives in
  between finds the task and no job, and panics.\<close>

theorem complete_before_job_panics:
  assumes "get_task st k = Some t" "get_job st (task_job_id t) = None"
  shows "complete_task st k rows success err now now' = Panic unwrap_none"
  using assms by (rule complete_without_job)

theorem complete_before_job_panics_witness:
  "complete_task (insert_task (cluster_new ''m'') (task_new ''t'' ''j'' ''s'' ''p'' ''q'')) ''t'' 1 True None 0 0 =
     Panic unwrap_none"
  by (rule complete_before_job_panics)
    (auto simp: view_simps cluster_new_def get_job_def task_new_def)

text \<open>Submitting a job creates one task per scan of the plan and per unit of the requested
  parallelism, at least one, and every one of them carries the whole SQL text.\<close>

theorem submit_creates_tasks:
  assumes "submit_job lib cat st req ids now now' = Ok (j, cb, st')" "ids_fresh st ids" "reachable st"
  shows "\<exists>p. plan_sql lib cat (req_sql req) = Ok p \<and>
    length (tasks_for_job st' (fresh_job ids)) = max 1 (req_parallelism req * scan_count p) \<and>
    list_all (\<lambda>t. task_sql t = req_sql req \<and> task_status t = TkPending) (tasks_for_job st' (fresh_job ids))"
proof -
  obtain p parts where p: "plan_sql lib cat (req_sql req) = Ok p"
    "plan_partitions p (req_parallelism req) = Ok parts"
    "tasks_for_job st' (fresh_job ids) = new_tasks ids (req_sql req) parts"
    using submitted_tasks [OF assms(1,2) reachable_inv [OF assms(3)]] by metis
  then show ?thesis
    using plan_partitions_count(1) [OF p(2)] new_tasks_simps(2,3) by (auto simp: list_all_iff)
qed

theorem submit_creates_tasks_witness:
  "\<exists>p. plan_sql sales_lib (session_catalog sales_session) ''q'' = Ok p \<and>
    length (tasks_for_job submitted ''j'') = max 1 (2 * scan_count p)"
proof -
  obtain j cb where "submit_job sales_lib (session_catalog sales_session) (cluster_new ''m'')
    sample_request sample_ids 0 1 = Ok (j, cb, submitted)" using submitted_Ok by blast
  moreover have "ids_fresh (cluster_new ''m'') sample_ids"
    using show_nat_inj
    by (simp add: ids_fresh_def sample_ids_def cluster_new_def get_task_def get_stage_def get_job_def)
  ultimately show ?thesis
    using submit_creates_tasks [OF _ _ reachable.start]
    by (fastforce simp: sample_ids_def sample_request_def req_with_parallelism_def job_request_new_def)
qed

section \<open>A worker's task\<close>

text \<open>C32. A task that a worker executes successfully yields a valid batch whose schema is the
  output schema of the well-formed plan of the task's SQL text, and its rows are an answer to
  that plan.\<close>

theorem task_result_valid:
  assumes "ctx_ok ctx" "execute_task rx lib ctx cat t = Ok b"
  shows "\<exists>p. plan_sql lib cat (task_sql t) = Ok p \<and> plan_wf p \<and>
    batch_schema b = output_schema p \<and> batch_ok b \<and> answers rx ctx p (batch_records b)"
  using assms execute_schema [OF assms(1)] execution_answers [OF assms(1)] plan_sql_planned
  by (fastforce simp: execute_task_def and_then_eq_Ok planned_def)

theorem task_result_valid_witness:
  "\<exists>p. plan_sql sales_lib (session_catalog sales_session) ''q'' = Ok p \<and> plan_wf p \<and>
    batch_schema (sales_rows [2]) = output_schema p \<and> batch_ok (sales_rows [2]) \<and>
    answers no_regex sales_ctx p (batch_records (sales_rows [2]))"
proof -
  have "execute_task no_regex sales_lib sales_ctx (session_catalog sales_session)
      (task_new ''t'' ''j'' ''s'' ''p'' ''q'') = Ok (sales_rows [2])" by code_simp
  from task_result_valid [OF sales_ctx_ok(1) this] show ?thesis by (simp add: task_new_def)
qed

end
