(* ===== verification/Interleaving.thy ===== *)
theory Interleaving
  imports Cluster
begin

text \<open>
  The master under concurrency (\<^verbatim>\<open>rspark-cluster/src/master.rs\<close> over the locks of \<^verbatim>\<open>state.rs\<close>). Each
  method of the state takes a lock for one access to one table, so a handler of the master is a
  sequence of such accesses between which other handlers run. Here a handler is a small machine:
  a program point holds the local variables that are still needed, and one step is the access
  made there together with the local computation after it. The atomic handlers are those of
  \<open>Cluster\<close>. The mutex of the stage callback is left out: no code of the repository sets a callback.
\<close>

section \<open>Submission\<close>

text \<open>
  \<open>SBack\<close> keeps the stage that was inserted; the step uses its identifier only. \<open>STask t ts\<close> is about
  to store the task \<open>t\<close> with \<open>ts\<close> to follow, \<open>SPush k ts\<close> to queue the identifier \<open>k\<close>. The time is
  the one the job will be started at.
\<close>

datatype submit_pc =
    SStage stage job time
  | SBack stage job time
  | STask task "task list" job time
  | SPush string "task list" job time
  | SJob job time
  | SRun job time
  | SCallback job
  | SRead job
  | SDone "job res"

definition submit_start ::
  "sql_lib \<Rightarrow> catalog \<Rightarrow> job_request \<Rightarrow> fresh_ids \<Rightarrow> time \<Rightarrow> time \<Rightarrow> submit_pc" where
  "submit_start lib cat req ids now now' =
     (let job = (job_new (fresh_job ids) (req_name req) (req_sql req) now)
                  \<lparr>job_parallelism := max (req_parallelism req) 1\<rparr>
      in case and_then (plan_sql lib cat (req_sql req)) (\<lambda>p. plan_partitions p (req_parallelism req)) of
           Err e \<Rightarrow> SDone (Err e)
         | Panic m \<Rightarrow> SDone (Panic m)
         | Ok parts \<Rightarrow> SStage ((stage_new (fresh_stage ids) (job_id job) 0 ''main'')
                        \<lparr>stage_tasks := new_tasks ids (req_sql req) parts\<rparr>) job now')"

text \<open>The head of the loop over the tasks, and what follows it.\<close>

fun next_insert :: "task list \<Rightarrow> job \<Rightarrow> time \<Rightarrow> submit_pc" where
  "next_insert [] job now' = SJob job now'"
| "next_insert (t # ts) job now' = STask t ts job now'"

fun submit_step :: "submit_pc \<Rightarrow> cluster_state \<Rightarrow> submit_pc \<times> cluster_state" where
  "submit_step (SStage s job now') st = (SBack s job now', insert_stage st s)"
| "submit_step (SBack s job now') st =
     (case get_stage st (stage_id s) of
        None \<Rightarrow> (SDone (Panic unwrap_none), st)
      | Some r \<Rightarrow> (next_insert (stage_tasks r) (job\<lparr>job_stages := [stage_id s]\<rparr>) now', st))"
| "submit_step (STask t ts job now') st =
     (SPush (task_id t) ts job now', st\<lparr>tasks := AList.update (task_id t) t (tasks st)\<rparr>)"
| "submit_step (SPush k ts job now') st =
     (next_insert ts job now', st\<lparr>pending := pending st @ [k]\<rparr>)"
| "submit_step (SJob job now') st = (SRun job now', insert_job st job)"
| "submit_step (SRun job now') st =
     (SCallback job, update_job st (job\<lparr>job_status := JbRunning, job_started_at := Some now'\<rparr>))"
| "submit_step (SCallback job) st = (SRead job, st)"
| "submit_step (SRead job) st = (SDone (Ok (unwrap_or (get_job st (job_id job)) job)), st)"
| "submit_step (SDone r) st = (SDone r, st)"

section \<open>Assignment\<close>

datatype assign_pc =
    APop string
  | ARead string string
  | ACheck task
  | AWrite task
  | AStage task
  | AStageWrite task stage
  | ADone "task option"

text \<open>\<open>ACheck\<close> reads the old status of the task, which matters for terminal statuses only.\<close>

fun assign_step :: "assign_pc \<Rightarrow> cluster_state \<Rightarrow> assign_pc \<times> cluster_state" where
  "assign_step (APop wid) st =
     (case pending st of
        [] \<Rightarrow> (ADone None, st)
      | k # rest \<Rightarrow> (ARead wid k, st\<lparr>pending := rest\<rparr>))"
| "assign_step (ARead wid k) st =
     (case get_task st k of
        None \<Rightarrow> (ADone None, st)
      | Some t \<Rightarrow> (ACheck (t\<lparr>task_assigned_worker := Some wid, task_status := TkAssigned\<rparr>), st))"
| "assign_step (ACheck t) st = (AWrite t, st)"
| "assign_step (AWrite t) st = (AStage t, st\<lparr>tasks := AList.update (task_id t) t (tasks st)\<rparr>)"
| "assign_step (AStage t) st =
     (case get_stage st (task_stage_id t) of
        None \<Rightarrow> (ADone (Some t), st)
      | Some s \<Rightarrow> (AStageWrite t (s\<lparr>stage_tasks :=
          update_slot (task_id t) (\<lambda>u. u\<lparr>task_assigned_worker := task_assigned_worker t,
            task_status := task_status t\<rparr>) (stage_tasks s)\<rparr>), st))"
| "assign_step (AStageWrite t s) st = (ADone (Some t), update_stage st s)"
| "assign_step (ADone r) st = (ADone r, st)"

section \<open>Completion\<close>

record complete_call =
  call_task :: string
  call_rows :: usize
  call_success :: bool
  call_error :: "string option"
  call_now :: time
  call_later :: time

text \<open>The time that program points carry is the one the job will be completed at.\<close>

datatype complete_pc =
    CRead complete_call
  | CCheck task time
  | CWrite task bool time
  | CRetain task time
  | CCount task time
  | CStage task time
  | CStageWrite task stage time
  | CTasks task time
  | CJob task "task list" time
  | CJobWrite job
  | CDone "unit res"

fun complete_step :: "complete_pc \<Rightarrow> cluster_state \<Rightarrow> complete_pc \<times> cluster_state" where
  "complete_step (CRead c) st =
     (case get_task st (call_task c) of
        None \<Rightarrow> (CDone (Err (ErrNotFound (''task '' @ call_task c @ '' not found''))), st)
      | Some t \<Rightarrow> (CCheck (completed_task t (call_rows c) (call_success c) (call_error c) (call_now c))
                   (call_later c), st))"
| "complete_step (CCheck t now') st =
     (CWrite t (case get_task st (task_id t) of Some u \<Rightarrow> is_terminal u | None \<Rightarrow> False) now', st)"
| "complete_step (CWrite t was_terminal now') st =
     (if \<not> was_terminal \<and> is_terminal t then CRetain t now' else CStage t now',
      st\<lparr>tasks := AList.update (task_id t) t (tasks st)\<rparr>)"
| "complete_step (CRetain t now') st =
     (if is_succeeded t then CCount t now' else CStage t now',
      st\<lparr>pending := filter (\<lambda>x. x \<noteq> task_id t) (pending st)\<rparr>)"
| "complete_step (CCount t now') st = (CStage t now', st\<lparr>total_runs := total_runs st + 1\<rparr>)"
| "complete_step (CStage t now') st =
     (case get_stage st (task_stage_id t) of
        None \<Rightarrow> (CTasks t now', st)
      | Some s \<Rightarrow> (CStageWrite t (recomputed_stage s t) now', st))"
| "complete_step (CStageWrite t s now') st = (CTasks t now', update_stage st s)"
| "complete_step (CTasks t now') st = (CJob t (tasks_for_job st (task_job_id t)) now', st)"
| "complete_step (CJob t ts now') st =
     (case get_job st (task_job_id t) of
        None \<Rightarrow> (CDone (Panic unwrap_none), st)
      | Some j \<Rightarrow> (CJobWrite (recomputed_job j ts now'), st))"
| "complete_step (CJobWrite j) st = (CDone (Ok ()), update_job st j)"
| "complete_step (CDone r) st = (CDone r, st)"

section \<open>Threads\<close>

datatype thread = TSubmit submit_pc | TAssign assign_pc | TComplete complete_pc

fun thread_step :: "thread \<Rightarrow> cluster_state \<Rightarrow> thread \<times> cluster_state" where
  "thread_step (TSubmit pc) st = apfst TSubmit (submit_step pc st)"
| "thread_step (TAssign pc) st = apfst TAssign (assign_step pc st)"
| "thread_step (TComplete pc) st = apfst TComplete (complete_step pc st)"

text \<open>A thread running alone for a number of steps.\<close>

fun thread_steps :: "nat \<Rightarrow> thread \<Rightarrow> cluster_state \<Rightarrow> thread \<times> cluster_state" where
  "thread_steps 0 th st = (th, st)"
| "thread_steps (Suc n) th st = (let (th, st) = thread_step th st in thread_steps n th st)"

text \<open>Threads over a shared state; a schedule lists which thread makes the next step.\<close>

type_synonym net = "thread list \<times> cluster_state"

definition net_exec :: "nat \<Rightarrow> net \<Rightarrow> net" where
  "net_exec i = (\<lambda>(ths, st).
     if i < length ths then (let (th, st) = thread_step (ths ! i) st in (ths[i := th], st)) else (ths, st))"

definition run_schedule :: "nat list \<Rightarrow> net \<Rightarrow> net" where
  "run_schedule is net = fold net_exec is net"

text \<open>Handlers that have returned, and those that have panicked.\<close>

fun finished :: "thread \<Rightarrow> bool" where
  "finished (TSubmit (SDone r)) = True"
| "finished (TAssign (ADone r)) = True"
| "finished (TComplete (CDone r)) = True"
| "finished _ = False"

fun panicked :: "thread \<Rightarrow> bool" where
  "panicked (TSubmit (SDone (Panic m))) = True"
| "panicked (TComplete (CDone (Panic m))) = True"
| "panicked _ = False"

text \<open>A bound on the accesses that a handler still makes.\<close>

fun submit_remaining :: "submit_pc \<Rightarrow> nat" where
  "submit_remaining (SStage s job now') = 2 * length (stage_tasks s) + 6"
| "submit_remaining (SBack s job now') = 2 * length (stage_tasks s) + 5"
| "submit_remaining (STask t ts job now') = 2 * length ts + 6"
| "submit_remaining (SPush k ts job now') = 2 * length ts + 5"
| "submit_remaining (SJob job now') = 4"
| "submit_remaining (SRun job now') = 3"
| "submit_remaining (SCallback job) = 2"
| "submit_remaining (SRead job) = 1"
| "submit_remaining (SDone r) = 0"

fun assign_remaining :: "assign_pc \<Rightarrow> nat" where
  "assign_remaining (APop wid) = 6"
| "assign_remaining (ARead wid k) = 5"
| "assign_remaining (ACheck t) = 4"
| "assign_remaining (AWrite t) = 3"
| "assign_remaining (AStage t) = 2"
| "assign_remaining (AStageWrite t s) = 1"
| "assign_remaining (ADone r) = 0"

fun complete_remaining :: "complete_pc \<Rightarrow> nat" where
  "complete_remaining (CRead c) = 10"
| "complete_remaining (CCheck t now') = 9"
| "complete_remaining (CWrite t w now') = 8"
| "complete_remaining (CRetain t now') = 7"
| "complete_remaining (CCount t now') = 6"
| "complete_remaining (CStage t now') = 5"
| "complete_remaining (CStageWrite t s now') = 4"
| "complete_remaining (CTasks t now') = 3"
| "complete_remaining (CJob t ts now') = 2"
| "complete_remaining (CJobWrite j) = 1"
| "complete_remaining (CDone r) = 0"

fun remaining :: "thread \<Rightarrow> nat" where
  "remaining (TSubmit pc) = submit_remaining pc"
| "remaining (TAssign pc) = assign_remaining pc"
| "remaining (TComplete pc) = complete_remaining pc"

section \<open>Reachable nets\<close>

text \<open>
  What the threads of a net hold: the task whose identifier a thread took from the queue, the
  identifiers it will still queue, the tasks it will still store, the stage it will still insert
  and the job whose submission it is in the middle of.
\<close>

fun queued_later :: "thread \<Rightarrow> string list" where
  "queued_later (TSubmit (SStage s job now')) = map task_id (stage_tasks s)"
| "queued_later (TSubmit (SBack s job now')) = map task_id (stage_tasks s)"
| "queued_later (TSubmit (STask t ts job now')) = task_id t # map task_id ts"
| "queued_later (TSubmit (SPush k ts job now')) = k # map task_id ts"
| "queued_later _ = []"

fun taken :: "thread \<Rightarrow> string list" where
  "taken (TAssign (ARead wid k)) = [k]"
| "taken (TAssign (ACheck t)) = [task_id t]"
| "taken (TAssign (AWrite t)) = [task_id t]"
| "taken (TAssign (AStage t)) = [task_id t]"
| "taken (TAssign (AStageWrite t s)) = [task_id t]"
| "taken (TAssign (ADone (Some t))) = [task_id t]"
| "taken _ = []"

fun stored_later :: "thread \<Rightarrow> string list" where
  "stored_later (TSubmit (SStage s job now')) = map task_id (stage_tasks s)"
| "stored_later (TSubmit (SBack s job now')) = map task_id (stage_tasks s)"
| "stored_later (TSubmit (STask t ts job now')) = task_id t # map task_id ts"
| "stored_later (TSubmit (SPush k ts job now')) = map task_id ts"
| "stored_later _ = []"

fun stage_later :: "thread \<Rightarrow> string list" where
  "stage_later (TSubmit (SStage s job now')) = [stage_id s]"
| "stage_later _ = []"

fun submitting :: "thread \<Rightarrow> string option" where
  "submitting (TSubmit (SStage s job now')) = Some (job_id job)"
| "submitting (TSubmit (SBack s job now')) = Some (job_id job)"
| "submitting (TSubmit (STask t ts job now')) = Some (job_id job)"
| "submitting (TSubmit (SPush k ts job now')) = Some (job_id job)"
| "submitting (TSubmit (SJob job now')) = Some (job_id job)"
| "submitting _ = None"

definition ids_unused :: "net \<Rightarrow> fresh_ids \<Rightarrow> bool" where
  "ids_unused = (\<lambda>(ths, st) ids.
     inj (fresh_task ids) \<and>
     (\<forall>i. get_task st (fresh_task ids i) = None \<and> (\<forall>th \<in> set ths. fresh_task ids i \<notin> set (stored_later th))) \<and>
     get_stage st (fresh_stage ids) = None \<and> (\<forall>th \<in> set ths. fresh_stage ids \<notin> set (stage_later th)))"

text \<open>
  Any number of requests may be in progress; each starts a thread, and the next access is made
  by any thread. Workers register, leave and report themselves with a single access.
\<close>

inductive net_step :: "net \<Rightarrow> net \<Rightarrow> bool" where
  exec: "i < length ths \<Longrightarrow> net_step (ths, st) (net_exec i (ths, st))"
| start_submit: "ids_unused (ths, st) ids \<Longrightarrow>
     net_step (ths, st) (ths @ [TSubmit (submit_start lib cat req ids now now')], st)"
| start_assign: "net_step (ths, st) (ths @ [TAssign (APop wid)], st)"
| start_complete: "net_step (ths, st) (ths @ [TComplete (CRead c)], st)"
| record_job: "net_step (ths, st) (ths, insert_job st j)"
| worker_access: "st' \<in> {register_worker st w, remove_worker st wid, update_worker_heartbeat st wid now,
     snd (inc_running_round st), record_completed_round st} \<Longrightarrow> net_step (ths, st) (ths, st')"

inductive net_reachable :: "net \<Rightarrow> bool" where
  net_start: "net_reachable ([], cluster_new mid)"
| net_next: "net_reachable net \<Longrightarrow> net_step net net' \<Longrightarrow> net_reachable net'"

end
