(* ===== verification/Interleaving_Laws.thy ===== *)
theory Interleaving_Laws
  imports Interleaving Cluster_Laws
begin

text \<open>
  Handlers under interleaving: a handler that runs alone does what the atomic handler does, and
  what holds in every net that any interleaving of handlers reaches.
\<close>

section \<open>Running alone\<close>

lemma thread_steps_Suc: "thread_step th st = (th1, st1) \<Longrightarrow> thread_steps n th1 st1 = r \<Longrightarrow> thread_steps (Suc n) th st = r"
  by simp

lemma thread_steps_add:
  "thread_steps m th st = (th1, st1) \<Longrightarrow> thread_steps n th1 st1 = r \<Longrightarrow> thread_steps (m + n) th st = r"
  by (induction m arbitrary: th st) (auto simp: split_def Let_def)

text \<open>A thread leads from one point to another by some number of its own steps.\<close>

definition alone :: "thread \<Rightarrow> cluster_state \<Rightarrow> thread \<Rightarrow> cluster_state \<Rightarrow> bool" where
  "alone th st th' st' \<longleftrightarrow> (\<exists>n. thread_steps n th st = (th', st'))"

lemma aloneI: "thread_steps n th st = (th', st') \<Longrightarrow> alone th st th' st'"
  unfolding alone_def by blast

lemma thread_steps_numeral [simp]:
  "thread_steps (numeral k) th st = (let (th, st) = thread_step th st in thread_steps (pred_numeral k) th st)"
  by (simp add: numeral_eq_Suc)

lemma alone_trans: "alone th st th1 st1 \<Longrightarrow> alone th1 st1 th' st' \<Longrightarrow> alone th st th' st'"
  unfolding alone_def using thread_steps_add by blast

lemma write_running: "\<not> is_terminal t \<Longrightarrow> st\<lparr>tasks := AList.update (task_id t) t (tasks st)\<rparr> = update_task st t"
  by (simp add: update_task_def Let_def)

lemma assigned_not_terminal [simp]: "\<not> is_terminal (t\<lparr>task_assigned_worker := w, task_status := TkAssigned\<rparr>)"
  by (simp add: is_terminal_def is_succeeded_def is_failed_def)

lemma get_task_pending: "get_task (st\<lparr>pending := q\<rparr>) = get_task st"
  by (simp add: get_task_def fun_eq_iff)

lemma assign_alone:
  assumes "try_assign_task st wid = (r, st')"
  shows "alone (TAssign (APop wid)) st (TAssign (ADone r)) st'"
proof (cases "pending st")
  case Nil
  then show ?thesis
    using assms by (intro aloneI [of 1]) (auto simp: try_assign_task_def pop_pending_task_def)
next
  case (Cons k rest)
  show ?thesis
  proof (cases "get_task st k")
    case None
    then show ?thesis
      using assms Cons
      by (intro aloneI [of 2]) (auto simp: try_assign_task_def pop_pending_task_def get_task_pending)
  next
    case (Some t0)
    let ?t = "t0\<lparr>task_assigned_worker := Some wid, task_status := TkAssigned\<rparr>"
    let ?st = "update_task (st\<lparr>pending := rest\<rparr>) ?t"
    have "alone (TAssign (APop wid)) st (TAssign (AStage ?t)) ?st"
      using Cons Some by (intro aloneI [of 4]) (simp add: get_task_pending flip: write_running)
    moreover have "alone (TAssign (AStage ?t)) ?st (TAssign (ADone r)) st'"
      using assms Cons Some
      by (cases "get_stage ?st (task_stage_id ?t)"; intro aloneI [of 2])
        (auto simp: try_assign_task_def pop_pending_task_def Let_def)
    ultimately show ?thesis by (rule alone_trans)
  qed
qed

lemma terminal_completed [simp]: "is_terminal (completed_task t rows success err now)"
  by simp

text \<open>The accesses of \<^verbatim>\<open>update_task\<close> for a terminal status.\<close>

lemma update_task_alone:
  assumes "is_terminal t"
  shows "alone (TComplete (CCheck t now')) st (TComplete (CStage t now')) (update_task st t)"
proof -
  let ?w = "case get_task st (task_id t) of Some u \<Rightarrow> is_terminal u | None \<Rightarrow> False"
  let ?st = "st\<lparr>tasks := AList.update (task_id t) t (tasks st)\<rparr>"
  have "alone (TComplete (CWrite t ?w now')) st (TComplete (CStage t now')) (update_task st t)"
  proof (cases ?w)
    case True
    then show ?thesis
      by (intro aloneI [of 1]) (simp add: update_task_def Let_def)
  next
    case w: False
    then show ?thesis
    proof (cases "is_succeeded t")
      case True
      then show ?thesis
        using w assms by (intro aloneI [of 3]) (simp add: update_task_def Let_def)
    next
      case False
      then show ?thesis
        using w assms by (intro aloneI [of 2]) (simp add: update_task_def Let_def)
    qed
  qed
  moreover have "alone (TComplete (CCheck t now')) st (TComplete (CWrite t ?w now')) st"
    by (intro aloneI [of 1]) simp
  ultimately show ?thesis using alone_trans by blast
qed

lemma stage_alone:
  "alone (TComplete (CStage t now')) st (TComplete (CTasks t now'))
     (case get_stage st (task_stage_id t) of None \<Rightarrow> st | Some s \<Rightarrow> update_stage st (recomputed_stage s t))"
proof (cases "get_stage st (task_stage_id t)")
  case None
  then show ?thesis by (intro aloneI [of 1]) simp
next
  case (Some s)
  then show ?thesis by (intro aloneI [of 2]) simp
qed

lemma complete_alone:
  fixes c :: complete_call and st :: cluster_state
  defines "r \<equiv> complete_task st (call_task c) (call_rows c) (call_success c) (call_error c) (call_now c) (call_later c)"
  shows "\<exists>st'. alone (TComplete (CRead c)) st (TComplete (CDone (and_then r (\<lambda>_. Ok ())))) st' \<and>
    (\<forall>st''. r = Ok st'' \<longrightarrow> st' = st'')"
proof (cases "get_task st (call_task c)")
  case None
  then have "alone (TComplete (CRead c)) st (TComplete (CDone (and_then r (\<lambda>_. Ok ())))) st" "\<nexists>st''. r = Ok st''"
    by (auto simp: r_def complete_task_def ok_or_def intro!: aloneI [of 1])
  then show ?thesis by blast
next
  case (Some t0)
  let ?t = "completed_task t0 (call_rows c) (call_success c) (call_error c) (call_now c)"
  let ?st = "update_task st ?t" and ?now = "call_later c"
  have a: "alone (TComplete (CRead c)) st (TComplete (CStage ?t ?now)) ?st"
    using Some by (intro alone_trans [OF aloneI [of 1] update_task_alone]) simp_all
  obtain st1 where st1: "alone (TComplete (CStage ?t ?now)) ?st (TComplete (CTasks ?t ?now)) st1"
      "st1 = (case get_stage ?st (task_stage_id ?t) of None \<Rightarrow> ?st | Some s \<Rightarrow> update_stage ?st (recomputed_stage s ?t))"
    using stage_alone by blast
  have r: "r = (case get_job st1 (task_job_id ?t) of None \<Rightarrow> Panic unwrap_none
      | Some j \<Rightarrow> Ok (update_job st1 (recomputed_job j (tasks_for_job st1 (task_job_id ?t)) ?now)))"
    unfolding r_def complete_task_def Some ok_or_def option.case and_then.simps Let_def st1(2) ..
  have "\<exists>st'. alone (TComplete (CTasks ?t ?now)) st1 (TComplete (CDone (and_then r (\<lambda>_. Ok ())))) st' \<and>
      (\<forall>st''. r = Ok st'' \<longrightarrow> st' = st'')"
  proof (cases "get_job st1 (task_job_id ?t)")
    case None
    then have "alone (TComplete (CTasks ?t ?now)) st1 (TComplete (CDone (Panic unwrap_none))) st1"
      by (intro aloneI [of 2]) simp
    then show ?thesis using None unfolding r by auto
  next
    case (Some j)
    then have "alone (TComplete (CTasks ?t ?now)) st1 (TComplete (CDone (Ok ())))
        (update_job st1 (recomputed_job j (tasks_for_job st1 (task_job_id ?t)) ?now))"
      by (intro aloneI [of 3]) simp
    then show ?thesis using Some unfolding r by auto
  qed
  then show ?thesis using alone_trans [OF alone_trans [OF a st1(1)]] by blast
qed

lemma insert_tasks_alone:
  "alone (TSubmit (next_insert ts job now')) st (TSubmit (SJob job now')) (foldl insert_task st ts)"
proof (induction ts arbitrary: st)
  case (Cons t ts)
  have "alone (TSubmit (next_insert (t # ts) job now')) st (TSubmit (next_insert ts job now')) (insert_task st t)"
    by (intro aloneI [of 2]) (simp add: insert_task_def)
  then show ?case using Cons.IH [of "insert_task st t"] alone_trans by simp
qed (simp add: aloneI [of 0])

lemma submit_alone:
  fixes lib cat req ids now now' st
  defines "r \<equiv> submit_job lib cat st req ids now now'"
  shows "\<exists>st'. alone (TSubmit (submit_start lib cat req ids now now')) st
      (TSubmit (SDone (and_then r (\<lambda>(j, cb, st'). Ok j)))) st' \<and> (\<forall>j cb st''. r = Ok (j, cb, st'') \<longrightarrow> st' = st'')"
proof -
  consider e where "and_then (plan_sql lib cat (req_sql req)) (\<lambda>p. plan_partitions p (req_parallelism req)) = Err e"
    | m where "and_then (plan_sql lib cat (req_sql req)) (\<lambda>p. plan_partitions p (req_parallelism req)) = Panic m"
    | p parts where "plan_sql lib cat (req_sql req) = Ok p" "plan_partitions p (req_parallelism req) = Ok parts"
    by (cases "plan_sql lib cat (req_sql req)")
      (auto, metis result.exhaust)
  then show ?thesis
  proof cases
    case 1
    then show ?thesis
      by (auto simp: r_def submit_job_def submit_start_def Let_def and_then_eq_Err plan_partitions_def
          intro!: exI [of _ st] aloneI [of 0])
  next
    case 2
    then show ?thesis
      by (auto simp: r_def submit_job_def submit_start_def Let_def and_then_eq_Panic plan_partitions_def
          intro!: exI [of _ st] aloneI [of 0])
  next
    case (3 p parts)
    let ?job = "(job_new (fresh_job ids) (req_name req) (req_sql req) now)\<lparr>job_parallelism := max (req_parallelism req) 1\<rparr>"
    let ?s = "(stage_new (fresh_stage ids) (job_id ?job) 0 ''main'')\<lparr>stage_tasks := new_tasks ids (req_sql req) parts\<rparr>"
    let ?job1 = "?job\<lparr>job_stages := [stage_id ?s]\<rparr>"
    let ?st1 = "insert_stage st ?s"
    let ?st2 = "foldl insert_task ?st1 (stage_tasks ?s)"
    let ?st3 = "update_job (insert_job ?st2 ?job1) (?job1\<lparr>job_status := JbRunning, job_started_at := Some now'\<rparr>)"
    have start: "submit_start lib cat req ids now now' = SStage ?s ?job now'"
      using 3 by (simp add: submit_start_def Let_def)
    have get: "get_stage ?st1 (stage_id ?s) = Some ?s"
      by (simp add: insert_stage_update view_simps)
    have "alone (TSubmit (SStage ?s ?job now')) st (TSubmit (next_insert (stage_tasks ?s) ?job1 now')) ?st1"
      using get by (intro aloneI [of 2]) (simp del: next_insert.simps)
    moreover have "alone (TSubmit (SJob ?job1 now')) ?st2 (TSubmit (SDone (Ok (unwrap_or (get_job ?st3 (job_id ?job1)) ?job1)))) ?st3"
      by (intro aloneI [of 4]) (simp add: Let_def)
    moreover have "r = Ok (unwrap_or (get_job ?st3 (job_id ?job1)) ?job1, get_stage ?st3 (stage_id ?s), ?st3)"
      using 3 get by (simp add: r_def submit_job_def Let_def)
    ultimately show ?thesis
      unfolding start using alone_trans [OF alone_trans [OF _ insert_tasks_alone]] by fastforce
  qed
qed

section \<open>Views\<close>

text \<open>
  The invariant looks at a state through the identifiers of its tasks, the shapes of its stages
  (which tasks of which jobs they list) and the identifiers of its jobs.
\<close>

definition shape :: "stage \<Rightarrow> (string \<times> string) list" where
  "shape s = map (\<lambda>t. (task_id t, task_job_id t)) (stage_tasks s)"

definition task_ids :: "cluster_state \<Rightarrow> string set" where
  "task_ids st = {k. get_task st k \<noteq> None}"

definition shapes :: "cluster_state \<Rightarrow> string \<rightharpoonup> (string \<times> string) list" where
  "shapes st k = map_option shape (get_stage st k)"

definition job_ids :: "cluster_state \<Rightarrow> string set" where
  "job_ids st = {k. get_job st k \<noteq> None}"

lemma update_slot_shape:
  "(\<And>u. task_id (f u) = task_id u \<and> task_job_id (f u) = task_job_id u) \<Longrightarrow>
   map (\<lambda>t. (task_id t, task_job_id t)) (update_slot k f ts) = map (\<lambda>t. (task_id t, task_job_id t)) ts"
  by (induction ts) auto

lemma recomputed_stage_shape [simp]: "shape (recomputed_stage s t) = shape s" "stage_id (recomputed_stage s t) = stage_id s"
  by (simp_all add: recomputed_stage_def shape_def Let_def update_slot_shape)

lemma view_write [simp]:
  "task_ids (st\<lparr>tasks := AList.update k t (tasks st)\<rparr>) = insert k (task_ids st)"
  "shapes (st\<lparr>tasks := AList.update k t (tasks st)\<rparr>) = shapes st"
  "job_ids (st\<lparr>tasks := AList.update k t (tasks st)\<rparr>) = job_ids st"
  by (auto simp: task_ids_def shapes_def job_ids_def get_task_def get_stage_def get_job_def update_conv' fun_eq_iff)

lemma view_frame [simp]:
  "task_ids (st\<lparr>pending := q\<rparr>) = task_ids st" "shapes (st\<lparr>pending := q\<rparr>) = shapes st"
  "job_ids (st\<lparr>pending := q\<rparr>) = job_ids st"
  "task_ids (st\<lparr>total_runs := n\<rparr>) = task_ids st" "shapes (st\<lparr>total_runs := n\<rparr>) = shapes st"
  "job_ids (st\<lparr>total_runs := n\<rparr>) = job_ids st"
  by (simp_all add: task_ids_def shapes_def job_ids_def get_task_def get_stage_def get_job_def fun_eq_iff)

lemma view_stage [simp]:
  "task_ids (update_stage st s) = task_ids st" "job_ids (update_stage st s) = job_ids st"
  "shapes (update_stage st s) = (shapes st)(stage_id s \<mapsto> shape s)"
  by (auto simp: task_ids_def shapes_def job_ids_def view_simps fun_eq_iff)

lemma view_job [simp]:
  "task_ids (update_job st j) = task_ids st" "shapes (update_job st j) = shapes st"
  "job_ids (update_job st j) = insert (job_id j) (job_ids st)"
  by (auto simp: task_ids_def shapes_def job_ids_def view_simps fun_eq_iff)

section \<open>Assertions at program points\<close>

text \<open>The tasks a handler may still write into the task table.\<close>

fun held :: "thread \<Rightarrow> task list" where
  "held (TAssign (ACheck t)) = [t]"
| "held (TAssign (AWrite t)) = [t]"
| "held (TComplete (CCheck t now')) = [t]"
| "held (TComplete (CWrite t w now')) = [t]"
| "held (TComplete (CRetain t now')) = [t]"
| "held (TComplete (CCount t now')) = [t]"
| "held (TComplete (CStage t now')) = [t]"
| "held (TComplete (CStageWrite t s now')) = [t]"
| "held (TComplete (CTasks t now')) = [t]"
| "held (TComplete (CJob t ts now')) = [t]"
| "held _ = []"

text \<open>The stage a handler has read or inserted has kept its shape; a submission works on its job.\<close>

fun stage_kept :: "(string \<rightharpoonup> (string \<times> string) list) \<Rightarrow> thread \<Rightarrow> bool" where
  "stage_kept S (TSubmit (SBack s job now')) = (S (stage_id s) = Some (shape s))"
| "stage_kept S (TAssign (AStageWrite t s)) = (S (stage_id s) = Some (shape s))"
| "stage_kept S (TComplete (CStageWrite t s now')) = (S (stage_id s) = Some (shape s))"
| "stage_kept S _ = True"

fun own_job :: "thread \<Rightarrow> bool" where
  "own_job (TSubmit (SStage s job now')) = (\<forall>p \<in> set (shape s). snd p = job_id job)"
| "own_job (TSubmit (SBack s job now')) = (\<forall>p \<in> set (shape s). snd p = job_id job)"
| "own_job (TSubmit (STask t ts job now')) = (\<forall>u \<in> set (t # ts). task_job_id u = job_id job)"
| "own_job (TSubmit (SPush k ts job now')) = (\<forall>u \<in> set ts. task_job_id u = job_id job)"
| "own_job _ = True"

definition thread_ok :: "string set \<Rightarrow> (string \<rightharpoonup> (string \<times> string) list) \<Rightarrow> thread \<Rightarrow> bool" where
  "thread_ok D S th \<longleftrightarrow>
     set (taken th) \<subseteq> D \<and> task_id ` set (held th) \<subseteq> D \<and> set (queued_later th) - set (stored_later th) \<subseteq> D \<and>
     set (stored_later th) \<inter> D = {} \<and> distinct (queued_later th) \<and> set (stage_later th) \<inter> dom S = {} \<and> stage_kept S th \<and> own_job th"

text \<open>What others do leaves these assertions true: tasks and stages are only added.\<close>

lemma map_le_get: "S \<subseteq>\<^sub>m S' \<Longrightarrow> S k = Some x \<Longrightarrow> S' k = Some x"
  by (metis domI map_le_def)

lemma stage_kept_mono: "stage_kept S th \<Longrightarrow> S \<subseteq>\<^sub>m S' \<Longrightarrow> stage_kept S' th"
  by (cases "(S, th)" rule: stage_kept.cases) (simp_all add: map_le_get)

lemma thread_ok_mono:
  assumes "thread_ok D S th" "D \<subseteq> D'" "S \<subseteq>\<^sub>m S'"
    and "set (stored_later th) \<inter> D' \<subseteq> D" "set (stage_later th) \<inter> dom S' \<subseteq> dom S"
  shows "thread_ok D' S' th"
  unfolding thread_ok_def
proof (intro conjI)
  note ok = assms(1) [unfolded thread_ok_def]
  show "set (taken th) \<subseteq> D'" using ok assms(2) by auto
  show "task_id ` set (held th) \<subseteq> D'" using ok assms(2) by auto
  show "set (queued_later th) - set (stored_later th) \<subseteq> D'" using ok assms(2) by blast
  have later: "set (stored_later th) \<inter> D = {}" "set (stage_later th) \<inter> dom S = {}" using ok by simp_all
  show "set (stored_later th) \<inter> D' = {}" using later(1) assms(4) by blast
  show "set (stage_later th) \<inter> dom S' = {}" using later(2) assms(5) by blast
  show "distinct (queued_later th)" using ok by simp
  show "stage_kept S' th" "own_job th" using ok stage_kept_mono [OF _ assms(3), of th] by simp_all
qed

definition state_ok :: "cluster_state \<Rightarrow> bool" where
  "state_ok st \<longleftrightarrow> (\<forall>k t. get_task st k = Some t \<longrightarrow> task_id t = k) \<and>
     (\<forall>k s. get_stage st k = Some s \<longrightarrow> stage_id s = k) \<and> set (pending st) \<subseteq> task_ids st"

text \<open>What one step of a handler writes.\<close>

fun writes_task :: "thread \<Rightarrow> string set" where
  "writes_task (TSubmit (STask t ts job now')) = {task_id t}"
| "writes_task (TAssign (AWrite t)) = {task_id t}"
| "writes_task (TComplete (CWrite t w now')) = {task_id t}"
| "writes_task _ = {}"

fun writes_stage :: "thread \<Rightarrow> stage option" where
  "writes_stage (TSubmit (SStage s job now')) = Some s"
| "writes_stage (TAssign (AStageWrite t s)) = Some s"
| "writes_stage (TComplete (CStageWrite t s now')) = Some s"
| "writes_stage _ = None"

lemma thread_cases:
  obtains pc where "th = TSubmit pc" | pc where "th = TAssign pc" | pc where "th = TComplete pc"
  by (cases th)

lemma submit_views:
  "submit_step pc st = (pc', st') \<Longrightarrow> task_ids st' = writes_task (TSubmit pc) \<union> task_ids st"
  "submit_step pc st = (pc', st') \<Longrightarrow> shapes st' = (case writes_stage (TSubmit pc) of None \<Rightarrow> shapes st
     | Some s \<Rightarrow> (shapes st)(stage_id s \<mapsto> shape s))"
  "submit_step pc st = (pc', st') \<Longrightarrow> job_ids st \<subseteq> job_ids st'"
  by (cases "(pc, st)" rule: submit_step.cases; auto simp: insert_stage_update split: option.splits)+

lemma assign_views:
  "assign_step pc st = (pc', st') \<Longrightarrow> task_ids st' = writes_task (TAssign pc) \<union> task_ids st"
  "assign_step pc st = (pc', st') \<Longrightarrow> shapes st' = (case writes_stage (TAssign pc) of None \<Rightarrow> shapes st
     | Some s \<Rightarrow> (shapes st)(stage_id s \<mapsto> shape s))"
  "assign_step pc st = (pc', st') \<Longrightarrow> job_ids st \<subseteq> job_ids st'"
  by (cases "(pc, st)" rule: assign_step.cases; auto split: option.splits list.splits)+

lemma complete_views:
  "complete_step pc st = (pc', st') \<Longrightarrow> task_ids st' = writes_task (TComplete pc) \<union> task_ids st"
  "complete_step pc st = (pc', st') \<Longrightarrow> shapes st' = (case writes_stage (TComplete pc) of None \<Rightarrow> shapes st
     | Some s \<Rightarrow> (shapes st)(stage_id s \<mapsto> shape s))"
  "complete_step pc st = (pc', st') \<Longrightarrow> job_ids st \<subseteq> job_ids st'"
  by (cases "(pc, st)" rule: complete_step.cases; auto split: option.splits)+

lemma step_views:
  assumes "thread_step th st = (th', st')"
  shows "task_ids st' = writes_task th \<union> task_ids st"
    "shapes st' = (case writes_stage th of None \<Rightarrow> shapes st | Some s \<Rightarrow> (shapes st)(stage_id s \<mapsto> shape s))"
    "job_ids st \<subseteq> job_ids st'"
  using assms submit_views assign_views complete_views by (cases th; auto simp: apfst_def map_prod_def split: prod.splits)+

end
