(* ===== verification/Interleaving_Invariant.thy ===== *)
theory Interleaving_Invariant
  imports Interleaving_Laws
begin

text \<open>
  The invariant of the nets of \<open>Interleaving\<close>: the assertions at the program points of every
  handler hold whatever the others do, an identifier is queued or in use by a handler at most
  once, and every task belongs to a job that is recorded or still being submitted.
\<close>

section \<open>One step keeps the assertions of its own handler\<close>

lemma next_insert_views [simp]:
  "queued_later (TSubmit (next_insert ts job now')) = map task_id ts"
  "stored_later (TSubmit (next_insert ts job now')) = map task_id ts"
  "stage_later (TSubmit (next_insert ts job now')) = []"
  "taken (TSubmit pc) = []" "held (TSubmit pc) = []"
  "stage_kept S (TSubmit (next_insert ts job now'))"
  "submitting (TSubmit (next_insert ts job now')) = Some (job_id job)"
  "own_job (TSubmit (next_insert ts job now')) = (\<forall>u \<in> set ts. task_job_id u = job_id job)"
  by (cases ts; simp)+

lemma shape_eqD:
  assumes "shape r = shape s"
  shows "map task_id (stage_tasks r) = map task_id (stage_tasks s)"
    "map task_job_id (stage_tasks r) = map task_job_id (stage_tasks s)"
proof -
  have "map fst (shape r) = map fst (shape s)" "map snd (shape r) = map snd (shape s)" using assms by simp_all
  then show "map task_id (stage_tasks r) = map task_id (stage_tasks s)"
    "map task_job_id (stage_tasks r) = map task_job_id (stage_tasks s)"
    by (simp_all add: shape_def comp_def)
qed

lemma stage_read:
  assumes "shapes st k = Some (shape s)"
  obtains r where "get_stage st k = Some r" "map task_id (stage_tasks r) = map task_id (stage_tasks s)"
    "task_job_id ` set (stage_tasks r) = snd ` set (shape s)"
proof -
  obtain r where r: "get_stage st k = Some r" "shape r = shape s"
    using assms by (auto simp: shapes_def)
  have "task_job_id ` set (stage_tasks r) = snd ` set (shape r)"
    by (simp add: shape_def image_image)
  then show ?thesis using that [OF r(1) shape_eqD(1) [OF r(2)]] r(2) by simp
qed

lemma submit_thread_ok:
  assumes "submit_step pc st = (pc', st')" "thread_ok (task_ids st) (shapes st) (TSubmit pc)"
  shows "thread_ok (task_ids st') (shapes st') (TSubmit pc')"
proof (cases pc)
  case (SBack s job now')
  then have "shapes st (stage_id s) = Some (shape s)" using assms(2) by (simp add: thread_ok_def)
  then obtain r where r: "get_stage st (stage_id s) = Some r" "map task_id (stage_tasks r) = map task_id (stage_tasks s)"
    "task_job_id ` set (stage_tasks r) = snd ` set (shape s)" by (rule stage_read)
  have "st' = st" "pc' = next_insert (stage_tasks r) (job\<lparr>job_stages := [stage_id s]\<rparr>) now'"
    using assms(1) SBack r(1) by auto
  moreover have "\<forall>u \<in> set (stage_tasks r). task_job_id u = job_id job"
    using assms(2) SBack r(3) by (auto simp: thread_ok_def)
  ultimately show ?thesis using assms(2) SBack r(2) by (simp add: thread_ok_def)
next
  case (STask t ts job now')
  then have "pc' = SPush (task_id t) ts job now'" "task_ids st' = insert (task_id t) (task_ids st)" "shapes st' = shapes st"
    using assms(1) by auto
  then show ?thesis using assms(2) STask by (auto simp: thread_ok_def)
next
  case (SPush k ts job now')
  then have "pc' = next_insert ts job now'" "task_ids st' = task_ids st" "shapes st' = shapes st"
    using assms(1) by auto
  then show ?thesis using assms(2) SPush by (simp add: thread_ok_def)
qed (use assms in \<open>auto simp: thread_ok_def insert_stage_update\<close>)

lemma readD:
  "get_stage st k = Some s \<Longrightarrow> shapes st k = Some (shape s)"
  "get_task st k = Some t \<Longrightarrow> k \<in> task_ids st"
  by (simp_all add: shapes_def task_ids_def)

lemma state_okD:
  assumes "state_ok st"
  shows "get_task st k = Some t \<Longrightarrow> task_id t = k" "get_stage st k = Some s \<Longrightarrow> stage_id s = k"
    "k \<in> set (pending st) \<Longrightarrow> k \<in> task_ids st"
  using assms by (auto simp: state_ok_def)

lemma shape_assign [simp]:
  "shape (s\<lparr>stage_tasks := update_slot k (\<lambda>u. u\<lparr>task_assigned_worker := w, task_status := x\<rparr>) (stage_tasks s)\<rparr>) = shape s"
  by (simp add: shape_def update_slot_shape)

lemma assign_thread_ok:
  assumes "assign_step pc st = (pc', st')" "state_ok st" "thread_ok (task_ids st) (shapes st) (TAssign pc)"
  shows "thread_ok (task_ids st') (shapes st') (TAssign pc')"
  using assms(1,3)
  by (cases "(pc, st)" rule: assign_step.cases)
    (auto simp: thread_ok_def readD state_okD [OF assms(2)] split: option.splits list.splits)

lemma complete_thread_ok:
  assumes "complete_step pc st = (pc', st')" "state_ok st" "thread_ok (task_ids st) (shapes st) (TComplete pc)"
  shows "thread_ok (task_ids st') (shapes st') (TComplete pc')"
  using assms(1,3)
  by (cases "(pc, st)" rule: complete_step.cases)
    (auto simp: thread_ok_def readD state_okD [OF assms(2)] split: option.splits if_splits)

text \<open>The kinds of step share the form of their lemmas.\<close>

lemma thread_step_cases:
  assumes "thread_step th st = (th', st')"
  obtains (submit) pc pc' where "th = TSubmit pc" "th' = TSubmit pc'" "submit_step pc st = (pc', st')"
    | (assign) pc pc' where "th = TAssign pc" "th' = TAssign pc'" "assign_step pc st = (pc', st')"
    | (complete) pc pc' where "th = TComplete pc" "th' = TComplete pc'" "complete_step pc st = (pc', st')"
  using assms by (cases th) (auto simp: apfst_def map_prod_def split: prod.splits)

lemma step_thread_ok:
  assumes "thread_step th st = (th', st')" "state_ok st" "thread_ok (task_ids st) (shapes st) th"
  shows "thread_ok (task_ids st') (shapes st') th'"
  using assms(1)
proof (cases rule: thread_step_cases)
  case submit then show ?thesis using submit_thread_ok assms(3) by blast
next
  case assign then show ?thesis using assign_thread_ok assms(2,3) by blast
next
  case complete then show ?thesis using complete_thread_ok assms(2,3) by blast
qed

section \<open>One step keeps the state well formed\<close>

lemma state_ok_frame [simp]:
  "state_ok (st\<lparr>total_runs := n\<rparr>) = state_ok st" "state_ok (update_job st j) = state_ok st"
  by (simp_all add: state_ok_def task_ids_def get_task_def get_stage_def update_job_def)

lemma state_ok_stage: "state_ok st \<Longrightarrow> state_ok (update_stage st s)"
  by (auto simp: state_ok_def view_simps task_ids_def)

lemma state_ok_write: "state_ok st \<Longrightarrow> state_ok (st\<lparr>tasks := AList.update (task_id t) t (tasks st)\<rparr>)"
  by (auto simp: state_ok_def task_ids_def get_task_def get_stage_def update_conv')

lemma state_ok_pending: "state_ok st \<Longrightarrow> set q \<subseteq> task_ids st \<Longrightarrow> state_ok (st\<lparr>pending := q\<rparr>)"
  by (simp add: state_ok_def get_task_def get_stage_def)

lemma state_ok_queue: "state_ok st \<Longrightarrow> set (pending st) \<subseteq> task_ids st"
  by (simp add: state_ok_def)

lemmas state_ok_intros = state_ok_stage state_ok_write state_ok_pending state_ok_queue

lemma submit_state_ok:
  assumes "submit_step pc st = (pc', st')" "state_ok st" "thread_ok (task_ids st) (shapes st) (TSubmit pc)"
  shows "state_ok st'"
  using assms
  by (cases "(pc, st)" rule: submit_step.cases)
    (auto simp: thread_ok_def insert_stage_update split: option.splits intro!: state_ok_intros dest: state_okD(3))

lemma assign_state_ok:
  assumes "assign_step pc st = (pc', st')" "state_ok st"
  shows "state_ok st'"
  using assms
  by (cases "(pc, st)" rule: assign_step.cases)
    (auto split: option.splits list.splits intro!: state_ok_intros dest: state_okD(3))

lemma complete_state_ok:
  assumes "complete_step pc st = (pc', st')" "state_ok st"
  shows "state_ok st'"
  using assms
  by (cases "(pc, st)" rule: complete_step.cases)
    (auto split: option.splits intro!: state_ok_intros dest: state_okD(3))

lemma step_state_ok:
  assumes "thread_step th st = (th', st')" "state_ok st" "thread_ok (task_ids st) (shapes st) th"
  shows "state_ok st'"
  using assms(1)
proof (cases rule: thread_step_cases)
  case submit then show ?thesis using submit_state_ok assms(2,3) by blast
next
  case assign then show ?thesis using assign_state_ok assms(2) by blast
next
  case complete then show ?thesis using complete_state_ok assms(2) by blast
qed

section \<open>Tickets\<close>

text \<open>
  A ticket is the right to queue or to work on a task: an identifier in the queue, one a
  submission will still queue, one an assignment took. A step never makes one.
\<close>

definition tickets :: "thread \<Rightarrow> string multiset" where
  "tickets th = mset (taken th) + mset (queued_later th)"

lemma submit_tickets:
  assumes "submit_step pc st = (pc', st')" "thread_ok (task_ids st) (shapes st) (TSubmit pc)"
  shows "mset (pending st') + tickets (TSubmit pc') \<subseteq># mset (pending st) + tickets (TSubmit pc)"
proof (cases pc)
  case (SBack s job now')
  then have "shapes st (stage_id s) = Some (shape s)" using assms(2) by (simp add: thread_ok_def)
  then obtain r where "get_stage st (stage_id s) = Some r" "map task_id (stage_tasks r) = map task_id (stage_tasks s)"
    by (rule stage_read)
  then show ?thesis using assms(1) SBack by (auto simp: tickets_def simp flip: mset_map)
qed (use assms(1) in \<open>auto simp: tickets_def insert_stage_def insert_job_def update_job_def\<close>)

lemma assign_tickets:
  assumes "assign_step pc st = (pc', st')" "state_ok st"
  shows "mset (pending st') + tickets (TAssign pc') \<subseteq># mset (pending st) + tickets (TAssign pc)"
  using assms(1)
  by (cases "(pc, st)" rule: assign_step.cases)
    (auto simp: tickets_def update_stage_def state_okD(1) [OF assms(2)] split: option.splits list.splits)

lemma complete_tickets:
  assumes "complete_step pc st = (pc', st')"
  shows "mset (pending st') + tickets (TComplete pc') \<subseteq># mset (pending st) + tickets (TComplete pc)"
  using assms
  by (cases "(pc, st)" rule: complete_step.cases)
    (auto simp: tickets_def update_stage_def update_job_def multiset_filter_subset split: option.splits)

lemma step_tickets:
  assumes "thread_step th st = (th', st')" "state_ok st" "thread_ok (task_ids st) (shapes st) th"
  shows "mset (pending st') + tickets th' \<subseteq># mset (pending st) + tickets th"
  using assms(1)
proof (cases rule: thread_step_cases)
  case submit then show ?thesis using submit_tickets assms(3) by blast
next
  case assign then show ?thesis using assign_tickets assms(2) by blast
next
  case complete then show ?thesis using complete_tickets by blast
qed

section \<open>Jobs\<close>

text \<open>Every task in the table belongs to a job of a set.\<close>

definition jobs_within :: "string set \<Rightarrow> cluster_state \<Rightarrow> bool" where
  "jobs_within C st \<longleftrightarrow> (\<forall>k t. get_task st k = Some t \<longrightarrow> task_job_id t \<in> C)"

lemma jobs_withinD: "jobs_within C st \<Longrightarrow> get_task st k = Some t \<Longrightarrow> task_job_id t \<in> C"
  by (simp add: jobs_within_def)

lemma jobs_within_frame [simp]:
  "jobs_within C (st\<lparr>pending := q\<rparr>) = jobs_within C st" "jobs_within C (st\<lparr>total_runs := n\<rparr>) = jobs_within C st"
  "jobs_within C (update_stage st s) = jobs_within C st" "jobs_within C (update_job st j) = jobs_within C st"
  by (simp_all add: jobs_within_def get_task_def update_stage_def update_job_def)

lemma jobs_within_write:
  "jobs_within C st \<Longrightarrow> task_job_id t \<in> C \<Longrightarrow> jobs_within C (st\<lparr>tasks := AList.update k t (tasks st)\<rparr>)"
  by (auto simp: jobs_within_def get_task_def update_conv')

lemma jobs_within_mono: "jobs_within C st \<Longrightarrow> C \<subseteq> C' \<Longrightarrow> jobs_within C' st"
  by (auto simp: jobs_within_def)

definition thread_jobs :: "string set \<Rightarrow> thread \<Rightarrow> bool" where
  "thread_jobs C th \<longleftrightarrow> task_job_id ` set (held th) \<subseteq> C \<and> set_option (submitting th) \<subseteq> C"

lemma step_jobs_within:
  assumes "thread_step th st = (th', st')" "own_job th" "jobs_within C st" "thread_jobs C th"
  shows "jobs_within C st'"
  using assms(1)
proof (cases rule: thread_step_cases)
  case (submit pc pc')
  then show ?thesis
    using assms(2-) by (cases "(pc, st)" rule: submit_step.cases)
      (auto simp: thread_jobs_def insert_stage_update split: option.splits intro!: jobs_within_write)
next
  case (assign pc pc')
  then show ?thesis
    using assms(2-) by (cases "(pc, st)" rule: assign_step.cases)
      (auto simp: thread_jobs_def split: option.splits list.splits intro!: jobs_within_write)
next
  case (complete pc pc')
  then show ?thesis
    using assms(2-) by (cases "(pc, st)" rule: complete_step.cases)
      (auto simp: thread_jobs_def split: option.splits intro!: jobs_within_write)
qed

lemma step_held_jobs:
  assumes "thread_step th st = (th', st')" "jobs_within C st" "thread_jobs C th"
  shows "task_job_id ` set (held th') \<subseteq> C"
  using assms(1)
proof (cases rule: thread_step_cases)
  case (assign pc pc')
  then show ?thesis
    using assms(2-) by (cases "(pc, st)" rule: assign_step.cases)
      (auto simp: thread_jobs_def jobs_withinD split: option.splits list.splits)
next
  case (complete pc pc')
  then show ?thesis
    using assms(2-) by (cases "(pc, st)" rule: complete_step.cases)
      (auto simp: thread_jobs_def jobs_withinD completed_task_def Let_def split: option.splits if_splits)
qed simp

text \<open>A submission covers its job until the job is recorded.\<close>

lemma step_submitting:
  assumes "thread_step th st = (th', st')" "thread_ok (task_ids st) (shapes st) th"
  shows "set_option (submitting th) \<subseteq> job_ids st' \<union> set_option (submitting th')"
  using assms(1)
proof (cases rule: thread_step_cases)
  case (submit pc pc')
  show ?thesis
  proof (cases pc)
    case (SBack s job now')
    then have "shapes st (stage_id s) = Some (shape s)" using assms(2) submit by (simp add: thread_ok_def)
    then obtain r where "get_stage st (stage_id s) = Some r" by (rule stage_read)
    then show ?thesis using submit SBack by auto
  qed (use submit in \<open>auto simp: insert_stage_update\<close>)
qed simp_all

lemma step_submitting_old:
  assumes "thread_step th st = (th', st')"
  shows "set_option (submitting th') \<subseteq> set_option (submitting th)"
  using assms
proof (cases rule: thread_step_cases)
  case (submit pc pc')
  then show ?thesis by (cases "(pc, st)" rule: submit_step.cases) (auto split: option.splits)
qed simp_all

lemma step_stage_later:
  assumes "thread_step th st = (th', st')"
  shows "stage_later th' = []"
  using assms
proof (cases rule: thread_step_cases)
  case (submit pc pc')
  then show ?thesis by (cases "(pc, st)" rule: submit_step.cases) (auto split: option.splits)
qed simp_all

section \<open>The invariant of a net\<close>

lemma stored_queued: "set (stored_later th) \<subseteq> set (queued_later th)"
  by (cases th rule: stored_later.cases) auto

lemma writes_own:
  assumes "thread_ok (task_ids st) (shapes st) th"
  shows "writes_task th \<subseteq> task_ids st \<union> set (stored_later th)"
  using assms by (cases th rule: writes_task.cases) (auto simp: thread_ok_def)

lemma writes_shapes:
  assumes "thread_step th st = (th', st')" "thread_ok (task_ids st) (shapes st) th"
  shows "shapes st \<subseteq>\<^sub>m shapes st'" "dom (shapes st') \<subseteq> dom (shapes st) \<union> set (stage_later th)"
  unfolding step_views(2) [OF assms(1)]
  using assms(2)
  by (cases th rule: writes_stage.cases; auto simp: thread_ok_def map_le_def)+

text \<open>A step of one handler does not disturb another that holds different tickets.\<close>

lemma other_ok:
  assumes "thread_step th st = (th', st')" "thread_ok (task_ids st) (shapes st) th"
    and u: "thread_ok (task_ids st) (shapes st) u"
    and "set (queued_later th) \<inter> set (queued_later u) = {}" "set (stage_later th) \<inter> set (stage_later u) = {}"
  shows "thread_ok (task_ids st') (shapes st') u"
proof (rule thread_ok_mono [OF u])
  note w = writes_own [OF assms(2)] writes_shapes [OF assms(1,2)] step_views(1) [OF assms(1)]
  show "task_ids st \<subseteq> task_ids st'" "shapes st \<subseteq>\<^sub>m shapes st'" using w by auto
  show "set (stored_later u) \<inter> task_ids st' \<subseteq> task_ids st"
    using w(1,4) stored_queued [of th] stored_queued [of u] assms(4) by blast
  show "set (stage_later u) \<inter> dom (shapes st') \<subseteq> dom (shapes st)"
    using w(3) assms(5) by blast
qed

definition covered_jobs :: "net \<Rightarrow> string set" where
  "covered_jobs = (\<lambda>(ths, st). job_ids st \<union> (\<Union>th \<in> set ths. set_option (submitting th)))"

definition net_inv :: "net \<Rightarrow> bool" where
  "net_inv = (\<lambda>(ths, st).
     state_ok st \<and> (\<forall>th \<in> set ths. thread_ok (task_ids st) (shapes st) th) \<and>
     (\<forall>k. count (mset (pending st) + sum_list (map tickets ths)) k \<le> 1) \<and>
     distinct (concat (map stage_later ths)) \<and>
     jobs_within (covered_jobs (ths, st)) st \<and> (\<forall>th \<in> set ths. thread_jobs (covered_jobs (ths, st)) th))"

lemma tickets_once:
  assumes "net_inv (us @ th # vs, st)" "k \<in># tickets th"
  shows "k \<notin> set (pending st)" "u \<in> set us \<union> set vs \<Longrightarrow> k \<notin># tickets u"
proof -
  have c: "count (mset (pending st)) k + count (sum_list (map tickets us)) k + count (sum_list (map tickets vs)) k
      + count (tickets th) k \<le> 1" "count (tickets th) k \<ge> 1"
    using assms by (auto simp: net_inv_def ac_simps)
  show "k \<notin> set (pending st)"
    using c by (auto simp flip: count_greater_zero_iff set_mset_mset)
  show "k \<notin># tickets u" if "u \<in> set us \<union> set vs"
  proof -
    have "tickets u \<subseteq># sum_list (map tickets us) + sum_list (map tickets vs)"
      using that by (auto dest!: split_list simp: ac_simps)
    then have "count (tickets u) k \<le> count (sum_list (map tickets us)) k + count (sum_list (map tickets vs)) k"
      by (simp add: subseteq_mset_def)
    then have "count (tickets u) k = 0" using c by linarith
    then show ?thesis by (simp add: not_in_iff)
  qed
qed

lemma queued_tickets: "set (queued_later th) \<subseteq> set_mset (tickets th)"
  by (simp add: tickets_def)

lemma exec_inv:
  assumes inv: "net_inv (us @ th # vs, st)" and step: "thread_step th st = (th', st')"
  shows "net_inv (us @ th' # vs, st')"
proof -
  let ?net = "(us @ th # vs, st)" and ?net' = "(us @ th' # vs, st')"
  have ok: "state_ok st" "thread_ok (task_ids st) (shapes st) th"
    "\<And>u. u \<in> set us \<union> set vs \<Longrightarrow> thread_ok (task_ids st) (shapes st) u"
    and ids: "\<And>k. count (mset (pending st) + sum_list (map tickets (us @ th # vs))) k \<le> 1"
    and stg: "distinct (concat (map stage_later (us @ th # vs)))"
    and jobs: "jobs_within (covered_jobs ?net) st" "thread_jobs (covered_jobs ?net) th"
    "\<And>u. u \<in> set us \<union> set vs \<Longrightarrow> thread_jobs (covered_jobs ?net) u"
    using inv by (auto simp: net_inv_def)
  have others: "thread_ok (task_ids st') (shapes st') u" if u: "u \<in> set us \<union> set vs" for u
  proof (rule other_ok [OF step ok(2) ok(3) [OF u]])
    show "set (queued_later th) \<inter> set (queued_later u) = {}"
      using tickets_once(2) [OF inv _ u] queued_tickets [of th] queued_tickets [of u] by blast
    show "set (stage_later th) \<inter> set (stage_later u) = {}" using stg u by auto
  qed
  have cov: "covered_jobs ?net \<subseteq> covered_jobs ?net'"
    using step_submitting [OF step ok(2)] step_views(3) [OF step] by (auto simp: covered_jobs_def)
  have own: "own_job th" using ok(2) by (simp add: thread_ok_def)
  have "mset (pending st') + sum_list (map tickets (us @ th' # vs))
      \<subseteq># mset (pending st) + sum_list (map tickets (us @ th # vs))"
    using step_tickets [OF step ok(1,2)] by (simp add: subseteq_mset_def ac_simps)
  then have ids': "count (mset (pending st') + sum_list (map tickets (us @ th' # vs))) k \<le> 1" for k
    using ids [of k] unfolding subseteq_mset_def by (meson order_trans)
  have stg': "distinct (concat (map stage_later (us @ th' # vs)))"
    using stg step_stage_later [OF step] by auto
  have jobs': "jobs_within (covered_jobs ?net') st'"
    using step_jobs_within [OF step own jobs(1,2)] cov by (rule jobs_within_mono)
  have th': "thread_jobs (covered_jobs ?net') th'"
    using step_held_jobs [OF step jobs(1,2)] cov by (auto simp: thread_jobs_def covered_jobs_def)
  have us': "thread_jobs (covered_jobs ?net') u" if "u \<in> set us \<union> set vs" for u
    using jobs(3) [OF that] cov by (auto simp: thread_jobs_def)
  show ?thesis
    unfolding net_inv_def
    using step_state_ok [OF step ok(1,2)] step_thread_ok [OF step ok(1,2)] others ids' stg' jobs' th' us'
    by auto
qed

lemma net_exec_split:
  assumes "i < length ths"
  obtains us vs th th' st' where "ths = us @ th # vs" "length us = i" "thread_step th st = (th', st')"
    "net_exec i (ths, st) = (us @ th' # vs, st')"
proof -
  obtain th' st' where "thread_step (ths ! i) st = (th', st')" by fastforce
  then show ?thesis
    using assms id_take_nth_drop [OF assms] upd_conv_take_nth_drop [OF assms, of th']
    by (intro that [of "take i ths" "ths ! i" "drop (Suc i) ths" th' st']) (auto simp: net_exec_def)
qed

lemma net_inv_add:
  assumes "net_inv (ths, st)" "thread_ok (task_ids st) (shapes st) th"
    and "\<And>k. count (tickets th) k \<le> 1" "\<And>k. k \<in># tickets th \<Longrightarrow> k \<notin> set (pending st) \<and> (\<forall>u \<in> set ths. k \<notin># tickets u)"
    and "distinct (stage_later th)" "\<And>u. u \<in> set ths \<Longrightarrow> set (stage_later th) \<inter> set (stage_later u) = {}"
    and "held th = []"
  shows "net_inv (ths @ [th], st)"
proof -
  have cov: "covered_jobs (ths, st) \<subseteq> covered_jobs (ths @ [th], st)" "set_option (submitting th) \<subseteq> covered_jobs (ths @ [th], st)"
    by (auto simp: covered_jobs_def)
  have "count (mset (pending st) + sum_list (map tickets (ths @ [th]))) k \<le> 1" for k
  proof (cases "k \<in># tickets th")
    case True
    then have "k \<notin># mset (pending st) + sum_list (map tickets ths)"
      using assms(4) by auto
    then have "count (mset (pending st)) k = 0" "count (sum_list (map tickets ths)) k = 0"
      by (simp_all only: not_in_iff count_union add_is_0)
    then show ?thesis using assms(3) [of k] by (simp only: map_append sum_list_append count_union list.map) simp
  next
    case False
    then show ?thesis using assms(1) by (simp add: net_inv_def not_in_iff)
  qed
  moreover have "distinct (concat (map stage_later (ths @ [th])))"
    using assms(1,5,6) by (auto simp: net_inv_def)
  moreover have "thread_jobs (covered_jobs (ths @ [th], st)) th" using assms(7) cov(2) by (simp add: thread_jobs_def)
  moreover have "jobs_within (covered_jobs (ths @ [th], st)) st"
    using assms(1) jobs_within_mono [OF _ cov(1)] by (simp add: net_inv_def)
  moreover have "thread_jobs (covered_jobs (ths @ [th], st)) u" if "u \<in> set ths" for u
    using assms(1) that subset_trans [OF _ cov(1)] by (simp add: net_inv_def thread_jobs_def)
  ultimately show ?thesis
    using assms(1,2) unfolding net_inv_def by auto
qed

lemma net_inv_access:
  assumes "net_inv (ths, st)" "pending st' = pending st" "tasks st' = tasks st" "stages st' = stages st"
    and "job_ids st \<subseteq> job_ids st'"
  shows "net_inv (ths, st')"
proof -
  have views: "task_ids st' = task_ids st" "shapes st' = shapes st" "get_task st' = get_task st" "get_stage st' = get_stage st"
    using assms(3,4) by (simp_all add: task_ids_def shapes_def get_task_def get_stage_def fun_eq_iff)
  have cov: "covered_jobs (ths, st) \<subseteq> covered_jobs (ths, st')" using assms(5) by (auto simp: covered_jobs_def)
  have "state_ok st'" using assms(1) by (simp add: net_inv_def state_ok_def views assms(2))
  moreover have "jobs_within (covered_jobs (ths, st')) st'"
    using assms(1) cov by (auto simp: net_inv_def jobs_within_def views)
  moreover have "\<forall>th \<in> set ths. thread_jobs (covered_jobs (ths, st')) th"
    using assms(1) subset_trans [OF _ cov] by (simp add: net_inv_def thread_jobs_def)
  ultimately show ?thesis using assms(1) by (simp add: net_inv_def views assms(2))
qed

lemma idle_thread_ok: "thread_ok D S (TSubmit (SDone r))" "thread_ok D S (TAssign (APop wid))" "thread_ok D S (TComplete (CRead c))"
  by (simp_all add: thread_ok_def)

lemma queued_ok:
  assumes "thread_ok D S th" "k \<in># tickets th"
  shows "k \<in> D \<union> set (stored_later th)"
  using assms by (auto simp: thread_ok_def tickets_def)

lemma submission_inv:
  assumes inv: "net_inv (ths, st)" and unused: "ids_unused (ths, st) ids"
  shows "net_inv (ths @ [TSubmit (submit_start lib cat req ids now now')], st)"
proof -
  have "submit_start lib cat req ids now now' = SDone (Err e) \<Longrightarrow> ?thesis"
    "submit_start lib cat req ids now now' = SDone (Panic m) \<Longrightarrow> ?thesis" for e m
    using inv by (auto intro!: net_inv_add idle_thread_ok simp: tickets_def)
  moreover have ?thesis if start: "submit_start lib cat req ids now now' = SStage s job now'"
    and s: "stage_id s = fresh_stage ids" "stage_tasks s = new_tasks ids sql parts" "job_id job = fresh_job ids"
    for s job sql parts
  proof -
    let ?th = "TSubmit (SStage s job now')"
    have ids: "map task_id (stage_tasks s) = map (fresh_task ids) [0..<length parts]"
      by (simp add: s new_tasks_simps)
    have dist: "distinct (map task_id (stage_tasks s))"
      using unused unfolding ids by (auto simp: ids_unused_def distinct_map intro: inj_on_subset)
    have new: "k \<notin> task_ids st" "\<And>u. u \<in> set ths \<Longrightarrow> k \<notin> set (stored_later u)" if "k \<in> set (map task_id (stage_tasks s))" for k
      using that unused unfolding ids by (auto simp: ids_unused_def task_ids_def)
    have stg: "fresh_stage ids \<notin> dom (shapes st)" "\<And>u. u \<in> set ths \<Longrightarrow> fresh_stage ids \<notin> set (stage_later u)"
      using unused by (auto simp: ids_unused_def shapes_def)
    have "own_job ?th"
      using new_tasks_simps(2) [of _ ids sql parts] by (auto simp: s shape_def)
    then have "thread_ok (task_ids st) (shapes st) ?th"
      using dist new(1) stg(1) by (auto simp: thread_ok_def s(1))
    moreover have "count (tickets ?th) k \<le> 1" for k
      using dist by (simp add: tickets_def distinct_count_atmost_1 del: mset_map)
    moreover have "k \<notin> set (pending st) \<and> (\<forall>u \<in> set ths. k \<notin># tickets u)" if "k \<in># tickets ?th" for k
    proof -
      have k: "k \<in> set (map task_id (stage_tasks s))" using that by (simp add: tickets_def)
      have "k \<notin> set (pending st)" using new(1) [OF k] state_okD(3) inv by (auto simp: net_inv_def)
      moreover have "k \<notin># tickets u" if "u \<in> set ths" for u
        using queued_ok [of "task_ids st" "shapes st" u k] new(1) [OF k] new(2) [OF k that] inv that
        by (auto simp: net_inv_def)
      ultimately show ?thesis by blast
    qed
    ultimately show ?thesis
      unfolding start using inv stg(2) by (intro net_inv_add) (auto simp: s(1))
  qed
  ultimately show ?thesis
    by (cases "and_then (plan_sql lib cat (req_sql req)) (\<lambda>p. plan_partitions p (req_parallelism req))")
      (auto simp: submit_start_def Let_def stage_new_def job_new_def)
qed

lemma net_step_inv:
  assumes "net_step net net'" "net_inv net"
  shows "net_inv net'"
  using assms
proof (induction rule: net_step.induct)
  case (exec i ths st)
  obtain us vs th th' st' where "ths = us @ th # vs" "thread_step th st = (th', st')" "net_exec i (ths, st) = (us @ th' # vs, st')"
    using exec(1) by (rule net_exec_split)
  then show ?case using exec_inv exec(2) by simp
next
  case (start_submit ths st ids lib cat req now now')
  then show ?case by (simp add: submission_inv)
next
  case (start_assign ths st wid)
  then show ?case by (auto intro!: net_inv_add idle_thread_ok simp: tickets_def)
next
  case (start_complete ths st c)
  then show ?case by (auto intro!: net_inv_add idle_thread_ok simp: tickets_def)
next
  case (record_job ths st j)
  then show ?case by (rule net_inv_access) (auto simp: insert_stage_update update_job_def job_ids_def get_job_def update_conv')
next
  case (worker_access st' st w wid now ths)
  have "net_inv (ths, st)" using worker_access(2) .
  moreover have "pending st' = pending st \<and> tasks st' = tasks st \<and> stages st' = stages st \<and> jobs st' = jobs st"
    using worker_access(1)
    by (auto simp: register_worker_def remove_worker_def update_worker_heartbeat_def inc_running_round_def
        record_completed_round_def split: option.splits)
  ultimately show ?case by (auto intro: net_inv_access simp: job_ids_def get_job_def)
qed

lemma net_reachable_inv: "net_reachable net \<Longrightarrow> net_inv net"
proof (induction rule: net_reachable.induct)
  case (net_start mid)
  then show ?case
    by (simp add: net_inv_def state_ok_def jobs_within_def get_task_def get_stage_def cluster_new_def)
qed (rule net_step_inv)

end
