(* ===== verification/Interleaving_Properties.thy ===== *)
theory Interleaving_Properties
  imports Interleaving_Invariant Cluster_Properties
begin

text \<open>
  Properties of the master's handlers under interleaving: what a handler does alone, who gets a
  task, that every handler returns, and the two races that the handlers leave open.
\<close>

section \<open>Schedules\<close>

lemma run_schedule_append: "run_schedule (is @ js) net = run_schedule js (run_schedule is net)"
  by (simp add: run_schedule_def)

lemma run_schedule_simps [simp]:
  "run_schedule [] net = net" "run_schedule (i # is) net = run_schedule is (net_exec i net)"
  by (simp_all add: run_schedule_def)

lemma net_exec_length [simp]: "length (fst (net_exec i (ths, st))) = length ths"
  by (simp add: net_exec_def split: prod.split)

lemma steps_schedule:
  assumes "i < length ths" "thread_steps n (ths ! i) st = (th', st')"
  shows "run_schedule (replicate n i) (ths, st) = (ths[i := th'], st')"
  using assms
proof (induction n arbitrary: ths st)
  case (Suc n)
  obtain th1 st1 where 1: "thread_step (ths ! i) st = (th1, st1)" by fastforce
  then have "run_schedule (replicate n i) (ths[i := th1], st1) = ((ths[i := th1])[i := th'], st')"
    using Suc.prems by (intro Suc.IH) simp_all
  then show ?case using 1 Suc.prems(1) by (simp add: net_exec_def)
qed auto

lemma alone_schedule:
  assumes "alone (ths ! i) st th' st'" "i < length ths"
  shows "\<exists>is. run_schedule is (ths, st) = (ths[i := th'], st')"
  using assms steps_schedule unfolding alone_def by blast

lemma exec_reachable: "net_reachable net \<Longrightarrow> net_reachable (net_exec i net)"
proof (cases net)
  case (Pair ths st)
  then show "net_reachable net \<Longrightarrow> ?thesis"
    using net_next net_step.exec [of i ths st] by (cases "i < length ths") (auto simp: net_exec_def)
qed

lemma schedule_reachable: "net_reachable net \<Longrightarrow> net_reachable (run_schedule is net)"
proof (induction "is" arbitrary: net)
  case (Cons i js)
  then show ?case using exec_reachable [of net i] by simp
qed simp

section \<open>Progress\<close>

lemma next_insert_remaining [simp]: "submit_remaining (next_insert ts job now') = 2 * length ts + 4"
  by (cases ts) simp_all

lemma step_remaining:
  assumes "thread_step th st = (th', st')" "thread_ok (task_ids st) (shapes st) th"
  shows "remaining th' \<le> remaining th - 1"
  using assms(1)
proof (cases rule: thread_step_cases)
  case (submit pc pc')
  show ?thesis
  proof (cases pc)
    case (SBack s job now')
    then have "shapes st (stage_id s) = Some (shape s)" using assms(2) submit by (simp add: thread_ok_def)
    then obtain r where r: "get_stage st (stage_id s) = Some r" "map task_id (stage_tasks r) = map task_id (stage_tasks s)"
      by (rule stage_read)
    moreover have "length (stage_tasks r) = length (stage_tasks s)" using r(2) by (rule map_eq_imp_length_eq)
    ultimately show ?thesis using submit SBack by auto
  qed (use submit in auto)
next
  case (assign pc pc')
  then show ?thesis by (cases "(pc, st)" rule: assign_step.cases) (auto split: option.splits list.splits)
next
  case (complete pc pc')
  then show ?thesis by (cases "(pc, st)" rule: complete_step.cases) (auto split: option.splits)
qed

lemma remaining_finished: "remaining th = 0 \<longleftrightarrow> finished th"
  by (cases th rule: finished.cases) auto

lemma exec_remaining:
  assumes "net_reachable (ths, st)" "i < length ths"
  shows "remaining (fst (net_exec j (ths, st)) ! i) \<le> remaining (ths ! i) - (if i = j then 1 else 0)"
proof -
  obtain th' st' where step: "thread_step (ths ! i) st = (th', st')" by fastforce
  have "thread_ok (task_ids st) (shapes st) (ths ! i)"
    using net_reachable_inv [OF assms(1)] assms(2) by (simp add: net_inv_def)
  then show ?thesis
    using step_remaining [OF step] step assms(2) by (auto simp: net_exec_def split: prod.splits)
qed

lemma schedule_remaining:
  assumes "net_reachable (ths, st)" "i < length ths"
  shows "remaining (fst (run_schedule is (ths, st)) ! i) \<le> remaining (ths ! i) - count_list is i"
  using assms
proof (induction "is" arbitrary: ths st)
  case (Cons j js)
  obtain ths1 st1 where 1: "net_exec j (ths, st) = (ths1, st1)" by fastforce
  then have "net_reachable (ths1, st1)" "i < length ths1"
    using exec_reachable [OF Cons.prems(1), of j] net_exec_length [of j ths st] Cons.prems(2) by simp_all
  then have "remaining (fst (run_schedule js (ths1, st1)) ! i) \<le> remaining (ths1 ! i) - count_list js i"
    by (rule Cons.IH)
  moreover have "remaining (ths1 ! i) \<le> remaining (ths ! i) - (if i = j then 1 else 0)"
    using exec_remaining [OF Cons.prems, of j] 1 by simp
  ultimately show ?case using 1 by (auto split: if_splits)
qed simp

text \<open>C11. Every handler returns: in a reachable net a schedule that gives a handler as many turns
  as the bound on its remaining accesses leaves it finished, whatever else the schedule runs.\<close>

theorem handlers_finish:
  assumes "net_reachable (ths, st)" "i < length ths" "remaining (ths ! i) \<le> count_list is i"
  shows "finished (fst (run_schedule is (ths, st)) ! i)"
  using schedule_remaining [OF assms(1,2), of "is"] assms(3) by (simp flip: remaining_finished)

section \<open>Running alone\<close>

lemma complete_task_Err: "complete_task st k rows success err now now' = Err e \<Longrightarrow> get_task st k = None"
  by (auto simp: complete_task_def ok_or_def Let_def split: option.splits)

lemma submit_job_Err:
  assumes "submit_job lib cat st req ids now now' = Err e"
  shows "submit_start lib cat req ids now now' = SDone (Err e)"
  using assms
  by (cases "plan_sql lib cat (req_sql req)")
    (auto simp: submit_job_def submit_start_def plan_partitions_def Let_def split: option.splits)

lemma complete_runs_alone:
  "case complete_task st (call_task c) (call_rows c) (call_success c) (call_error c) (call_now c) (call_later c) of
      Ok st' \<Rightarrow> alone (TComplete (CRead c)) st (TComplete (CDone (Ok ()))) st'
    | Err e \<Rightarrow> alone (TComplete (CRead c)) st (TComplete (CDone (Err e))) st
    | Panic m \<Rightarrow> \<exists>st'. alone (TComplete (CRead c)) st (TComplete (CDone (Panic m))) st'"
  (is "case ?r of Ok st' \<Rightarrow> ?ok st' | Err e \<Rightarrow> ?err e | Panic m \<Rightarrow> ?panic m")
proof -
  obtain st1 where run: "alone (TComplete (CRead c)) st (TComplete (CDone (and_then ?r (\<lambda>_. Ok ())))) st1"
    "\<And>st'. ?r = Ok st' \<Longrightarrow> st1 = st'"
    using complete_alone by blast
  show ?thesis
  proof (cases ?r)
    case (Ok st')
    then show ?thesis using run(1) run(2) [of st'] by simp
  next
    case (Err e)
    then have none: "get_task st (call_task c) = None" by (rule complete_task_Err)
    then have "e = ErrNotFound (''task '' @ call_task c @ '' not found'')"
      using Err by (simp add: complete_task_def ok_or_def)
    then have "?err e" using none by (intro aloneI [of 1]) simp
    then show ?thesis using Err by simp
  next
    case (Panic m)
    then show ?thesis using run(1) by auto
  qed
qed

lemma submit_runs_alone:
  "case submit_job lib cat st req ids now now' of
      Ok (j, cb, st') \<Rightarrow> alone (TSubmit (submit_start lib cat req ids now now')) st (TSubmit (SDone (Ok j))) st'
    | Err e \<Rightarrow> alone (TSubmit (submit_start lib cat req ids now now')) st (TSubmit (SDone (Err e))) st
    | Panic m \<Rightarrow> \<exists>st'. alone (TSubmit (submit_start lib cat req ids now now')) st (TSubmit (SDone (Panic m))) st'"
  (is "case ?s of Ok (j, cb, st') \<Rightarrow> alone ?th st _ st' | Err e \<Rightarrow> ?err e | Panic m \<Rightarrow> ?panic m")
proof -
  obtain st2 where run: "alone ?th st (TSubmit (SDone (and_then ?s (\<lambda>(j, cb, st'). Ok j)))) st2"
    "\<forall>j cb st'. ?s = Ok (j, cb, st') \<longrightarrow> st2 = st'"
    using submit_alone [of lib cat req ids now now' st] by (elim exE conjE)
  show ?thesis
  proof (cases ?s)
    case (Ok x)
    then show ?thesis
      using run(1) run(2) [rule_format, of "fst x" "fst (snd x)" "snd (snd x)"] by (simp add: case_prod_unfold)
  next
    case (Err e)
    then show ?thesis using submit_job_Err [OF Err] aloneI [of 0] by simp
  next
    case (Panic m)
    then show ?thesis using run(1) by auto
  qed
qed

text \<open>C10. Run alone, the access sequences of the handlers do what the atomic handlers do: the same
  result, the same error, the same panic, and the same state when they succeed.\<close>

theorem handlers_run_alone:
  "(case try_assign_task st wid of (r, st') \<Rightarrow> alone (TAssign (APop wid)) st (TAssign (ADone r)) st') \<and>
   (case complete_task st (call_task c) (call_rows c) (call_success c) (call_error c) (call_now c) (call_later c) of
      Ok st' \<Rightarrow> alone (TComplete (CRead c)) st (TComplete (CDone (Ok ()))) st'
    | Err e \<Rightarrow> alone (TComplete (CRead c)) st (TComplete (CDone (Err e))) st
    | Panic m \<Rightarrow> \<exists>st'. alone (TComplete (CRead c)) st (TComplete (CDone (Panic m))) st') \<and>
   (case submit_job lib cat st req ids now now' of
      Ok (j, cb, st') \<Rightarrow> alone (TSubmit (submit_start lib cat req ids now now')) st (TSubmit (SDone (Ok j))) st'
    | Err e \<Rightarrow> alone (TSubmit (submit_start lib cat req ids now now')) st (TSubmit (SDone (Err e))) st
    | Panic m \<Rightarrow> \<exists>st'. alone (TSubmit (submit_start lib cat req ids now now')) st (TSubmit (SDone (Panic m))) st')"
proof (intro conjI)
  show "case try_assign_task st wid of (r, st') \<Rightarrow> alone (TAssign (APop wid)) st (TAssign (ADone r)) st'"
    using assign_alone by (auto split: prod.split)
qed (rule complete_runs_alone, rule submit_runs_alone)

section \<open>Who gets a task\<close>

lemma taken_tickets: "mset (concat (map taken ths)) \<subseteq># sum_list (map tickets ths)"
proof (induction ths)
  case (Cons th ths)
  have "mset (taken th) \<subseteq># tickets th" by (simp add: tickets_def)
  then show ?case using subset_mset.add_mono [OF _ Cons] by simp
qed simp

lemma distinctI_count: "(\<And>k. count (mset xs) k \<le> 1) \<Longrightarrow> distinct xs"
  unfolding distinct_count_atmost_1
proof
  fix k
  assume "\<And>k. count (mset xs) k \<le> 1"
  then have "count (mset xs) k \<le> 1" .
  then show "count (mset xs) k = (if k \<in> set xs then 1 else 0)"
    using count_mset_0_iff [of xs k] by (simp add: le_Suc_eq)
qed

text \<open>C9. However handlers interleave, an identifier is in the queue at most once, no two
  assignments take the same identifier, none that was taken is in the queue, and all of them
  are identifiers of stored tasks.\<close>

theorem task_handed_out_once:
  assumes "net_reachable (ths, st)"
  shows "distinct (pending st @ concat (map taken ths)) \<and>
    (\<forall>k. k \<in> set (pending st @ concat (map taken ths)) \<longrightarrow> (\<exists>t. get_task st k = Some t \<and> task_id t = k))"
proof
  have inv: "state_ok st" "\<And>th. th \<in> set ths \<Longrightarrow> thread_ok (task_ids st) (shapes st) th"
    "\<And>k. count (mset (pending st) + sum_list (map tickets ths)) k \<le> 1"
    using net_reachable_inv [OF assms] by (simp_all add: net_inv_def)
  show "distinct (pending st @ concat (map taken ths))"
  proof (rule distinctI_count)
    fix k
    have "count (mset (pending st @ concat (map taken ths))) k \<le> count (mset (pending st) + sum_list (map tickets ths)) k"
      using taken_tickets [of ths] by (simp add: subseteq_mset_def)
    then show "count (mset (pending st @ concat (map taken ths))) k \<le> 1" using inv(3) [of k] by linarith
  qed
  have "set (pending st) \<subseteq> task_ids st" "set (concat (map taken ths)) \<subseteq> task_ids st"
    using state_ok_queue [OF inv(1)] inv(2) by (simp_all add: thread_ok_def UN_subset_iff)
  then show "\<forall>k. k \<in> set (pending st @ concat (map taken ths)) \<longrightarrow> (\<exists>t. get_task st k = Some t \<and> task_id t = k)"
    using state_okD(1) [OF inv(1)] by (metis (mono_tags, lifting) Un_iff mem_Collect_eq not_None_eq set_append subsetD task_ids_def)
qed

section \<open>Panics\<close>

lemma panicked_iff:
  "panicked th \<longleftrightarrow> (\<exists>m. th = TSubmit (SDone (Panic m))) \<or> (\<exists>m. th = TComplete (CDone (Panic m)))"
  by (cases th rule: panicked.cases) auto

lemma step_panics:
  assumes "thread_step th st = (th', st')" "thread_ok (task_ids st) (shapes st) th" "\<not> panicked th" "panicked th'"
  obtains t ts now' where "th = TComplete (CJob t ts now')" "get_job st (task_job_id t) = None"
  using assms(1)
proof (cases rule: thread_step_cases)
  case (submit pc pc')
  have False
  proof (cases pc)
    case (SBack s job now')
    then have "shapes st (stage_id s) = Some (shape s)" using assms(2) submit by (simp add: thread_ok_def)
    then obtain r where "get_stage st (stage_id s) = Some r" by (rule stage_read)
    then show False using submit SBack assms(4) by (cases "stage_tasks r") auto
  next
    case (SPush k ts job now')
    then show False using submit assms(4) by (cases ts) auto
  qed (use submit assms(3,4) in auto)
  then show thesis ..
next
  case (assign pc pc')
  then show thesis using assms(4) by simp
next
  case (complete pc pc')
  then show thesis
    using assms(3,4) that by (cases "(pc, st)" rule: complete_step.cases) (auto split: option.splits if_splits)
qed

text \<open>C12. The only panic of a handler in a reachable net is that of a completion whose task's job
  is not in the job table, and it happens only while another handler is still submitting that
  job: between its first queued task and its write of the job.\<close>

theorem completion_panics_only_during_submission:
  assumes "net_reachable (ths, st)" "i < length ths" "\<not> panicked (ths ! i)"
    and "panicked (fst (net_exec i (ths, st)) ! i)"
  shows "\<exists>t ts now' th. ths ! i = TComplete (CJob t ts now') \<and> get_job st (task_job_id t) = None \<and>
    th \<in> set ths \<and> submitting th = Some (task_job_id t)"
proof -
  have inv: "thread_ok (task_ids st) (shapes st) (ths ! i)" "thread_jobs (covered_jobs (ths, st)) (ths ! i)"
    using net_reachable_inv [OF assms(1)] assms(2) by (simp_all add: net_inv_def)
  obtain th' st' where step: "thread_step (ths ! i) st = (th', st')" by fastforce
  then have "panicked th'" using assms(2,4) by (simp add: net_exec_def)
  then obtain t ts now' where t: "ths ! i = TComplete (CJob t ts now')" "get_job st (task_job_id t) = None"
    using step_panics [OF step inv(1) assms(3)] by blast
  then have "task_job_id t \<in> covered_jobs (ths, st)" using inv(2) by (simp add: thread_jobs_def)
  then show ?thesis using t by (auto simp: covered_jobs_def job_ids_def)
qed

text \<open>
  A submission that has queued its first task and a completion of that task, up to the point
  where the completion reads the job.
\<close>

definition sample_call :: "string \<Rightarrow> complete_call" where
  "sample_call k = \<lparr>call_task = k, call_rows = 5, call_success = True, call_error = None, call_now = 2, call_later = 3\<rparr>"

definition submitting_net :: net where
  "submitting_net = run_schedule [0, 0, 0, 0]
     ([TSubmit (submit_start sales_lib (session_catalog sales_session) sample_request sample_ids 0 1)], cluster_new ''m'')"

definition racing_net :: net where
  "racing_net = run_schedule (replicate 8 1)
     (fst submitting_net @ [TComplete (CRead (sample_call ''0''))], snd submitting_net)"

lemma submitting_net_reachable: "net_reachable submitting_net"
proof -
  have "ids_unused ([], cluster_new ''m'') sample_ids"
    using show_nat_inj by (simp add: ids_unused_def sample_ids_def cluster_new_def get_task_def get_stage_def)
  from net_next [OF net_start net_step.start_submit [OF this]] show ?thesis
    unfolding submitting_net_def by (intro schedule_reachable) simp
qed

lemma racing_net_reachable: "net_reachable racing_net"
  unfolding racing_net_def
  by (rule schedule_reachable, rule net_next [OF submitting_net_reachable])
    (metis net_step.start_complete prod.collapse)

theorem completion_panics_only_during_submission_witness:
  "panicked (fst (net_exec 1 racing_net) ! 1) \<and>
   (\<exists>t ts now' th. fst racing_net ! 1 = TComplete (CJob t ts now') \<and> get_job (snd racing_net) (task_job_id t) = None \<and>
     th \<in> set (fst racing_net) \<and> submitting th = Some (task_job_id t))"
proof -
  have run: "length (fst racing_net) = 2 \<and> \<not> panicked (fst racing_net ! 1) \<and> panicked (fst (net_exec 1 racing_net) ! 1)"
    by code_simp
  have "net_reachable (fst racing_net, snd racing_net)" using racing_net_reachable by simp
  from completion_panics_only_during_submission [OF this, of 1] run show ?thesis by simp
qed

theorem handlers_finish_witness:
  "finished (fst (run_schedule [0, 0, 0, 0, 0, 0] submitting_net) ! 0)"
proof -
  have run: "length (fst submitting_net) = 1 \<and> remaining (fst submitting_net ! 0) \<le> 6" by code_simp
  have "net_reachable (fst submitting_net, snd submitting_net)" using submitting_net_reachable by simp
  from handlers_finish [OF this, of 0 "[0, 0, 0, 0, 0, 0]"] run show ?thesis by simp
qed

definition served_net :: net where
  "served_net = run_schedule [0, 0, 1, 2, 2, 1, 2, 1, 2, 1, 2, 1, 2, 1]
     (fst submitting_net @ [TAssign (APop ''w1''), TAssign (APop ''w2'')], snd submitting_net)"

lemma served_net_reachable: "net_reachable served_net"
proof -
  have "net_reachable (fst submitting_net @ [TAssign (APop ''w1'')], snd submitting_net)"
    using net_next [OF submitting_net_reachable] net_step.start_assign by (metis prod.collapse)
  then have "net_reachable ((fst submitting_net @ [TAssign (APop ''w1'')]) @ [TAssign (APop ''w2'')], snd submitting_net)"
    using net_next net_step.start_assign by blast
  then show ?thesis unfolding served_net_def by (intro schedule_reachable) simp
qed

theorem task_handed_out_once_witness:
  "distinct (pending (snd served_net) @ concat (map taken (fst served_net))) \<and>
   concat (map taken (fst served_net)) = [''0'', ''1''] \<and> list_all finished (tl (fst served_net))"
proof -
  have run: "concat (map taken (fst served_net)) = [''0'', ''1''] \<and> list_all finished (tl (fst served_net))"
    by code_simp
  have "net_reachable (fst served_net, snd served_net)" using served_net_reachable by simp
  from task_handed_out_once [OF this] run show ?thesis by simp
qed

section \<open>Lost updates\<close>

text \<open>A completion that has got as far as computing the job.\<close>

lemma complete_to_tasks:
  assumes "get_task st (call_task c) = Some t"
  defines "u \<equiv> completed_task t (call_rows c) (call_success c) (call_error c) (call_now c)"
  obtains st' where "alone (TComplete (CRead c)) st (TComplete (CTasks u (call_later c))) st'"
    "tasks st' = AList.update (task_id t) u (tasks st)" "get_job st' = get_job st"
proof -
  have "alone (TComplete (CRead c)) st (TComplete (CCheck u (call_later c))) st"
    using assms by (intro aloneI [of 1]) simp
  moreover have "alone (TComplete (CCheck u (call_later c))) st (TComplete (CStage u (call_later c))) (update_task st u)"
    by (rule update_task_alone) (simp add: u_def)
  moreover obtain st' where st': "alone (TComplete (CStage u (call_later c))) (update_task st u) (TComplete (CTasks u (call_later c))) st'"
    "st' = (case get_stage (update_task st u) (task_stage_id u) of None \<Rightarrow> update_task st u
       | Some s \<Rightarrow> update_stage (update_task st u) (recomputed_stage s u))"
    using stage_alone by blast
  ultimately have "alone (TComplete (CRead c)) st (TComplete (CTasks u (call_later c))) st'"
    using alone_trans by blast
  then show ?thesis
    using that st'(2) by (auto simp: view_simps u_def split: option.splits)
qed

lemma complete_to_write:
  assumes "get_job st (task_job_id u) = Some j"
  shows "alone (TComplete (CTasks u now')) st
    (TComplete (CJobWrite (recomputed_job j (tasks_for_job st (task_job_id u)) now'))) st"
  using assms by (intro aloneI [of 2]) simp

lemma recomputed_job_same:
  assumes "b \<in> set ts" "\<not> is_succeeded b" "\<And>u. u \<in> set ts \<Longrightarrow> \<not> is_failed u"
  shows "recomputed_job j ts now = j"
  using assms by (auto simp: recomputed_job_def list_all_iff list_ex_iff)

lemma succeeded_not_failed: "is_succeeded t \<Longrightarrow> \<not> is_failed t"
  by (simp add: is_succeeded_def is_failed_def)

lemma tasks_after_update:
  assumes "distinct (map fst (tasks st))" "\<And>k t. get_task st k = Some t \<Longrightarrow> task_id t = k"
    and "tasks st' = AList.update k u (tasks st)" "task_id u = k"
  shows "distinct (map fst (tasks st'))" "get_task st' = (get_task st)(k \<mapsto> u)"
    "\<And>i t. get_task st' i = Some t \<Longrightarrow> task_id t = i"
  using assms by (auto simp: get_task_def update_conv' distinct_update split: if_splits)

lemma updated_tasks:
  assumes "distinct (map fst (tasks st))" "\<And>k t. get_task st k = Some t \<Longrightarrow> task_id t = k"
    and "tasks st' = AList.update k u (tasks st)" "get_task st k = Some a" "task_id u = k"
    and "\<And>t. t \<in> set (tasks_for_job st jid) \<Longrightarrow> t = a \<or> P t" "P u" "t \<in> set (tasks_for_job st' jid)"
  shows "P t"
proof -
  note upd = tasks_after_update [OF assms(1,2,3,5)]
  obtain i where i: "get_task st' i = Some t" "task_job_id t = jid"
    using assms(8) by (auto simp: tasks_for_job_set [OF upd(1)])
  show ?thesis
  proof (cases "i = k")
    case True
    then show ?thesis using i(1) assms(7) by (simp add: upd(2))
  next
    case False
    then have "get_task st i = Some t" using i(1) by (simp add: upd(2))
    then have "t \<in> set (tasks_for_job st jid)" "t \<noteq> a"
      using i(2) assms(2,4) False by (auto simp: tasks_for_job_set [OF assms(1)])
    then show ?thesis using assms(6) by blast
  qed
qed

text \<open>
  A completion that stops before its last access, in a job of which another task is left: it is
  about to write the job back as it read it.
\<close>

lemma completion_before_write:
  assumes key: "distinct (map fst (tasks st))" "\<And>k t. get_task st k = Some t \<Longrightarrow> task_id t = k"
    and job: "get_job st jid = Some j"
    and a: "get_task st (call_task c) = Some a" "task_job_id a = jid" "call_success c"
    and b: "get_task st l = Some b" "task_job_id b = jid" "call_task c \<noteq> l" "\<not> is_terminal b"
    and rest: "\<And>t. t \<in> set (tasks_for_job st jid) \<Longrightarrow> t = a \<or> t = b \<or> is_succeeded t"
  obtains st1 u where "alone (TComplete (CRead c)) st (TComplete (CJobWrite j)) st1"
    "tasks st1 = AList.update (call_task c) u (tasks st)" "task_id u = call_task c" "get_job st1 = get_job st"
    "\<And>t. t \<in> set (tasks_for_job st1 jid) \<Longrightarrow> t = b \<or> is_succeeded t"
proof -
  define u where "u = completed_task a (call_rows c) (call_success c) (call_error c) (call_now c)"
  have u: "is_succeeded u" "task_id u = call_task c" "task_job_id u = jid"
    using a key(2) by (simp_all add: u_def is_succeeded_def)
  obtain st1 where st1: "alone (TComplete (CRead c)) st (TComplete (CTasks u (call_later c))) st1"
    "tasks st1 = AList.update (call_task c) u (tasks st)" "get_job st1 = get_job st"
    using complete_to_tasks [OF a(1)] key(2) [OF a(1)] unfolding u_def by metis
  note t1 = tasks_after_update [OF key st1(2) u(2)]
  have left: "t = b \<or> is_succeeded t" if "t \<in> set (tasks_for_job st1 jid)" for t
    using updated_tasks [OF key st1(2) a(1) u(2), of jid "\<lambda>t. t = b \<or> is_succeeded t"] rest u(1) that by blast
  have "get_task st1 l = Some b" using b(1,3) by (simp add: t1(2))
  then have "b \<in> set (tasks_for_job st1 jid)" using b(2) by (auto simp only: tasks_for_job_set [OF t1(1)])
  then have "recomputed_job j (tasks_for_job st1 jid) (call_later c) = j"
    using left b(4) succeeded_not_failed by (intro recomputed_job_same) (auto simp: is_terminal_def)
  then have "alone (TComplete (CRead c)) st (TComplete (CJobWrite j)) st1"
    using alone_trans [OF st1(1) complete_to_write [of st1 u j]] st1(3) job u(3) by simp
  then show ?thesis using that st1(2,3) u(2) left by blast
qed

lemma completion_to_end:
  assumes "get_task st (call_task c) = Some t" "get_job st (task_job_id t) = Some j" "call_success c"
    and "\<And>k t. get_task st k = Some t \<Longrightarrow> task_id t = k"
  obtains st' v j' where "alone (TComplete (CRead c)) st (TComplete (CDone (Ok ()))) st'"
    "tasks st' = AList.update (call_task c) v (tasks st)" "task_id v = call_task c" "is_succeeded v"
proof -
  define v where "v = completed_task t (call_rows c) (call_success c) (call_error c) (call_now c)"
  obtain st2 where st2: "alone (TComplete (CRead c)) st (TComplete (CTasks v (call_later c))) st2"
    "tasks st2 = AList.update (call_task c) v (tasks st)" "get_job st2 = get_job st"
    using complete_to_tasks [OF assms(1)] assms(4) [OF assms(1)] unfolding v_def by metis
  let ?j = "recomputed_job j (tasks_for_job st2 (task_job_id t)) (call_later c)"
  have "alone (TComplete (CJobWrite ?j)) st2 (TComplete (CDone (Ok ()))) (update_job st2 ?j)"
    by (intro aloneI [of 1]) simp
  then have "alone (TComplete (CRead c)) st (TComplete (CDone (Ok ()))) (update_job st2 ?j)"
    using alone_trans [OF alone_trans [OF st2(1) complete_to_write [of st2 v j]]] st2(3) assms(2)
    by (simp add: v_def)
  then show ?thesis
    using that [of "update_job st2 ?j" v] st2(2) assms(1,3,4) by (simp add: view_simps v_def is_succeeded_def)
qed

lemma overtaken:
  assumes "alone p st p1 st1" "alone q st1 q' st2" "alone p1 st2 p' st3"
  shows "\<exists>is. run_schedule is ([p, q], st) = ([p', q'], st3)"
proof -
  obtain is1 where "run_schedule is1 ([p, q], st) = ([p1, q], st1)"
    using alone_schedule [of "[p, q]" 0 st p1 st1] assms(1) by auto
  moreover obtain is2 where "run_schedule is2 ([p1, q], st1) = ([p1, q'], st2)"
    using alone_schedule [of "[p1, q]" 1 st1 q' st2] assms(2) by auto
  moreover obtain is3 where "run_schedule is3 ([p1, q'], st2) = ([p', q'], st3)"
    using alone_schedule [of "[p1, q']" 0 st2 p' st3] assms(3) by auto
  ultimately have "run_schedule (is1 @ is2 @ is3) ([p, q], st) = ([p', q'], st3)"
    by (simp add: run_schedule_append)
  then show ?thesis by blast
qed

text \<open>C13. Two completions of the last two tasks of a job can lose an update: both succeed and
  every task of the job has succeeded, but the first one writes back the job as it read it, so
  the job never becomes succeeded. Completed one after the other they would make it so.\<close>

theorem concurrent_completions_lose_update:
  assumes "reachable st" "get_job st jid = Some j"
    and "get_task st (call_task c) = Some a" "task_job_id a = jid" "call_success c"
    and "get_task st (call_task d) = Some b" "task_job_id b = jid" "call_success d"
    and "call_task c \<noteq> call_task d" "\<not> is_terminal b"
    and "\<forall>t \<in> set (tasks_for_job st jid). t = a \<or> t = b \<or> is_succeeded t"
  shows "\<exists>is st'. run_schedule is ([TComplete (CRead c), TComplete (CRead d)], st) =
      ([TComplete (CDone (Ok ())), TComplete (CDone (Ok ()))], st') \<and>
    list_all is_succeeded (tasks_for_job st' jid) \<and> get_job st' jid = Some j \<and> job_status j \<noteq> JbSucceeded"
proof -
  have key: "distinct (map fst (tasks st))" "\<And>k t. get_task st k = Some t \<Longrightarrow> task_id t = k" "job_id j = jid"
    and fol: "job_follows j (tasks_for_job st jid)"
    using reachable_inv [OF assms(1)] assms(2) by (auto simp: cluster_inv_def keyed_def jobs_ok_def)
  have left: "\<And>t. t \<in> set (tasks_for_job st jid) \<Longrightarrow> t = a \<or> t = b \<or> is_succeeded t" using assms(11) by blast
  obtain st1 u where st1: "alone (TComplete (CRead c)) st (TComplete (CJobWrite j)) st1"
    "tasks st1 = AList.update (call_task c) u (tasks st)" "task_id u = call_task c" "get_job st1 = get_job st"
    "\<And>t. t \<in> set (tasks_for_job st1 jid) \<Longrightarrow> t = b \<or> is_succeeded t"
    using completion_before_write [OF key(1,2) assms(2-7,9,10) left] by blast
  note t1 = tasks_after_update [OF key(1,2) st1(2,3)]
  have b1: "get_task st1 (call_task d) = Some b" using assms(6,9) by (simp add: t1(2))
  then obtain st2 v where st2: "alone (TComplete (CRead d)) st1 (TComplete (CDone (Ok ()))) st2"
    "tasks st2 = AList.update (call_task d) v (tasks st1)" "task_id v = call_task d" "is_succeeded v"
    using completion_to_end [OF b1 _ assms(8) t1(3)] st1(4) assms(2,7) by auto
  have st3: "alone (TComplete (CJobWrite j)) st2 (TComplete (CDone (Ok ()))) (update_job st2 j)"
    by (intro aloneI [of 1]) simp
  have "is_succeeded t" if "t \<in> set (tasks_for_job (update_job st2 j) jid)" for t
  proof -
    have "t \<in> set (tasks_for_job st2 jid)" using that by (simp add: tasks_for_job_def view_simps)
    then show ?thesis using updated_tasks [OF t1(1,3) st2(2) b1 st2(3), of jid is_succeeded] st1(5) st2(4) by blast
  qed
  moreover have "b \<in> set (tasks_for_job st jid)" using assms(6,7) by (auto simp: tasks_for_job_set [OF key(1)])
  then have "job_status j \<noteq> JbSucceeded"
    using fol assms(10) by (auto simp: job_follows_def list_all_iff is_terminal_def)
  moreover have "get_job (update_job st2 j) jid = Some j" by (simp add: view_simps key(3))
  ultimately show ?thesis
    using overtaken [OF st1(1) st2(1) st3] by (auto simp: list_all_iff)
qed

fun two_pending :: "(string \<times> task) list \<Rightarrow> bool" where
  "two_pending [(k, a), (l, b)] \<longleftrightarrow>
     k = ''0'' \<and> l = ''1'' \<and> task_job_id a = ''j'' \<and> task_job_id b = ''j'' \<and> \<not> is_terminal b"
| "two_pending _ \<longleftrightarrow> False"

definition two_tasks_left :: "cluster_state \<Rightarrow> bool" where
  "two_tasks_left st \<longleftrightarrow> (case get_job st ''j'' of None \<Rightarrow> False | Some j \<Rightarrow> two_pending (tasks st))"

lemma two_tasks_leftE:
  assumes "two_tasks_left st"
  obtains j a b where "get_job st ''j'' = Some j" "get_task st ''0'' = Some a" "get_task st ''1'' = Some b"
    "task_job_id a = ''j''" "task_job_id b = ''j''" "\<not> is_terminal b" "tasks_for_job st ''j'' = [a, b]"
proof -
  obtain j where j: "get_job st ''j'' = Some j" "two_pending (tasks st)"
    using assms by (auto simp: two_tasks_left_def split: option.splits)
  then obtain a b where "tasks st = [(''0'', a), (''1'', b)]" "task_job_id a = ''j''" "task_job_id b = ''j''" "\<not> is_terminal b"
    by (cases "tasks st" rule: two_pending.cases) auto
  then show ?thesis using that [of j a b] j(1) by (simp add: get_task_def tasks_for_job_def)
qed

theorem concurrent_completions_lose_update_witness:
  "\<exists>is st'. run_schedule is ([TComplete (CRead (sample_call ''0'')), TComplete (CRead (sample_call ''1''))], submitted) =
      ([TComplete (CDone (Ok ())), TComplete (CDone (Ok ()))], st') \<and>
    list_all is_succeeded (tasks_for_job st' ''j'') \<and> get_job st' ''j'' = get_job submitted ''j'' \<and>
    (\<exists>j. get_job st' ''j'' = Some j \<and> job_status j \<noteq> JbSucceeded)"
proof -
  have "two_tasks_left submitted" by code_simp
  then obtain j a b where some: "get_job submitted ''j'' = Some j" "get_task submitted ''0'' = Some a"
    "get_task submitted ''1'' = Some b" "task_job_id a = ''j''" "task_job_id b = ''j''" "\<not> is_terminal b"
    "tasks_for_job submitted ''j'' = [a, b]"
    by (rule two_tasks_leftE)
  have "\<exists>is st'. run_schedule is ([TComplete (CRead (sample_call ''0'')), TComplete (CRead (sample_call ''1''))], submitted) =
      ([TComplete (CDone (Ok ())), TComplete (CDone (Ok ()))], st') \<and>
    list_all is_succeeded (tasks_for_job st' ''j'') \<and> get_job st' ''j'' = Some j \<and> job_status j \<noteq> JbSucceeded"
    using some
    by (intro concurrent_completions_lose_update [OF submitted_reachable some(1), where a = a and b = b])
      (simp_all add: sample_call_def)
  then show ?thesis unfolding some(1) by blast
qed

text \<open>
  A submission writes its job a second time, as running. Completions of all its tasks that fall
  between the two writes are undone as far as the job is concerned.
\<close>

definition stored_job_net :: net where
  "stored_job_net = run_schedule [0, 0, 0] submitting_net"

definition completed_net :: net where
  "completed_net = run_schedule (replicate 10 1 @ replicate 10 2)
     (fst stored_job_net @ [TComplete (CRead (sample_call ''0'')), TComplete (CRead (sample_call ''1''))], snd stored_job_net)"

definition status_of_job :: "net \<Rightarrow> job_status option" where
  "status_of_job net = map_option job_status (get_job (snd net) ''j'')"

lemma completed_net_reachable: "net_reachable completed_net"
proof -
  have "net_reachable (fst stored_job_net, snd stored_job_net)"
    using schedule_reachable [OF submitting_net_reachable] by (simp add: stored_job_net_def del: run_schedule_simps)
  then have "net_reachable ((fst stored_job_net @ [TComplete (CRead (sample_call ''0''))]) @ [TComplete (CRead (sample_call ''1''))],
      snd stored_job_net)"
    using net_next net_step.start_complete by blast
  then show ?thesis unfolding completed_net_def by (intro schedule_reachable) simp
qed

theorem submission_reopens_finished_job:
  "net_reachable completed_net \<and> list_all finished (tl (fst completed_net)) \<and>
   status_of_job completed_net = Some JbSucceeded \<and> status_of_job (net_exec 0 completed_net) = Some JbRunning"
proof
  show "list_all finished (tl (fst completed_net)) \<and>
   status_of_job completed_net = Some JbSucceeded \<and> status_of_job (net_exec 0 completed_net) = Some JbRunning"
    by code_simp
qed (rule completed_net_reachable)

end
