(* ===== verification/Arrow.thy ===== *)
theory Arrow
  imports Operators
begin

text \<open>
  \<^verbatim>\<open>rspark-exec/src/arrow_batch.rs\<close> and \<^verbatim>\<open>arrow_ops.rs\<close>: the conversions between the engine's
  batches and Arrow record batches, and the operators that run on Arrow kernels. The Arrow
  crates are the parameter \<open>arrow_lib\<close>: typed builders, arrays, record batches and the kernels;
  \<open>arrow_ok\<close> states what their documentation promises of them.
\<close>

section \<open>The Arrow crates\<close>

text \<open>\<open>AOther\<close> stands for every Arrow type the source does not name, with its \<^verbatim>\<open>Debug\<close> text.\<close>

datatype arrow_type =
    ABoolean | AInt32 | AInt64 | AFloat32 | AFloat64 | AUtf8 | ALargeUtf8 | ANull | AOther string

text \<open>What a typed array holds at a valid position.\<close>

datatype arrow_cell =
    CBoolean bool | CInt32 i32 | CInt64 i64 | CFloat32 f32 | CFloat64 f64 | CUtf8 string

record arrow_field =
  af_name :: string
  af_type :: arrow_type
  af_nullable :: bool

type_synonym arrow_schema = "arrow_field list"

record ('b, 'a, 'r) arrow_lib =
  ar_builder :: "arrow_type \<Rightarrow> 'b"
  ar_append_value :: "'b \<Rightarrow> arrow_cell \<Rightarrow> 'b"
  ar_append_null :: "'b \<Rightarrow> 'b"
  ar_finish :: "'b \<Rightarrow> 'a"
  ar_null_array :: "nat \<Rightarrow> 'a"
  ar_boolean_array :: "bool list \<Rightarrow> 'a"
  ar_type :: "'a \<Rightarrow> arrow_type"
  ar_len :: "'a \<Rightarrow> nat"
  ar_is_null :: "'a \<Rightarrow> nat \<Rightarrow> bool"
  ar_value :: "'a \<Rightarrow> nat \<Rightarrow> arrow_cell"
  ar_try_new :: "arrow_schema \<Rightarrow> 'a list \<Rightarrow> string + 'r"
  ar_new_empty :: "arrow_schema \<Rightarrow> 'r"
  ar_schema :: "'r \<Rightarrow> arrow_schema"
  ar_columns :: "'r \<Rightarrow> 'a list"
  ar_num_rows :: "'r \<Rightarrow> nat"
  ar_filter_record_batch :: "'r \<Rightarrow> 'a \<Rightarrow> string + 'r"
  ar_sort_to_indices :: "'a \<Rightarrow> bool \<Rightarrow> bool \<Rightarrow> string + nat list"
  ar_take_record_batch :: "'r \<Rightarrow> nat list \<Rightarrow> string + 'r"
  ar_debug_type :: "arrow_type \<Rightarrow> string"

fun lift_err :: "string \<Rightarrow> string + 'a \<Rightarrow> 'a res" where
  "lift_err what (Inl e) = Err (ErrExecution (what @ e))"
| "lift_err what (Inr x) = Ok x"

section \<open>Schemas\<close>

fun core_type :: "arrow_type \<Rightarrow> data_type" where
  "core_type ABoolean = TBoolean"
| "core_type AInt32 = TInt32"
| "core_type AInt64 = TInt64"
| "core_type AFloat32 = TFloat32"
| "core_type AFloat64 = TFloat64"
| "core_type AUtf8 = TString"
| "core_type ALargeUtf8 = TString"
| "core_type _ = TString"

definition core_field :: "arrow_field \<Rightarrow> schema_field" where
  "core_field f =
     \<lparr>field_name = af_name f, field_type = core_type (af_type f), field_nullable = af_nullable f\<rparr>"

definition core_schema :: "('b, 'a, 'r) arrow_lib \<Rightarrow> 'r \<Rightarrow> schema" where
  "core_schema lib b = schema_new (map core_field (ar_schema lib b))"

fun arrow_type_of :: "data_type \<Rightarrow> arrow_type" where
  "arrow_type_of TBoolean = ABoolean"
| "arrow_type_of TInt32 = AInt32"
| "arrow_type_of TInt64 = AInt64"
| "arrow_type_of TFloat32 = AFloat32"
| "arrow_type_of TFloat64 = AFloat64"
| "arrow_type_of TString = AUtf8"
| "arrow_type_of TDate = AUtf8"
| "arrow_type_of TTimestamp = AUtf8"
| "arrow_type_of TNull = ANull"

definition arrow_field_of :: "schema_field \<Rightarrow> arrow_field" where
  "arrow_field_of f =
     \<lparr>af_name = field_name f, af_type = arrow_type_of (field_type f), af_nullable = field_nullable f\<rparr>"

definition arrow_schema_from_core :: "schema \<Rightarrow> arrow_schema res" where
  "arrow_schema_from_core s = map_res (\<lambda>f. Ok (arrow_field_of f)) (schema_fields s)"

section \<open>Builders\<close>

datatype 'b column_builder =
    BoolBuilder 'b | I32Builder 'b | I64Builder 'b | F32Builder 'b | F64Builder 'b
  | StrBuilder 'b | NullColumn

definition make_builder ::
  "('b, 'a, 'r) arrow_lib \<Rightarrow> schema_field \<Rightarrow> 'b column_builder res" where
  "make_builder lib f =
     (case field_type f of
        TBoolean \<Rightarrow> Ok (BoolBuilder (ar_builder lib ABoolean))
      | TInt32 \<Rightarrow> Ok (I32Builder (ar_builder lib AInt32))
      | TInt64 \<Rightarrow> Ok (I64Builder (ar_builder lib AInt64))
      | TFloat32 \<Rightarrow> Ok (F32Builder (ar_builder lib AFloat32))
      | TFloat64 \<Rightarrow> Ok (F64Builder (ar_builder lib AFloat64))
      | TNull \<Rightarrow> Ok NullColumn
      | _ \<Rightarrow> Ok (StrBuilder (ar_builder lib AUtf8)))"

text \<open>\<^verbatim>\<open>try_into().unwrap_or(0)\<close> from \<^verbatim>\<open>i64\<close> to \<^verbatim>\<open>i32\<close>.\<close>

definition i64_to_i32 :: "i64 \<Rightarrow> i32" where
  "i64_to_i32 x = (if - (2 ^ 31) \<le> sint x \<and> sint x < 2 ^ 31 then word_of_int (sint x) else 0)"

text \<open>The cell a builder appends for a value, \<open>None\<close> for a null.\<close>

fun bool_cell :: "val \<Rightarrow> arrow_cell option" where
  "bool_cell (VBoolean b) = Some (CBoolean b)"
| "bool_cell VNull = None"
| "bool_cell other = Some (CBoolean (unwrap_or (cast_to_bool other) False))"

fun i32_cell :: "val \<Rightarrow> arrow_cell option" where
  "i32_cell (VInt32 i) = Some (CInt32 i)"
| "i32_cell VNull = None"
| "i32_cell other = Some (CInt32 (i64_to_i32 (unwrap_or (cast_to_i64 other) 0)))"

fun i64_cell :: "val \<Rightarrow> arrow_cell option" where
  "i64_cell (VInt64 i) = Some (CInt64 i)"
| "i64_cell VNull = None"
| "i64_cell other = Some (CInt64 (unwrap_or (cast_to_i64 other) 0))"

fun f32_cell :: "val \<Rightarrow> arrow_cell option" where
  "f32_cell (VFloat32 f) = Some (CFloat32 f)"
| "f32_cell VNull = None"
| "f32_cell other = Some (CFloat32 (f64_as_f32 (unwrap_or (cast_to_f64 other) 0)))"

fun f64_cell :: "val \<Rightarrow> arrow_cell option" where
  "f64_cell (VFloat64 f) = Some (CFloat64 f)"
| "f64_cell VNull = None"
| "f64_cell other = Some (CFloat64 (unwrap_or (cast_to_f64 other) 0))"

fun str_cell :: "val \<Rightarrow> arrow_cell option" where
  "str_cell (VString s) = Some (CUtf8 s)"
| "str_cell VNull = None"
| "str_cell other = Some (CUtf8 (cast_to_string other))"

fun append_cell :: "('b, 'a, 'r) arrow_lib \<Rightarrow> 'b \<Rightarrow> arrow_cell option \<Rightarrow> 'b" where
  "append_cell lib b None = ar_append_null lib b"
| "append_cell lib b (Some c) = ar_append_value lib b c"

fun append_value :: "('b, 'a, 'r) arrow_lib \<Rightarrow> 'b column_builder \<Rightarrow> val \<Rightarrow> 'b column_builder" where
  "append_value lib (BoolBuilder b) v = BoolBuilder (append_cell lib b (bool_cell v))"
| "append_value lib (I32Builder b) v = I32Builder (append_cell lib b (i32_cell v))"
| "append_value lib (I64Builder b) v = I64Builder (append_cell lib b (i64_cell v))"
| "append_value lib (F32Builder b) v = F32Builder (append_cell lib b (f32_cell v))"
| "append_value lib (F64Builder b) v = F64Builder (append_cell lib b (f64_cell v))"
| "append_value lib (StrBuilder b) v = StrBuilder (append_cell lib b (str_cell v))"
| "append_value lib NullColumn v = NullColumn"

fun finish :: "('b, 'a, 'r) arrow_lib \<Rightarrow> 'b column_builder \<Rightarrow> 'a" where
  "finish lib (BoolBuilder b) = ar_finish lib b"
| "finish lib (I32Builder b) = ar_finish lib b"
| "finish lib (I64Builder b) = ar_finish lib b"
| "finish lib (F32Builder b) = ar_finish lib b"
| "finish lib (F64Builder b) = ar_finish lib b"
| "finish lib (StrBuilder b) = ar_finish lib b"
| "finish lib NullColumn = ar_null_array lib 0"

section \<open>Conversions\<close>

definition append_record ::
  "('b, 'a, 'r) arrow_lib \<Rightarrow> 'b column_builder list \<Rightarrow> row \<Rightarrow> 'b column_builder list res" where
  "append_record lib bs r =
     fold_res (\<lambda>bs (i, v).
         if i < length bs then Ok (bs[i := append_value lib (bs ! i) v])
         else Panic (''index out of bounds: the len is '' @ show_nat (length bs) @
                '' but the index is '' @ show_nat i))
       bs (enumerate 0 (row_values r))"

definition arrow_from_core :: "('b, 'a, 'r) arrow_lib \<Rightarrow> record_batch \<Rightarrow> 'r res" where
  "arrow_from_core lib b =
     and_then (arrow_schema_from_core (batch_schema b)) (\<lambda>s.
     and_then (map_res (make_builder lib) (schema_fields (batch_schema b))) (\<lambda>bs.
     and_then (fold_res (append_record lib) bs (batch_records b)) (\<lambda>bs.
     lift_err ''arrow RecordBatch build failed: '' (ar_try_new lib s (map (finish lib) bs)))))"

definition downcast_failed :: "string \<Rightarrow> val res" where
  "downcast_failed t = Err (ErrExecution (''arrow downcast to '' @ t @ '' failed''))"

definition value_at :: "('b, 'a, 'r) arrow_lib \<Rightarrow> 'a \<Rightarrow> nat \<Rightarrow> val res" where
  "value_at lib col i =
     (if ar_is_null lib col i then Ok VNull
      else case ar_type lib col of
        ABoolean \<Rightarrow> (case ar_value lib col i of CBoolean b \<Rightarrow> Ok (VBoolean b)
                     | _ \<Rightarrow> downcast_failed ''BooleanArray'')
      | AInt32 \<Rightarrow> (case ar_value lib col i of CInt32 v \<Rightarrow> Ok (VInt32 v)
                     | _ \<Rightarrow> downcast_failed ''Int32Array'')
      | AInt64 \<Rightarrow> (case ar_value lib col i of CInt64 v \<Rightarrow> Ok (VInt64 v)
                     | _ \<Rightarrow> downcast_failed ''Int64Array'')
      | AFloat32 \<Rightarrow> (case ar_value lib col i of CFloat32 v \<Rightarrow> Ok (VFloat32 v)
                     | _ \<Rightarrow> Panic ''primitive array'')
      | AFloat64 \<Rightarrow> (case ar_value lib col i of CFloat64 v \<Rightarrow> Ok (VFloat64 v)
                     | _ \<Rightarrow> Panic ''primitive array'')
      | AUtf8 \<Rightarrow> (case ar_value lib col i of CUtf8 v \<Rightarrow> Ok (VString v)
                     | _ \<Rightarrow> downcast_failed ''StringArray'')
      | ANull \<Rightarrow> Ok VNull
      | t \<Rightarrow> Err (ErrExecution (''unsupported arrow type in value_at: '' @ ar_debug_type lib t)))"

definition arrow_to_core :: "('b, 'a, 'r) arrow_lib \<Rightarrow> 'r \<Rightarrow> record_batch res" where
  "arrow_to_core lib b =
     and_then (map_res (\<lambda>i. and_then (map_res (\<lambda>col. value_at lib col i) (ar_columns lib b))
         (\<lambda>vs. Ok (record_new vs))) [0..<ar_num_rows lib b])
       (\<lambda>rs. from_records (core_schema lib b) rs)"

section \<open>Operators on Arrow kernels\<close>

definition arrow_filter :: "('b, 'a, 'r) arrow_lib \<Rightarrow> 'r \<Rightarrow> 'a \<Rightarrow> 'r res" where
  "arrow_filter lib b sel =
     (if ar_len lib sel \<noteq> ar_num_rows lib b
      then Err (ErrExecution (''filter mask length '' @ show_nat (ar_len lib sel) @
             '' != batch rows '' @ show_nat (ar_num_rows lib b)))
      else lift_err ''arrow filter_record_batch: '' (ar_filter_record_batch lib b sel))"

text \<open>The indices are 32-bit: \<^verbatim>\<open>0..n as u32\<close>.\<close>

definition arrow_limit :: "('b, 'a, 'r) arrow_lib \<Rightarrow> 'r \<Rightarrow> nat \<Rightarrow> 'r res" where
  "arrow_limit lib b n =
     (let n = min n (ar_num_rows lib b)
      in if n = 0 then Ok (ar_new_empty lib (ar_schema lib b))
         else lift_err ''arrow take_record_batch: ''
                (ar_take_record_batch lib b [0..<unat (word_of_nat n :: 32 word)]))"

definition sort_by_column :: "('b, 'a, 'r) arrow_lib \<Rightarrow> 'r \<Rightarrow> nat \<Rightarrow> bool \<Rightarrow> 'r res" where
  "sort_by_column lib b i asc =
     (if length (ar_columns lib b) \<le> i
      then Err (ErrExecution (''sort column index '' @ show_nat i @ '' out of range (cols='' @
             show_nat (length (ar_columns lib b)) @ '')''))
      else and_then (lift_err ''arrow sort_to_indices: ''
               (ar_sort_to_indices lib (ar_columns lib b ! i) (\<not> asc) True))
             (\<lambda>ix. lift_err ''arrow take_record_batch (sort): '' (ar_take_record_batch lib b ix)))"

definition select_columns :: "('b, 'a, 'r) arrow_lib \<Rightarrow> 'r \<Rightarrow> nat list \<Rightarrow> 'r res" where
  "select_columns lib b ix =
     (if \<exists>i \<in> set ix. length (ar_schema lib b) \<le> i then Panic ''index out of bounds''
      else if \<exists>i \<in> set ix. length (ar_columns lib b) \<le> i then Panic ''index out of bounds''
      else lift_err ''arrow select_columns: ''
             (ar_try_new lib (map ((!) (ar_schema lib b)) ix) (map ((!) (ar_columns lib b)) ix)))"

definition filter_via :: "('b, 'a, 'r) arrow_lib \<Rightarrow> 'r \<Rightarrow> (nat \<Rightarrow> bool res) \<Rightarrow> 'r res" where
  "filter_via lib b p =
     and_then (map_res p [0..<ar_num_rows lib b])
       (\<lambda>vs. arrow_filter lib b (ar_boolean_array lib vs))"

section \<open>What the Arrow crates promise\<close>

fun cell_type :: "arrow_cell \<Rightarrow> arrow_type" where
  "cell_type (CBoolean _) = ABoolean"
| "cell_type (CInt32 _) = AInt32"
| "cell_type (CInt64 _) = AInt64"
| "cell_type (CFloat32 _) = AFloat32"
| "cell_type (CFloat64 _) = AFloat64"
| "cell_type (CUtf8 _) = AUtf8"

definition native_types :: "arrow_type set" where
  "native_types = {ABoolean, AInt32, AInt64, AFloat32, AFloat64, AUtf8}"

definition cells_of_type :: "arrow_type \<Rightarrow> arrow_cell option list \<Rightarrow> bool" where
  "cells_of_type t cs \<longleftrightarrow> (\<forall>c \<in> set cs. case c of None \<Rightarrow> True | Some v \<Rightarrow> cell_type v = t)"

definition cells :: "('b, 'a, 'r) arrow_lib \<Rightarrow> 'a \<Rightarrow> arrow_cell option list" where
  "cells lib a =
     map (\<lambda>i. if ar_is_null lib a i then None else Some (ar_value lib a i)) [0..<ar_len lib a]"

definition built :: "('b, 'a, 'r) arrow_lib \<Rightarrow> arrow_type \<Rightarrow> arrow_cell option list \<Rightarrow> 'a" where
  "built lib t cs = ar_finish lib (foldl (append_cell lib) (ar_builder lib t) cs)"

text \<open>A record batch: as many typed columns as fields, of one length.\<close>

definition rb_ok :: "('b, 'a, 'r) arrow_lib \<Rightarrow> 'r \<Rightarrow> bool" where
  "rb_ok lib r \<longleftrightarrow>
     map (ar_type lib) (ar_columns lib r) = map af_type (ar_schema lib r) \<and>
     (\<forall>c \<in> set (ar_columns lib r). ar_len lib c = ar_num_rows lib r \<and>
        (ar_type lib c \<in> native_types \<longrightarrow>
           cells_of_type (ar_type lib c) (cells lib c)))"

text \<open>The rows \<open>ix\<close> of a record batch, as \<^verbatim>\<open>take\<close> picks them.\<close>

definition picks :: "('b, 'a, 'r) arrow_lib \<Rightarrow> 'r \<Rightarrow> nat list \<Rightarrow> 'r \<Rightarrow> bool" where
  "picks lib r ix r' \<longleftrightarrow> rb_ok lib r' \<and> ar_schema lib r' = ar_schema lib r \<and>
     ar_num_rows lib r' = length ix \<and>
     map (cells lib) (ar_columns lib r') = map (\<lambda>c. map ((!) (cells lib c)) ix) (ar_columns lib r)"

text \<open>Strict order of cells; on floats it is the numeric order, which the total order refines.\<close>

fun cell_less :: "arrow_cell \<Rightarrow> arrow_cell \<Rightarrow> bool" where
  "cell_less (CBoolean a) (CBoolean b) = (\<not> a \<and> b)"
| "cell_less (CInt32 a) (CInt32 b) = (sint a < sint b)"
| "cell_less (CInt64 a) (CInt64 b) = (sint a < sint b)"
| "cell_less (CFloat32 a) (CFloat32 b) = (f32_cmp a b = Some Less)"
| "cell_less (CFloat64 a) (CFloat64 b) = (f64_cmp a b = Some Less)"
| "cell_less (CUtf8 a) (CUtf8 b) = (a < b)"
| "cell_less _ _ = False"

fun cell_before :: "bool \<Rightarrow> arrow_cell option \<Rightarrow> arrow_cell option \<Rightarrow> bool" where
  "cell_before desc None (Some _) = True"
| "cell_before desc (Some a) (Some b) = (if desc then cell_less b a else cell_less a b)"
| "cell_before desc _ _ = False"

definition builder_laws :: "('b, 'a, 'r) arrow_lib \<Rightarrow> bool" where
  "builder_laws lib \<longleftrightarrow>
     (\<forall>t cs. t \<in> native_types \<longrightarrow> cells_of_type t cs \<longrightarrow>
        ar_type lib (built lib t cs) = t \<and> cells lib (built lib t cs) = cs) \<and>
     (\<forall>n. ar_type lib (ar_null_array lib n) = ANull \<and> ar_len lib (ar_null_array lib n) = n) \<and>
     (\<forall>bs. ar_type lib (ar_boolean_array lib bs) = ABoolean \<and>
        cells lib (ar_boolean_array lib bs) = map (\<lambda>b. Some (CBoolean b)) bs)"

text \<open>
  \<^verbatim>\<open>RecordBatch::try_new\<close> wants at least one column, the types of the schema, one length, and no
  null in a column that is declared without.
\<close>

definition try_new_ok :: "('b, 'a, 'r) arrow_lib \<Rightarrow> arrow_schema \<Rightarrow> 'a list \<Rightarrow> bool" where
  "try_new_ok lib s cols \<longleftrightarrow> cols \<noteq> [] \<and> map (ar_type lib) cols = map af_type s \<and>
     (\<forall>c \<in> set cols. ar_len lib c = ar_len lib (hd cols)) \<and>
     list_all2 (\<lambda>f c. af_nullable f \<or> None \<notin> set (cells lib c)) s cols"

definition batch_laws :: "('b, 'a, 'r) arrow_lib \<Rightarrow> bool" where
  "batch_laws lib \<longleftrightarrow>
     (\<forall>s cols. if try_new_ok lib s cols
        then \<exists>r. ar_try_new lib s cols = Inr r \<and> ar_schema lib r = s \<and> ar_columns lib r = cols \<and>
          ar_num_rows lib r = ar_len lib (hd cols)
        else \<exists>e. ar_try_new lib s cols = Inl e) \<and>
     (\<forall>s. rb_ok lib (ar_new_empty lib s) \<and> ar_schema lib (ar_new_empty lib s) = s \<and>
        ar_num_rows lib (ar_new_empty lib s) = 0)"

definition kernel_laws :: "('b, 'a, 'r) arrow_lib \<Rightarrow> bool" where
  "kernel_laws lib \<longleftrightarrow>
     (\<forall>r sel. rb_ok lib r \<longrightarrow> ar_type lib sel = ABoolean \<longrightarrow> ar_len lib sel = ar_num_rows lib r \<longrightarrow>
        (\<exists>r'. ar_filter_record_batch lib r sel = Inr r' \<and>
          picks lib r (filter (\<lambda>i. cells lib sel ! i = Some (CBoolean True)) [0..<ar_num_rows lib r]) r')) \<and>
     (\<forall>r ix. rb_ok lib r \<longrightarrow> (\<forall>i \<in> set ix. i < ar_num_rows lib r) \<longrightarrow>
        (\<exists>r'. ar_take_record_batch lib r ix = Inr r' \<and> picks lib r ix r')) \<and>
     (\<forall>c desc. ar_type lib c \<in> native_types \<longrightarrow> cells_of_type (ar_type lib c) (cells lib c) \<longrightarrow>
        (\<exists>ix. ar_sort_to_indices lib c desc True = Inr ix \<and> mset ix = mset [0..<ar_len lib c] \<and>
          sorted_wrt (\<lambda>i j. \<not> cell_before desc (cells lib c ! j) (cells lib c ! i)) ix))"

definition arrow_ok :: "('b, 'a, 'r) arrow_lib \<Rightarrow> bool" where
  "arrow_ok lib \<longleftrightarrow> builder_laws lib \<and> batch_laws lib \<and> kernel_laws lib"

end
