(* ===== verification/Arrow_Laws.thy ===== *)
theory Arrow_Laws
  imports Arrow
begin

text \<open>
  The Arrow interchange: a batch converted to Arrow and back, and the Arrow kernels against the
  row operators. A record batch is read as rows by \<open>core_rows\<close>.
\<close>

section \<open>Cells and values\<close>

fun cell_for :: "data_type \<Rightarrow> val \<Rightarrow> arrow_cell option" where
  "cell_for TBoolean v = bool_cell v"
| "cell_for TInt32 v = i32_cell v"
| "cell_for TInt64 v = i64_cell v"
| "cell_for TFloat32 v = f32_cell v"
| "cell_for TFloat64 v = f64_cell v"
| "cell_for TNull v = None"
| "cell_for _ v = str_cell v"

fun value_of_cell :: "arrow_cell option \<Rightarrow> val" where
  "value_of_cell None = VNull"
| "value_of_cell (Some (CBoolean b)) = VBoolean b"
| "value_of_cell (Some (CInt32 v)) = VInt32 v"
| "value_of_cell (Some (CInt64 v)) = VInt64 v"
| "value_of_cell (Some (CFloat32 v)) = VFloat32 v"
| "value_of_cell (Some (CFloat64 v)) = VFloat64 v"
| "value_of_cell (Some (CUtf8 s)) = VString s"

text \<open>A value of the declared type of its column, or NULL.\<close>

fun value_fits :: "data_type \<Rightarrow> val \<Rightarrow> bool" where
  "value_fits t VNull = True"
| "value_fits t (VBoolean _) = (t = TBoolean)"
| "value_fits t (VInt32 _) = (t = TInt32)"
| "value_fits t (VInt64 _) = (t = TInt64)"
| "value_fits t (VFloat32 _) = (t = TFloat32)"
| "value_fits t (VFloat64 _) = (t = TFloat64)"
| "value_fits t (VString _) = (t \<in> {TString, TDate, TTimestamp})"

lemma arrow_type_native: "t \<noteq> TNull \<longleftrightarrow> arrow_type_of t \<in> native_types"
  by (cases t) (auto simp: native_types_def)

lemma value_of_cell_for: "value_fits t v \<Longrightarrow> value_of_cell (cell_for t v) = v"
  by (cases v; cases t) auto

lemma cell_for_null: "t \<noteq> TNull \<Longrightarrow> cell_for t v = None \<longleftrightarrow> v = VNull"
  by (cases t; cases v) auto

lemma cell_for_type: "cell_for t v = Some c \<Longrightarrow> cell_type c = arrow_type_of t"
  by (cases t; cases v) auto

lemma cells_of_type_cell_for: "cells_of_type (arrow_type_of t) (map (cell_for t) vs)"
  by (auto simp: cells_of_type_def dest: cell_for_type split: option.splits)

section \<open>From rows to columns\<close>

text \<open>The builder of a column of type \<open>t\<close> that has been given the cells \<open>cs\<close>.\<close>

definition builder_with ::
  "('b, 'a, 'r) arrow_lib \<Rightarrow> data_type \<Rightarrow> arrow_cell option list \<Rightarrow> 'b column_builder" where
  "builder_with lib t cs =
     (let b = foldl (append_cell lib) (ar_builder lib (arrow_type_of t)) cs
      in case t of TBoolean \<Rightarrow> BoolBuilder b | TInt32 \<Rightarrow> I32Builder b | TInt64 \<Rightarrow> I64Builder b
       | TFloat32 \<Rightarrow> F32Builder b | TFloat64 \<Rightarrow> F64Builder b | TNull \<Rightarrow> NullColumn | _ \<Rightarrow> StrBuilder b)"

lemma make_builder_with: "make_builder lib f = Ok (builder_with lib (field_type f) [])"
  by (cases "field_type f") (simp_all add: make_builder_def builder_with_def)

lemma append_builder_with:
  "append_value lib (builder_with lib t cs) v = builder_with lib t (cs @ [cell_for t v])"
  by (cases t) (simp_all add: builder_with_def Let_def)

lemma finish_builder_with:
  "finish lib (builder_with lib t cs) =
     (if t = TNull then ar_null_array lib 0 else built lib (arrow_type_of t) cs)"
  by (cases t) (simp_all add: builder_with_def built_def Let_def)

lemma fold_enumerate_update:
  assumes "length vs = length bs"
  shows "fold_res (\<lambda>bs (i, v). if i < length bs then Ok (bs[i := f (bs ! i) v]) else e bs i)
      (pre @ bs) (enumerate (length pre) vs) = Ok (pre @ map2 f bs vs)"
  using assms
proof (induction vs bs arbitrary: pre rule: list_induct2)
  case (Cons v vs b bs)
  show ?case using Cons.IH [of "pre @ [f b v]"] by (simp add: nth_append)
qed simp

lemma append_record_eq:
  assumes "length (row_values r) = length bs"
  shows "append_record lib bs r = Ok (map2 (append_value lib) bs (row_values r))"
  using fold_enumerate_update [OF assms, where pre = "[]" and f = "append_value lib"]
  by (simp add: append_record_def)

text \<open>The values of column \<open>j\<close> of some rows.\<close>

definition column_values :: "row list \<Rightarrow> nat \<Rightarrow> val list" where
  "column_values rs j = map (\<lambda>r. row_values r ! j) rs"

lemma append_records_eq:
  assumes "\<forall>r \<in> set rs. length (row_values r) = length ts" "length css = length ts"
  shows "fold_res (append_record lib) (map2 (builder_with lib) ts css) rs =
      Ok (map (\<lambda>j. builder_with lib (ts ! j) (css ! j @ map (cell_for (ts ! j)) (column_values rs j)))
        [0..<length ts])"
  using assms
proof (induction rs arbitrary: css)
  case Nil
  then show ?case by (auto simp: column_values_def intro!: nth_equalityI)
next
  case (Cons r rs)
  let ?css = "map (\<lambda>j. css ! j @ [cell_for (ts ! j) (row_values r ! j)]) [0..<length ts]"
  have "append_record lib (map2 (builder_with lib) ts css) r = Ok (map2 (builder_with lib) ts ?css)"
    using Cons.prems by (subst append_record_eq) (auto intro!: nth_equalityI simp: append_builder_with)
  then show ?case using Cons.IH [of ?css] Cons.prems by (simp add: column_values_def)
qed

definition column_types :: "record_batch \<Rightarrow> data_type list" where
  "column_types b = map field_type (schema_fields (batch_schema b))"

lemma map_res_Ok: "(\<And>x. x \<in> set xs \<Longrightarrow> f x = Ok (g x)) \<Longrightarrow> map_res f xs = Ok (map g xs)"
  by (induction xs) auto

lemma map_res_Ok_fun [simp]: "map_res (\<lambda>x. Ok (f x)) xs = Ok (map f xs)"
  by (rule map_res_Ok) simp

definition finished_columns :: "('b, 'a, 'r) arrow_lib \<Rightarrow> record_batch \<Rightarrow> 'a list" where
  "finished_columns lib b =
     map (\<lambda>j. let t = column_types b ! j in if t = TNull then ar_null_array lib 0
         else built lib (arrow_type_of t) (map (cell_for t) (column_values (batch_records b) j)))
       [0..<length (column_types b)]"

lemma arrow_from_core_eq:
  assumes "batch_ok b"
  shows "arrow_from_core lib b = lift_err ''arrow RecordBatch build failed: ''
    (ar_try_new lib (map arrow_field_of (schema_fields (batch_schema b))) (finished_columns lib b))"
proof -
  let ?ts = "column_types b"
  have rows: "\<forall>r \<in> set (batch_records b). length (row_values r) = length ?ts"
    using assms by (simp add: batch_ok_def row_ok_def column_types_def)
  have start: "map_res (make_builder lib) (schema_fields (batch_schema b)) =
      Ok (map2 (builder_with lib) ?ts (map (\<lambda>_. []) ?ts))"
    by (simp add: make_builder_with column_types_def zip_map_map zip_same_conv_map cong: map_res_cong)
  have "map (finish lib) (map (\<lambda>j. builder_with lib (?ts ! j)
      (map (\<lambda>_. []) ?ts ! j @ map (cell_for (?ts ! j)) (column_values (batch_records b) j))) [0..<length ?ts]) =
      finished_columns lib b"
    by (auto simp: finished_columns_def finish_builder_with Let_def)
  then show ?thesis
    unfolding arrow_from_core_def arrow_schema_from_core_def start
    using append_records_eq [OF rows, of "map (\<lambda>_. []) ?ts" lib] by simp
qed

text \<open>The cells of the columns that a batch is converted to.\<close>

definition column_cells :: "record_batch \<Rightarrow> arrow_cell option list list" where
  "column_cells b =
     map (\<lambda>j. map (cell_for (column_types b ! j)) (column_values (batch_records b) j))
       [0..<length (column_types b)]"

lemma built_cells:
  assumes "arrow_ok lib" "t \<noteq> TNull"
  shows "ar_type lib (built lib (arrow_type_of t) (map (cell_for t) vs)) = arrow_type_of t"
    and "cells lib (built lib (arrow_type_of t) (map (cell_for t) vs)) = map (cell_for t) vs"
  using assms cells_of_type_cell_for arrow_type_native
  by (auto simp: arrow_ok_def builder_laws_def)

lemma length_cells [simp]: "length (cells lib a) = ar_len lib a"
  by (simp add: cells_def)

lemma finished_columns_cells:
  assumes "arrow_ok lib" "TNull \<notin> set (column_types b)"
  shows "map (ar_type lib) (finished_columns lib b) = map arrow_type_of (column_types b)"
    and "map (cells lib) (finished_columns lib b) = column_cells b"
  using assms(2) built_cells [OF assms(1)]
  by (auto simp: finished_columns_def column_cells_def Let_def in_set_conv_nth intro!: nth_equalityI)

lemma column_cells_length: "cs \<in> set (column_cells b) \<Longrightarrow> length cs = length (batch_records b)"
  by (auto simp: column_cells_def column_values_def)

lemma map_cells_memberD: "map (cells lib) cols = css \<Longrightarrow> c \<in> set cols \<Longrightarrow> cells lib c \<in> set css"
  by auto

lemma arrow_from_core_Ok:
  assumes lib: "arrow_ok lib" and b: "batch_ok b"
    and ts: "column_types b \<noteq> []" "TNull \<notin> set (column_types b)"
  shows "\<exists>r. arrow_from_core lib b = Ok r \<and> rb_ok lib r \<and>
    ar_schema lib r = map arrow_field_of (schema_fields (batch_schema b)) \<and>
    ar_num_rows lib r = length (batch_records b) \<and> map (cells lib) (ar_columns lib r) = column_cells b"
proof -
  let ?s = "map arrow_field_of (schema_fields (batch_schema b))" and ?cols = "finished_columns lib b"
  note cols = finished_columns_cells [OF lib ts(2)]
  have types: "map (ar_type lib) ?cols = map af_type ?s"
    unfolding cols(1) by (simp add: column_types_def arrow_field_of_def)
  have len: "ar_len lib c = length (batch_records b)" if "c \<in> set ?cols" for c
    using map_cells_memberD [OF cols(2) that] column_cells_length [of "cells lib c" b] by simp
  have ne: "?cols \<noteq> []" using cols(2) ts(1) by (auto simp: column_cells_def)
  have "list_all2 (\<lambda>f c. af_nullable f \<or> None \<notin> set (cells lib c)) ?s ?cols"
  proof (rule list_all2_all_nthI)
    show "length ?s = length ?cols" using arg_cong [OF types, of length] by simp
    fix j assume j: "j < length ?s"
    then have "cells lib (?cols ! j) = map (cell_for (column_types b ! j)) (column_values (batch_records b) j)"
      using arg_cong [OF cols(2), of "\<lambda>xs. xs ! j"] arg_cong [OF types, of length]
      by (simp add: column_cells_def column_types_def)
    moreover have "column_types b ! j \<noteq> TNull"
      using ts(2) j nth_mem [of j "column_types b"] by (metis column_types_def length_map)
    ultimately show "af_nullable (?s ! j) \<or> None \<notin> set (cells lib (?cols ! j))"
      using b j by (auto simp: column_values_def batch_ok_def row_ok_def arrow_field_of_def cell_for_null
          dest!: sym [of None])
  qed
  then have ok: "try_new_ok lib ?s ?cols" using types len ne by (auto simp: try_new_ok_def)
  then obtain r where r: "ar_try_new lib ?s ?cols = Inr r" "ar_schema lib r = ?s"
      "ar_columns lib r = ?cols" "ar_num_rows lib r = ar_len lib (hd ?cols)"
    using lib unfolding arrow_ok_def batch_laws_def by meson
  have "cells_of_type (ar_type lib c) (cells lib c)" if "c \<in> set ?cols" for c
  proof -
    from that obtain j where j: "j < length (column_types b)"
        "c = built lib (arrow_type_of (column_types b ! j))
          (map (cell_for (column_types b ! j)) (column_values (batch_records b) j))"
      using ts(2) by (auto simp: finished_columns_def Let_def in_set_conv_nth split: if_splits)
    moreover have "column_types b ! j \<noteq> TNull" using j(1) ts(2) by (auto simp: in_set_conv_nth)
    ultimately show ?thesis using built_cells [OF lib] cells_of_type_cell_for by simp
  qed
  moreover have rows: "ar_num_rows lib r = length (batch_records b)" using r(4) len ne by simp
  ultimately have "rb_ok lib r" using r(2,3) types len by (auto simp: rb_ok_def)
  then show ?thesis
    using r rows cols(2) arrow_from_core_eq [OF b, of lib] by auto
qed

section \<open>From columns to rows\<close>

definition core_rows :: "('b, 'a, 'r) arrow_lib \<Rightarrow> 'r \<Rightarrow> row list" where
  "core_rows lib r =
     map (\<lambda>i. record_new (map (\<lambda>cs. value_of_cell (cs ! i)) (map (cells lib) (ar_columns lib r))))
       [0..<ar_num_rows lib r]"

lemma value_at_Ok:
  assumes "ar_type lib c \<in> native_types" "cells_of_type (ar_type lib c) (cells lib c)" "i < ar_len lib c"
  shows "value_at lib c i = Ok (value_of_cell (cells lib c ! i))"
proof (cases "ar_is_null lib c i")
  case False
  then have "Some (ar_value lib c i) \<in> set (cells lib c)" using assms(3) by (auto simp: cells_def)
  then have "cell_type (ar_value lib c i) = ar_type lib c" using assms(2) by (force simp: cells_of_type_def)
  then show ?thesis
    using assms False
    by (cases "ar_value lib c i") (simp_all add: value_at_def cells_def flip: \<open>cell_type _ = _\<close>)
qed (use assms(3) in \<open>simp add: value_at_def cells_def\<close>)

definition native_batch :: "('b, 'a, 'r) arrow_lib \<Rightarrow> 'r \<Rightarrow> bool" where
  "native_batch lib r \<longleftrightarrow> rb_ok lib r \<and> af_type ` set (ar_schema lib r) \<subseteq> native_types"

lemma native_batch_column:
  assumes "native_batch lib r" "c \<in> set (ar_columns lib r)"
  shows "ar_type lib c \<in> native_types" "cells_of_type (ar_type lib c) (cells lib c)"
    "ar_len lib c = ar_num_rows lib r"
proof -
  have "map (ar_type lib) (ar_columns lib r) = map af_type (ar_schema lib r)"
    using assms(1) by (simp add: native_batch_def rb_ok_def)
  from arg_cong [OF this, of set] have "ar_type lib ` set (ar_columns lib r) = af_type ` set (ar_schema lib r)"
    by simp
  then show ty: "ar_type lib c \<in> native_types" using assms by (auto simp: native_batch_def)
  show "cells_of_type (ar_type lib c) (cells lib c)" "ar_len lib c = ar_num_rows lib r"
    using assms ty by (auto simp: native_batch_def rb_ok_def)
qed

lemma arrow_to_core_eq:
  assumes "native_batch lib r"
  shows "arrow_to_core lib r = from_records (core_schema lib r) (core_rows lib r)"
proof -
  have "map_res (\<lambda>i. and_then (map_res (\<lambda>col. value_at lib col i) (ar_columns lib r))
      (\<lambda>vs. Ok (record_new vs))) [0..<ar_num_rows lib r] = Ok (core_rows lib r)"
    unfolding core_rows_def
  proof (rule map_res_Ok)
    fix i assume "i \<in> set [0..<ar_num_rows lib r]"
    then have "map_res (\<lambda>col. value_at lib col i) (ar_columns lib r) =
        Ok (map (\<lambda>c. value_of_cell (cells lib c ! i)) (ar_columns lib r))"
      using native_batch_column [OF assms] by (auto intro!: map_res_Ok simp: value_at_Ok)
    then show "and_then (map_res (\<lambda>col. value_at lib col i) (ar_columns lib r)) (\<lambda>vs. Ok (record_new vs)) =
        Ok (record_new (map (\<lambda>cs. value_of_cell (cs ! i)) (map (cells lib) (ar_columns lib r))))"
      by (simp add: o_def)
  qed
  then show ?thesis by (simp add: arrow_to_core_def)
qed

section \<open>Operators\<close>

lemma core_rows_picks:
  assumes "rb_ok lib r" "picks lib r ix r'" "\<forall>i \<in> set ix. i < ar_num_rows lib r"
  shows "core_rows lib r' = map ((!) (core_rows lib r)) ix"
proof (rule nth_equalityI)
  show "length (core_rows lib r') = length (map ((!) (core_rows lib r)) ix)"
    using assms(2) by (simp add: core_rows_def picks_def)
  fix k assume "k < length (core_rows lib r')"
  then have k: "k < length ix" using assms(2) by (simp add: core_rows_def picks_def)
  have "ix ! k < ar_num_rows lib r" using assms(3) k by simp
  then show "core_rows lib r' ! k = map ((!) (core_rows lib r)) ix ! k"
    using assms(2) k by (simp add: core_rows_def picks_def o_def)
qed

lemma picks_native: "native_batch lib r \<Longrightarrow> picks lib r ix r' \<Longrightarrow> native_batch lib r'"
  by (simp add: native_batch_def picks_def)

lemma arrow_take:
  assumes "arrow_ok lib" "native_batch lib r" "\<forall>i \<in> set ix. i < ar_num_rows lib r"
  shows "\<exists>r'. ar_take_record_batch lib r ix = Inr r' \<and> native_batch lib r' \<and>
    ar_schema lib r' = ar_schema lib r \<and> core_rows lib r' = map ((!) (core_rows lib r)) ix"
proof -
  have "rb_ok lib r" using assms(2) by (simp add: native_batch_def)
  then obtain r' where "ar_take_record_batch lib r ix = Inr r'" "picks lib r ix r'"
    using assms(1,3) unfolding arrow_ok_def kernel_laws_def by blast
  then show ?thesis
    using core_rows_picks [OF \<open>rb_ok lib r\<close> _ assms(3)] picks_native [OF assms(2)] by (auto simp: picks_def)
qed

lemma length_core_rows [simp]: "length (core_rows lib r) = ar_num_rows lib r"
  by (simp add: core_rows_def)

lemma arrow_limit_rows:
  assumes "arrow_ok lib" "native_batch lib r" "ar_num_rows lib r < 2 ^ 32"
  shows "\<exists>r'. arrow_limit lib r n = Ok r' \<and> native_batch lib r' \<and>
    ar_schema lib r' = ar_schema lib r \<and> core_rows lib r' = take n (core_rows lib r)"
proof (cases "min n (ar_num_rows lib r) = 0")
  case True
  have "rb_ok lib (ar_new_empty lib (ar_schema lib r))" "ar_num_rows lib (ar_new_empty lib (ar_schema lib r)) = 0"
    "ar_schema lib (ar_new_empty lib (ar_schema lib r)) = ar_schema lib r"
    using assms(1) by (auto simp: arrow_ok_def batch_laws_def)
  then show ?thesis
    using True assms(2) by (auto simp: arrow_limit_def native_batch_def core_rows_def Let_def min_def split: if_splits)
next
  case False
  let ?n = "min n (ar_num_rows lib r)"
  have "unat (word_of_nat ?n :: 32 word) = ?n" using assms(3) by (simp add: unat_of_nat)
  moreover have "map ((!) (core_rows lib r)) [0..<?n] = take n (core_rows lib r)"
    by (auto intro!: nth_equalityI)
  ultimately show ?thesis
    using False arrow_take [OF assms(1,2), of "[0..<?n]"] by (auto simp: arrow_limit_def Let_def)
qed

text \<open>The rows at the positions where a test holds.\<close>

definition rows_where :: "(nat \<Rightarrow> bool) \<Rightarrow> 'x list \<Rightarrow> 'x list" where
  "rows_where p xs = map ((!) xs) (filter p [0..<length xs])"

lemma filter_via_rows:
  assumes "arrow_ok lib" "native_batch lib r"
    and p: "\<And>i. i < ar_num_rows lib r \<Longrightarrow> p i = Ok (q i)"
  shows "\<exists>r'. filter_via lib r p = Ok r' \<and> native_batch lib r' \<and>
    ar_schema lib r' = ar_schema lib r \<and> core_rows lib r' = rows_where q (core_rows lib r)"
proof -
  let ?vs = "map q [0..<ar_num_rows lib r]" and ?n = "ar_num_rows lib r"
  let ?ix = "filter (\<lambda>i. cells lib (ar_boolean_array lib ?vs) ! i = Some (CBoolean True)) [0..<?n]"
  have arr: "ar_type lib (ar_boolean_array lib ?vs) = ABoolean"
      "cells lib (ar_boolean_array lib ?vs) = map (\<lambda>b. Some (CBoolean b)) ?vs"
    using assms(1) unfolding arrow_ok_def builder_laws_def by blast+
  from arg_cong [OF arr(2), of length] have len: "ar_len lib (ar_boolean_array lib ?vs) = ?n" by simp
  have ok: "rb_ok lib r" using assms(2) by (simp add: native_batch_def)
  then obtain r' where r': "ar_filter_record_batch lib r (ar_boolean_array lib ?vs) = Inr r'" "picks lib r ?ix r'"
    using assms(1) arr(1) len unfolding arrow_ok_def kernel_laws_def by blast
  have "?ix = filter q [0..<?n]" unfolding arr(2) by (auto intro!: filter_cong)
  then have "core_rows lib r' = rows_where q (core_rows lib r)"
    using core_rows_picks [OF ok r'(2)] by (auto simp: rows_where_def)
  moreover have "map_res p [0..<?n] = Ok ?vs" using p by (auto intro!: map_res_Ok)
  ultimately show ?thesis
    using r' len picks_native [OF assms(2) r'(2)]
    by (auto simp: filter_via_def arrow_filter_def picks_def simp del: map_map)
qed

lemma sort_by_column_rows:
  assumes "arrow_ok lib" "native_batch lib r" "j < length (ar_columns lib r)"
  shows "\<exists>r' ix. sort_by_column lib r j asc = Ok r' \<and> native_batch lib r' \<and>
    ar_schema lib r' = ar_schema lib r \<and> mset ix = mset [0..<ar_num_rows lib r] \<and>
    core_rows lib r' = map ((!) (core_rows lib r)) ix \<and>
    sorted_wrt (\<lambda>a b. \<not> cell_before (\<not> asc) (cells lib (ar_columns lib r ! j) ! b)
      (cells lib (ar_columns lib r ! j) ! a)) ix"
proof -
  let ?c = "ar_columns lib r ! j"
  note c = native_batch_column [OF assms(2) nth_mem [OF assms(3)]]
  obtain ix where ix: "ar_sort_to_indices lib ?c (\<not> asc) True = Inr ix" "mset ix = mset [0..<ar_num_rows lib r]"
      "sorted_wrt (\<lambda>a b. \<not> cell_before (\<not> asc) (cells lib ?c ! b) (cells lib ?c ! a)) ix"
    using assms(1) c unfolding arrow_ok_def kernel_laws_def by fastforce
  have "\<forall>i \<in> set ix. i < ar_num_rows lib r" using mset_eq_setD [OF ix(2)] by auto
  from arrow_take [OF assms(1,2) this] ix assms(3) show ?thesis
    by (auto simp: sort_by_column_def)
qed

lemma select_columns_rows:
  assumes "arrow_ok lib" "native_batch lib r" "ix \<noteq> []" "\<forall>j \<in> set ix. j < length (ar_schema lib r)"
    and nulls: "list_all2 (\<lambda>f c. af_nullable f \<or> None \<notin> set (cells lib c)) (ar_schema lib r) (ar_columns lib r)"
  shows "\<exists>r'. select_columns lib r ix = Ok r' \<and> native_batch lib r' \<and>
    ar_schema lib r' = map ((!) (ar_schema lib r)) ix \<and>
    core_rows lib r' = map (\<lambda>x. record_new (map ((!) (row_values x)) ix)) (core_rows lib r)"
proof -
  let ?s = "map ((!) (ar_schema lib r)) ix" and ?cols = "map ((!) (ar_columns lib r)) ix"
  have types: "map (ar_type lib) (ar_columns lib r) = map af_type (ar_schema lib r)"
    using assms(2) by (simp add: native_batch_def rb_ok_def)
  from arg_cong [OF this, of length] have n: "length (ar_columns lib r) = length (ar_schema lib r)" by simp
  have col: "c \<in> set (ar_columns lib r)" if "c \<in> set ?cols" for c using that assms(4) n by auto
  have ty: "map (ar_type lib) ?cols = map af_type ?s"
    using assms(4) n arg_cong [OF types, of "\<lambda>xs. xs ! _"] by (auto dest: map_eq_imp_length_eq)
      (metis nth_map types)
  have len: "ar_len lib c = ar_num_rows lib r" if "c \<in> set ?cols" for c
    using native_batch_column(3) [OF assms(2) col [OF that]] .
  have "try_new_ok lib ?s ?cols"
    using ty len assms(3,4) nulls
    by (auto simp: try_new_ok_def list_all2_conv_all_nth hd_map)
  then obtain r' where r': "ar_try_new lib ?s ?cols = Inr r'" "ar_schema lib r' = ?s"
      "ar_columns lib r' = ?cols" "ar_num_rows lib r' = ar_len lib (hd ?cols)"
    using assms(1) unfolding arrow_ok_def batch_laws_def by meson
  have rows: "ar_num_rows lib r' = ar_num_rows lib r" using r'(4) len assms(3) by (simp add: hd_map)
  have "native_batch lib r'"
    using r'(2,3) ty rows native_batch_column [OF assms(2) col] assms(2,4)
    by (auto simp: native_batch_def rb_ok_def subset_iff)
  moreover have "core_rows lib r' = map (\<lambda>x. record_new (map ((!) (row_values x)) ix)) (core_rows lib r)"
    using rows r'(3) assms(4) n by (auto simp: core_rows_def)
  moreover have "select_columns lib r ix = Ok r'"
    using assms(4) n r'(1) by (auto simp: select_columns_def)
  ultimately show ?thesis using r'(2) by blast
qed

section \<open>Round trips\<close>

text \<open>The schema that comes back: dates and timestamps have become strings.\<close>

definition interchange_field :: "schema_field \<Rightarrow> schema_field" where
  "interchange_field f = f\<lparr>field_type := core_type (arrow_type_of (field_type f))\<rparr>"

definition interchange_schema :: "schema \<Rightarrow> schema" where
  "interchange_schema s = schema_new (map interchange_field (schema_fields s))"

text \<open>The value that comes back from a column of type \<open>t\<close>.\<close>

definition interchange_value :: "data_type \<Rightarrow> val \<Rightarrow> val" where
  "interchange_value t v = value_of_cell (cell_for t v)"

definition interchange_row :: "schema \<Rightarrow> row \<Rightarrow> row" where
  "interchange_row s r = record_new (map2 (\<lambda>f v. interchange_value (field_type f) v) (schema_fields s) (row_values r))"

definition convertible :: "record_batch \<Rightarrow> bool" where
  "convertible b \<longleftrightarrow> batch_ok b \<and> schema_fields (batch_schema b) \<noteq> [] \<and>
     (\<forall>f \<in> set (schema_fields (batch_schema b)). field_type f \<noteq> TNull)"

lemma from_core_rows:
  assumes "arrow_ok lib" "convertible b"
  shows "\<exists>r. arrow_from_core lib b = Ok r \<and> native_batch lib r \<and>
    core_schema lib r = interchange_schema (batch_schema b) \<and>
    ar_schema lib r = map arrow_field_of (schema_fields (batch_schema b)) \<and>
    map (cells lib) (ar_columns lib r) = column_cells b \<and>
    core_rows lib r = map (interchange_row (batch_schema b)) (batch_records b)"
proof -
  have b: "batch_ok b" "column_types b \<noteq> []" "TNull \<notin> set (column_types b)"
    using assms(2) by (auto simp: convertible_def column_types_def)
  from arrow_from_core_Ok [OF assms(1) b] obtain r where r: "arrow_from_core lib b = Ok r" "rb_ok lib r"
      "ar_schema lib r = map arrow_field_of (schema_fields (batch_schema b))"
      "ar_num_rows lib r = length (batch_records b)" "map (cells lib) (ar_columns lib r) = column_cells b"
    by blast
  have "native_batch lib r"
    using r(2,3) assms(2) arrow_type_native by (auto simp: native_batch_def convertible_def arrow_field_of_def)
  moreover have "core_schema lib r = interchange_schema (batch_schema b)"
    using r(3) by (simp add: core_schema_def interchange_schema_def core_field_def arrow_field_of_def
        interchange_field_def schema_field.defs)
  moreover have "core_rows lib r = map (interchange_row (batch_schema b)) (batch_records b)"
  proof (rule nth_equalityI)
    fix i assume "i < length (core_rows lib r)"
    then have i: "i < length (batch_records b)" using r(4) by simp
    then have "row_ok (batch_schema b) (batch_records b ! i)" using b(1) by (simp add: batch_ok_def)
    then have "map (\<lambda>cs. value_of_cell (cs ! i)) (column_cells b) =
        row_values (interchange_row (batch_schema b) (batch_records b ! i))"
      using i by (auto simp: column_cells_def column_values_def column_types_def interchange_row_def
          interchange_value_def row_ok_def intro!: nth_equalityI)
    then show "core_rows lib r ! i = map (interchange_row (batch_schema b)) (batch_records b) ! i"
      using i r(4,5) by (simp add: core_rows_def del: map_map)
  qed (use r(4) in simp)
  ultimately show ?thesis using r by blast
qed

lemma interchange_value_null: "t \<noteq> TNull \<Longrightarrow> interchange_value t v = VNull \<longleftrightarrow> v = VNull"
  unfolding interchange_value_def
  using cell_for_null [of t v] by (cases "cell_for t v" rule: value_of_cell.cases) auto

lemma interchange_row_ok:
  assumes "row_ok s r" "\<forall>f \<in> set (schema_fields s). field_type f \<noteq> TNull"
  shows "row_ok (interchange_schema s) (interchange_row s r)"
  using assms
  by (auto simp: row_ok_def interchange_schema_def interchange_row_def interchange_field_def schema_new_def
      interchange_value_null)

lemma to_core_rows:
  assumes "native_batch lib r" "core_schema lib r = interchange_schema s"
    and "set (core_rows lib r) \<subseteq> interchange_row s ` {x. row_ok s x}"
    and "\<forall>f \<in> set (schema_fields s). field_type f \<noteq> TNull"
  shows "arrow_to_core lib r = Ok \<lparr>batch_schema = interchange_schema s, batch_records = core_rows lib r\<rparr>"
  unfolding arrow_to_core_eq [OF assms(1)] from_records_Ok_iff assms(2)
  using assms(3,4) interchange_row_ok by blast

text \<open>A batch all of whose values have the declared types comes back unchanged.\<close>

definition batch_fits :: "record_batch \<Rightarrow> bool" where
  "batch_fits b \<longleftrightarrow> (\<forall>r \<in> set (batch_records b).
     list_all2 (\<lambda>f v. value_fits (field_type f) v) (schema_fields (batch_schema b)) (row_values r))"

lemma interchange_row_fits:
  "batch_fits b \<Longrightarrow> r \<in> set (batch_records b) \<Longrightarrow> interchange_row (batch_schema b) r = r"
  by (cases r) (auto simp: batch_fits_def interchange_row_def interchange_value_def list_all2_conv_all_nth
      value_of_cell_for record_new_def intro!: nth_equalityI)

lemma convertible_rows: "convertible b \<Longrightarrow> r \<in> set (batch_records b) \<Longrightarrow> row_ok (batch_schema b) r"
  by (simp add: convertible_def batch_ok_def)

lemma to_core_fitting:
  assumes "native_batch lib r" "core_schema lib r = interchange_schema (batch_schema b)"
    and "convertible b" "batch_fits b" "core_rows lib r = rs" "set rs \<subseteq> set (batch_records b)"
  shows "arrow_to_core lib r = Ok \<lparr>batch_schema = interchange_schema (batch_schema b), batch_records = rs\<rparr>"
proof -
  have "set (core_rows lib r) \<subseteq> interchange_row (batch_schema b) ` {x. row_ok (batch_schema b) x}"
  proof
    fix x assume "x \<in> set (core_rows lib r)"
    then have "x \<in> set (batch_records b)" using assms(5,6) by blast
    then show "x \<in> interchange_row (batch_schema b) ` {x. row_ok (batch_schema b) x}"
      using interchange_row_fits [OF assms(4)] convertible_rows [OF assms(3)] by (metis image_eqI mem_Collect_eq)
  qed
  then show ?thesis using to_core_rows [OF assms(1,2)] assms(3,5) by (simp add: convertible_def)
qed

lemma from_core_fitting:
  assumes "arrow_ok lib" "convertible b" "batch_fits b"
  shows "\<exists>r. arrow_from_core lib b = Ok r \<and> native_batch lib r \<and>
    core_schema lib r = interchange_schema (batch_schema b) \<and> core_rows lib r = batch_records b \<and>
    map (cells lib) (ar_columns lib r) = column_cells b"
  using from_core_rows [OF assms(1,2)] interchange_row_fits [OF assms(3)] by (auto simp: map_idI)

lemma core_schema_cong: "ar_schema lib r' = ar_schema lib r \<Longrightarrow> core_schema lib r' = core_schema lib r"
  by (simp add: core_schema_def)

lemma rows_where_filter: "rows_where (\<lambda>i. q (xs ! i)) xs = filter q xs"
  using filter_map [of q "(!) xs" "[0..<length xs]"] by (simp add: rows_where_def map_nth o_def)

text \<open>A Null column is finished with no rows, however many were appended.\<close>

lemma null_column_fails:
  assumes lib: "arrow_ok lib" and b: "batch_ok b" "batch_records b \<noteq> []"
    and ts: "TNull \<in> set (column_types b)" "\<exists>t \<in> set (column_types b). t \<noteq> TNull"
  shows "\<exists>e. arrow_from_core lib b = Err (ErrExecution (''arrow RecordBatch build failed: '' @ e))"
proof -
  let ?cols = "finished_columns lib b"
  obtain i j where i: "i < length (column_types b)" "column_types b ! i = TNull"
    and j: "j < length (column_types b)" "column_types b ! j \<noteq> TNull"
    using ts by (auto simp: in_set_conv_nth)
  have "ar_len lib (?cols ! i) = 0"
    using lib i by (simp add: finished_columns_def arrow_ok_def builder_laws_def)
  moreover have "cells lib (?cols ! j) = map (cell_for (column_types b ! j)) (column_values (batch_records b) j)"
    using j built_cells(2) [OF lib] by (simp add: finished_columns_def Let_def)
  from arg_cong [OF this, of length] have "ar_len lib (?cols ! j) \<noteq> 0"
    using b(2) by (simp add: column_values_def)
  moreover have "?cols ! i \<in> set ?cols" "?cols ! j \<in> set ?cols"
    by (rule nth_mem; use i(1) j(1) in \<open>simp add: finished_columns_def\<close>)+
  ultimately have "\<not> try_new_ok lib s ?cols" for s unfolding try_new_ok_def by metis
  then have "\<exists>e. ar_try_new lib s ?cols = Inl e" for s
    using lib unfolding arrow_ok_def batch_laws_def by meson
  then show ?thesis unfolding arrow_from_core_eq [OF b(1)] by (metis lift_err.simps(1))
qed

lemma null_columns_lose_rows:
  assumes lib: "arrow_ok lib" and b: "batch_ok b" "column_types b \<noteq> []"
    and ts: "set (column_types b) = {TNull}" "\<forall>f \<in> set (schema_fields (batch_schema b)). field_nullable f"
  shows "\<exists>r bb. arrow_from_core lib b = Ok r \<and> arrow_to_core lib r = Ok bb \<and> batch_records bb = []"
proof -
  let ?cols = "finished_columns lib b" and ?s = "map arrow_field_of (schema_fields (batch_schema b))"
  have null: "column_types b ! j = TNull" if "j < length (column_types b)" for j
    using nth_mem [OF that] ts(1) by simp
  have cols: "?cols = map (\<lambda>_. ar_null_array lib 0) (column_types b)"
    by (auto simp: finished_columns_def null intro!: nth_equalityI)
  have arr: "ar_type lib (ar_null_array lib 0) = ANull" "ar_len lib (ar_null_array lib 0) = 0"
    using lib by (auto simp: arrow_ok_def builder_laws_def)
  have "arrow_type_of (field_type f) = ANull" if "f \<in> set (schema_fields (batch_schema b))" for f
    using imageI [OF that, of field_type] ts(1) by (simp add: column_types_def)
  then have "try_new_ok lib ?s ?cols"
    using b(2) ts(2) arr unfolding cols
    by (auto simp: try_new_ok_def column_types_def arrow_field_of_def list_all2_conv_all_nth hd_map)
  then obtain r where "ar_try_new lib ?s ?cols = Inr r" "ar_num_rows lib r = ar_len lib (hd ?cols)"
    using lib unfolding arrow_ok_def batch_laws_def by meson
  moreover have "ar_len lib (hd ?cols) = 0" using arr(2) b(2) unfolding cols by (simp add: hd_map)
  ultimately show ?thesis
    using arrow_from_core_eq [OF b(1), of lib] by (simp add: arrow_to_core_def from_records_def)
qed

end
