(* ===== verification/Arrow_Instance.thy ===== *)
theory Arrow_Instance
  imports Arrow_Laws
begin

text \<open>
  Arrays and record batches as lists: an instance of the Arrow parameter that keeps the laws of
  \<open>arrow_ok\<close>, on which the properties of the interchange are evaluated.
\<close>

type_synonym list_array = "arrow_type \<times> arrow_cell option list"
type_synonym list_batch = "arrow_schema \<times> list_array list \<times> nat"

definition pick_rows :: "nat list \<Rightarrow> list_batch \<Rightarrow> list_batch" where
  "pick_rows ix r =
     (case r of (s, cols, n) \<Rightarrow> (s, map (\<lambda>(t, cs). (t, map ((!) cs) ix)) cols, length ix))"

text \<open>An order key of a cell: infinities and NaNs are separated from the finite floats.\<close>

fun float_key :: "fval \<Rightarrow> rat list" where
  "float_key (FInf s) = (if s then [-1] else [1])"
| "float_key (FFin s q) = [0, signed_rat s q]"
| "float_key FNaN = [2]"

fun cell_key :: "arrow_cell \<Rightarrow> rat list" where
  "cell_key (CBoolean b) = (if b then [1] else [0])"
| "cell_key (CInt32 v) = [of_int (sint v)]"
| "cell_key (CInt64 v) = [of_int (sint v)]"
| "cell_key (CFloat32 v) = float_key (f32_val v)"
| "cell_key (CFloat64 v) = float_key (f64_val v)"
| "cell_key (CUtf8 s) = map (\<lambda>c. of_nat (byte c)) s"

definition sorted_indices :: "arrow_cell option list \<Rightarrow> bool \<Rightarrow> nat list" where
  "sorted_indices cs desc =
     (let ns = [0..<length cs]; valid = filter (\<lambda>i. cs ! i \<noteq> None) ns;
          by_key = linorder_class.sort_key (\<lambda>i. cell_key (the (cs ! i))) valid
      in filter (\<lambda>i. cs ! i = None) ns @ (if desc then rev by_key else by_key))"

definition list_arrow :: "(list_array, list_array, list_batch) arrow_lib" where
  "list_arrow =
     \<lparr>ar_builder = \<lambda>t. (t, []),
      ar_append_value = \<lambda>(t, cs) c. (t, cs @ [Some c]),
      ar_append_null = \<lambda>(t, cs). (t, cs @ [None]),
      ar_finish = \<lambda>b. b,
      ar_null_array = \<lambda>n. (ANull, replicate n None),
      ar_boolean_array = \<lambda>bs. (ABoolean, map (\<lambda>b. Some (CBoolean b)) bs),
      ar_type = fst,
      ar_len = \<lambda>(t, cs). length cs,
      ar_is_null = \<lambda>(t, cs) i. cs ! i = None,
      ar_value = \<lambda>(t, cs) i. the (cs ! i),
      ar_try_new = \<lambda>s cols.
        if cols \<noteq> [] \<and> map fst cols = map af_type s \<and>
          (\<forall>c \<in> set cols. length (snd c) = length (snd (hd cols))) \<and>
          list_all2 (\<lambda>f c. af_nullable f \<or> None \<notin> set (snd c)) s cols
        then Inr (s, cols, length (snd (hd cols))) else Inl ''invalid columns'',
      ar_new_empty = \<lambda>s. (s, map (\<lambda>f. (af_type f, [])) s, 0),
      ar_schema = fst,
      ar_columns = \<lambda>r. fst (snd r),
      ar_num_rows = \<lambda>r. snd (snd r),
      ar_filter_record_batch = \<lambda>r m.
        Inr (pick_rows (filter (\<lambda>i. snd m ! i = Some (CBoolean True)) [0..<snd (snd r)]) r),
      ar_sort_to_indices = \<lambda>c desc nulls_first. Inr (sorted_indices (snd c) desc),
      ar_take_record_batch = \<lambda>r ix. Inr (pick_rows ix r),
      ar_debug_type = \<lambda>t. ''arrow type''\<rparr>"

lemma cells_list_arrow [simp]: "cells list_arrow a = snd a"
  by (cases a) (auto simp: cells_def list_arrow_def intro!: nth_equalityI)

lemma built_list_arrow [simp]: "built list_arrow t cs = (t, cs)"
proof -
  have "foldl (append_cell list_arrow) (t, ds) cs = (t, ds @ cs)" for ds
  proof (induction cs arbitrary: ds)
    case (Cons c cs)
    then show ?case by (cases c) (simp_all add: list_arrow_def)
  qed simp
  then show ?thesis by (simp add: built_def list_arrow_def)
qed

lemma list_builder_laws: "builder_laws list_arrow"
  by (simp add: builder_laws_def) (simp add: list_arrow_def)

lemma list_arrow_sel [simp]:
  "ar_type list_arrow = fst" "ar_len list_arrow a = length (snd a)"
  "ar_schema list_arrow r = fst r" "ar_columns list_arrow r = fst (snd r)" "ar_num_rows list_arrow r = snd (snd r)"
  "ar_new_empty list_arrow s = (s, map (\<lambda>f. (af_type f, [])) s, 0)"
  by (simp_all add: list_arrow_def split_def)

lemma list_arrow_try_new:
  "ar_try_new list_arrow s cols =
     (if try_new_ok list_arrow s cols then Inr (s, cols, length (snd (hd cols))) else Inl ''invalid columns'')"
  unfolding try_new_ok_def cells_list_arrow list_arrow_sel by (simp add: list_arrow_def)

lemma list_batch_laws: "batch_laws list_arrow"
  by (auto simp: batch_laws_def list_arrow_try_new rb_ok_def cells_of_type_def)

lemma picks_pick_rows:
  assumes "rb_ok list_arrow r" "\<forall>i \<in> set ix. i < ar_num_rows list_arrow r"
  shows "picks list_arrow r ix (pick_rows ix r)"
proof -
  obtain s cols n where r: "r = (s, cols, n)" by (cases r)
  have cols: "\<forall>c \<in> set cols. length (snd c) = n \<and> (fst c \<in> native_types \<longrightarrow> cells_of_type (fst c) (snd c))"
    and ty: "map fst cols = map af_type s"
    using assms(1) by (simp_all add: rb_ok_def r)
  then have "\<forall>c \<in> set cols. fst c \<in> native_types \<longrightarrow> cells_of_type (fst c) (map ((!) (snd c)) ix)"
    using assms(2) r by (auto simp: cells_of_type_def)
  moreover have "map fst (map (\<lambda>(t, cs). (t, map ((!) cs) ix)) cols) = map af_type s"
    unfolding ty [symmetric] by auto
  ultimately show ?thesis by (auto simp: picks_def rb_ok_def r pick_rows_def split_def)
qed

lemma less_map_byte:
  "(map (\<lambda>c. of_nat (byte c)) s :: rat list) < map (\<lambda>c. of_nat (byte c)) t \<longleftrightarrow> s < t"
proof (induction s arbitrary: t)
  case Nil
  then show ?case by (cases t) auto
next
  case (Cons c s)
  then show ?case by (cases t) (auto simp: less_char_def byte_def)
qed

lemma float_key_less: "fv_cmp a b = Some Less \<Longrightarrow> float_key a < float_key b"
  by (cases "(a, b)" rule: fv_cmp.cases) (auto simp: cmp_of_def split: if_splits)

lemma cell_key_less: "cell_less a b \<Longrightarrow> cell_key a < cell_key b"
  by (cases "(a, b)" rule: cell_less.cases)
    (auto simp: f32_cmp_def f64_cmp_def float_key_less less_map_byte simp del: of_int_sint)

lemma cell_key_le: "cell_key a \<le> cell_key b \<Longrightarrow> \<not> cell_less b a"
  using cell_key_less leD by blast

lemma sorted_indices_ok:
  "mset (sorted_indices cs desc) = mset [0..<length cs]"
  "sorted_wrt (\<lambda>i j. \<not> cell_before desc (cs ! j) (cs ! i)) (sorted_indices cs desc)"
proof -
  let ?key = "\<lambda>i. cell_key (the (cs ! i))" and ?valid = "filter (\<lambda>i. cs ! i \<noteq> None) [0..<length cs]"
  have "mset (filter (\<lambda>i. cs ! i = None) ns) + mset (filter (\<lambda>i. cs ! i \<noteq> None) ns) = mset ns" for ns
    by (induction ns) auto
  then show "mset (sorted_indices cs desc) = mset [0..<length cs]"
    by (cases desc) (simp_all only: sorted_indices_def Let_def mset_append if_True if_False mset_rev mset_sort)
  have "sorted (map ?key (linorder_class.sort_key ?key ?valid))" by simp
  then have "sorted_wrt (\<lambda>i j. ?key i \<le> ?key j) (linorder_class.sort_key ?key ?valid)"
    by (simp add: sorted_map)
  then have "sorted_wrt (\<lambda>i j. \<not> cell_before False (cs ! j) (cs ! i)) (linorder_class.sort_key ?key ?valid)"
    "sorted_wrt (\<lambda>i j. \<not> cell_before True (cs ! i) (cs ! j)) (linorder_class.sort_key ?key ?valid)"
    by (auto elim!: sorted_wrt_mono_rel [rotated]) (metis cell_key_le)+
  moreover have "sorted_wrt (\<lambda>i j. \<not> cell_before desc (cs ! j) (cs ! i)) (filter (\<lambda>i. cs ! i = None) ns)" for ns
    by (induction ns) auto
  ultimately show "sorted_wrt (\<lambda>i j. \<not> cell_before desc (cs ! j) (cs ! i)) (sorted_indices cs desc)"
    by (auto simp: sorted_indices_def Let_def sorted_wrt_append sorted_wrt_rev)
qed

lemma list_kernel_laws: "kernel_laws list_arrow"
proof -
  have "ar_filter_record_batch list_arrow r m =
      Inr (pick_rows (filter (\<lambda>i. cells list_arrow m ! i = Some (CBoolean True)) [0..<ar_num_rows list_arrow r]) r)"
    "ar_take_record_batch list_arrow r ix = Inr (pick_rows ix r)"
    "ar_sort_to_indices list_arrow m desc True = Inr (sorted_indices (cells list_arrow m) desc)"
    "ar_len list_arrow m = length (cells list_arrow m)" for r m ix desc
    unfolding cells_list_arrow by (simp_all add: list_arrow_def split_def)
  then show ?thesis
    unfolding kernel_laws_def using picks_pick_rows sorted_indices_ok by simp
qed

lemma list_arrow_ok: "arrow_ok list_arrow"
  by (simp add: arrow_ok_def list_builder_laws list_batch_laws list_kernel_laws)

end
