(* ===== verification/Object_Store.thy ===== *)
theory Object_Store
  imports Storage
begin

text \<open>
  Writing results: the file writer of \<^verbatim>\<open>rspark-storage/src/writer.rs\<close>, and the S3 source and writer
  (\<^verbatim>\<open>s3_source.rs\<close>, \<^verbatim>\<open>s3_writer.rs\<close>). The outside world is explicit: files and objects are maps, and
  what the operating system, the CSV writer and the S3 client answer are parameters.
\<close>

section \<open>The outside world\<close>

type_synonym files = "string \<rightharpoonup> string"
type_synonym objects = "string \<times> string \<rightharpoonup> string"
type_synonym env_vars = "string \<Rightarrow> string option"

record world =
  w_files :: files
  w_objects :: objects

text \<open>
  The error of opening a missing file, of creating a file or a directory, and the bytes of a
  write that reach the file with the error, if any, that stopped it.
\<close>

record os_lib =
  os_open_error :: "string \<Rightarrow> string"
  os_create_error :: "files \<Rightarrow> string \<Rightarrow> string option"
  os_mkdir_error :: "files \<Rightarrow> string \<Rightarrow> string option"
  os_write :: "files \<Rightarrow> string \<Rightarrow> string \<Rightarrow> string \<times> string option"

definition os_open :: "os_lib \<Rightarrow> files \<Rightarrow> file_open" where
  "os_open os fs path =
     (case fs path of Some c \<Rightarrow> Inr c | None \<Rightarrow> Inl (os_open_error os path))"

definition write_all :: "os_lib \<Rightarrow> files \<Rightarrow> string \<Rightarrow> string \<Rightarrow> string \<Rightarrow> unit res \<times> files" where
  "write_all os fs path old text =
     (case os_write os fs path text of
        (written, None) \<Rightarrow> (Ok (), fs(path \<mapsto> old @ written))
      | (written, Some e) \<Rightarrow> (Err (ErrIo e), fs(path \<mapsto> old @ written)))"

text \<open>An operating system on which creating and writing succeed.\<close>

definition os_ok :: "os_lib \<Rightarrow> bool" where
  "os_ok os \<longleftrightarrow> (\<forall>fs path. os_create_error os fs path = None \<and> os_mkdir_error os fs path = None) \<and>
     (\<forall>fs path text. os_write os fs path text = (text, None))"

text \<open>The CSV writer: the text of the records it accepted, and the error of the first it refused.\<close>

type_synonym csv_writer = "string list list \<Rightarrow> string \<times> string option"

section \<open>The file writer\<close>

definition write_csv :: "os_lib \<Rightarrow> csv_writer \<Rightarrow> files \<Rightarrow> record_batch \<Rightarrow> string \<Rightarrow> unit res \<times> files" where
  "write_csv os wtr fs b path =
     (case os_create_error os fs path of
        Some e \<Rightarrow> (Err (ErrIo e), fs)
      | None \<Rightarrow>
          (case wtr (csv_output b) of
             (text, Some e) \<Rightarrow> (Err (ErrCsv e), snd (write_all os fs path [] text))
           | (text, None) \<Rightarrow> write_all os fs path [] text))"

definition json_lines :: "json_lib \<Rightarrow> record_batch \<Rightarrow> string" where
  "json_lines lib b = concat (map (\<lambda>v. js_text lib v @ [CHR 0x0A]) (json_output lib b))"

definition write_json :: "os_lib \<Rightarrow> json_lib \<Rightarrow> files \<Rightarrow> record_batch \<Rightarrow> string \<Rightarrow> unit res \<times> files" where
  "write_json os lib fs b path =
     (case os_create_error os fs path of
        Some e \<Rightarrow> (Err (ErrIo e), fs)
      | None \<Rightarrow> write_all os fs path [] (json_lines lib b))"

definition output_write ::
  "os_lib \<Rightarrow> csv_writer \<Rightarrow> json_lib \<Rightarrow> files \<Rightarrow> record_batch \<Rightarrow> string \<Rightarrow> unit res \<times> files" where
  "output_write os wtr lib fs b path =
     (let ext = to_ascii_lowercase (unwrap_or (path_extension path) [])
      in if ext = ''csv'' then write_csv os wtr fs b path
         else if ext \<in> {''json'', ''jsonl'', ''ndjson''} then write_json os lib fs b path
         else (Err (ErrStorage (''unsupported output format: .'' @ ext)), fs))"

section \<open>S3 addresses\<close>

definition strip_prefix :: "string \<Rightarrow> string \<Rightarrow> string option" where
  "strip_prefix pre s =
     (if take (length pre) s = pre then Some (drop (length pre) s) else None)"

definition split_once :: "char \<Rightarrow> string \<Rightarrow> (string \<times> string) option" where
  "split_once c s =
     (if c \<in> set s
      then Some (takeWhile (\<lambda>x. x \<noteq> c) s, tl (dropWhile (\<lambda>x. x \<noteq> c) s)) else None)"

lemma strip_prefix_append [simp]: "strip_prefix pre (pre @ s) = Some s"
  by (simp add: strip_prefix_def)

lemma split_once_append: "c \<notin> set a \<Longrightarrow> split_once c (a @ c # b) = Some (a, b)"
  by (induction a) (auto simp: split_once_def)

record s3_config =
  s3_endpoint :: "string option"
  s3_region :: string
  s3_bucket :: string
  s3_access_key :: "string option"
  s3_secret_key :: "string option"

definition s3_from_env :: "env_vars \<Rightarrow> s3_config option" where
  "s3_from_env env =
     (case env ''AWS_S3_BUCKET'' of
        None \<Rightarrow> None
      | Some bucket \<Rightarrow> Some
          \<lparr>s3_endpoint = env ''AWS_ENDPOINT_URL_S3'',
           s3_region = unwrap_or (env ''AWS_REGION'') ''us-east-1'',
           s3_bucket = bucket,
           s3_access_key = env ''AWS_ACCESS_KEY_ID'',
           s3_secret_key = env ''AWS_SECRET_ACCESS_KEY''\<rparr>)"

definition parse_uri :: "string \<Rightarrow> string res" where
  "parse_uri path =
     and_then (ok_or (strip_prefix ''s3://'' path)
       (ErrStorage (''expected s3:// URI, got '' @ squote path))) (\<lambda>stripped.
     and_then (ok_or (split_once (CHR ''/'') stripped)
       (ErrStorage (''s3:// URI must contain a key, got '' @ squote path))) (\<lambda>(_, key). Ok key))"

definition inner_kind :: "string \<Rightarrow> string res" where
  "inner_kind key =
     (let ext = to_ascii_lowercase (unwrap_or (path_extension key) [])
      in if ext = ''csv'' then Ok ''csv''
         else if ext \<in> {''json'', ''jsonl'', ''ndjson''} then Ok ''json''
         else Err (ErrStorage (''unsupported s3 object format: .'' @ ext)))"

definition normalize_key :: "string \<Rightarrow> string" where
  "normalize_key key =
     (case strip_prefix ''s3://'' key of
        Some stripped \<Rightarrow> (case split_once (CHR ''/'') stripped of Some (_, k) \<Rightarrow> k | None \<Rightarrow> key)
      | None \<Rightarrow> key)"

definition format_from_key :: "string \<Rightarrow> string res" where
  "format_from_key key =
     (let ext = to_ascii_lowercase (unwrap_or (path_extension key) [])
      in if ext = ''csv'' then Ok ''csv''
         else if ext \<in> {''json'', ''jsonl'', ''ndjson''} then Ok ''json''
         else Err (ErrStorage (''unsupported s3 output format: .'' @ ext)))"

section \<open>The S3 source\<close>

text \<open>
  A request to the client: the error of sending it, the error of collecting the body, or the
  body; and the error of a put, if any.
\<close>

record s3_lib =
  s3_get_object :: "s3_config \<Rightarrow> objects \<Rightarrow> string \<Rightarrow> string + (string + string)"
  s3_put_object :: "s3_config \<Rightarrow> objects \<Rightarrow> string \<Rightarrow> string \<Rightarrow> string option"

definition fetch_object :: "s3_lib \<Rightarrow> s3_config \<Rightarrow> objects \<Rightarrow> string \<Rightarrow> string res" where
  "fetch_object s3 cfg obs key =
     (case s3_get_object s3 cfg obs key of
        Inl e \<Rightarrow> Err (ErrStorage (''s3 get_object('' @ key @ '') failed: '' @ e))
      | Inr (Inl e) \<Rightarrow> Err (ErrStorage (''s3 body collect('' @ key @ '') failed: '' @ e))
      | Inr (Inr body) \<Rightarrow> Ok body)"

definition s3_scan ::
  "s3_lib \<Rightarrow> csv_lib \<Rightarrow> json_lib \<Rightarrow> s3_config \<Rightarrow> objects \<Rightarrow> string \<Rightarrow> schema option \<Rightarrow> record_batch res" where
  "s3_scan s3 clib jlib cfg obs path so =
     and_then (parse_uri path) (\<lambda>key.
     and_then (inner_kind key) (\<lambda>kind.
     and_then (fetch_object s3 cfg obs key) (\<lambda>body.
       if kind = ''csv'' then csv_scan_reader clib body so
       else if kind = ''json'' then json_scan_reader jlib body so
       else Err (ErrStorage (''unsupported s3 format: '' @ kind)))))"

definition s3_infer_schema ::
  "s3_lib \<Rightarrow> csv_lib \<Rightarrow> json_lib \<Rightarrow> s3_config \<Rightarrow> objects \<Rightarrow> string \<Rightarrow> schema res" where
  "s3_infer_schema s3 clib jlib cfg obs path =
     and_then (s3_scan s3 clib jlib cfg obs path None) (\<lambda>b. Ok (batch_schema b))"

definition s3_source ::
  "s3_lib \<Rightarrow> csv_lib \<Rightarrow> json_lib \<Rightarrow> s3_config \<Rightarrow> objects \<Rightarrow> data_source" where
  "s3_source s3 clib jlib cfg obs =
     \<lparr>ds_name = ''s3'',
      ds_infer_schema = s3_infer_schema s3 clib jlib cfg obs,
      ds_scan = s3_scan s3 clib jlib cfg obs\<rparr>"

definition try_register_s3 ::
  "s3_lib \<Rightarrow> csv_lib \<Rightarrow> json_lib \<Rightarrow> env_vars \<Rightarrow> objects \<Rightarrow> source_registry \<Rightarrow>
   (data_source option \<times> source_registry) res" where
  "try_register_s3 s3 clib jlib env obs reg =
     (case s3_from_env env of
        None \<Rightarrow> Ok (None, reg)
      | Some cfg \<Rightarrow>
          let src = s3_source s3 clib jlib cfg obs
          in and_then (registry_register_async reg ''s3'' src) (\<lambda>reg. Ok (Some src, reg)))"

section \<open>The S3 writer\<close>

definition render_csv :: "csv_writer \<Rightarrow> record_batch \<Rightarrow> string res" where
  "render_csv wtr b =
     (case wtr (csv_output b) of (text, None) \<Rightarrow> Ok text | (text, Some e) \<Rightarrow> Err (ErrCsv e))"

definition render_json :: "json_lib \<Rightarrow> record_batch \<Rightarrow> string res" where
  "render_json lib b = Ok (json_lines lib b)"

definition s3_write ::
  "s3_lib \<Rightarrow> csv_writer \<Rightarrow> json_lib \<Rightarrow> s3_config \<Rightarrow> objects \<Rightarrow> record_batch \<Rightarrow> string \<Rightarrow> string \<Rightarrow>
   unit res \<times> objects" where
  "s3_write s3 wtr jlib cfg obs b key format =
     (let f = to_ascii_lowercase format;
          bytes = (if f = ''csv'' then render_csv wtr b
                   else if f \<in> {''json'', ''jsonl'', ''ndjson''} then render_json jlib b
                   else Err (ErrStorage (''unsupported s3 output format: '' @ f)))
      in case bytes of
           Err e \<Rightarrow> (Err e, obs)
         | Panic m \<Rightarrow> (Panic m, obs)
         | Ok body \<Rightarrow>
             let key = normalize_key key
             in (case s3_put_object s3 cfg obs key body of
                   Some e \<Rightarrow> (Err (ErrStorage (''s3 put_object('' @ key @ '') failed: '' @ e)), obs)
                 | None \<Rightarrow> (Ok (), obs((s3_bucket cfg, key) \<mapsto> body))))"

section \<open>Laws\<close>

text \<open>The key of an address is what follows the first slash after the bucket.\<close>

lemma parse_uri_address:
  "CHR ''/'' \<notin> set bucket \<Longrightarrow> parse_uri (''s3://'' @ bucket @ ''/'' @ key) = Ok key"
  using split_once_append [of "CHR ''/''" bucket key]
    strip_prefix_append [of "''s3://''" "bucket @ ''/'' @ key"]
  by (simp add: parse_uri_def ok_or_def)

lemma normalize_key_address:
  "CHR ''/'' \<notin> set bucket \<Longrightarrow> normalize_key (''s3://'' @ bucket @ ''/'' @ key) = key"
  using split_once_append [of "CHR ''/''" bucket key]
    strip_prefix_append [of "''s3://''" "bucket @ ''/'' @ key"]
  by (simp add: normalize_key_def)

lemma parse_uri_normalize: "parse_uri path = Ok key \<Longrightarrow> normalize_key path = key"
  by (auto simp: parse_uri_def normalize_key_def ok_or_def split: option.splits)

lemma scan_reader_ok:
  "csv_scan_reader clib c (Some s) = Ok b \<Longrightarrow> batch_schema b = s \<and> batch_ok b"
  "json_scan_reader jlib c (Some s) = Ok b \<Longrightarrow> batch_schema b = s \<and> batch_ok b"
  by (auto simp: csv_scan_reader_def json_scan_reader_def and_then_eq_Ok from_records_Ok_iff batch_ok_def)

lemma scan_reader_no_panic [simp]:
  "\<not> panics (csv_scan_reader clib c (Some s))" "\<not> panics (json_scan_reader jlib c (Some s))"
  by (simp_all add: csv_scan_reader_def json_scan_reader_def panics_and_then map_res_no_panic)

lemma s3_steps_no_panic [simp]:
  "\<not> panics (parse_uri path)" "\<not> panics (inner_kind key)" "\<not> panics (fetch_object s3 cfg obs key)"
  by (auto simp: parse_uri_def inner_kind_def fetch_object_def panics_and_then Let_def split: sum.splits)

lemma s3_scan_reader:
  "s3_scan s3 clib jlib cfg obs path (Some s) = Ok b \<Longrightarrow> batch_schema b = s \<and> batch_ok b"
  using scan_reader_ok unfolding s3_scan_def and_then_eq_Ok by (metis result.distinct(1))

lemma s3_scan_no_panic: "\<not> panics (s3_scan s3 clib jlib cfg obs path (Some s))"
  by (simp add: s3_scan_def panics_and_then)

interpretation s3: source_contract "s3_source s3 clib jlib cfg obs" for s3 clib jlib cfg obs
  by unfold_locales (auto simp: s3_source_def s3_scan_no_panic dest: s3_scan_reader)

end
