(* ===== verification/Interchange_Properties.thy ===== *)
theory Interchange_Properties
  imports Arrow_Instance Object_Store
begin

text \<open>
  Properties of the Arrow interchange and of the addresses of the object store.
\<close>

section \<open>Arrow\<close>

definition people :: record_batch where
  "people =
     \<lparr>batch_schema = schema_new [field_new ''id'' TInt64, field_new ''born'' TDate],
      batch_records = [record_new [VInt64 2, VString ''1990-01-01''], record_new [VInt64 1, VNull]]\<rparr>"

definition people_arrow :: list_batch where
  "people_arrow = (case arrow_from_core list_arrow people of Ok r \<Rightarrow> r | _ \<Rightarrow> ([], [], 0))"

lemma people_ok: "convertible people" "batch_fits people"
  by (auto simp: people_def convertible_def batch_ok_def row_ok_def batch_fits_def schema_new_def
      field_new_def less_Suc_eq)

lemma people_arrow: "arrow_from_core list_arrow people = Ok people_arrow"
  using from_core_fitting [OF list_arrow_ok people_ok] by (auto simp: people_arrow_def)

text \<open>C20. A batch with columns, none of them of type Null, whose values have their declared types
  survives the conversion to Arrow and back: the rows are the same, and so is the schema except
  that dates and timestamps have become strings.\<close>

theorem arrow_round_trip:
  assumes "arrow_ok lib" "convertible b" "batch_fits b"
  shows "\<exists>r. arrow_from_core lib b = Ok r \<and> arrow_to_core lib r =
    Ok \<lparr>batch_schema = interchange_schema (batch_schema b), batch_records = batch_records b\<rparr>"
  using from_core_fitting [OF assms] to_core_fitting [OF _ _ assms(2,3) _ order_refl] by auto

theorem arrow_round_trip_witness:
  "\<exists>r. arrow_from_core list_arrow people = Ok r \<and> arrow_to_core list_arrow r =
    Ok \<lparr>batch_schema = interchange_schema (batch_schema people), batch_records = batch_records people\<rparr>"
  by (rule arrow_round_trip [OF list_arrow_ok people_ok])

text \<open>C21. On a converted batch of fewer than \<open>2 ^ 32\<close> rows the Arrow operators agree with the row
  operators: the limit is the prefix of the rows, and the filter by a predicate of the row
  keeps exactly the rows on which it is true, in order.\<close>

theorem arrow_operators_agree:
  assumes "arrow_ok lib" "convertible b" "batch_fits b" "length (batch_records b) < 2 ^ 32"
    and "arrow_from_core lib b = Ok r"
  shows "(\<exists>r'. arrow_limit lib r n = Ok r' \<and> arrow_to_core lib r' =
      Ok \<lparr>batch_schema = interchange_schema (batch_schema b), batch_records = take n (batch_records b)\<rparr>) \<and>
    (\<exists>r'. filter_via lib r (\<lambda>i. Ok (q (batch_records b ! i))) = Ok r' \<and> arrow_to_core lib r' =
      Ok \<lparr>batch_schema = interchange_schema (batch_schema b), batch_records = filter q (batch_records b)\<rparr>)"
proof -
  have r: "native_batch lib r" "core_schema lib r = interchange_schema (batch_schema b)"
      "core_rows lib r = batch_records b"
    using from_core_fitting [OF assms(1-3)] assms(5) by auto
  have n: "ar_num_rows lib r = length (batch_records b)" using length_core_rows [of lib r] r(3) by simp
  from arrow_limit_rows [OF assms(1) r(1), of n] n assms(4)
  obtain r1 where "arrow_limit lib r n = Ok r1" "native_batch lib r1"
      "ar_schema lib r1 = ar_schema lib r" "core_rows lib r1 = take n (batch_records b)"
    using r(3) by auto
  moreover from filter_via_rows [OF assms(1) r(1), of "\<lambda>i. Ok (q (batch_records b ! i))"
      "\<lambda>i. q (batch_records b ! i)"]
  obtain r2 where "filter_via lib r (\<lambda>i. Ok (q (batch_records b ! i))) = Ok r2" "native_batch lib r2"
      "ar_schema lib r2 = ar_schema lib r" "core_rows lib r2 = filter q (batch_records b)"
    by (auto simp: r(3) rows_where_filter)
  ultimately show ?thesis
    using to_core_fitting [OF _ _ assms(2,3)] core_schema_cong [of lib _ r] r(2) set_take_subset
    by (metis filter_is_subset)
qed

theorem arrow_operators_agree_witness:
  "(\<exists>r'. arrow_limit list_arrow people_arrow 1 = Ok r' \<and> arrow_to_core list_arrow r' =
      Ok \<lparr>batch_schema = interchange_schema (batch_schema people), batch_records = take 1 (batch_records people)\<rparr>) \<and>
    (\<exists>r'. filter_via list_arrow people_arrow (\<lambda>i. Ok (VNull \<in> set (row_values (batch_records people ! i)))) = Ok r' \<and>
      arrow_to_core list_arrow r' = Ok \<lparr>batch_schema = interchange_schema (batch_schema people),
        batch_records = filter (\<lambda>x. VNull \<in> set (row_values x)) (batch_records people)\<rparr>)"
  by (rule arrow_operators_agree [OF list_arrow_ok people_ok _ people_arrow]) (simp add: people_def)

text \<open>C38. Sorting a converted batch by a column returns a permutation of its rows in which no row
  is followed by one that must come before it: NULLs first, then the values in the requested
  direction.\<close>

theorem arrow_sort_sorts:
  assumes "arrow_ok lib" "convertible b" "batch_fits b" "arrow_from_core lib b = Ok r"
    and "j < length (schema_fields (batch_schema b))"
  shows "\<exists>r' rs. sort_by_column lib r j asc = Ok r' \<and> arrow_to_core lib r' =
      Ok \<lparr>batch_schema = interchange_schema (batch_schema b), batch_records = rs\<rparr> \<and>
    mset rs = mset (batch_records b) \<and>
    sorted_wrt (\<lambda>x y. \<not> cell_before (\<not> asc) (cell_for (column_types b ! j) (row_values y ! j))
      (cell_for (column_types b ! j) (row_values x ! j))) rs"
proof -
  have r: "native_batch lib r" "core_schema lib r = interchange_schema (batch_schema b)"
      "core_rows lib r = batch_records b" "map (cells lib) (ar_columns lib r) = column_cells b"
    using from_core_fitting [OF assms(1-3)] assms(4) by auto
  have n: "ar_num_rows lib r = length (batch_records b)" using length_core_rows [of lib r] r(3) by simp
  have j: "j < length (ar_columns lib r)"
    using arg_cong [OF r(4), of length] assms(5) by (simp add: column_cells_def column_types_def)
  have col: "cells lib (ar_columns lib r ! j) =
      map (cell_for (column_types b ! j)) (column_values (batch_records b) j)"
    using arg_cong [OF r(4), of "\<lambda>xs. xs ! j"] j assms(5) by (simp add: column_cells_def column_types_def)
  from sort_by_column_rows [OF assms(1) r(1) j, of asc, unfolded n col r(3)]
  obtain r' ix where r': "sort_by_column lib r j asc = Ok r'" "native_batch lib r'"
      "ar_schema lib r' = ar_schema lib r" "mset ix = mset [0..<length (batch_records b)]"
      "core_rows lib r' = map ((!) (batch_records b)) ix"
      "sorted_wrt (\<lambda>a c. \<not> cell_before (\<not> asc)
        (map (cell_for (column_types b ! j)) (column_values (batch_records b) j) ! c)
        (map (cell_for (column_types b ! j)) (column_values (batch_records b) j) ! a)) ix"
    by (elim exE conjE) (rule that)
  have ix: "set ix = {..<length (batch_records b)}"
    using arg_cong [OF r'(4), of set_mset] by (simp only: set_mset_mset set_upt atLeast0LessThan)
  have "image_mset ((!) (batch_records b)) (mset ix) = mset (batch_records b)"
    unfolding r'(4) by (metis map_nth mset_map)
  moreover have "sorted_wrt (\<lambda>x y. \<not> cell_before (\<not> asc) (cell_for (column_types b ! j) (row_values y ! j))
      (cell_for (column_types b ! j) (row_values x ! j))) (map ((!) (batch_records b)) ix)"
    unfolding sorted_wrt_map
    by (rule sorted_wrt_mono_rel [OF _ r'(6)]) (use ix in \<open>auto simp: column_values_def\<close>)
  moreover have "set (map ((!) (batch_records b)) ix) \<subseteq> set (batch_records b)"
    unfolding set_map ix by (rule image_subsetI) simp
  ultimately show ?thesis
    using to_core_fitting [OF r'(2) _ assms(2,3) r'(5)] core_schema_cong [OF r'(3)] r(2) r'(1) by auto
qed

theorem arrow_sort_sorts_witness:
  "\<exists>r' rs. sort_by_column list_arrow people_arrow 0 True = Ok r' \<and> arrow_to_core list_arrow r' =
      Ok \<lparr>batch_schema = interchange_schema (batch_schema people), batch_records = rs\<rparr> \<and>
    mset rs = mset (batch_records people) \<and>
    sorted_wrt (\<lambda>x y. \<not> cell_before (\<not> True) (cell_for (column_types people ! 0) (row_values y ! 0))
      (cell_for (column_types people ! 0) (row_values x ! 0))) rs"
  by (rule arrow_sort_sorts [OF list_arrow_ok people_ok people_arrow]) (simp add: people_def schema_new_def)

text \<open>A column of type Null is always finished as an array of length 0. So a batch with rows
  cannot be converted when it also has another column, and comes back without its rows when
  it has not.\<close>

theorem arrow_null_column:
  assumes "arrow_ok lib" "batch_ok b" "batch_records b \<noteq> []" "TNull \<in> set (column_types b)"
    and "\<forall>f \<in> set (schema_fields (batch_schema b)). field_nullable f"
  shows "(\<exists>e. arrow_from_core lib b = Err e) \<or>
    (\<exists>r bb. arrow_from_core lib b = Ok r \<and> arrow_to_core lib r = Ok bb \<and> batch_records bb = [])"
proof (cases "\<exists>t \<in> set (column_types b). t \<noteq> TNull")
  case True
  then show ?thesis using null_column_fails [OF assms(1-4)] by blast
next
  case False
  then have "set (column_types b) = {TNull}" "column_types b \<noteq> []" using assms(4) by auto
  then show ?thesis using null_columns_lose_rows [OF assms(1,2)] assms(5) by blast
qed

definition nothing :: record_batch where
  "nothing = \<lparr>batch_schema = schema_new [field_new ''x'' TNull], batch_records = [record_new [VNull]]\<rparr>"

theorem arrow_null_column_witness:
  "(\<exists>e. arrow_from_core list_arrow nothing = Err e) \<or>
    (\<exists>r bb. arrow_from_core list_arrow nothing = Ok r \<and> arrow_to_core list_arrow r = Ok bb \<and> batch_records bb = [])"
  by (rule arrow_null_column [OF list_arrow_ok])
    (simp_all add: nothing_def batch_ok_def row_ok_def schema_new_def field_new_def column_types_def)

section \<open>Addresses\<close>

text \<open>An object address \<^verbatim>\<open>s3://bucket/key\<close> is read back as its key by the source and by the
  writer, so what is written under an address is what a scan of the address asks for.\<close>

theorem s3_address_round_trip:
  assumes "CHR ''/'' \<notin> set bucket"
  shows "parse_uri (''s3://'' @ bucket @ ''/'' @ key) = Ok key \<and>
    normalize_key (''s3://'' @ bucket @ ''/'' @ key) = key"
  using parse_uri_address [OF assms] normalize_key_address [OF assms] by simp

theorem s3_address_round_trip_witness:
  "parse_uri (''s3://'' @ ''lake'' @ ''/'' @ ''a/b.csv'') = Ok ''a/b.csv'' \<and>
    normalize_key (''s3://'' @ ''lake'' @ ''/'' @ ''a/b.csv'') = ''a/b.csv''"
  by (rule s3_address_round_trip) simp

end
