(* ===== verification/Pipeline_Spec.thy ===== *)
theory Pipeline_Spec
  imports Planner Executor
begin

text \<open>
  \<^verbatim>\<open>rspark-pipelines/src/spec.rs\<close> and \<^verbatim>\<open>dag.rs\<close>: the declared flows of a pipeline and their
  dependency graph. The YAML deserialiser is the parameter \<open>yaml\<close>; the \<^verbatim>\<open>petgraph\<close> crate is the
  record \<open>petgraph\<close> of the operations the source calls, with its documented behaviour in
  \<open>petgraph_ok\<close>. The iteration order of a hash map is given by a rank of its keys.
\<close>

section \<open>Specifications\<close>

datatype flow_kind = FkMaterializedView | FkStreamingTable

datatype refresh = RfFull | RfIncremental | RfLive u64

definition default_refresh :: refresh where
  "default_refresh = RfFull"

datatype source_spec =
    SrcTailDir string
  | SrcCsv string
  | SrcJson string
  | SrcS3 string "string option"
  | SrcKafka string string string
  | SrcSql

datatype destination = DestS3 string "string option" | DestFile string

record flow =
  flow_name :: string
  flow_kind :: flow_kind
  depends_on :: "string list"
  flow_source :: source_spec
  flow_query :: string
  flow_refresh :: refresh
  flow_destination :: destination

record pipeline =
  pipeline_name :: string
  flows :: "flow list"

datatype spec_error = SpIo string | SpYaml string | SpUnknownFlow string | SpCycle string

fun show_spec_error :: "spec_error \<Rightarrow> string" where
  "show_spec_error (SpIo m) = ''io error reading spec: '' @ m"
| "show_spec_error (SpYaml m) = ''yaml parse error: '' @ m"
| "show_spec_error (SpUnknownFlow n) = ''flow not found: '' @ n"
| "show_spec_error (SpCycle n) = ''cycle in pipeline: '' @ n"

definition spec_to_error :: "spec_error \<Rightarrow> error" where
  "spec_to_error e = ErrParse (show_spec_error e)"

type_synonym 'a spec_res = "('a, spec_error) result"

type_synonym yaml_lib = "string \<Rightarrow> string + pipeline"

definition from_yaml :: "yaml_lib \<Rightarrow> string \<Rightarrow> string + pipeline" where
  "from_yaml yaml text = yaml text"

definition from_file :: "yaml_lib \<Rightarrow> file_open \<Rightarrow> string \<Rightarrow> pipeline spec_res" where
  "from_file yaml fs path =
     (case fs path of
        Inl e \<Rightarrow> Err (SpIo e)
      | Inr s \<Rightarrow> (case from_yaml yaml s of Inl e \<Rightarrow> Err (SpYaml e) | Inr p \<Rightarrow> Ok p))"

text \<open>Collecting into a map keeps the last flow of a name.\<close>

definition flow_index :: "pipeline \<Rightarrow> string \<Rightarrow> flow option" where
  "flow_index p = map_of (rev (map (\<lambda>f. (flow_name f, f)) (flows p)))"

definition flow_lookup :: "pipeline \<Rightarrow> string \<Rightarrow> flow spec_res" where
  "flow_lookup p name = ok_or (find (\<lambda>f. flow_name f = name) (flows p)) (SpUnknownFlow name)"

section \<open>The graph library\<close>

record 'g petgraph =
  pg_new :: 'g
  pg_add_node :: "'g \<Rightarrow> string \<Rightarrow> nat \<times> 'g"
  pg_add_edge :: "'g \<Rightarrow> nat \<Rightarrow> nat \<Rightarrow> 'g"
  pg_weights :: "'g \<Rightarrow> string list"
  pg_edges :: "'g \<Rightarrow> (nat \<times> nat) list"
  pg_neighbors :: "'g \<Rightarrow> nat \<Rightarrow> nat list"
  pg_toposort :: "'g \<Rightarrow> nat + nat list"

text \<open>
  Nodes are numbered in the order they are added, edges are kept with their multiplicity,
  \<^verbatim>\<open>neighbors\<close> lists the targets of the outgoing edges in some order, and \<^verbatim>\<open>toposort\<close> reports a
  node on a cycle exactly when there is a cycle.
\<close>

definition petgraph_ok :: "'g petgraph \<Rightarrow> bool" where
  "petgraph_ok lib \<longleftrightarrow>
     pg_weights lib (pg_new lib) = [] \<and> pg_edges lib (pg_new lib) = [] \<and>
     (\<forall>g w. fst (pg_add_node lib g w) = length (pg_weights lib g) \<and>
        pg_weights lib (snd (pg_add_node lib g w)) = pg_weights lib g @ [w] \<and>
        pg_edges lib (snd (pg_add_node lib g w)) = pg_edges lib g) \<and>
     (\<forall>g a b. a < length (pg_weights lib g) \<longrightarrow> b < length (pg_weights lib g) \<longrightarrow>
        pg_weights lib (pg_add_edge lib g a b) = pg_weights lib g \<and>
        pg_edges lib (pg_add_edge lib g a b) = pg_edges lib g @ [(a, b)]) \<and>
     (\<forall>g n. mset (pg_neighbors lib g n) = mset (map snd (filter (\<lambda>e. fst e = n) (pg_edges lib g)))) \<and>
     (\<forall>g. case pg_toposort lib g of
        Inl n \<Rightarrow> n < length (pg_weights lib g) \<and> (n, n) \<in> (set (pg_edges lib g))\<^sup>+
      | Inr ns \<Rightarrow> acyclic (set (pg_edges lib g)))"

section \<open>The dependency graph\<close>

record 'g pipeline_dag =
  graph :: 'g
  name_index :: "string \<rightharpoonup> nat"

definition add_flow_node ::
  "'g petgraph \<Rightarrow> 'g \<times> (string \<rightharpoonup> nat) \<Rightarrow> flow \<Rightarrow> 'g \<times> (string \<rightharpoonup> nat)" where
  "add_flow_node lib = (\<lambda>(g, ix) f.
     let (n, g) = pg_add_node lib g (flow_name f) in (g, ix(flow_name f \<mapsto> n)))"

definition add_dependency ::
  "'g petgraph \<Rightarrow> (string \<rightharpoonup> nat) \<Rightarrow> nat \<Rightarrow> 'g \<Rightarrow> string \<Rightarrow> 'g spec_res" where
  "add_dependency lib ix to g dep =
     and_then (ok_or (ix dep) (SpUnknownFlow dep)) (\<lambda>from. Ok (pg_add_edge lib g from to))"

definition add_flow_edges :: "'g petgraph \<Rightarrow> (string \<rightharpoonup> nat) \<Rightarrow> 'g \<Rightarrow> flow \<Rightarrow> 'g spec_res" where
  "add_flow_edges lib ix g f =
     (case ix (flow_name f) of
        None \<Rightarrow> Panic ''just inserted''
      | Some to \<Rightarrow> fold_res (add_dependency lib ix to) g (depends_on f))"

definition from_pipeline :: "'g petgraph \<Rightarrow> pipeline \<Rightarrow> 'g pipeline_dag spec_res" where
  "from_pipeline lib p =
     (let (g, ix) = foldl (add_flow_node lib) (pg_new lib, Map.empty) (flows p)
      in and_then (fold_res (add_flow_edges lib ix) g (flows p)) (\<lambda>g.
           case pg_toposort lib g of
             Inl n \<Rightarrow> (if n < length (pg_weights lib g) then Err (SpCycle (pg_weights lib g ! n))
                        else Panic ''index out of bounds'')
           | Inr _ \<Rightarrow> Ok \<lparr>graph = g, name_index = ix\<rparr>))"

definition node_count :: "'g petgraph \<Rightarrow> 'g pipeline_dag \<Rightarrow> nat" where
  "node_count lib dag = length (pg_weights lib (graph dag))"

definition dag_flow :: "'g petgraph \<Rightarrow> 'g pipeline_dag \<Rightarrow> nat \<Rightarrow> string option" where
  "dag_flow lib dag n =
     (let ws = pg_weights lib (graph dag) in if n < length ws then Some (ws ! n) else None)"

section \<open>Layers\<close>

text \<open>In-degrees are an association list; \<open>rank i\<close> orders the keys at the \<open>i\<close>-th iteration.\<close>

type_synonym degrees = "(nat \<times> nat) list"

definition count_edge :: "degrees \<Rightarrow> nat \<times> nat \<Rightarrow> degrees spec_res" where
  "count_edge ds e =
     (case map_of ds (snd e) of
        None \<Rightarrow> Panic ''called Option::unwrap on a None value''
      | Some d \<Rightarrow> Ok (AList.update (snd e) (d + 1) ds))"

definition in_degrees :: "'g petgraph \<Rightarrow> 'g \<Rightarrow> degrees spec_res" where
  "in_degrees lib g =
     fold_res count_edge (map (\<lambda>n. (n, 0)) [0..<length (pg_weights lib g)]) (pg_edges lib g)"

definition ready_nodes :: "(nat \<Rightarrow> nat) \<Rightarrow> degrees \<Rightarrow> nat list" where
  "ready_nodes rk rem = map fst (filter (\<lambda>(n, d). d = 0) (linorder_class.sort_key (\<lambda>(n, d). rk n) rem))"

definition release :: "degrees \<Rightarrow> nat \<Rightarrow> degrees" where
  "release rem succ = map (\<lambda>(n, d). (n, if n = succ then d - 1 else d)) rem"

definition next_remaining :: "'g petgraph \<Rightarrow> 'g \<Rightarrow> nat list \<Rightarrow> degrees \<Rightarrow> degrees" where
  "next_remaining lib g layer rem =
     foldl (\<lambda>rem n. foldl release rem (pg_neighbors lib g n))
       (filter (\<lambda>(n, d). n \<notin> set layer) rem) layer"

lemma length_release [simp]: "length (release rem s) = length rem"
  by (simp add: release_def)

lemma length_foldl_release [simp]: "length (foldl release rem ss) = length rem"
  by (induction ss arbitrary: rem) auto

lemma length_release_all [simp]:
  "length (foldl (\<lambda>rem n. foldl release rem (f n)) rem ns) = length rem"
  by (induction ns arbitrary: rem) auto

lemma set_ready_nodes: "set (ready_nodes rk rem) = {n. (n, 0) \<in> set rem}"
  by (force simp: ready_nodes_def)

lemma length_next_remaining:
  assumes "ready_nodes rk rem \<noteq> []"
  shows "length (next_remaining lib g (ready_nodes rk rem) rem) < length rem"
proof -
  obtain n where "(n, 0) \<in> set rem"
    using assms set_ready_nodes [of rk rem] by (metis list.set_intros(1) mem_Collect_eq neq_Nil_conv)
  then have "length (filter (\<lambda>(n, d). n \<notin> set (ready_nodes rk rem)) rem) < length rem"
    using set_ready_nodes by (intro length_filter_less) auto
  then show ?thesis by (simp add: next_remaining_def)
qed

function layers_loop ::
  "'g petgraph \<Rightarrow> 'g \<Rightarrow> (nat \<Rightarrow> nat \<Rightarrow> nat) \<Rightarrow> nat \<Rightarrow> degrees \<Rightarrow> nat list list"
where
  "layers_loop lib g rank i rem =
     (if rem = [] then []
      else
        let layer = ready_nodes (rank i) rem
        in if layer = [] then []
           else layer # layers_loop lib g rank (Suc i) (next_remaining lib g layer rem))"
  by pat_completeness auto
termination
  by (relation "measure (\<lambda>(lib, g, rank, i, rem). length rem)") (auto simp: length_next_remaining)

declare layers_loop.simps [simp del]

definition layers :: "'g petgraph \<Rightarrow> (nat \<Rightarrow> nat \<Rightarrow> nat) \<Rightarrow> 'g pipeline_dag \<Rightarrow> nat list list spec_res" where
  "layers lib rank dag =
     and_then (in_degrees lib (graph dag)) (\<lambda>rem. Ok (layers_loop lib (graph dag) rank 0 rem))"

end
