(* ===== verification/Pipeline_Dag_Laws.thy ===== *)
theory Pipeline_Dag_Laws
  imports Pipeline_Spec
begin

text \<open>
  The dependency graph of a pipeline: what \<open>from_pipeline\<close> builds and rejects, and that the
  layers of an accepted pipeline contain every node once, each after the nodes it depends on.
\<close>

section \<open>Acyclic relations under injective renaming\<close>

lemma trancl_image_fwd: "(x, y) \<in> R\<^sup>+ \<Longrightarrow> (h x, h y) \<in> (map_prod h h ` R)\<^sup>+"
  by (induction rule: trancl_induct) (auto intro: trancl_into_trancl rev_image_eqI)

lemma trancl_image_bwd:
  assumes "(a, b) \<in> (map_prod h h ` R)\<^sup>+" "inj_on h (Field R)"
  shows "\<exists>x y. a = h x \<and> b = h y \<and> (x, y) \<in> R\<^sup>+"
  using assms(1)
proof (induction rule: trancl_induct)
  case (base b)
  then show ?case by auto
next
  case (step b c)
  then obtain x y where xy: "a = h x" "b = h y" "(x, y) \<in> R\<^sup>+" by auto
  obtain y' z where yz: "b = h y'" "c = h z" "(y', z) \<in> R" using step(2) by auto
  have "y \<in> Field R" using xy(3) by (metis FieldI2 tranclD2)
  moreover have "y' \<in> Field R" using yz(3) by (simp add: FieldI1)
  ultimately have "y = y'" using assms(2) xy(2) yz(1) by (auto dest: inj_onD)
  then have "(x, z) \<in> R\<^sup>+" using xy(3) yz(3) by (auto intro: trancl_into_trancl)
  then show ?case using xy(1) yz(2) by blast
qed

lemma acyclic_image: "inj_on h (Field R) \<Longrightarrow> acyclic (map_prod h h ` R) \<longleftrightarrow> acyclic R"
  unfolding acyclic_def
  by (metis (no_types, lifting) FieldI1 FieldI2 inj_onD trancl_image_bwd trancl_image_fwd tranclD tranclD2)

section \<open>Laws of the graph library\<close>

lemma petgraph_simps:
  assumes "petgraph_ok lib"
  shows "pg_weights lib (pg_new lib) = []" "pg_edges lib (pg_new lib) = []"
    "fst (pg_add_node lib g w) = length (pg_weights lib g)"
    "pg_weights lib (snd (pg_add_node lib g w)) = pg_weights lib g @ [w]"
    "pg_edges lib (snd (pg_add_node lib g w)) = pg_edges lib g"
  using assms by (simp_all add: petgraph_ok_def)

lemma petgraph_edge:
  assumes "petgraph_ok lib" "a < length (pg_weights lib g)" "b < length (pg_weights lib g)"
  shows "pg_weights lib (pg_add_edge lib g a b) = pg_weights lib g"
    "pg_edges lib (pg_add_edge lib g a b) = pg_edges lib g @ [(a, b)]"
  using assms by (simp_all add: petgraph_ok_def)

lemma petgraph_neighbors:
  "petgraph_ok lib \<Longrightarrow> count_list (pg_neighbors lib g a) b = count_list (pg_edges lib g) (a, b)"
proof -
  assume "petgraph_ok lib"
  then have "mset (pg_neighbors lib g a) = mset (map snd (filter (\<lambda>e. fst e = a) (pg_edges lib g)))"
    by (simp add: petgraph_ok_def)
  then have "count_list (pg_neighbors lib g a) b =
      count_list (map snd (filter (\<lambda>e. fst e = a) (pg_edges lib g))) b"
    by (metis count_mset)
  also have "count_list (map snd (filter (\<lambda>e. fst e = a) es)) b = count_list es (a, b)" for es
    by (induction es) auto
  finally show ?thesis .
qed

lemma petgraph_toposort:
  assumes "petgraph_ok lib"
  shows "(\<exists>ns. pg_toposort lib g = Inr ns) \<longleftrightarrow> acyclic (set (pg_edges lib g))"
    and "pg_toposort lib g = Inl n \<Longrightarrow> n < length (pg_weights lib g)"
    and "pg_toposort lib g = Inl n \<Longrightarrow> (n, n) \<in> (set (pg_edges lib g))\<^sup>+"
proof -
  have law: "case pg_toposort lib g of
      Inl n \<Rightarrow> n < length (pg_weights lib g) \<and> (n, n) \<in> (set (pg_edges lib g))\<^sup>+
    | Inr ns \<Rightarrow> acyclic (set (pg_edges lib g))"
    using assms by (simp add: petgraph_ok_def)
  then show "(\<exists>ns. pg_toposort lib g = Inr ns) \<longleftrightarrow> acyclic (set (pg_edges lib g))"
    by (cases "pg_toposort lib g") (auto simp: acyclic_def)
  show "pg_toposort lib g = Inl n \<Longrightarrow> n < length (pg_weights lib g)"
    and "pg_toposort lib g = Inl n \<Longrightarrow> (n, n) \<in> (set (pg_edges lib g))\<^sup>+"
    using law by simp_all
qed

section \<open>Building the graph\<close>

text \<open>The node of a name is its last occurrence.\<close>

definition last_index :: "string list \<Rightarrow> string \<Rightarrow> nat option" where
  "last_index ns = map_of (rev (zip ns [0..<length ns]))"

lemma last_index_snoc: "last_index (ns @ [n]) = (last_index ns)(n \<mapsto> length ns)"
  by (simp add: last_index_def)

lemma last_index_Some: "last_index ns n = Some i \<Longrightarrow> i < length ns \<and> ns ! i = n"
  by (auto simp: last_index_def dest!: map_of_SomeD simp: set_zip)

lemma last_index_None: "last_index ns n = None \<longleftrightarrow> n \<notin> set ns"
  by (simp add: last_index_def map_of_eq_None_iff flip: set_map)

lemma last_index_inj: "last_index ns a = Some i \<Longrightarrow> last_index ns b = Some i \<Longrightarrow> a = b"
  using last_index_Some by blast

lemma last_index_distinct:
  assumes "distinct ns" "i < length ns"
  shows "last_index ns (ns ! i) = Some i"
proof -
  have "last_index ns (ns ! i) \<noteq> None" using assms by (simp add: last_index_None)
  then obtain j where "last_index ns (ns ! i) = Some j" by blast
  then show ?thesis using assms last_index_Some [of ns "ns ! i" j] by (auto simp: nth_eq_iff_index_eq)
qed

lemma add_flow_nodes:
  assumes "petgraph_ok lib"
  shows "\<exists>g. foldl (add_flow_node lib) (pg_new lib, Map.empty) fs = (g, last_index (map flow_name fs)) \<and>
    pg_weights lib g = map flow_name fs \<and> pg_edges lib g = []"
proof (induction fs rule: rev_induct)
  case Nil
  then show ?case using petgraph_simps [OF assms] by (simp add: last_index_def)
next
  case (snoc f fs)
  then show ?case using petgraph_simps [OF assms]
    by (auto simp: add_flow_node_def Let_def case_prod_beta last_index_snoc)
qed

definition edges_of :: "(string \<rightharpoonup> nat) \<Rightarrow> flow \<Rightarrow> (nat \<times> nat) list" where
  "edges_of ix f = map (\<lambda>d. (the (ix d), the (ix (flow_name f)))) (depends_on f)"

lemma add_dependency_known:
  assumes "petgraph_ok lib" "ran ix \<subseteq> {..<length (pg_weights lib g)}" "to < length (pg_weights lib g)"
    "ix d = Some a"
  shows "add_dependency lib ix to g d = Ok (pg_add_edge lib g a to)"
    "pg_weights lib (pg_add_edge lib g a to) = pg_weights lib g"
    "pg_edges lib (pg_add_edge lib g a to) = pg_edges lib g @ [(a, to)]"
proof -
  have "a < length (pg_weights lib g)" using assms(2,4) by (auto intro: ranI)
  from petgraph_edge [OF assms(1) this assms(3)]
  show "pg_weights lib (pg_add_edge lib g a to) = pg_weights lib g"
    "pg_edges lib (pg_add_edge lib g a to) = pg_edges lib g @ [(a, to)]" .
  show "add_dependency lib ix to g d = Ok (pg_add_edge lib g a to)"
    using assms(4) by (simp add: add_dependency_def ok_or_def)
qed

lemma add_dependencies:
  assumes "petgraph_ok lib" "ran ix \<subseteq> {..<length (pg_weights lib g)}" "to < length (pg_weights lib g)"
    "\<forall>d \<in> set ds. ix d \<noteq> None"
  shows "\<exists>g'. fold_res (add_dependency lib ix to) g ds = Ok g' \<and>
      pg_weights lib g' = pg_weights lib g \<and>
      pg_edges lib g' = pg_edges lib g @ map (\<lambda>d. (the (ix d), to)) ds"
  using assms(2-4)
proof (induction ds arbitrary: g)
  case (Cons d ds)
  then obtain a where a: "ix d = Some a" by auto
  note step = add_dependency_known [OF assms(1) Cons.prems(1,2) a]
  show ?case using Cons.IH [of "pg_add_edge lib g a to"] Cons.prems step a by simp
qed simp

lemma add_dependencies_unknown:
  "\<not> (\<forall>d \<in> set ds. ix d \<noteq> None) \<Longrightarrow>
   \<exists>d \<in> set ds. ix d = None \<and> fold_res (add_dependency lib ix to) g ds = Err (SpUnknownFlow d)"
  by (induction ds arbitrary: g) (auto simp: add_dependency_def ok_or_def split: option.splits)

definition deps_known :: "(string \<rightharpoonup> nat) \<Rightarrow> flow list \<Rightarrow> bool" where
  "deps_known ix fs \<longleftrightarrow> (\<forall>f \<in> set fs. \<forall>d \<in> set (depends_on f). ix d \<noteq> None)"

lemma add_all_edges:
  assumes "petgraph_ok lib" "ran ix \<subseteq> {..<length (pg_weights lib g)}"
    "\<forall>f \<in> set fs. ix (flow_name f) \<noteq> None"
  shows "(deps_known ix fs \<longrightarrow>
      (\<exists>g'. fold_res (add_flow_edges lib ix) g fs = Ok g' \<and> pg_weights lib g' = pg_weights lib g \<and>
        pg_edges lib g' = pg_edges lib g @ concat (map (edges_of ix) fs))) \<and>
    (\<not> deps_known ix fs \<longrightarrow>
      (\<exists>f \<in> set fs. \<exists>d \<in> set (depends_on f). ix d = None \<and>
        fold_res (add_flow_edges lib ix) g fs = Err (SpUnknownFlow d)))"
  using assms(2,3)
proof (induction fs arbitrary: g)
  case (Cons f fs)
  obtain to where to: "ix (flow_name f) = Some to" using Cons.prems(2) by auto
  then have lt: "to < length (pg_weights lib g)" using Cons.prems(1) by (auto intro: ranI)
  show ?case
  proof (cases "\<forall>d \<in> set (depends_on f). ix d \<noteq> None")
    case True
    from add_dependencies [OF assms(1) Cons.prems(1) lt True] obtain g1
      where g1: "fold_res (add_dependency lib ix to) g (depends_on f) = Ok g1"
      "pg_weights lib g1 = pg_weights lib g"
      "pg_edges lib g1 = pg_edges lib g @ map (\<lambda>d. (the (ix d), to)) (depends_on f)" by blast
    have step: "add_flow_edges lib ix g f = Ok g1"
      "pg_edges lib g1 = pg_edges lib g @ edges_of ix f"
      "deps_known ix (f # fs) = deps_known ix fs"
      using g1 to True by (auto simp: add_flow_edges_def edges_of_def deps_known_def)
    have "fold_res (add_flow_edges lib ix) g (f # fs) = fold_res (add_flow_edges lib ix) g1 fs"
      using step(1) by simp
    moreover have "ran ix \<subseteq> {..<length (pg_weights lib g1)}" "\<forall>f \<in> set fs. ix (flow_name f) \<noteq> None"
      using Cons.prems unfolding g1(2) by (simp, meson list.set_intros(2))
    note IH = Cons.IH [OF this]
    ultimately have eqs: "fold_res (add_flow_edges lib ix) g (f # fs) = fold_res (add_flow_edges lib ix) g1 fs"
      by blast
    have "pg_edges lib g @ concat (map (edges_of ix) (f # fs)) = pg_edges lib g1 @ concat (map (edges_of ix) fs)"
      using step(2) by simp
    then show ?thesis using IH unfolding step(3) g1(2) eqs by auto
  next
    case False
    from add_dependencies_unknown [OF this, of lib to g] obtain d where "d \<in> set (depends_on f)" "ix d = None"
      "fold_res (add_dependency lib ix to) g (depends_on f) = Err (SpUnknownFlow d)" by blast
    then show ?thesis using to by (auto simp: deps_known_def add_flow_edges_def)
  qed
qed (simp add: deps_known_def)

section \<open>Accepted and rejected pipelines\<close>

text \<open>The dependency relation between names that a pipeline declares.\<close>

definition dependency :: "pipeline \<Rightarrow> (string \<times> string) set" where
  "dependency p = {(d, flow_name f) |f d. f \<in> set (flows p) \<and> d \<in> set (depends_on f)}"

definition all_declared :: "pipeline \<Rightarrow> bool" where
  "all_declared p \<longleftrightarrow> (\<forall>f \<in> set (flows p). set (depends_on f) \<subseteq> flow_name ` set (flows p))"

abbreviation node_of :: "pipeline \<Rightarrow> string \<Rightarrow> nat option" where
  "node_of p \<equiv> last_index (map flow_name (flows p))"

lemma deps_known_declared: "deps_known (node_of p) (flows p) \<longleftrightarrow> all_declared p"
  by (auto simp: deps_known_def all_declared_def last_index_None image_iff)

lemma set_edges: "set (concat (map (edges_of (node_of p)) (flows p))) =
    map_prod (\<lambda>n. the (node_of p n)) (\<lambda>n. the (node_of p n)) ` dependency p"
  by (force simp: edges_of_def dependency_def)

lemma acyclic_edges:
  assumes "all_declared p"
  shows "acyclic (set (concat (map (edges_of (node_of p)) (flows p)))) \<longleftrightarrow> acyclic (dependency p)"
  unfolding set_edges
proof (rule acyclic_image, rule inj_onI)
  have "node_of p n \<noteq> None" if "n \<in> Field (dependency p)" for n
    using that assms by (auto simp: Field_def dependency_def all_declared_def last_index_None)
  then show "a = b" if "a \<in> Field (dependency p)" "b \<in> Field (dependency p)"
      "the (node_of p a) = the (node_of p b)" for a b
    using that by (metis last_index_inj option.exhaust_sel)
qed

lemma from_pipeline_cases:
  assumes "petgraph_ok lib"
  shows "if \<not> all_declared p
    then \<exists>f \<in> set (flows p). \<exists>d \<in> set (depends_on f). d \<notin> flow_name ` set (flows p) \<and>
      from_pipeline lib p = Err (SpUnknownFlow d)
    else if acyclic (dependency p)
    then \<exists>g. from_pipeline lib p = Ok \<lparr>graph = g, name_index = node_of p\<rparr> \<and>
      pg_weights lib g = map flow_name (flows p) \<and>
      pg_edges lib g = concat (map (edges_of (node_of p)) (flows p))
    else \<exists>n \<in> flow_name ` set (flows p). from_pipeline lib p = Err (SpCycle n)"
proof -
  obtain g0 where g0: "foldl (add_flow_node lib) (pg_new lib, Map.empty) (flows p) = (g0, node_of p)"
    "pg_weights lib g0 = map flow_name (flows p)" "pg_edges lib g0 = []"
    using add_flow_nodes [OF assms] by blast
  have ix: "ran (node_of p) \<subseteq> {..<length (pg_weights lib g0)}"
    using last_index_Some [of "map flow_name (flows p)"] g0(2) by (auto simp: ran_def)
  have names: "\<forall>f \<in> set (flows p). node_of p (flow_name f) \<noteq> None" by (simp add: last_index_None)
  note edges = add_all_edges [OF assms ix names]
  show ?thesis
  proof (cases "all_declared p")
    case False
    then show ?thesis using edges g0(1) deps_known_declared [of p]
      by (auto simp: from_pipeline_def last_index_None image_iff)
  next
    case True
    then obtain g where g: "fold_res (add_flow_edges lib (node_of p)) g0 (flows p) = Ok g"
      "pg_weights lib g = map flow_name (flows p)"
      "pg_edges lib g = concat (map (edges_of (node_of p)) (flows p))"
      using edges g0 deps_known_declared [of p] by auto
    have ac: "acyclic (set (pg_edges lib g)) \<longleftrightarrow> acyclic (dependency p)"
      using acyclic_edges [OF True] g(3) by simp
    show ?thesis
    proof (cases "pg_toposort lib g")
      case (Inr ns)
      then show ?thesis using True ac g g0(1) petgraph_toposort(1) [OF assms, of g]
        by (auto simp: from_pipeline_def)
    next
      case (Inl n)
      then have "n < length (flows p)" "\<not> acyclic (dependency p)"
        using petgraph_toposort [OF assms, of g] g(2) ac by auto
      then show ?thesis using True g g0(1) Inl by (auto simp: from_pipeline_def)
    qed
  qed
qed

lemma from_pipeline_Ok:
  assumes "petgraph_ok lib" "from_pipeline lib p = Ok dag"
  shows "name_index dag = node_of p" "pg_weights lib (graph dag) = map flow_name (flows p)"
    "set (pg_edges lib (graph dag)) =
       map_prod (\<lambda>n. the (node_of p n)) (\<lambda>n. the (node_of p n)) ` dependency p"
    "acyclic (dependency p)" "all_declared p" "acyclic (set (pg_edges lib (graph dag)))"
    "set (pg_edges lib (graph dag)) \<subseteq> {..<length (flows p)} \<times> {..<length (flows p)}"
proof -
  have all: "all_declared p" and ac: "acyclic (dependency p)"
    using from_pipeline_cases [OF assms(1), of p] assms(2) by (auto split: if_splits)
  then obtain g where g: "dag = \<lparr>graph = g, name_index = node_of p\<rparr>"
      "pg_weights lib g = map flow_name (flows p)"
      "pg_edges lib g = concat (map (edges_of (node_of p)) (flows p))"
    using from_pipeline_cases [OF assms(1), of p] assms(2) by auto
  then show "name_index dag = node_of p" "pg_weights lib (graph dag) = map flow_name (flows p)"
    "set (pg_edges lib (graph dag)) =
       map_prod (\<lambda>n. the (node_of p n)) (\<lambda>n. the (node_of p n)) ` dependency p"
    "acyclic (dependency p)" "all_declared p" "acyclic (set (pg_edges lib (graph dag)))"
    using all ac set_edges acyclic_edges [OF all] by simp_all
  have "the (node_of p n) < length (flows p)" if "n \<in> flow_name ` set (flows p)" for n
  proof -
    have "node_of p n \<noteq> None" using that by (auto simp: last_index_None)
    then obtain i where "node_of p n = Some i" by blast
    then show ?thesis using last_index_Some by fastforce
  qed
  then show "set (pg_edges lib (graph dag)) \<subseteq> {..<length (flows p)} \<times> {..<length (flows p)}"
    using g(1,3) set_edges [of p] all unfolding dependency_def all_declared_def by force
qed

section \<open>Layers\<close>

text \<open>The degree of a remaining node counts its edges from remaining nodes.\<close>

definition edges_into :: "(nat \<times> nat) list \<Rightarrow> nat set \<Rightarrow> nat \<Rightarrow> nat" where
  "edges_into es A n = length (filter (\<lambda>e. fst e \<in> A \<and> snd e = n) es)"

definition degrees_ok :: "(nat \<times> nat) list \<Rightarrow> degrees \<Rightarrow> bool" where
  "degrees_ok es rem \<longleftrightarrow> distinct (map fst rem) \<and>
     (\<forall>(n, d) \<in> set rem. d = edges_into es (fst ` set rem) n)"

lemma edges_into_empty [simp]: "edges_into es {} n = 0"
  by (simp add: edges_into_def)

lemma edges_into_insert:
  assumes "m \<notin> A"
  shows "edges_into es (insert m A) n = count_list es (m, n) + edges_into es A n"
  using assms by (induction es) (auto simp: edges_into_def)

lemma edges_into_diff:
  assumes "B \<subseteq> A"
  shows "edges_into es A n - edges_into es B n = edges_into es (A - B) n"
proof -
  have "edges_into es A n = edges_into es B n + edges_into es (A - B) n"
    using assms by (induction es) (auto simp: edges_into_def)
  then show ?thesis by simp
qed

lemma foldl_release: "foldl release rem ss = map (\<lambda>(n, d). (n, d - count_list ss n)) rem"
proof (induction ss arbitrary: rem)
  case (Cons s ss)
  have "foldl release rem (s # ss) = map (\<lambda>(n, d). (n, d - count_list ss n)) (release rem s)"
    by (simp add: Cons.IH)
  also have "\<dots> = map (\<lambda>(n, d). (n, d - count_list (s # ss) n)) rem"
    by (auto simp: release_def)
  finally show ?case .
qed simp

lemma foldl_release_layer:
  assumes "petgraph_ok lib" "distinct ns"
  shows "foldl (\<lambda>rem n. foldl release rem (pg_neighbors lib g n)) rem ns =
    map (\<lambda>(n, d). (n, d - edges_into (pg_edges lib g) (set ns) n)) rem"
  using assms(2)
proof (induction ns arbitrary: rem)
  case (Cons m ns)
  then show ?case
    by (simp add: foldl_release petgraph_neighbors [OF assms(1)] edges_into_insert split_def)
qed simp

lemma distinct_ready_nodes: "distinct (map fst rem) \<Longrightarrow> distinct (ready_nodes rk rem)"
proof -
  assume "distinct (map fst rem)"
  then have "distinct (map fst (linorder_class.sort_key (\<lambda>(n, d). rk n) rem))"
    by (simp add: distinct_map inj_on_def) 
  then show ?thesis unfolding ready_nodes_def by (rule distinct_map_filter)
qed

lemma next_remaining_ok:
  assumes "petgraph_ok lib" "degrees_ok (pg_edges lib g) rem" "layer = ready_nodes rk rem"
  shows "fst ` set (next_remaining lib g layer rem) = fst ` set rem - set layer"
    and "degrees_ok (pg_edges lib g) (next_remaining lib g layer rem)"
proof -
  let ?kept = "filter (\<lambda>(n, d). n \<notin> set layer) rem"
  have dist: "distinct layer" using assms(2,3) by (simp add: degrees_ok_def distinct_ready_nodes)
  have next_eq: "next_remaining lib g layer rem =
      map (\<lambda>(n, d). (n, d - edges_into (pg_edges lib g) (set layer) n)) ?kept"
    by (simp add: next_remaining_def foldl_release_layer [OF assms(1) dist])
  show keys: "fst ` set (next_remaining lib g layer rem) = fst ` set rem - set layer"
    by (force simp: next_eq)
  have "set layer \<subseteq> fst ` set rem" unfolding assms(3) set_ready_nodes by force
  then have "d - edges_into (pg_edges lib g) (set layer) n =
      edges_into (pg_edges lib g) (fst ` set rem - set layer) n" if "(n, d) \<in> set rem" for n d
    using assms(2) that edges_into_diff by (fastforce simp: degrees_ok_def)
  moreover have "distinct (map fst (next_remaining lib g layer rem))"
    using assms(2) by (simp add: next_eq degrees_ok_def split_def comp_def distinct_map_filter)
  ultimately show "degrees_ok (pg_edges lib g) (next_remaining lib g layer rem)"
    unfolding degrees_ok_def keys by (auto simp: next_eq)
qed

lemma ready_nodes_exist:
  assumes "degrees_ok es rem" "acyclic (set es)" "rem \<noteq> []"
  shows "ready_nodes rk rem \<noteq> []"
proof -
  have "wf (set es)" using assms(2) by (simp add: finite_acyclic_wf)
  moreover obtain k where "k \<in> fst ` set rem" using assms(3) by (cases rem) auto
  ultimately obtain n where n: "n \<in> fst ` set rem" "\<And>a. (a, n) \<in> set es \<Longrightarrow> a \<notin> fst ` set rem"
    by (metis wfE_min)
  then have "edges_into es (fst ` set rem) n = 0" by (force simp: edges_into_def filter_empty_conv)
  then have "(n, 0) \<in> set rem" using n(1) assms(1) by (force simp: degrees_ok_def)
  then show ?thesis using set_ready_nodes [of rk rem] by auto
qed

text \<open>No edge enters a layer from the same or from a later one.\<close>

fun layered :: "(nat \<times> nat) set \<Rightarrow> nat list list \<Rightarrow> bool" where
  "layered E [] = True"
| "layered E (l # ls) =
     ((\<forall>(a, b) \<in> E. b \<in> set l \<longrightarrow> a \<notin> set (concat (l # ls))) \<and> layered E ls)"

lemma layers_loop_layered:
  assumes "petgraph_ok lib" "acyclic (set (pg_edges lib g))" "degrees_ok (pg_edges lib g) rem"
  shows "set (concat (layers_loop lib g rank i rem)) = fst ` set rem \<and>
    distinct (concat (layers_loop lib g rank i rem)) \<and>
    layered (set (pg_edges lib g)) (layers_loop lib g rank i rem) \<and>
    [] \<notin> set (layers_loop lib g rank i rem)"
  using assms(3)
proof (induction "length rem" arbitrary: i rem rule: less_induct)
  case less
  show ?case
  proof (cases "rem = []")
    case True
    then show ?thesis by (simp add: layers_loop.simps)
  next
    case False
    define layer where "layer = ready_nodes (rank i) rem"
    have ne: "layer \<noteq> []" using ready_nodes_exist [OF less.prems assms(2) False] by (simp add: layer_def)
    have eq: "layers_loop lib g rank i rem =
        layer # layers_loop lib g rank (Suc i) (next_remaining lib g layer rem)"
      using False ne by (subst layers_loop.simps) (simp add: layer_def Let_def)
    note nxt = next_remaining_ok [OF assms(1) less.prems layer_def]
    have shrink: "length (next_remaining lib g layer rem) < length rem"
      using length_next_remaining [OF ne [unfolded layer_def]] by (simp add: layer_def)
    note IH = less.hyps [OF shrink nxt(2), of "Suc i"]
    have sub: "set layer \<subseteq> fst ` set rem" by (force simp: layer_def set_ready_nodes)
    have free: "a \<notin> fst ` set rem" if "(a, b) \<in> set (pg_edges lib g)" "b \<in> set layer" for a b
    proof -
      have "(b, 0) \<in> set rem" using that(2) by (simp add: layer_def set_ready_nodes)
      then have "edges_into (pg_edges lib g) (fst ` set rem) b = 0"
        using less.prems by (force simp: degrees_ok_def)
      then show ?thesis using that(1) by (force simp: edges_into_def filter_empty_conv)
    qed
    have "distinct layer" using less.prems by (simp add: layer_def degrees_ok_def distinct_ready_nodes)
    moreover have "set (concat (layers_loop lib g rank i rem)) = fst ` set rem"
      using IH nxt(1) sub by (auto simp: eq)
    moreover have "layered (set (pg_edges lib g)) (layers_loop lib g rank i rem)"
      using IH free calculation(2) by (auto simp: eq simp del: concat.simps)
    ultimately show ?thesis using IH nxt(1) ne by (auto simp: eq)
  qed
qed

lemma layered_order:
  assumes "layered E ls" "(a, b) \<in> E" "a \<in> set (concat ls)" "b \<in> set (concat ls)"
  shows "\<exists>i j. i < j \<and> j < length ls \<and> a \<in> set (ls ! i) \<and> b \<in> set (ls ! j)"
  using assms
proof (induction ls)
  case (Cons l ls)
  have "b \<notin> set l" using Cons.prems(1-3) by auto
  then have b: "b \<in> set (concat ls)" using Cons.prems(4) by simp
  show ?case
  proof (cases "a \<in> set l")
    case True
    obtain l' where "l' \<in> set ls" "b \<in> set l'" using b by auto
    then obtain j where "j < length ls" "b \<in> set (ls ! j)" by (metis in_set_conv_nth)
    then show ?thesis using True by (intro exI [of _ 0] exI [of _ "Suc j"]) simp
  next
    case False
    then obtain i j where "i < j" "j < length ls" "a \<in> set (ls ! i)" "b \<in> set (ls ! j)"
      using Cons b by auto
    then show ?thesis by (intro exI [of _ "Suc i"] exI [of _ "Suc j"]) simp
  qed
qed simp

lemma count_edges_ok:
  assumes "distinct (map fst ds)" "set (map snd es) \<subseteq> fst ` set ds"
  shows "fold_res count_edge ds es =
    Ok (map (\<lambda>(n, d). (n, d + length (filter (\<lambda>e. snd e = n) es))) ds)"
  using assms
proof (induction es arbitrary: ds)
  case (Cons e es)
  obtain d where d: "map_of ds (snd e) = Some d"
    using Cons.prems(2) by (metis list.set_intros(1) list.simps(9) map_of_eq_None_iff not_None_eq subsetD)
  have upd: "AList.update (snd e) (d + 1) ds =
      map (\<lambda>(n, k). (n, if n = snd e then k + 1 else k)) ds"
    using d Cons.prems(1)
  proof (induction ds)
    case (Cons x ds)
    then show ?case by (cases x) (force intro!: map_idI [symmetric])
  qed simp
  have keys: "map fst (map (\<lambda>(n, k). (n, if n = snd e then k + 1 else k)) ds) = map fst ds" by auto
  have "fold_res count_edge ds (e # es) =
      fold_res count_edge (map (\<lambda>(n, k). (n, if n = snd e then k + 1 else k)) ds) es"
    using d upd by (simp add: count_edge_def)
  also have "\<dots> = Ok (map (\<lambda>(n, d). (n, d + length (filter (\<lambda>e. snd e = n) es)))
      (map (\<lambda>(n, k). (n, if n = snd e then k + 1 else k)) ds))"
  proof (rule Cons.IH)
    show "distinct (map fst (map (\<lambda>(n, k). (n, if n = snd e then k + 1 else k)) ds))"
      unfolding keys by (rule Cons.prems(1))
    show "set (map snd es) \<subseteq> fst ` set (map (\<lambda>(n, k). (n, if n = snd e then k + 1 else k)) ds)"
    proof -
      have "fst ` set (map (\<lambda>(n, k). (n, if n = snd e then k + 1 else k)) ds) = fst ` set ds"
        by (simp only: keys flip: set_map)
      then show ?thesis using Cons.prems(2) by simp
    qed
  qed
  finally show ?case by (auto simp: split_def)
qed auto

lemma in_degrees_ok:
  assumes "set (pg_edges lib g) \<subseteq> {..<length (pg_weights lib g)} \<times> {..<length (pg_weights lib g)}"
  shows "\<exists>rem. in_degrees lib g = Ok rem \<and> degrees_ok (pg_edges lib g) rem \<and>
    fst ` set rem = {..<length (pg_weights lib g)}"
proof -
  let ?N = "length (pg_weights lib g)"
  let ?ds = "map (\<lambda>n. (n, 0 :: nat)) [0..<?N]"
  let ?rem = "map (\<lambda>n. (n, length (filter (\<lambda>e. snd e = n) (pg_edges lib g)))) [0..<?N]"
  have keys: "fst ` set ?rem = {..<?N}" by (auto simp: image_iff)
  have "in_degrees lib g = Ok ?rem"
    unfolding in_degrees_def using assms
    by (subst count_edges_ok) (auto simp: comp_def image_iff)
  moreover have "fst e < ?N" if "e \<in> set (pg_edges lib g)" for e
    using subsetD [OF assms that] by (cases e) simp
  then have "filter (\<lambda>e. snd e = n) (pg_edges lib g) =
      filter (\<lambda>e. fst e \<in> {..<?N} \<and> snd e = n) (pg_edges lib g)" for n
    by (intro filter_cong) simp_all
  then have "degrees_ok (pg_edges lib g) ?rem"
    unfolding degrees_ok_def keys by (auto simp: edges_into_def comp_def)
  ultimately show ?thesis using keys by blast
qed

lemma layers_complete:
  assumes "petgraph_ok lib" "from_pipeline lib p = Ok dag"
  shows "\<exists>ls. layers lib rank dag = Ok ls \<and> distinct (concat ls) \<and>
    set (concat ls) = {..<length (flows p)} \<and> [] \<notin> set ls \<and>
    layered (set (pg_edges lib (graph dag))) ls"
proof -
  note dag = from_pipeline_Ok [OF assms]
  obtain rem where rem: "in_degrees lib (graph dag) = Ok rem"
      "degrees_ok (pg_edges lib (graph dag)) rem" "fst ` set rem = {..<length (flows p)}"
    using in_degrees_ok [of lib "graph dag"] dag(2,7) by auto
  then show ?thesis
    using layers_loop_layered [OF assms(1) dag(6) rem(2), of rank 0] by (auto simp: layers_def)
qed

end
