(* ===== verification/Streaming.thy ===== *)
theory Streaming
  imports Object_Store Pipeline_Spec
begin

text \<open>
  \<^verbatim>\<open>rspark-pipelines/src/source.rs\<close> and the one-shot source of \<^verbatim>\<open>runner.rs\<close>: the streaming sources of
  a flow. A source is a value of a datatype with one constructor per implementation of the
  trait; polling it returns a batch and the source's next state. Directory listings, JSON
  parsing and Kafka are parameters.
\<close>

section \<open>Text lines\<close>

text \<open>Well-formed UTF-8, as \<^verbatim>\<open>std::str::from_utf8\<close> checks it.\<close>

fun valid_utf8 :: "string \<Rightarrow> bool" where
  "valid_utf8 [] = True"
| "valid_utf8 (a # s) =
     (if byte a < 0x80 then valid_utf8 s
      else if 0xC2 \<le> byte a \<and> byte a \<le> 0xDF then
        (case s of b # s' \<Rightarrow> is_cont b \<and> valid_utf8 s' | _ \<Rightarrow> False)
      else if 0xE0 \<le> byte a \<and> byte a \<le> 0xEF then
        (case s of
           b # c # s' \<Rightarrow> is_cont b \<and> is_cont c \<and> (byte a = 0xE0 \<longrightarrow> 0xA0 \<le> byte b) \<and>
             (byte a = 0xED \<longrightarrow> byte b \<le> 0x9F) \<and> valid_utf8 s'
         | _ \<Rightarrow> False)
      else if 0xF0 \<le> byte a \<and> byte a \<le> 0xF4 then
        (case s of
           b # c # d # s' \<Rightarrow> is_cont b \<and> is_cont c \<and> is_cont d \<and> (byte a = 0xF0 \<longrightarrow> 0x90 \<le> byte b) \<and>
             (byte a = 0xF4 \<longrightarrow> byte b \<le> 0x8F) \<and> valid_utf8 s'
         | _ \<Rightarrow> False)
      else False)"

text \<open>\<^verbatim>\<open>BufRead::lines\<close>: a line loses its newline and a carriage return before it.\<close>

definition strip_cr :: "string \<Rightarrow> string" where
  "strip_cr l = (if l \<noteq> [] \<and> last l = CHR 0x0D then butlast l else l)"

definition text_lines :: "string \<Rightarrow> string list" where
  "text_lines s =
     (let ps = split_on (CHR 0x0A) s
      in map strip_cr (butlast ps) @ (if last ps = [] then [] else [last ps]))"

section \<open>Parameters\<close>

record dir_entry =
  de_name :: string
  de_is_file :: bool

datatype kafka_event = KafkaTimeout | KafkaError | KafkaMessage "string option"

text \<open>
  \<open>sl_rank i\<close> orders the keys of the \<open>i\<close>-th row's hash map; \<open>sl_read_dir\<close> lists a directory, an
  entry that could not be read being \<open>None\<close>.
\<close>

record stream_lib =
  sl_json :: json_lib
  sl_parse :: "string \<Rightarrow> string + json"
  sl_csv :: csv_lib
  sl_os :: os_lib
  sl_read_dir :: "files \<Rightarrow> string \<Rightarrow> string + dir_entry option list"
  sl_rank :: "nat \<Rightarrow> string \<Rightarrow> nat"
  sl_kafka_create_error :: "string \<Rightarrow> string \<Rightarrow> string option"
  sl_kafka_subscribe_error :: "string \<Rightarrow> string option"

section \<open>NDJSON\<close>

type_synonym json_object = "(string \<times> json) list"

definition json_value_to_rspark :: "json_lib \<Rightarrow> json \<Rightarrow> val" where
  "json_value_to_rspark lib v =
     (case v of
        JString s \<Rightarrow> VString s
      | JNumber n \<Rightarrow> (case num_as_i64 n of Some i \<Rightarrow> VInt64 i
          | None \<Rightarrow> (case num_as_f64 n of Some f \<Rightarrow> VFloat64 f | None \<Rightarrow> VNull))
      | JBool b \<Rightarrow> VBoolean b
      | JNull \<Rightarrow> VNull
      | other \<Rightarrow> VString (js_text lib other))"

definition object_keys :: "stream_lib \<Rightarrow> nat \<Rightarrow> json_object \<Rightarrow> string list" where
  "object_keys lib i r = linorder_class.sort_key (sl_rank lib i) (remdups (map fst r))"

definition row_get :: "json_object \<Rightarrow> string \<Rightarrow> json option" where
  "row_get r k = map_of (rev r) k"

definition add_key :: "string list \<Rightarrow> string \<Rightarrow> string list" where
  "add_key ks k = (if k \<in> set ks then ks else ks @ [k])"

definition key_order :: "stream_lib \<Rightarrow> json_object list \<Rightarrow> string list" where
  "key_order lib rows = foldl (\<lambda>ks (i, r). foldl add_key ks (object_keys lib i r)) [] (enumerate 0 rows)"

definition ndjson_rows_to_batch :: "stream_lib \<Rightarrow> json_object list \<Rightarrow> record_batch res" where
  "ndjson_rows_to_batch lib rows =
     (let ks = key_order lib rows;
          s = schema_new (map (\<lambda>k. field_new k TString) ks);
          value = (\<lambda>r k. case row_get r k of Some v \<Rightarrow> json_value_to_rspark (sl_json lib) v | None \<Rightarrow> VNull)
      in from_records s (map (\<lambda>r. record_new (map (value r) ks)) rows))"

definition ndjson_line ::
  "stream_lib \<Rightarrow> (nat \<Rightarrow> string \<Rightarrow> string) \<Rightarrow> json_object list \<Rightarrow> nat \<times> string \<Rightarrow> json_object list res" where
  "ndjson_line lib msg rows = (\<lambda>(i, line).
     if \<not> valid_utf8 line then Err (ErrIo ''stream did not contain valid UTF-8'')
     else
       let trimmed = trim line
       in if trimmed = [] then Ok rows
          else (case sl_parse lib trimmed of
                  Inl e \<Rightarrow> Err (ErrParse (msg i e))
                | Inr (JObject kvs) \<Rightarrow> Ok (rows @ [kvs])
                | Inr _ \<Rightarrow> Ok rows))"

definition read_ndjson :: "stream_lib \<Rightarrow> files \<Rightarrow> string \<Rightarrow> record_batch res" where
  "read_ndjson lib fs path =
     and_then (open_file (os_open (sl_os lib) fs) path) (\<lambda>c.
     and_then (fold_res (ndjson_line lib
         (\<lambda>i e. ''ndjson line '' @ show_nat (i + 1) @ '' in '' @ path @ '': '' @ e)) []
       (enumerate 0 (text_lines c))) (ndjson_rows_to_batch lib))"

definition read_ndjson_reader :: "stream_lib \<Rightarrow> string \<Rightarrow> record_batch res" where
  "read_ndjson_reader lib c =
     and_then (fold_res (ndjson_line lib (\<lambda>i e. ''ndjson line '' @ show_nat i @ '': '' @ e)) []
       (enumerate 0 (text_lines c))) (ndjson_rows_to_batch lib)"

section \<open>Sources\<close>

datatype streaming_source =
    NullSource
  | FileTailSource string "string set"
  | KafkaSource string string string
  | OneShotSource "record_batch option"

definition file_tail_new :: "string \<Rightarrow> streaming_source" where
  "file_tail_new dir = FileTailSource dir {}"

definition path_join :: "string \<Rightarrow> string \<Rightarrow> string" where
  "path_join dir name = (if dir = [] \<or> last dir = CHR ''/'' then dir @ name else dir @ ''/'' @ name)"

text \<open>The paths of one directory differ in their file names only, so sorting them sorts the names.\<close>

definition tail_names :: "dir_entry option list \<Rightarrow> string list" where
  "tail_names es = sort (map de_name (filter de_is_file (List.map_filter id es)))"

definition name_text :: "string \<Rightarrow> string option" where
  "name_text name = (if valid_utf8 name then Some name else None)"

definition next_unseen ::
  "stream_lib \<Rightarrow> files \<Rightarrow> string \<Rightarrow> string set \<Rightarrow> string option res" where
  "next_unseen lib fs dir seen =
     (case sl_read_dir lib fs dir of
        Inl e \<Rightarrow> Err (ErrIo e)
      | Inr es \<Rightarrow> Ok (find (\<lambda>n. unwrap_or (name_text n) [] \<notin> seen) (tail_names es)))"

definition kafka_new :: "stream_lib \<Rightarrow> string \<Rightarrow> string \<Rightarrow> string \<Rightarrow> streaming_source res" where
  "kafka_new lib topic brokers gid =
     (case sl_kafka_create_error lib brokers gid of
        Some e \<Rightarrow> Err (ErrStorage (''kafka producer: '' @ e))
      | None \<Rightarrow>
          (case sl_kafka_subscribe_error lib topic of
             Some e \<Rightarrow> Err (ErrStorage (''kafka subscribe '' @ topic @ '': '' @ e))
           | None \<Rightarrow> Ok (KafkaSource topic brokers gid)))"

text \<open>One micro-batch: the \<open>i\<close>-th race of a receive against its timeout ends with \<open>ev i\<close>.\<close>

fun kafka_drain :: "stream_lib \<Rightarrow> (nat \<Rightarrow> kafka_event) \<Rightarrow> nat \<Rightarrow> nat \<Rightarrow> json_object list \<Rightarrow> json_object list" where
  "kafka_drain lib ev i 0 rows = rows"
| "kafka_drain lib ev i (Suc n) rows =
     (case ev i of
        KafkaTimeout \<Rightarrow> rows
      | KafkaError \<Rightarrow> rows
      | KafkaMessage None \<Rightarrow> kafka_drain lib ev (Suc i) n rows
      | KafkaMessage (Some payload) \<Rightarrow>
          if \<not> valid_utf8 payload then kafka_drain lib ev (Suc i) n rows
          else (case sl_parse lib payload of
                  Inl e \<Rightarrow> kafka_drain lib ev (Suc i) n rows
                | Inr (JObject kvs) \<Rightarrow> kafka_drain lib ev (Suc i) n (rows @ [kvs])
                | Inr _ \<Rightarrow> kafka_drain lib ev (Suc i) n rows))"

definition kafka_poll :: "stream_lib \<Rightarrow> (nat \<Rightarrow> kafka_event) \<Rightarrow> record_batch res" where
  "kafka_poll lib ev =
     (let rows = kafka_drain lib ev 0 100 []
      in if rows = [] then Ok (batch_new schema_empty) else ndjson_rows_to_batch lib rows)"

text \<open>\<^verbatim>\<open>Result::ok\<close>; a panic is not a value of it.\<close>

fun res_ok :: "'a res \<Rightarrow> 'a option res" where
  "res_ok (Ok x) = Ok (Some x)"
| "res_ok (Err e) = Ok None"
| "res_ok (Panic m) = Panic m"

definition one_shot ::
  "stream_lib \<Rightarrow> (string \<Rightarrow> record_batch res) \<Rightarrow> files \<Rightarrow> string \<Rightarrow> streaming_source res" where
  "one_shot lib scan fs path =
     (case os_open (sl_os lib) fs path of
        Inl e \<Rightarrow> Ok (OneShotSource None)
      | Inr c \<Rightarrow> and_then (res_ok (scan c)) (\<lambda>inner. Ok (OneShotSource inner)))"

definition one_shot_csv :: "stream_lib \<Rightarrow> files \<Rightarrow> string \<Rightarrow> streaming_source res" where
  "one_shot_csv lib = one_shot lib (\<lambda>c. csv_scan_reader (sl_csv lib) c None)"

definition one_shot_json :: "stream_lib \<Rightarrow> files \<Rightarrow> string \<Rightarrow> streaming_source res" where
  "one_shot_json lib = one_shot lib (\<lambda>c. json_scan_reader (sl_json lib) c None)"

definition build_source :: "stream_lib \<Rightarrow> files \<Rightarrow> source_spec \<Rightarrow> streaming_source res" where
  "build_source lib fs spec =
     (case spec of
        SrcTailDir dir \<Rightarrow> Ok (file_tail_new dir)
      | SrcCsv path \<Rightarrow> one_shot_csv lib fs path
      | SrcJson path \<Rightarrow> one_shot_json lib fs path
      | SrcS3 key bucket \<Rightarrow>
          Err (ErrExecution ''S3 streaming source not yet wired (sink supports it)'')
      | SrcKafka topic brokers gid \<Rightarrow> kafka_new lib topic brokers gid
      | SrcSql \<Rightarrow> Ok NullSource)"

definition file_tail_poll ::
  "stream_lib \<Rightarrow> files \<Rightarrow> string \<Rightarrow> string set \<Rightarrow> record_batch res \<times> string set" where
  "file_tail_poll lib fs dir seen =
     (case next_unseen lib fs dir seen of
        Err e \<Rightarrow> (Err e, seen)
      | Panic m \<Rightarrow> (Panic m, seen)
      | Ok None \<Rightarrow> (Ok (batch_new schema_empty), seen)
      | Ok (Some name) \<Rightarrow>
          (case read_ndjson lib fs (path_join dir name) of
             Ok b \<Rightarrow> (Ok b, case name_text name of Some n \<Rightarrow> insert n seen | None \<Rightarrow> seen)
           | other \<Rightarrow> (other, seen)))"

fun poll_batch ::
  "stream_lib \<Rightarrow> files \<Rightarrow> (nat \<Rightarrow> kafka_event) \<Rightarrow> streaming_source \<Rightarrow>
   record_batch res \<times> streaming_source" where
  "poll_batch lib fs ev NullSource = (Ok (batch_new schema_empty), NullSource)"
| "poll_batch lib fs ev (FileTailSource dir seen) =
     (let (r, seen) = file_tail_poll lib fs dir seen in (r, FileTailSource dir seen))"
| "poll_batch lib fs ev (KafkaSource topic brokers gid) =
     (kafka_poll lib ev, KafkaSource topic brokers gid)"
| "poll_batch lib fs ev (OneShotSource inner) =
     (Ok (unwrap_or inner (batch_new schema_empty)), OneShotSource None)"

text \<open>No implementation persists anything on commit.\<close>

definition source_commit :: "streaming_source \<Rightarrow> unit res" where
  "source_commit src = Ok ()"

end
