(* ===== verification/Pipeline_Runner.thy ===== *)
theory Pipeline_Runner
  imports Streaming
begin

text \<open>
  \<^verbatim>\<open>rspark-pipelines/src/sink.rs\<close> and \<^verbatim>\<open>runner.rs\<close>: the destinations of a flow and the runner that
  walks the layers of a pipeline. The run threads the outside world, the catalog and the
  progress reports. A live flow polls forever, so the runner takes a number of polls as fuel
  and returns \<open>None\<close> when a live flow is still running after them; nothing else uses fuel.
\<close>

section \<open>Destinations\<close>

text \<open>\<^verbatim>\<open>Path::parent\<close>.\<close>

definition path_parent :: "string \<Rightarrow> string option" where
  "path_parent p =
     (let q = trim_end_matches (CHR ''/'') p;
          r = rev (dropWhile (\<lambda>c. c \<noteq> CHR ''/'') (rev q))
      in if q = [] then None
         else Some (if r \<noteq> [] \<and> trim_end_matches (CHR ''/'') r = [] then ''/''
                    else trim_end_matches (CHR ''/'') r))"

definition make_parent :: "os_lib \<Rightarrow> files \<Rightarrow> string \<Rightarrow> unit res" where
  "make_parent os fs path =
     (case path_parent path of
        Some parent \<Rightarrow>
          (if parent = [] then Ok ()
           else (case os_mkdir_error os fs parent of Some e \<Rightarrow> Err (ErrIo e) | None \<Rightarrow> Ok ()))
      | None \<Rightarrow> Ok ())"

fun with_length :: "unit res \<times> files \<Rightarrow> string \<Rightarrow> u64 res \<times> files" where
  "with_length (Ok _, fs) text = (Ok (word_of_nat (length text)), fs)"
| "with_length (Err e, fs) text = (Err e, fs)"
| "with_length (Panic m, fs) text = (Panic m, fs)"

definition write_text :: "os_lib \<Rightarrow> files \<Rightarrow> string \<Rightarrow> string \<Rightarrow> string \<Rightarrow> u64 res \<times> files" where
  "write_text os fs path old text =
     (case os_create_error os fs path of
        Some e \<Rightarrow> (Err (ErrIo e), fs)
      | None \<Rightarrow> with_length (write_all os fs path old text) text)"

definition write_file :: "os_lib \<Rightarrow> files \<Rightarrow> string \<Rightarrow> record_batch \<Rightarrow> u64 res \<times> files" where
  "write_file os fs path b =
     (case and_then (make_parent os fs path) (\<lambda>_. render_table b) of
        Err e \<Rightarrow> (Err e, fs)
      | Panic m \<Rightarrow> (Panic m, fs)
      | Ok text \<Rightarrow> write_text os fs path [] text)"

fun sink_value_to_json :: "json_lib \<Rightarrow> val \<Rightarrow> json" where
  "sink_value_to_json lib VNull = JNull"
| "sink_value_to_json lib (VBoolean b) = JBool b"
| "sink_value_to_json lib (VInt32 i) = js_from_i32 lib i"
| "sink_value_to_json lib (VInt64 i) = js_from_i64 lib i"
| "sink_value_to_json lib (VFloat32 f) = js_from_f32 lib f"
| "sink_value_to_json lib (VFloat64 f) = js_from_f64 lib f"
| "sink_value_to_json lib (VString s) = JString s"

definition record_line :: "json_lib \<Rightarrow> schema \<Rightarrow> row \<Rightarrow> string" where
  "record_line lib s r =
     js_text lib (JObject (foldl (\<lambda>m (f, v). btree_insert m (field_name f) (sink_value_to_json lib v)) []
       (zip (schema_fields s) (row_values r)))) @ [CHR 0x0A]"

definition append_file :: "os_lib \<Rightarrow> json_lib \<Rightarrow> files \<Rightarrow> string \<Rightarrow> record_batch \<Rightarrow> u64 res \<times> files" where
  "append_file os lib fs path b =
     (if batch_is_empty b then (Ok 0, fs)
      else
        (case make_parent os fs path of
           Err e \<Rightarrow> (Err e, fs)
         | Panic m \<Rightarrow> (Panic m, fs)
         | Ok _ \<Rightarrow> write_text os fs path (unwrap_or (fs path) [])
             (concat (map (record_line lib (batch_schema b)) (batch_records b)))))"

definition write_destination_blocking ::
  "os_lib \<Rightarrow> files \<Rightarrow> destination \<Rightarrow> record_batch \<Rightarrow> u64 res \<times> files" where
  "write_destination_blocking os fs dest b =
     (case dest of
        DestFile path \<Rightarrow> write_file os fs path b
      | DestS3 key bucket \<Rightarrow>
          (Err (ErrStorage ''append_destination: S3 destinations don't support live append''), fs))"

definition append_destination ::
  "os_lib \<Rightarrow> json_lib \<Rightarrow> files \<Rightarrow> destination \<Rightarrow> record_batch \<Rightarrow> u64 res \<times> files" where
  "append_destination os lib fs dest b =
     (case dest of
        DestFile path \<Rightarrow> append_file os lib fs path b
      | DestS3 key bucket \<Rightarrow> write_destination_blocking os fs dest b)"

definition or_env_bucket :: "env_vars \<Rightarrow> string option \<Rightarrow> string option" where
  "or_env_bucket env bucket = (case bucket of Some b \<Rightarrow> Some b | None \<Rightarrow> env ''AWS_S3_BUCKET'')"

definition sink_s3_config :: "env_vars \<Rightarrow> string \<Rightarrow> s3_config" where
  "sink_s3_config env bucket =
     \<lparr>s3_endpoint = env ''AWS_ENDPOINT_URL_S3'',
      s3_region = unwrap_or (env ''AWS_REGION'') ''us-east-1'',
      s3_bucket = bucket,
      s3_access_key = env ''AWS_ACCESS_KEY_ID'',
      s3_secret_key = env ''AWS_SECRET_ACCESS_KEY''\<rparr>"

definition write_s3 ::
  "s3_lib \<Rightarrow> csv_writer \<Rightarrow> json_lib \<Rightarrow> env_vars \<Rightarrow> objects \<Rightarrow> string \<Rightarrow> string option \<Rightarrow> record_batch \<Rightarrow>
   u64 res \<times> objects" where
  "write_s3 s3 wtr jlib env obs key bucket b =
     (case and_then (ok_or (or_env_bucket env bucket)
              (ErrStorage ''s3 destination requires AWS_S3_BUCKET or explicit bucket''))
            (\<lambda>name. and_then (render_table b) (\<lambda>text. Ok (name, text))) of
        Err e \<Rightarrow> (Err e, obs)
      | Panic m \<Rightarrow> (Panic m, obs)
      | Ok (name, text) \<Rightarrow>
          (case s3_write s3 wtr jlib (sink_s3_config env name) obs b key ''csv'' of
             (Ok _, obs) \<Rightarrow> (Ok (word_of_nat (length text)), obs)
           | (Err e, obs) \<Rightarrow> (Err e, obs)
           | (Panic m, obs) \<Rightarrow> (Panic m, obs)))"

definition describe :: "env_vars \<Rightarrow> destination \<Rightarrow> string" where
  "describe env dest =
     (case dest of
        DestFile path \<Rightarrow> ''file://'' @ path
      | DestS3 key bucket \<Rightarrow>
          ''s3://'' @ unwrap_or (or_env_bucket env bucket) ''<no-bucket>'' @ ''/'' @ key)"

section \<open>The runner\<close>

text \<open>The methods of \<^verbatim>\<open>dyn Catalog\<close> that the runner calls, over the state of the implementation.\<close>

record 'c dyn_catalog =
  dc_view :: "'c \<Rightarrow> catalog"
  dc_register_with_kind :: "'c \<Rightarrow> string \<Rightarrow> string \<Rightarrow> string \<Rightarrow> schema \<Rightarrow> table_kind \<Rightarrow> 'c res"

definition session_dyn :: "session_state dyn_catalog" where
  "session_dyn = \<lparr>dc_view = session_catalog, dc_register_with_kind = register_with_kind\<rparr>"

text \<open>The empty catalog of the pipeline binary inherits the trait's refusing registration.\<close>

definition empty_catalog :: "unit dyn_catalog" where
  "empty_catalog =
     \<lparr>dc_view = (\<lambda>_. \<lparr>cat_table_schema = (\<lambda>_. Err (ErrNotFound ''no tables'')),
                     cat_table_location = (\<lambda>_. Err (ErrNotFound ''no tables''))\<rparr>),
      dc_register_with_kind = (\<lambda>_ _ _ _ _ _.
        Err (ErrInvalidState ''catalog does not support register_with_kind''))\<rparr>"

record run_stats =
  stat_flow :: string
  stat_kind :: flow_kind
  stat_refresh :: refresh
  stat_duration_ms :: nat
  stat_row_count :: nat
  stat_destination :: string

record run_report =
  report_pipeline :: string
  report_started_at :: string
  report_duration_ms :: nat
  report_flows :: "run_stats list"
  report_errors :: "string list"

text \<open>
  A runner: its catalog, the context its executor uses in a given world, and the parameters of
  the code it calls. \<open>rn_interfere name i\<close> is what others do to the files before the \<open>i\<close>-th poll of
  a live flow, \<open>rn_kafka name i\<close> what Kafka delivers to that poll, \<open>rn_millis\<close> the time a flow takes.
\<close>

record 'c runner =
  rn_catalog :: "'c dyn_catalog"
  rn_context :: "world \<Rightarrow> execution_context"
  rn_stream :: stream_lib
  rn_rx :: regex_lib
  rn_sql :: sql_lib
  rn_csv_writer :: csv_writer
  rn_s3 :: s3_lib
  rn_env :: env_vars
  rn_interfere :: "string \<Rightarrow> nat \<Rightarrow> files \<Rightarrow> files"
  rn_kafka :: "string \<Rightarrow> nat \<Rightarrow> nat \<Rightarrow> kafka_event"
  rn_millis :: "string \<Rightarrow> nat"

record 'c run_state =
  rs_world :: world
  rs_catalog :: 'c
  rs_progress :: "nat list"

definition write_destination ::
  "'c runner \<Rightarrow> world \<Rightarrow> destination \<Rightarrow> record_batch \<Rightarrow> u64 res \<times> world" where
  "write_destination rn w dest b =
     (case dest of
        DestFile path \<Rightarrow>
          (let (r, fs) = write_file (sl_os (rn_stream rn)) (w_files w) path b in (r, w\<lparr>w_files := fs\<rparr>))
      | DestS3 key bucket \<Rightarrow>
          (let (r, obs) = write_s3 (rn_s3 rn) (rn_csv_writer rn) (sl_json (rn_stream rn)) (rn_env rn)
                 (w_objects w) key bucket b
           in (r, w\<lparr>w_objects := obs\<rparr>)))"

definition is_live :: "flow \<Rightarrow> bool" where
  "is_live f = (case flow_refresh f of RfLive ms \<Rightarrow> True | _ \<Rightarrow> False)"

definition execute_flow :: "'c runner \<Rightarrow> 'c run_state \<Rightarrow> flow \<Rightarrow> record_batch \<Rightarrow> record_batch res" where
  "execute_flow rn st f input =
     (if is_live f then Ok input
      else and_then (plan_sql (rn_sql rn) (dc_view (rn_catalog rn) (rs_catalog st)) (flow_query f)) (\<lambda>p.
        let ctx = rn_context rn (rs_world st)
        in if flow_kind f = FkStreamingTable then execute_with_input (rn_rx rn) ctx p input
           else execute (rn_rx rn) ctx p))"

definition output_location :: "env_vars \<Rightarrow> destination \<Rightarrow> string \<times> string" where
  "output_location env dest =
     (case dest of
        DestFile path \<Rightarrow> (path, ''csv'')
      | DestS3 key bucket \<Rightarrow>
          (''s3://'' @ unwrap_or (or_env_bucket env bucket) ''<no-bucket>'' @ ''/'' @ key, ''s3_csv''))"

definition table_kind_of :: "flow_kind \<Rightarrow> table_kind" where
  "table_kind_of k = (case k of FkStreamingTable \<Rightarrow> StreamingTable | FkMaterializedView \<Rightarrow> MaterializedView)"

definition register_flow_output :: "'c runner \<Rightarrow> 'c \<Rightarrow> flow \<Rightarrow> record_batch \<Rightarrow> 'c res" where
  "register_flow_output rn cat f output =
     (let (path, source) = output_location (rn_env rn) (flow_destination f)
      in dc_register_with_kind (rn_catalog rn) cat (flow_name f) path source (batch_schema output)
           (table_kind_of (flow_kind f)))"

text \<open>Sequencing of fallible steps that change the state.\<close>

fun and_next :: "'a res \<times> 's \<Rightarrow> ('a \<Rightarrow> 's \<Rightarrow> 'b res \<times> 's) \<Rightarrow> 'b res \<times> 's" where
  "and_next (Ok x, s) f = f x s"
| "and_next (Err e, s) f = (Err e, s)"
| "and_next (Panic m, s) f = (Panic m, s)"

text \<open>A flow that is not live: poll, execute, write, commit, register.\<close>

definition run_batch_flow :: "'c runner \<Rightarrow> flow \<Rightarrow> 'c run_state \<Rightarrow> run_stats res \<times> 'c run_state" where
  "run_batch_flow rn f st =
     and_next (build_source (rn_stream rn) (w_files (rs_world st)) (flow_source f), st) (\<lambda>src st.
       let (polled, src) = poll_batch (rn_stream rn) (w_files (rs_world st)) (rn_kafka rn (flow_name f) 0) src
       in and_next (polled, st) (\<lambda>input st.
          and_next (execute_flow rn st f input, st) (\<lambda>output st.
          let (written, w) = write_destination rn (rs_world st) (flow_destination f) output
          in and_next (written, st\<lparr>rs_world := w\<rparr>) (\<lambda>bytes st.
             and_next (source_commit src, st) (\<lambda>_ st.
             let st = (case register_flow_output rn (rs_catalog st) f output of
                         Ok cat \<Rightarrow> st\<lparr>rs_catalog := cat\<rparr> | _ \<Rightarrow> st)
             in (Ok \<lparr>stat_flow = flow_name f, stat_kind = flow_kind f, stat_refresh = flow_refresh f,
                     stat_duration_ms = rn_millis rn (flow_name f), stat_row_count = batch_len output,
                     stat_destination = describe (rn_env rn) (flow_destination f)\<rparr>, st))))))"

section \<open>Live flows\<close>

record 'c live_state =
  lv_source :: streaming_source
  lv_registered :: bool
  lv_total_rows :: nat
  lv_run :: "'c run_state"

definition live_poll_ms :: "flow \<Rightarrow> u64" where
  "live_poll_ms f = (case flow_refresh f of RfLive ms \<Rightarrow> max ms 50 | _ \<Rightarrow> 500)"

text \<open>One turn of the loop: the next state of the loop, or the value the function returns.\<close>

definition live_append :: "'c runner \<Rightarrow> flow \<Rightarrow> record_batch \<Rightarrow> 'c live_state \<Rightarrow> 'c live_state res \<times> 'c run_state" where
  "live_append rn f batch lv =
     and_next (execute_flow rn (lv_run lv) f batch, lv_run lv) (\<lambda>output st.
       let (appended, fs) = append_destination (sl_os (rn_stream rn)) (sl_json (rn_stream rn))
             (w_files (rs_world st)) (flow_destination f) output
       in and_next (appended, st\<lparr>rs_world := (rs_world st)\<lparr>w_files := fs\<rparr>\<rparr>) (\<lambda>n st.
          let reg = (if lv_registered lv then Err (ErrInvalidState [])
                     else register_flow_output rn (rs_catalog st) f output);
              st = (case reg of Ok cat \<Rightarrow> st\<lparr>rs_catalog := cat\<rparr> | _ \<Rightarrow> st);
              st = (if 0 < n then st\<lparr>rs_progress := rs_progress st @ [batch_len output]\<rparr> else st)
          in (Ok (lv\<lparr>lv_registered := lv_registered lv \<or> is_ok reg,
                    lv_total_rows := lv_total_rows lv + batch_len output, lv_run := st\<rparr>), st)))"

definition live_step ::
  "'c runner \<Rightarrow> flow \<Rightarrow> nat \<Rightarrow> 'c live_state \<Rightarrow> 'c live_state + run_stats res \<times> 'c run_state" where
  "live_step rn f i lv =
     (let st = lv_run lv;
          fs = rn_interfere rn (flow_name f) i (w_files (rs_world st));
          st = st\<lparr>rs_world := (rs_world st)\<lparr>w_files := fs\<rparr>\<rparr>;
          (polled, src) = poll_batch (rn_stream rn) fs (rn_kafka rn (flow_name f) i) (lv_source lv);
          lv = lv\<lparr>lv_source := src, lv_run := st\<rparr>
      in case polled of
           Err e \<Rightarrow> Inr (Err e, st)
         | Panic m \<Rightarrow> Inr (Panic m, st)
         | Ok batch \<Rightarrow>
             if batch_is_empty batch then Inl lv
             else (case live_append rn f batch lv of
                     (Ok lv, _) \<Rightarrow> Inl lv
                   | (Err e, st) \<Rightarrow> Inr (Err e, st)
                   | (Panic m, st) \<Rightarrow> Inr (Panic m, st)))"

fun live_loop ::
  "'c runner \<Rightarrow> flow \<Rightarrow> nat \<Rightarrow> nat \<Rightarrow> 'c live_state \<Rightarrow> 'c live_state + run_stats res \<times> 'c run_state" where
  "live_loop rn f i 0 lv = Inl lv"
| "live_loop rn f i (Suc fuel) lv =
     (case live_step rn f i lv of
        Inl lv \<Rightarrow> live_loop rn f (Suc i) fuel lv
      | Inr returned \<Rightarrow> Inr returned)"

definition live_start :: "'c run_state \<Rightarrow> streaming_source \<Rightarrow> 'c live_state" where
  "live_start st src = \<lparr>lv_source = src, lv_registered = False, lv_total_rows = 0, lv_run = st\<rparr>"

definition run_live_streaming ::
  "'c runner \<Rightarrow> nat \<Rightarrow> flow \<Rightarrow> 'c run_state \<Rightarrow> (run_stats res \<times> 'c run_state) option" where
  "run_live_streaming rn fuel f st =
     (case build_source (rn_stream rn) (w_files (rs_world st)) (flow_source f) of
        Err e \<Rightarrow> Some (Err e, st)
      | Panic m \<Rightarrow> Some (Panic m, st)
      | Ok src \<Rightarrow>
          (case live_loop rn f 0 fuel (live_start st src) of
             Inl lv \<Rightarrow> None
           | Inr returned \<Rightarrow> Some returned))"

section \<open>Running a pipeline\<close>

definition run_one ::
  "'c runner \<Rightarrow> nat \<Rightarrow> flow \<Rightarrow> 'c run_state \<Rightarrow> (run_stats res \<times> 'c run_state) option" where
  "run_one rn fuel f st =
     (if is_live f then run_live_streaming rn fuel f st else Some (run_batch_flow rn f st))"

definition flow_failed :: "flow \<Rightarrow> error \<Rightarrow> string" where
  "flow_failed f e = ''flow '' @ squote (flow_name f) @ '' failed: '' @ show_error e"

fun run_flows ::
  "'c runner \<Rightarrow> nat \<Rightarrow> flow list \<Rightarrow> run_report \<Rightarrow> 'c run_state \<Rightarrow> (run_report res \<times> 'c run_state) option"
where
  "run_flows rn fuel [] report st = Some (Ok report, st)"
| "run_flows rn fuel (f # fs) report st =
     (case run_one rn fuel f st of
        None \<Rightarrow> None
      | Some (Ok stats, st) \<Rightarrow>
          run_flows rn fuel fs (report\<lparr>report_flows := report_flows report @ [stats]\<rparr>) st
      | Some (Err e, st) \<Rightarrow>
          run_flows rn fuel fs (report\<lparr>report_errors := report_errors report @ [flow_failed f e]\<rparr>) st
      | Some (Panic m, st) \<Rightarrow> Some (Panic m, st))"

definition flow_at :: "'g pipeline_dag \<Rightarrow> pipeline \<Rightarrow> nat \<Rightarrow> flow option" where
  "flow_at dag p n = find (\<lambda>f. name_index dag (flow_name f) = Some n) (flows p)"

definition scheduled :: "'g pipeline_dag \<Rightarrow> pipeline \<Rightarrow> nat list list \<Rightarrow> flow list" where
  "scheduled dag p ls = List.map_filter (flow_at dag p) (concat ls)"

definition run_pipeline ::
  "'g petgraph \<Rightarrow> (nat \<Rightarrow> nat \<Rightarrow> nat) \<Rightarrow> 'c runner \<Rightarrow> nat \<Rightarrow> pipeline \<Rightarrow> string \<Rightarrow> nat \<Rightarrow> 'c run_state \<Rightarrow>
   (run_report res \<times> 'c run_state) option" where
  "run_pipeline lib rank rn fuel p now elapsed st =
     (case and_then (from_pipeline lib p) (\<lambda>dag.
             and_then (layers lib rank dag) (\<lambda>ls. Ok (scheduled dag p ls))) of
        Err e \<Rightarrow> Some (Err (spec_to_error e), st)
      | Panic m \<Rightarrow> Some (Panic m, st)
      | Ok fs \<Rightarrow>
          (case run_flows rn fuel fs
                  \<lparr>report_pipeline = pipeline_name p, report_started_at = now, report_duration_ms = 0,
                   report_flows = [], report_errors = []\<rparr> st of
             Some (Ok report, st) \<Rightarrow> Some (Ok (report\<lparr>report_duration_ms := elapsed\<rparr>), st)
           | other \<Rightarrow> other))"

end
