(* ===== verification/Pipeline_Laws.thy ===== *)
theory Pipeline_Laws
  imports Pipeline_Dag_Laws Pipeline_Runner Executor_Laws "HOL-Library.Sublist"
begin

text \<open>
  The runner: the schedule it derives from the layers, when a run returns and what its report
  accounts for, what a live flow does to its destination, and what the streaming sources yield.
\<close>

section \<open>The schedule\<close>

lemma flow_at_distinct:
  assumes "distinct (map flow_name (flows p))" "name_index dag = node_of p" "n < length (flows p)"
  shows "flow_at dag p n = Some (flows p ! n)"
proof -
  have at: "node_of p (flow_name (flows p ! i)) = Some i" if "i < length (flows p)" for i
    using last_index_distinct [OF assms(1), of i] that by simp
  show ?thesis
    unfolding flow_at_def assms(2) find_Some_iff
    using assms(3) at by (intro exI [of _ n]) auto
qed

lemma scheduled_eq:
  assumes "petgraph_ok lib" "from_pipeline lib p = Ok dag" "distinct (map flow_name (flows p))"
    and "set (concat ls) \<subseteq> {..<length (flows p)}"
  shows "scheduled dag p ls = map ((!) (flows p)) (concat ls)"
proof -
  have "flow_at dag p n = Some (flows p ! n)" if "n \<in> set (concat ls)" for n
    using flow_at_distinct [OF assms(3) from_pipeline_Ok(1) [OF assms(1,2)]] assms(4) that by auto
  then have "List.map_filter (flow_at dag p) ns = map ((!) (flows p)) ns" if "set ns \<subseteq> set (concat ls)" for ns
    using that by (induction ns) (auto simp: List.map_filter_def)
  then show ?thesis by (simp add: scheduled_def)
qed

lemma mset_nth_permutation:
  assumes "distinct ns" "set ns = {..<length xs}"
  shows "mset (map ((!) xs) ns) = mset xs"
proof -
  have "mset ns = mset [0..<length xs]"
    using assms by (metis atLeast0LessThan distinct_upt mset_set_set set_upt)
  then show ?thesis by (metis map_nth mset_map)
qed

lemma prefix_before: "xs @ ys = us @ b # vs \<Longrightarrow> b \<notin> set xs \<Longrightarrow> \<exists>zs. us = xs @ zs"
  by (induction xs arbitrary: us) (auto simp: Cons_eq_append_conv)

lemma layered_prefix:
  assumes "layered E ls" "distinct (concat ls)" "(a, b) \<in> E" "a \<in> set (concat ls)"
    and "concat ls = us @ b # vs"
  shows "a \<in> set us"
proof -
  obtain i j where ij: "i < j" "j < length ls" "a \<in> set (ls ! i)" "b \<in> set (ls ! j)"
    using layered_order [OF assms(1,3,4)] assms(5) by auto
  have split: "concat ls = concat (take j ls) @ concat (drop j ls)"
    by (metis append_take_drop_id concat_append)
  have a: "a \<in> set (concat (take j ls))"
  proof -
    have "take j ls ! i \<in> set (take j ls)" using ij(1,2) by (intro nth_mem) simp
    then show ?thesis using ij(1,3) by auto
  qed
  have "b \<in> set (concat (drop j ls))"
    using ij(4) Cons_nth_drop_Suc [OF ij(2)] by (metis Un_iff concat.simps(2) set_append)
  then have "b \<notin> set (concat (take j ls))" using assms(2) split by auto
  then obtain zs where "us = concat (take j ls) @ zs"
    using prefix_before [of "concat (take j ls)" "concat (drop j ls)"] assms(5) split by metis
  then show ?thesis using a by simp
qed

text \<open>The flows the runner visits: each once, after the flows it depends on.\<close>

lemma schedule_order:
  assumes lib: "petgraph_ok lib" and dag: "from_pipeline lib p = Ok dag"
    and names: "distinct (map flow_name (flows p))"
  shows "\<exists>ls. layers lib rank dag = Ok ls \<and> mset (scheduled dag p ls) = mset (flows p) \<and>
    (\<forall>us f vs. scheduled dag p ls = us @ f # vs \<longrightarrow> set (depends_on f) \<subseteq> flow_name ` set us)"
proof -
  obtain ls where ls: "layers lib rank dag = Ok ls" "distinct (concat ls)"
      "set (concat ls) = {..<length (flows p)}" "layered (set (pg_edges lib (graph dag))) ls"
    using layers_complete [OF lib dag] by blast
  have sched: "scheduled dag p ls = map ((!) (flows p)) (concat ls)"
    using scheduled_eq [OF lib dag names] ls(3) by simp
  have node: "node_of p (flow_name (flows p ! n)) = Some n" if "n < length (flows p)" for n
    using last_index_distinct [OF names, of n] that by simp
  have "d \<in> flow_name ` set us" if eq: "scheduled dag p ls = us @ f # vs" and d: "d \<in> set (depends_on f)"
    for us f vs d
  proof -
    obtain as b bs where ab: "concat ls = as @ b # bs" "us = map ((!) (flows p)) as" "f = flows p ! b"
      using eq unfolding sched by (auto simp: map_eq_append_conv)
    have b: "b < length (flows p)" using ls(3) ab(1) by (metis in_set_conv_decomp lessThan_iff)
    have "f \<in> set (flows p)" using ab(3) b by simp
    then obtain e where e: "e \<in> set (flows p)" "flow_name e = d"
      using from_pipeline_Ok(5) [OF lib dag] d by (force simp: all_declared_def)
    then obtain a where a: "a < length (flows p)" "flow_name (flows p ! a) = d"
      by (metis in_set_conv_nth)
    have "(d, flow_name f) \<in> dependency p"
      using \<open>f \<in> set (flows p)\<close> d by (auto simp: dependency_def)
    then have "(a, b) \<in> set (pg_edges lib (graph dag))"
      unfolding from_pipeline_Ok(3) [OF lib dag]
      using node [OF a(1)] node [OF b] a(2) ab(3) by (force simp: map_prod_def)
    then have "a \<in> set as" using layered_prefix [OF ls(4,2)] ls(3) a(1) ab(1) by blast
    then show ?thesis using a(2) ab(2) by force
  qed
  moreover have "mset (scheduled dag p ls) = mset (flows p)"
    unfolding sched by (rule mset_nth_permutation [OF ls(2,3)])
  ultimately show ?thesis using ls(1) by blast
qed

section \<open>Runs that return\<close>

lemma and_next_Ok [outcome_simps]:
  "and_next p f = (Ok y, t) \<longleftrightarrow> (\<exists>x s. p = (Ok x, s) \<and> f x s = (Ok y, t))"
  by (cases "(p, f)" rule: and_next.cases) auto

text \<open>A flow that succeeds has polled, executed and written one batch, and reports its size.\<close>

lemma run_batch_flow_Ok:
  assumes "run_batch_flow rn f st = (Ok stats, st')"
  obtains src input src' out bytes w where
    "build_source (rn_stream rn) (w_files (rs_world st)) (flow_source f) = Ok src"
    "poll_batch (rn_stream rn) (w_files (rs_world st)) (rn_kafka rn (flow_name f) 0) src = (Ok input, src')"
    "execute_flow rn st f input = Ok out"
    "write_destination rn (rs_world st) (flow_destination f) out = (Ok bytes, w)"
    "stat_flow stats = flow_name f" "stat_row_count stats = batch_len out"
    "rs_world st' = w" "rs_progress st' = rs_progress st"
    "rs_catalog st' = (case register_flow_output rn (rs_catalog st) f out of
       Ok cat \<Rightarrow> cat | _ \<Rightarrow> rs_catalog st)"
proof -
  from assms obtain src where src: "build_source (rn_stream rn) (w_files (rs_world st)) (flow_source f) = Ok src"
    unfolding run_batch_flow_def and_next_Ok by blast
  obtain r src' where poll: "poll_batch (rn_stream rn) (w_files (rs_world st)) (rn_kafka rn (flow_name f) 0) src = (r, src')"
    by fastforce
  from assms obtain input out where run: "r = Ok input" "execute_flow rn st f input = Ok out"
    unfolding run_batch_flow_def src and_next.simps poll Let_def prod.case and_next_Ok by blast
  obtain wr w where written: "write_destination rn (rs_world st) (flow_destination f) out = (wr, w)" by fastforce
  from assms obtain bytes where "wr = Ok bytes"
    unfolding run_batch_flow_def src and_next.simps poll Let_def prod.case run written and_next_Ok by blast
  with assms src poll run written show thesis
    by (intro that [of src input src' out bytes w])
      (auto simp: run_batch_flow_def Let_def source_commit_def split: result.splits)
qed

text \<open>What a run reports: one entry per flow it visits, in order.\<close>

lemma run_flows_returns:
  assumes "\<forall>f \<in> set fs. \<not> is_live f"
  shows "\<exists>r st'. run_flows rn fuel fs rep st = Some (r, st') \<and>
    ((\<exists>m. r = Panic m) \<or>
     (\<exists>rep' gs. r = Ok rep' \<and> subseq gs fs \<and>
        map stat_flow (report_flows rep') = map stat_flow (report_flows rep) @ map flow_name gs \<and>
        length (report_errors rep') + length gs = length (report_errors rep) + length fs))"
  using assms
proof (induction fs arbitrary: rep st)
  case (Cons f fs)
  then have live: "\<not> is_live f" "\<forall>f \<in> set fs. \<not> is_live f" by auto
  obtain r st' where one: "run_batch_flow rn f st = (r, st')" by fastforce
  show ?case
  proof (cases r)
    case (Ok stats)
    then have name: "stat_flow stats = flow_name f" using one by (auto elim: run_batch_flow_Ok)
    from Cons.IH [OF live(2), of "rep\<lparr>report_flows := report_flows rep @ [stats]\<rparr>" st']
    show ?thesis using live(1) one Ok name
      by (auto simp: run_one_def) (metis append_Cons append_Nil append_assoc list.simps(9) subseq_Cons2 add_Suc_right length_Cons)
  next
    case (Err e)
    from Cons.IH [OF live(2), of "rep\<lparr>report_errors := report_errors rep @ [flow_failed f e]\<rparr>" st']
    show ?thesis using live(1) one Err by (auto simp: run_one_def) (metis list_emb_Cons)
  next
    case (Panic m)
    then show ?thesis using live(1) one by (auto simp: run_one_def)
  qed
qed simp

section \<open>Streaming sources\<close>

text \<open>Decoded objects always form a valid batch: one string-typed nullable column per key.\<close>

lemma set_foldl_add_key: "set (foldl add_key ks xs) = set ks \<union> set xs"
  by (induction xs arbitrary: ks) (auto simp: add_key_def)

lemma distinct_foldl_add_key: "distinct ks \<Longrightarrow> distinct (foldl add_key ks xs)"
  by (induction xs arbitrary: ks) (auto simp: add_key_def)

lemma key_order_set: "set (key_order lib rows) = (\<Union>r \<in> set rows. fst ` set r)"
proof -
  have "set (foldl (\<lambda>ks (i, r). foldl add_key ks (object_keys lib i r)) ks (enumerate n rows)) =
      set ks \<union> (\<Union>r \<in> set rows. fst ` set r)" for ks n
    by (induction rows arbitrary: ks n) (auto simp: set_foldl_add_key object_keys_def)
  from this [of "[]" 0] show ?thesis by (simp add: key_order_def)
qed

lemma key_order_distinct: "distinct (key_order lib rows)"
proof -
  have "distinct ks \<Longrightarrow> distinct (foldl (\<lambda>ks (i, r). foldl add_key ks (object_keys lib i r)) ks (enumerate n rows))"
    for ks n
    by (induction rows arbitrary: ks n) (auto simp: distinct_foldl_add_key)
  from this [of "[]" 0] show ?thesis by (simp add: key_order_def)
qed

definition json_cell :: "stream_lib \<Rightarrow> json_object \<Rightarrow> string \<Rightarrow> val" where
  "json_cell lib r k =
     (case row_get r k of Some v \<Rightarrow> json_value_to_rspark (sl_json lib) v | None \<Rightarrow> VNull)"

lemma ndjson_rows_to_batch_Ok:
  "ndjson_rows_to_batch lib rows =
     Ok \<lparr>batch_schema = schema_new (map (\<lambda>k. field_new k TString) (key_order lib rows)),
        batch_records = map (\<lambda>r. record_new (map (json_cell lib r) (key_order lib rows))) rows\<rparr>"
  unfolding ndjson_rows_to_batch_def Let_def from_records_Ok_iff
  by (auto simp: row_ok_def record_new_def schema_new_def field_new_def json_cell_def)

lemma kafka_poll_Ok: "\<exists>b. kafka_poll lib ev = Ok b"
  by (auto simp: kafka_poll_def ndjson_rows_to_batch_Ok Let_def)

lemma kafka_drain_bound: "length (kafka_drain lib ev i n rows) \<le> length rows + n"
proof (induction n arbitrary: i rows)
  case (Suc n)
  have "length (kafka_drain lib ev (Suc i) n rows) \<le> Suc (length rows + n)"
    "length (kafka_drain lib ev (Suc i) n (rows @ [r])) \<le> Suc (length rows + n)" for r
    using Suc [of "Suc i" rows] Suc [of "Suc i" "rows @ [r]"] by auto
  then show ?case by (auto split: kafka_event.splits option.splits sum.splits json.splits)
qed simp

text \<open>Polling a source again and again while the files stay as they are.\<close>

primrec poll_times ::
  "nat \<Rightarrow> stream_lib \<Rightarrow> files \<Rightarrow> (nat \<Rightarrow> kafka_event) \<Rightarrow> streaming_source \<Rightarrow> record_batch res list" where
  "poll_times 0 lib fs ev src = []"
| "poll_times (Suc n) lib fs ev src =
     (let (r, src) = poll_batch lib fs ev src in r # poll_times n lib fs ev src)"

lemma find_unseen:
  assumes "distinct (xs @ y # ys)"
  shows "find (\<lambda>n. n \<notin> set xs) (xs @ y # ys) = Some y"
proof -
  have "set zs \<subseteq> A \<Longrightarrow> y \<notin> A \<Longrightarrow> find (\<lambda>n. n \<notin> A) (zs @ y # ys) = Some y" for zs A
    by (induction zs) auto
  then show ?thesis using assms by simp
qed

lemma file_tail_polls:
  assumes "sl_read_dir lib fs dir = Inr es" "distinct (tail_names es)"
    and "\<forall>n \<in> set (tail_names es). valid_utf8 n \<and> read_ndjson lib fs (path_join dir n) = Ok (B n)"
    and "tail_names es = xs @ ys"
  shows "poll_times (length ys + k) lib fs ev (FileTailSource dir (set xs)) =
    map (\<lambda>n. Ok (B n)) ys @ replicate k (Ok (batch_new schema_empty))"
  using assms(4)
proof (induction ys arbitrary: xs)
  case Nil
  have "find (\<lambda>n. unwrap_or (name_text n) [] \<notin> set xs) xs = None"
    using Nil assms(3) by (auto simp: find_None_iff name_text_def unwrap_or_def)
  then have "poll_batch lib fs ev (FileTailSource dir (set xs)) =
      (Ok (batch_new schema_empty), FileTailSource dir (set xs))"
    using Nil assms(1) by (simp add: file_tail_poll_def next_unseen_def)
  then show ?case by (induction k) (simp_all add: Let_def)
next
  case (Cons y ys)
  have "find (\<lambda>n. unwrap_or (name_text n) [] \<notin> set xs) (tail_names es) = find (\<lambda>n. n \<notin> set xs) (tail_names es)"
    using assms(3) by (intro find_cong refl) (auto simp: name_text_def unwrap_or_def)
  then have "next_unseen lib fs dir (set xs) = Ok (Some y)"
    using find_unseen [of xs y ys] assms(1,2) Cons.prems by (simp add: next_unseen_def)
  moreover have "valid_utf8 y" "read_ndjson lib fs (path_join dir y) = Ok (B y)"
    using assms(3) Cons.prems by auto
  ultimately have "poll_batch lib fs ev (FileTailSource dir (set xs)) =
      (Ok (B y), FileTailSource dir (set (xs @ [y])))"
    by (simp add: file_tail_poll_def name_text_def)
  then show ?case using Cons.IH [of "xs @ [y]"] Cons.prems by simp
qed

section \<open>Live flows\<close>

text \<open>The loop of a live flow is left by an error or a panic only.\<close>

lemma live_step_returns: "live_step rn f i lv = Inr (r, st) \<Longrightarrow> \<not> is_ok r"
  by (auto simp: live_step_def Let_def split: prod.splits result.splits if_splits)

lemma live_loop_returns: "live_loop rn f i n lv = Inr (r, st) \<Longrightarrow> \<not> is_ok r"
  by (induction n arbitrary: i lv) (auto dest: live_step_returns split: sum.splits)

lemma run_live_not_Ok: "is_live f \<Longrightarrow> run_one rn fuel f st = Some (r, st') \<Longrightarrow> \<not> is_ok r"
  by (auto simp: run_one_def run_live_streaming_def dest: live_loop_returns split: result.splits sum.splits)

definition batch_text :: "json_lib \<Rightarrow> record_batch \<Rightarrow> string" where
  "batch_text lib b = concat (map (record_line lib (batch_schema b)) (batch_records b))"

text \<open>The batch the \<open>i\<close>-th poll of a flow receives from Kafka.\<close>

definition kafka_batch :: "'c runner \<Rightarrow> flow \<Rightarrow> nat \<Rightarrow> record_batch" where
  "kafka_batch rn f i =
     (case kafka_poll (rn_stream rn) (rn_kafka rn (flow_name f) i) of
        Ok b \<Rightarrow> b | _ \<Rightarrow> batch_new schema_empty)"

lemma kafka_batch_poll:
  "kafka_poll (rn_stream rn) (rn_kafka rn (flow_name f) i) = Ok (kafka_batch rn f i)"
  using kafka_poll_Ok [of "rn_stream rn" "rn_kafka rn (flow_name f) i"] by (auto simp: kafka_batch_def)

text \<open>A live flow from Kafka to a file that can be written and that nobody else changes.\<close>

definition live_to_file :: "'c runner \<Rightarrow> flow \<Rightarrow> string \<Rightarrow> bool" where
  "live_to_file rn f path \<longleftrightarrow> is_live f \<and> flow_destination f = DestFile path \<and>
     (\<exists>t b g. flow_source f = SrcKafka t b g \<and> kafka_new (rn_stream rn) t b g = Ok (KafkaSource t b g)) \<and>
     os_ok (sl_os (rn_stream rn)) \<and> (\<forall>i fs. rn_interfere rn (flow_name f) i fs path = fs path)"

definition file_text :: "'c live_state \<Rightarrow> string \<Rightarrow> string" where
  "file_text lv path = unwrap_or (w_files (rs_world (lv_run lv)) path) []"

lemma append_file_ok:
  assumes "os_ok os"
  shows "\<exists>n fs'. append_file os lib fs path b = (Ok n, fs') \<and>
    unwrap_or (fs' path) [] = unwrap_or (fs path) [] @ batch_text lib b"
proof (cases "batch_is_empty b")
  case True
  then show ?thesis by (simp add: append_file_def batch_text_def batch_is_empty_def)
next
  case False
  have "make_parent os fs path = Ok ()"
    using assms by (auto simp: make_parent_def os_ok_def split: option.splits)
  then show ?thesis using assms False
    by (simp add: append_file_def write_text_def write_all_def os_ok_def batch_text_def unwrap_or_def)
qed

lemma live_step_file:
  assumes "live_to_file rn f path" "lv_source lv = KafkaSource t b g"
  shows "\<exists>lv'. live_step rn f i lv = Inl lv' \<and> lv_source lv' = KafkaSource t b g \<and>
    file_text lv' path = file_text lv path @ batch_text (sl_json (rn_stream rn)) (kafka_batch rn f i) \<and>
    lv_total_rows lv' = lv_total_rows lv + batch_len (kafka_batch rn f i)"
proof -
  let ?b = "kafka_batch rn f i"
  let ?fs = "rn_interfere rn (flow_name f) i (w_files (rs_world (lv_run lv)))"
  have os: "os_ok (sl_os (rn_stream rn))" and live: "is_live f" and dest: "flow_destination f = DestFile path"
    and keep: "?fs path = w_files (rs_world (lv_run lv)) path"
    using assms(1) by (auto simp: live_to_file_def)
  show ?thesis
  proof (cases "batch_is_empty ?b")
    case True
    then show ?thesis using assms(2) keep
      by (simp add: live_step_def Let_def kafka_batch_poll file_text_def batch_text_def
          batch_is_empty_def batch_len_def)
  next
    case False
    obtain n fs' where app: "append_file (sl_os (rn_stream rn)) (sl_json (rn_stream rn)) ?fs path ?b = (Ok n, fs')"
      "unwrap_or (fs' path) [] = unwrap_or (?fs path) [] @ batch_text (sl_json (rn_stream rn)) ?b"
      using append_file_ok [OF os] by blast
    then show ?thesis using False assms(2) keep live
      by (auto simp: live_step_def live_append_def Let_def kafka_batch_poll execute_flow_def dest
          append_destination_def file_text_def split: result.splits)
  qed
qed

lemma live_loop_file:
  assumes "live_to_file rn f path" "lv_source lv = KafkaSource t b g"
  shows "\<exists>lv'. live_loop rn f i n lv = Inl lv' \<and> lv_source lv' = KafkaSource t b g \<and>
    file_text lv' path = file_text lv path @
      concat (map (\<lambda>k. batch_text (sl_json (rn_stream rn)) (kafka_batch rn f k)) [i..<i + n]) \<and>
    lv_total_rows lv' = lv_total_rows lv + sum_list (map (\<lambda>k. batch_len (kafka_batch rn f k)) [i..<i + n])"
  using assms(2)
proof (induction n arbitrary: i lv)
  case (Suc n)
  from live_step_file [OF assms(1) Suc.prems, of i] obtain lv1 where lv1:
    "live_step rn f i lv = Inl lv1" "lv_source lv1 = KafkaSource t b g"
    "file_text lv1 path = file_text lv path @ batch_text (sl_json (rn_stream rn)) (kafka_batch rn f i)"
    "lv_total_rows lv1 = lv_total_rows lv + batch_len (kafka_batch rn f i)" by blast
  have upt: "[i..<i + Suc n] = i # [Suc i..<Suc i + n]" by (simp add: upt_conv_Cons)
  show ?case using Suc.IH [OF lv1(2), of "Suc i"] lv1 unfolding upt by auto
qed simp

lemma run_live_file_running: "live_to_file rn f path \<Longrightarrow> run_one rn fuel f st = None"
proof -
  assume live: "live_to_file rn f path"
  then obtain t b g where "build_source (rn_stream rn) fs (flow_source f) = Ok (KafkaSource t b g)" for fs
    by (auto simp: live_to_file_def build_source_def)
  then show ?thesis
    using live live_loop_file [OF live, of "live_start st (KafkaSource t b g)" t b g 0 fuel]
    by (auto simp: run_one_def run_live_streaming_def live_to_file_def live_start_def)
qed

lemma run_flows_live_running:
  assumes "live_to_file rn f path" "f \<in> set fs"
  shows "(\<exists>m st'. run_flows rn fuel fs rep st = Some (Panic m, st')) \<or> run_flows rn fuel fs rep st = None"
  using assms(2)
proof (induction fs arbitrary: rep st)
  case (Cons g fs)
  show ?case
  proof (cases "g = f")
    case True
    then show ?thesis using run_live_file_running [OF assms(1)] by simp
  next
    case False
    then have "f \<in> set fs" using Cons.prems by simp
    from Cons.IH [OF this] show ?thesis by (auto split: option.splits result.splits)
  qed
qed simp

end
