(* ===== verification/Pipeline_Interfaces.thy ===== *)
theory Pipeline_Interfaces
  imports Pipeline_Laws Sql_Laws
begin

text \<open>
  The interfaces the pipeline runner is written against: a streaming source, of which it needs
  that every poll yields a valid batch or an error, and a catalog, in which it registers what a
  flow has written so that later flows can read it.
\<close>

section \<open>Streaming sources\<close>

text \<open>Polling a source again and again, each time in the environment of that moment.\<close>

fun polls :: "('e \<Rightarrow> 's \<Rightarrow> 'b \<times> 's) \<Rightarrow> 'e list \<Rightarrow> 's \<Rightarrow> 'b list" where
  "polls poll [] s = []"
| "polls poll (e # es) s = (let (r, s) = poll e s in r # polls poll es s)"

locale batch_stream =
  fixes poll :: "'e \<Rightarrow> 's \<Rightarrow> record_batch res \<times> 's"
    and invar :: "'s \<Rightarrow> bool"
  assumes poll_valid: "invar s \<Longrightarrow> fst (poll e s) = Ok b \<Longrightarrow> batch_ok b"
    and poll_total: "invar s \<Longrightarrow> \<not> panics (fst (poll e s))"
    and poll_invar: "invar s \<Longrightarrow> invar (snd (poll e s))"
begin

lemma polls_valid:
  assumes "invar s" "r \<in> set (polls poll es s)"
  shows "\<not> panics r \<and> (\<forall>b. r = Ok b \<longrightarrow> batch_ok b)"
  using assms
proof (induction es arbitrary: s)
  case (Cons e es)
  then show ?case
    using poll_valid [of s e] poll_total [of s e] poll_invar [of s e] by (auto simp: split_def Let_def)
qed simp

end

text \<open>The batch a one-shot source still holds is valid; the other sources hold none.\<close>

fun source_ok :: "streaming_source \<Rightarrow> bool" where
  "source_ok (OneShotSource (Some b)) = batch_ok b"
| "source_ok _ = True"

lemma ndjson_batch_ok: "ndjson_rows_to_batch lib rows = Ok b \<Longrightarrow> batch_ok b"
  by (auto simp: ndjson_rows_to_batch_Ok batch_ok_def row_ok_def schema_new_def field_new_def)

lemma ndjson_no_panic: "\<not> panics (ndjson_rows_to_batch lib rows)"
  by (simp add: ndjson_rows_to_batch_Ok)

lemma ndjson_line_no_panic: "\<not> panics (ndjson_line lib msg rows x)"
  by (cases x) (simp add: ndjson_line_def Let_def split: sum.split json.split)

lemma read_ndjson_ok: "read_ndjson lib fs path = Ok b \<Longrightarrow> batch_ok b"
  by (auto simp: read_ndjson_def and_then_eq_Ok dest: ndjson_batch_ok)

lemma read_ndjson_no_panic: "\<not> panics (read_ndjson lib fs path)"
  by (auto simp: read_ndjson_def panics_and_then open_file_def ndjson_no_panic
      dest!: fold_res_no_panic [OF ndjson_line_no_panic, THEN notE] split: sum.splits)

lemma file_tail_poll_ok:
  "fst (file_tail_poll lib fs dir seen) = Ok b \<Longrightarrow> batch_ok b"
  "\<not> panics (fst (file_tail_poll lib fs dir seen))"
  using read_ndjson_ok [of lib fs _ b] read_ndjson_no_panic [of lib fs]
  by (auto simp: file_tail_poll_def next_unseen_def panics_iff split: result.splits option.splits sum.splits)

lemma kafka_poll_ok: "kafka_poll lib ev = Ok b \<Longrightarrow> batch_ok b" "\<not> panics (kafka_poll lib ev)"
  by (auto simp: kafka_poll_def Let_def ndjson_no_panic dest: ndjson_batch_ok split: if_splits)

interpretation stream: batch_stream "\<lambda>(fs, ev). poll_batch lib fs ev" source_ok for lib
proof unfold_locales
  fix s :: streaming_source and e :: "files \<times> (nat \<Rightarrow> kafka_event)" and b
  assume ok: "source_ok s"
  show "batch_ok b" if "fst ((\<lambda>(fs, ev). poll_batch lib fs ev) e s) = Ok b"
    using that ok file_tail_poll_ok(1) kafka_poll_ok(1)
    by (cases e; cases s) (auto simp: split_def Let_def unwrap_or_def split: option.splits)
  show "\<not> panics (fst ((\<lambda>(fs, ev). poll_batch lib fs ev) e s))"
    using file_tail_poll_ok(2) kafka_poll_ok(2) by (cases e; cases s) (auto simp: split_def Let_def)
  show "source_ok (snd ((\<lambda>(fs, ev). poll_batch lib fs ev) e s))"
    by (cases e; cases s) (auto simp: split_def Let_def)
qed

lemma inferred_scan_ok:
  "csv_scan_reader clib c None = Ok b \<Longrightarrow> batch_ok b" "json_scan_reader jlib c None = Ok b \<Longrightarrow> batch_ok b"
  by (auto simp: csv_scan_reader_def json_scan_reader_def and_then_eq_Ok from_records_Ok_iff batch_ok_def)

lemma inferred_scan_no_panic:
  "\<not> panics (csv_scan_reader clib c None)" "\<not> panics (json_scan_reader jlib c None)"
proof -
  have "\<not> panics (csv_infer_schema_from_reader clib c)"
    by (simp add: csv_infer_schema_from_reader_def Let_def split: sum.split)
  then show "\<not> panics (csv_scan_reader clib c None)"
    by (simp add: csv_scan_reader_def panics_and_then map_res_no_panic)
  have "\<not> panics (json_infer_schema_from_reader jlib c)"
    unfolding json_infer_schema_from_reader_def panics_and_then
    using fold_res_no_panic [where f = "\<lambda>fs x. and_then (json_item x) (\<lambda>v.
         Ok (case v of JObject kvs \<Rightarrow> add_json_fields fs kvs | _ \<Rightarrow> fs))"]
    by (auto simp: panics_and_then json_item_def split: sum.split)
  then show "\<not> panics (json_scan_reader jlib c None)"
    by (simp add: json_scan_reader_def panics_and_then map_res_no_panic)
qed

lemma one_shot_ok:
  assumes "\<And>c b. scan c = Ok b \<Longrightarrow> batch_ok b" "\<And>c. \<not> panics (scan c)"
  shows "\<exists>src. one_shot lib scan fs path = Ok src \<and> source_ok src"
proof (cases "os_open (sl_os lib) fs path")
  case (Inr c)
  then show ?thesis using assms by (cases "scan c") (auto simp: one_shot_def panics_iff)
qed (simp add: one_shot_def)

lemma build_source_ok:
  "build_source lib fs spec = Ok src \<Longrightarrow> source_ok src" "\<not> panics (build_source lib fs spec)"
proof -
  have csv: "\<exists>src. one_shot_csv lib fs path = Ok src \<and> source_ok src" for path
    unfolding one_shot_csv_def by (rule one_shot_ok [OF inferred_scan_ok(1) inferred_scan_no_panic(1)])
  have json: "\<exists>src. one_shot_json lib fs path = Ok src \<and> source_ok src" for path
    unfolding one_shot_json_def by (rule one_shot_ok [OF inferred_scan_ok(2) inferred_scan_no_panic(2)])
  show "source_ok src" if "build_source lib fs spec = Ok src"
  proof -
    have "source_ok s" if "one_shot_csv lib fs path = Ok s \<or> one_shot_json lib fs path = Ok s" for path s
      using that csv [of path] json [of path] by auto
    with that show ?thesis
      by (auto simp: build_source_def file_tail_new_def kafka_new_def split: source_spec.splits option.splits)
  qed
  show "\<not> panics (build_source lib fs spec)"
  proof -
    have "one_shot_csv lib fs path \<noteq> Panic m" "one_shot_json lib fs path \<noteq> Panic m" for path m
      using csv [of path] json [of path] by auto
    then show ?thesis
      by (auto simp: build_source_def kafka_new_def panics_iff split: source_spec.splits option.splits)
  qed
qed

section \<open>Catalogs\<close>

text \<open>Registering with a kind keeps the contract of the session, whatever the kind.\<close>

interpretation kinded: catalog_contract session_table_schema session_table_location
  "\<lambda>c n path source s. register_with_kind c n path source s k" for k
proof unfold_locales
  show "\<exists>c'. register_with_kind c n path source s k = Ok c'" for c n path source s
    by (simp add: register_with_kind_def)
  show "session_table_schema c' m = (if m = n then Ok s else session_table_schema c m)"
    "session_table_location c' m = (if m = n then Ok (path, source) else session_table_location c m)"
    if "register_with_kind c n path source s k = Ok c'" for c n path source s c' m
    using that by (simp_all add: session_table_schema_def session_table_location_def session_lookup_register)
qed (use session.same_names session.lookup_total in auto)

lemma kinded_view: "kinded.view st = session_catalog st"
  by (simp add: kinded.view_def session_catalog_def)

lemma registered_flow_scanned:
  assumes "rn_catalog rn = session_dyn"
  shows "\<exists>c'. register_flow_output rn c f out = Ok c' \<and>
    build_table_scan (session_catalog c') (flow_name f) a =
      Ok (PScan (flow_name f) (fst (output_location (rn_env rn) (flow_destination f)))
        (snd (output_location (rn_env rn) (flow_destination f))) None None (batch_schema out)) \<and>
    (\<forall>m. m \<noteq> flow_name f \<longrightarrow> build_table_scan (session_catalog c') m a = build_table_scan (session_catalog c) m a)"
proof -
  let ?l = "output_location (rn_env rn) (flow_destination f)" and ?k = "table_kind_of (flow_kind f)"
  obtain c' where c': "register_with_kind c (flow_name f) (fst ?l) (snd ?l) (batch_schema out) ?k = Ok c'"
    using kinded.reg_total by blast
  then have "register_flow_output rn c f out = Ok c'"
    using assms by (simp add: register_flow_output_def session_dyn_def split_def)
  then show ?thesis
    using kinded.scan_after_reg [OF c'] kinded.scan_other [OF c'] by (simp add: kinded_view)
qed

lemma write_file_ok:
  assumes "os_ok os" "write_file os fs path b = (Ok n, fs')"
  shows "\<exists>t. render_table b = Ok t \<and> n = word_of_nat (length t) \<and> fs' = fs(path \<mapsto> t)"
proof -
  obtain t where "render_table b = Ok t" "write_text os fs path [] t = (Ok n, fs')"
    using assms(2) by (auto simp: write_file_def and_then_eq_Ok split: result.splits)
  then show ?thesis
    using assms(1) by (auto simp: write_text_def write_all_def os_ok_def)
qed

end
