(* ===== verification/Pipeline_Properties.thy ===== *)
theory Pipeline_Properties
  imports Pipeline_Interfaces Sql_Properties
begin

text \<open>
  Properties of pipelines: which specifications are accepted, in which order flows run, when a
  run returns and what it reports, what live flows write and what the streaming sources yield.
\<close>

section \<open>A graph library\<close>

text \<open>Graphs as lists of weights and edges: an instance of the graph parameter.\<close>

type_synonym list_graph = "string list \<times> (nat \<times> nat) list"

definition graph_edges :: "list_graph \<Rightarrow> (nat \<times> nat) list" where
  "graph_edges g = filter (\<lambda>(a, b). a < length (fst g) \<and> b < length (fst g)) (snd g)"

definition list_petgraph :: "list_graph petgraph" where
  "list_petgraph =
     \<lparr>pg_new = ([], []),
      pg_add_node = \<lambda>g w. (length (fst g), (fst g @ [w], graph_edges g)),
      pg_add_edge = \<lambda>g a b. (fst g, graph_edges g @ [(a, b)]),
      pg_weights = fst,
      pg_edges = graph_edges,
      pg_neighbors = \<lambda>g n. map snd (filter (\<lambda>e. fst e = n) (graph_edges g)),
      pg_toposort = \<lambda>g.
        (case find (\<lambda>n. (n, n) \<in> (set (graph_edges g))\<^sup>+) [0..<length (fst g)] of
           Some n \<Rightarrow> Inl n | None \<Rightarrow> Inr [])\<rparr>"

lemma graph_edges_idem [simp]: "graph_edges (ws, graph_edges (ws, es)) = graph_edges (ws, es)"
  by (simp add: graph_edges_def)

lemma graph_edges_grow: "graph_edges (ws @ [w], graph_edges (ws, es)) = graph_edges (ws, es)"
  by (auto simp: graph_edges_def intro!: filter_cong)

lemma graph_cycle_node: "(n, n) \<in> (set (graph_edges g))\<^sup>+ \<Longrightarrow> n < length (fst g)"
  by (drule tranclD) (auto simp: graph_edges_def)

lemma list_petgraph_ok: "petgraph_ok list_petgraph"
proof -
  have topo: "case pg_toposort list_petgraph g of
      Inl n \<Rightarrow> n < length (pg_weights list_petgraph g) \<and> (n, n) \<in> (set (pg_edges list_petgraph g))\<^sup>+
    | Inr ns \<Rightarrow> acyclic (set (pg_edges list_petgraph g))" for g
    using graph_cycle_node [of _ g]
    by (auto simp: list_petgraph_def find_None_iff find_Some_iff acyclic_def split: option.splits)
  show ?thesis
    unfolding petgraph_ok_def
    by (intro conjI allI impI topo)
      (auto simp: list_petgraph_def graph_edges_def intro!: filter_cong)
qed

section \<open>A sample pipeline\<close>

definition json_sample :: json_lib where
  "json_sample = \<lparr>js_stream = \<lambda>s. [], js_text = \<lambda>j. ''{}'', js_from_i32 = \<lambda>i. JNull,
     js_from_i64 = \<lambda>i. JNull, js_from_f32 = \<lambda>f. JNull, js_from_f64 = \<lambda>f. JNull\<rparr>"

definition os_sample :: os_lib where
  "os_sample = \<lparr>os_open_error = \<lambda>p. ''not found'', os_create_error = \<lambda>fs p. None,
     os_mkdir_error = \<lambda>fs p. None, os_write = \<lambda>fs p t. (t, None)\<rparr>"

text \<open>One directory \<^verbatim>\<open>in\<close> with two files; every line parses to an object with one key.\<close>

definition stream_sample :: stream_lib where
  "stream_sample = \<lparr>sl_json = json_sample, sl_parse = \<lambda>s. Inr (JObject [(''k'', JString s)]),
     sl_csv = \<lparr>csv_headers = \<lambda>c. Inr [], csv_records = \<lambda>c. []\<rparr>, sl_os = os_sample,
     sl_read_dir = \<lambda>fs d. Inr [Some \<lparr>de_name = ''b'', de_is_file = True\<rparr>, None,
       Some \<lparr>de_name = ''a'', de_is_file = True\<rparr>],
     sl_rank = \<lambda>i k. 0, sl_kafka_create_error = \<lambda>b g. None, sl_kafka_subscribe_error = \<lambda>t. None\<rparr>"

definition runner_sample :: "unit runner" where
  "runner_sample = \<lparr>rn_catalog = empty_catalog,
     rn_context = \<lambda>w. \<lparr>source_registry = registry_with_defaults
         (csv_source (\<lambda>p. Inl ''none'') \<lparr>csv_headers = \<lambda>c. Inr [], csv_records = \<lambda>c. []\<rparr>)
         (json_source (\<lambda>p. Inl ''none'') json_sample), default_parallelism = 1\<rparr>,
     rn_stream = stream_sample, rn_rx = \<lparr>rx_escape = \<lambda>s. s, rx_new = \<lambda>s. Inl ''no''\<rparr>, rn_sql = sales_lib,
     rn_csv_writer = \<lambda>rs. ([], None), rn_s3 = \<lparr>s3_get_object = \<lambda>c obs k. Inl ''none'', s3_put_object = \<lambda>c obs k t. None\<rparr>,
     rn_env = \<lambda>v. None, rn_interfere = \<lambda>f i fs. fs,
     rn_kafka = \<lambda>f i n. if n = 0 then KafkaMessage (Some ''x'') else KafkaTimeout, rn_millis = \<lambda>f. 0\<rparr>"

definition state_sample :: "unit run_state" where
  "state_sample = \<lparr>rs_world = \<lparr>w_files = Map.empty, w_objects = Map.empty\<rparr>, rs_catalog = (), rs_progress = []\<rparr>"

definition flow_sample :: "string \<Rightarrow> string list \<Rightarrow> refresh \<Rightarrow> flow" where
  "flow_sample n ds rf = \<lparr>flow_name = n, flow_kind = FkStreamingTable, depends_on = ds,
     flow_source = SrcKafka ''t'' ''b'' ''g'', flow_query = ''q'', flow_refresh = rf,
     flow_destination = DestFile ''out''\<rparr>"

definition batch_pipeline :: pipeline where
  "batch_pipeline = \<lparr>pipeline_name = ''p'',
     flows = [flow_sample ''gold'' [''raw''] RfFull, flow_sample ''raw'' [] RfFull]\<rparr>"

definition live_pipeline :: pipeline where
  "live_pipeline = \<lparr>pipeline_name = ''p'', flows = [flow_sample ''raw'' [] (RfLive 100)]\<rparr>"

lemma batch_dependency: "dependency batch_pipeline \<subseteq> {(''raw'', ''gold'')}"
  by (auto simp: dependency_def batch_pipeline_def flow_sample_def)

lemma live_dependency: "dependency live_pipeline = {}"
  by (auto simp: dependency_def live_pipeline_def flow_sample_def)

lemma batch_declared: "all_declared batch_pipeline" "acyclic (dependency batch_pipeline)"
proof -
  show "all_declared batch_pipeline" by (simp add: all_declared_def batch_pipeline_def flow_sample_def)
  show "acyclic (dependency batch_pipeline)"
    by (rule acyclic_subset [OF _ batch_dependency]) (rule wf_acyclic, simp add: wf_insert)
qed

lemma batch_accepted: "\<exists>dag. from_pipeline list_petgraph batch_pipeline = Ok dag"
  using from_pipeline_cases [OF list_petgraph_ok, of batch_pipeline] batch_declared by auto

lemma live_accepted: "\<exists>dag. from_pipeline list_petgraph live_pipeline = Ok dag"
proof -
  have "all_declared live_pipeline" by (simp add: all_declared_def live_pipeline_def flow_sample_def)
  moreover have "acyclic (dependency live_pipeline)" unfolding live_dependency by (simp add: acyclic_def)
  ultimately show ?thesis
    using from_pipeline_cases [OF list_petgraph_ok, of live_pipeline] by auto
qed

definition batch_dag :: "list_graph pipeline_dag" where
  "batch_dag = (case from_pipeline list_petgraph batch_pipeline of Ok d \<Rightarrow> d
     | _ \<Rightarrow> \<lparr>graph = ([], []), name_index = Map.empty\<rparr>)"

lemma batch_dag: "from_pipeline list_petgraph batch_pipeline = Ok batch_dag"
  using batch_accepted by (auto simp: batch_dag_def)

section \<open>The dependency graph\<close>


definition cyclic_pipeline :: pipeline where
  "cyclic_pipeline = \<lparr>pipeline_name = ''p'',
     flows = [flow_sample ''a'' [''b''] RfFull, flow_sample ''b'' [''a''] RfFull]\<rparr>"


text \<open>The layers of an accepted pipeline are computed without an error: they are not empty,
  contain every node exactly once, and an edge leads from a layer to a later one.\<close>

theorem layers_topological:
  assumes "petgraph_ok lib" "from_pipeline lib p = Ok dag"
  shows "\<exists>ls. layers lib rank dag = Ok ls \<and> [] \<notin> set ls \<and> distinct (concat ls) \<and>
    set (concat ls) = {..<length (flows p)} \<and>
    (\<forall>(a, b) \<in> set (pg_edges lib (graph dag)).
       \<exists>i j. i < j \<and> j < length ls \<and> a \<in> set (ls ! i) \<and> b \<in> set (ls ! j))"
proof -
  obtain ls where ls: "layers lib rank dag = Ok ls" "distinct (concat ls)"
      "set (concat ls) = {..<length (flows p)}" "[] \<notin> set ls" "layered (set (pg_edges lib (graph dag))) ls"
    using layers_complete [OF assms, of rank] by blast
  have "a \<in> set (concat ls) \<and> b \<in> set (concat ls)" if "(a, b) \<in> set (pg_edges lib (graph dag))" for a b
    using from_pipeline_Ok(7) [OF assms] that unfolding ls(3) by blast
  then have "\<forall>(a, b) \<in> set (pg_edges lib (graph dag)).
      \<exists>i j. i < j \<and> j < length ls \<and> a \<in> set (ls ! i) \<and> b \<in> set (ls ! j)"
    using layered_order [OF ls(5)] by blast
  then show ?thesis using ls by blast
qed

theorem layers_topological_witness:
  "\<exists>ls. layers list_petgraph (\<lambda>i n. n) batch_dag = Ok ls \<and> [] \<notin> set ls \<and> distinct (concat ls) \<and>
    set (concat ls) = {..<length (flows batch_pipeline)} \<and>
    (\<forall>(a, b) \<in> set (pg_edges list_petgraph (graph batch_dag)).
       \<exists>i j. i < j \<and> j < length ls \<and> a \<in> set (ls ! i) \<and> b \<in> set (ls ! j))"
  by (rule layers_topological [OF list_petgraph_ok batch_dag])

section \<open>Runs\<close>

lemma subseq_mset: "subseq xs ys \<Longrightarrow> mset xs \<subseteq># mset ys"
proof (induction rule: list_emb.induct)
  case (list_emb_Cons xs ys y)
  then show ?case using subset_mset.order_trans [of "mset xs" "mset ys"] by simp
qed simp_all



text \<open>C23. A pipeline without live flows runs to an end, whatever the libraries do: the run is
  rejected, panics in a flow, or returns a report in which every flow is accounted for, by its
  statistics or by an error.\<close>

theorem batch_pipeline_returns:
  assumes "petgraph_ok lib" "distinct (map flow_name (flows p))" "\<forall>f \<in> set (flows p). \<not> is_live f"
  shows "\<exists>r st'. run_pipeline lib rank rn fuel p now elapsed st = Some (r, st') \<and>
    (case r of Ok rep \<Rightarrow> length (report_flows rep) + length (report_errors rep) = length (flows p) \<and>
         mset (map stat_flow (report_flows rep)) \<subseteq># mset (map flow_name (flows p))
     | Err e \<Rightarrow> \<not> (all_declared p \<and> acyclic (dependency p)) | Panic m \<Rightarrow> True)"
proof (cases "all_declared p \<and> acyclic (dependency p)")
  case False
  then obtain e where "from_pipeline lib p = Err e"
    using from_pipeline_cases [OF assms(1), of p] by (auto split: if_splits)
  then show ?thesis using False by (auto simp: run_pipeline_def)
next
  case True
  then obtain dag where dag: "from_pipeline lib p = Ok dag"
    using from_pipeline_cases [OF assms(1), of p] by auto
  obtain ls where ls: "layers lib rank dag = Ok ls" "mset (scheduled dag p ls) = mset (flows p)"
    using schedule_order [OF assms(1) dag assms(2), of rank] by blast
  let ?fs = "scheduled dag p ls" and ?rep = "\<lparr>report_pipeline = pipeline_name p, report_started_at = now,
    report_duration_ms = 0, report_flows = [], report_errors = []\<rparr>"
  have "\<forall>f \<in> set ?fs. \<not> is_live f" using assms(3) mset_eq_setD [OF ls(2)] by simp
  from run_flows_returns [OF this, of rn fuel ?rep st] consider
      m st' where "run_flows rn fuel ?fs ?rep st = Some (Panic m, st')"
    | rep st' gs where "run_flows rn fuel ?fs ?rep st = Some (Ok rep, st')" "subseq gs ?fs"
        "map stat_flow (report_flows rep) = map flow_name gs" "length (report_errors rep) + length gs = length ?fs"
    by auto
  then show ?thesis
  proof cases
    case 1
    then show ?thesis using dag ls(1) by (simp add: run_pipeline_def)
  next
    case (2 rep st' gs)
    have "length (report_flows rep) = length gs" using arg_cong [OF 2(3), of length] by simp
    then have "length (report_flows rep) + length (report_errors rep) = length (flows p)"
      using 2(4) arg_cong [OF ls(2), of size] by simp
    moreover have "mset (map stat_flow (report_flows rep)) \<subseteq># mset (map flow_name (flows p))"
      using image_mset_subseteq_mono [OF subseq_mset [OF 2(2)], of flow_name] ls(2)
      unfolding 2(3) by simp
    ultimately show ?thesis using 2(1) dag ls(1) by (simp add: run_pipeline_def)
  qed
qed

theorem batch_pipeline_returns_witness:
  "\<exists>r st'. run_pipeline list_petgraph (\<lambda>i n. n) runner_sample 0 batch_pipeline ''now'' 1 state_sample = Some (r, st') \<and>
    (case r of Ok rep \<Rightarrow>
         length (report_flows rep) + length (report_errors rep) = length (flows batch_pipeline) \<and>
         mset (map stat_flow (report_flows rep)) \<subseteq># mset (map flow_name (flows batch_pipeline))
     | Err e \<Rightarrow> \<not> (all_declared batch_pipeline \<and> acyclic (dependency batch_pipeline)) | Panic m \<Rightarrow> True)"
  by (rule batch_pipeline_returns [OF list_petgraph_ok])
    (simp_all add: batch_pipeline_def flow_sample_def is_live_def)

text \<open>C24. When a flow that is not live has run with a session catalog and a file as its destination,
  the file holds the rendered table of the flow's output, and every later flow that names the
  flow in its query scans that file with the schema of the output; the tables of other names
  are scanned as before.\<close>

theorem flow_output_scanned_downstream:
  assumes "rn_catalog rn = session_dyn" "os_ok (sl_os (rn_stream rn))"
    and "flow_destination f = DestFile path" "run_batch_flow rn f st = (Ok stats, st')"
  shows "\<exists>out t. stat_row_count stats = batch_len out \<and> render_table out = Ok t \<and>
    w_files (rs_world st') = (w_files (rs_world st))(path \<mapsto> t) \<and>
    build_table_scan (session_catalog (rs_catalog st')) (flow_name f) a =
      Ok (PScan (flow_name f) path ''csv'' None None (batch_schema out)) \<and>
    (\<forall>m. m \<noteq> flow_name f \<longrightarrow> build_table_scan (session_catalog (rs_catalog st')) m a =
       build_table_scan (session_catalog (rs_catalog st)) m a)"
proof -
  from assms(4) obtain out bytes w where out: "write_destination rn (rs_world st) (flow_destination f) out = (Ok bytes, w)"
      "stat_row_count stats = batch_len out" "rs_world st' = w"
      "rs_catalog st' = (case register_flow_output rn (rs_catalog st) f out of Ok cat \<Rightarrow> cat | _ \<Rightarrow> rs_catalog st)"
    by (rule run_batch_flow_Ok)
  obtain fs' where fs': "write_file (sl_os (rn_stream rn)) (w_files (rs_world st)) path out = (Ok bytes, fs')"
      "w_files w = fs'"
    using out(1) assms(3) by (auto simp: write_destination_def split: prod.splits)
  from write_file_ok [OF assms(2) fs'(1)] fs'(2) out(2,3,4)
    registered_flow_scanned [OF assms(1), of "rs_catalog st" f out a] assms(3)
  show ?thesis by (auto simp: output_location_def)
qed

definition session_runner :: "session_state runner" where
  "session_runner = \<lparr>rn_catalog = session_dyn, rn_context = \<lambda>w. sales_ctx,
     rn_stream = stream_sample, rn_rx = no_regex, rn_sql = sales_lib,
     rn_csv_writer = rn_csv_writer runner_sample, rn_s3 = rn_s3 runner_sample, rn_env = rn_env runner_sample,
     rn_interfere = rn_interfere runner_sample, rn_kafka = rn_kafka runner_sample, rn_millis = \<lambda>f. 0\<rparr>"

definition session_run :: "session_state run_state" where
  "session_run = \<lparr>rs_world = \<lparr>w_files = Map.empty, w_objects = Map.empty\<rparr>, rs_catalog = sales_session, rs_progress = []\<rparr>"

abbreviation gold :: flow where
  "gold \<equiv> (flow_sample ''gold'' [] RfFull)\<lparr>flow_kind := FkMaterializedView\<rparr>"

theorem flow_output_scanned_downstream_witness:
  "\<exists>stats st' out t. run_batch_flow session_runner gold session_run = (Ok stats, st') \<and>
    w_files (rs_world st') ''out'' = Some t \<and> render_table out = Ok t \<and>
    build_table_scan (session_catalog (rs_catalog st')) ''gold'' None =
      Ok (PScan ''gold'' ''out'' ''csv'' None None (batch_schema out))"
proof -
  have "is_ok (fst (run_batch_flow session_runner gold session_run))" by code_simp
  then obtain stats st' where run: "run_batch_flow session_runner gold session_run = (Ok stats, st')"
    by (cases "run_batch_flow session_runner gold session_run") (auto elim: is_okE)
  have "rn_catalog session_runner = session_dyn" "os_ok (sl_os (rn_stream session_runner))"
    "flow_destination gold = DestFile ''out''" "flow_name gold = ''gold''"
    by (simp_all add: session_runner_def stream_sample_def os_sample_def os_ok_def flow_sample_def)
  from flow_output_scanned_downstream [OF this(1-3) run, of None] this(4) run show ?thesis by auto
qed


lemma live_sample: "live_to_file runner_sample (flow_sample ''raw'' [] (RfLive 100)) ''out''"
  by (simp add: live_to_file_def flow_sample_def is_live_def runner_sample_def stream_sample_def
      os_sample_def os_ok_def kafka_new_def)


text \<open>C27. A live flow from Kafka to a file keeps going and loses nothing: after \<open>n\<close> polls the file
  holds its old contents followed by the lines of the \<open>n\<close> batches in the order they were polled,
  and the row total is the number of rows polled.\<close>

theorem live_flow_appends_every_batch:
  assumes "live_to_file rn f path" "flow_source f = SrcKafka t b g"
  shows "\<exists>lv. live_loop rn f 0 n (live_start st (KafkaSource t b g)) = Inl lv \<and>
    file_text lv path = unwrap_or (w_files (rs_world st) path) [] @
      concat (map (\<lambda>i. batch_text (sl_json (rn_stream rn)) (kafka_batch rn f i)) [0..<n]) \<and>
    lv_total_rows lv = sum_list (map (\<lambda>i. batch_len (kafka_batch rn f i)) [0..<n])"
  using live_loop_file [OF assms(1), of "live_start st (KafkaSource t b g)" t b g 0 n]
  by (force simp: live_start_def file_text_def)

theorem live_flow_appends_every_batch_witness:
  "\<exists>lv. live_loop runner_sample (flow_sample ''raw'' [] (RfLive 100)) 0 3
      (live_start state_sample (KafkaSource ''t'' ''b'' ''g'')) = Inl lv \<and>
    file_text lv ''out'' = unwrap_or (w_files (rs_world state_sample) ''out'') [] @
      concat (map (\<lambda>i. batch_text (sl_json (rn_stream runner_sample))
        (kafka_batch runner_sample (flow_sample ''raw'' [] (RfLive 100)) i)) [0..<3]) \<and>
    lv_total_rows lv = sum_list (map (\<lambda>i. batch_len
      (kafka_batch runner_sample (flow_sample ''raw'' [] (RfLive 100)) i)) [0..<3])"
  by (rule live_flow_appends_every_batch [OF live_sample]) (simp add: flow_sample_def)

section \<open>Streaming sources\<close>


definition dir_files :: files where
  "dir_files = [''in/a'' \<mapsto> ''1'', ''in/b'' \<mapsto> ''2'']"

definition dir_batch :: "string \<Rightarrow> record_batch" where
  "dir_batch n = (case read_ndjson stream_sample dir_files (path_join ''in'' n) of Ok b \<Rightarrow> b
     | _ \<Rightarrow> batch_new schema_empty)"


text \<open>Whatever source a flow declares, building it does not panic, and neither does any of the
  polls that follow, however the files and the topic change between them; every batch that is
  polled has rows that are valid under its schema.\<close>

theorem polled_batches_valid:
  "\<not> panics (build_source lib fs spec) \<and>
   (\<forall>src r es. build_source lib fs spec = Ok src \<and> r \<in> set (polls (\<lambda>(fs, ev). poll_batch lib fs ev) es src) \<longrightarrow>
      \<not> panics r \<and> (\<forall>b. r = Ok b \<longrightarrow> batch_ok b))"
  using stream.polls_valid [of _ _ lib] build_source_ok [of lib fs spec] by blast

theorem polled_batches_valid_witness:
  "\<exists>r \<in> set (polls (\<lambda>(fs, ev). poll_batch stream_sample fs ev) [(dir_files, \<lambda>i. KafkaTimeout)] (file_tail_new ''in'')).
    \<not> panics r \<and> is_ok r \<and> (\<forall>b. r = Ok b \<longrightarrow> batch_ok b)"
proof -
  let ?rs = "polls (\<lambda>(fs, ev). poll_batch stream_sample fs ev) [(dir_files, \<lambda>i. KafkaTimeout)] (file_tail_new ''in'')"
  have "build_source stream_sample dir_files (SrcTailDir ''in'') = Ok (file_tail_new ''in'')"
    by (simp add: build_source_def)
  moreover have "list_ex is_ok ?rs" by code_simp
  then obtain r where "r \<in> set ?rs" "is_ok r" by (auto simp: list_ex_iff)
  ultimately show ?thesis
    using polled_batches_valid [of stream_sample dir_files "SrcTailDir ''in''"] by blast
qed

text \<open>C37. A poll of Kafka returns a valid batch of at most 100 rows, whatever arrives: payloads that
  are not text, not JSON or not objects are skipped.\<close>

theorem kafka_poll_bounded:
  "\<exists>b. kafka_poll lib ev = Ok b \<and> batch_ok b \<and> batch_len b \<le> 100"
proof -
  have "batch_len b \<le> 100 \<and> batch_ok b" if "kafka_poll lib ev = Ok b" for b
    using that kafka_drain_bound [of lib ev 0 100 "[]"] ndjson_rows_to_batch_Ok [of lib]
    by (auto simp: kafka_poll_def Let_def batch_len_def batch_ok_def row_ok_def schema_new_def field_new_def
        split: if_splits)
  then show ?thesis using kafka_poll_Ok by blast
qed

text \<open>Objects that are read from a stream become one batch with a nullable string column for
  each key that occurs in any of them, each once; a cell is the row's value of the key, and
  NULL where the row has none.\<close>

theorem ndjson_batch_has_all_keys:
  "\<exists>keys. distinct keys \<and> set keys = (\<Union>r \<in> set rows. fst ` set r) \<and>
    ndjson_rows_to_batch lib rows =
      Ok \<lparr>batch_schema = schema_new (map (\<lambda>k. field_new k TString) keys),
         batch_records = map (\<lambda>r. record_new (map (\<lambda>k.
           case row_get r k of Some v \<Rightarrow> json_value_to_rspark (sl_json lib) v | None \<Rightarrow> VNull) keys)) rows\<rparr>"
  using key_order_distinct [of lib rows] key_order_set [of lib rows] ndjson_rows_to_batch_Ok [of lib rows]
  unfolding json_cell_def by blast

end
