(* ===== verification/Api.thy ===== *)
theory Api
  imports Cluster Show_Create Pipeline_Runner
begin

text \<open>
  \<^verbatim>\<open>rspark-api/src/routes.rs\<close>: the HTTP handlers over the master, the session catalog, the source
  registry and the registered pipelines. A handler maps the state to the next state and a
  response: a status code and a typed body (its JSON text is the serialiser's). What a handler
  reads from the clock and the identifiers it draws come with the request.
\<close>

section \<open>State\<close>

text \<open>The registry of pipelines is a hash map by name.\<close>

record api_state =
  api_cluster :: cluster_state
  api_catalog :: session_state
  api_pipelines :: "(string \<times> pipeline) list"
  api_world :: world

definition pipelines_insert :: "(string \<times> pipeline) list \<Rightarrow> pipeline \<Rightarrow> (string \<times> pipeline) list" where
  "pipelines_insert ps p = AList.update (pipeline_name p) p ps"

definition pipelines_list :: "(string \<times> pipeline) list \<Rightarrow> pipeline list" where
  "pipelines_list ps = map snd ps"

definition pipelines_get :: "(string \<times> pipeline) list \<Rightarrow> string \<Rightarrow> pipeline option" where
  "pipelines_get ps name = map_of ps name"

definition api_state_new :: "cluster_state \<Rightarrow> session_state \<Rightarrow> world \<Rightarrow> api_state" where
  "api_state_new cs cat w =
     \<lparr>api_cluster = cs, api_catalog = cat, api_pipelines = [], api_world = w\<rparr>"

definition with_pipelines :: "api_state \<Rightarrow> (string \<times> pipeline) list \<Rightarrow> api_state" where
  "with_pipelines st ps = st\<lparr>api_pipelines := ps\<rparr>"

text \<open>
  The parameters: the pipeline runner's, whose catalog is the session, the YAML parser, the
  graph library with the order of its hash maps, and the derived \<^verbatim>\<open>Debug\<close> text of an error.
\<close>

record 'g api_lib =
  al_runner :: "session_state runner"
  al_yaml :: yaml_lib
  al_graph :: "'g petgraph"
  al_rank :: "nat \<Rightarrow> nat \<Rightarrow> nat"
  al_err_debug :: "error \<Rightarrow> string"

definition api_context :: "'g api_lib \<Rightarrow> api_state \<Rightarrow> execution_context" where
  "api_context lib st = rn_context (al_runner lib) (api_world st)"

record tick =
  tk_ids :: fresh_ids
  tk_now :: time
  tk_later :: time
  tk_elapsed :: nat
  tk_text :: string

section \<open>Responses\<close>

record column_meta =
  cm_name :: string
  cm_data_type :: string

record sql_response =
  sr_job :: job
  sr_columns :: "column_meta list"
  sr_rows :: "json list list"
  sr_row_count :: nat
  sr_duration_ms :: nat

record table_summary =
  ts_name :: string
  ts_path :: string
  ts_source :: string
  ts_columns :: "column_meta list"

record suggestions_body =
  sg_tables :: "(string \<times> string) list"
  sg_columns :: "string list"
  sg_functions :: "string list"
  sg_keywords :: "string list"

datatype api_body =
    BHealth time
  | BSnapshot cluster_snapshot
  | BWorker worker_info
  | BText string
  | BEmpty
  | BTask task
  | BStatusOk
  | BSubmitted job "stage list" "task list"
  | BJobs "job list"
  | BJob job
  | BSql sql_response
  | BTables "table_summary list"
  | BRegistered string
  | BSuggestions suggestions_body
  | BError string string
  | BSpecError string
  | BPipelineRun string "string list" run_report
  | BPipelines "(string \<times> string list) list"
  | BDag string "string list list" "(string \<times> flow_kind \<times> string list) list"
  | BNotFound string

record response =
  resp_status :: nat
  resp_body :: api_body

definition respond :: "nat \<Rightarrow> api_body \<Rightarrow> response res" where
  "respond code body = Ok \<lparr>resp_status = code, resp_body = body\<rparr>"

definition err_response :: "'g api_lib \<Rightarrow> error \<Rightarrow> response res" where
  "err_response lib e = respond 500 (BError (show_error e) (al_err_debug lib e))"

text \<open>The derived \<^verbatim>\<open>Debug\<close> text of a column type is the name of its variant.\<close>

fun type_debug :: "data_type \<Rightarrow> string" where
  "type_debug TBoolean = ''Boolean''"
| "type_debug TInt32 = ''Int32''"
| "type_debug TInt64 = ''Int64''"
| "type_debug TFloat32 = ''Float32''"
| "type_debug TFloat64 = ''Float64''"
| "type_debug TString = ''String''"
| "type_debug TDate = ''Date''"
| "type_debug TTimestamp = ''Timestamp''"
| "type_debug TNull = ''Null''"

definition response_columns :: "schema \<Rightarrow> column_meta list" where
  "response_columns s = map (\<lambda>f. \<lparr>cm_name = field_name f, cm_data_type = type_debug (field_type f)\<rparr>) (schema_fields s)"

fun api_value_to_json :: "json_lib \<Rightarrow> val \<Rightarrow> json" where
  "api_value_to_json lib VNull = JNull"
| "api_value_to_json lib (VBoolean b) = JBool b"
| "api_value_to_json lib (VInt32 i) = js_from_i32 lib i"
| "api_value_to_json lib (VInt64 i) = js_from_i64 lib i"
| "api_value_to_json lib (VFloat32 f) = js_from_f64 lib (f32_as_f64 f)"
| "api_value_to_json lib (VFloat64 f) = js_from_f64 lib f"
| "api_value_to_json lib (VString s) = JString s"

section \<open>Cluster handlers\<close>

type_synonym handled = "api_state \<times> response res"

definition health :: "tick \<Rightarrow> api_state \<Rightarrow> handled" where
  "health tk st = (st, respond 200 (BHealth (tk_now tk)))"

definition api_snapshot :: "tick \<Rightarrow> api_state \<Rightarrow> handled" where
  "api_snapshot tk st = (st, respond 200 (BSnapshot (snapshot (api_cluster st) (tk_now tk))))"

definition api_register_worker :: "worker_info \<Rightarrow> api_state \<Rightarrow> handled" where
  "api_register_worker w st =
     (st\<lparr>api_cluster := register_worker (api_cluster st) w\<rparr>, respond 201 (BWorker w))"

definition api_heartbeat :: "tick \<Rightarrow> string \<Rightarrow> api_state \<Rightarrow> handled" where
  "api_heartbeat tk wid st =
     (case map_of (workers (api_cluster st)) wid of
        None \<Rightarrow> (st, respond 404 (BText ''worker not registered''))
      | Some w \<Rightarrow> (st\<lparr>api_cluster := update_worker_heartbeat (api_cluster st) wid (tk_now tk)\<rparr>,
                   respond 204 BEmpty))"

definition api_poll_task :: "string \<Rightarrow> api_state \<Rightarrow> handled" where
  "api_poll_task wid st =
     (let (t, cs) = try_assign_task (api_cluster st) wid
      in (st\<lparr>api_cluster := cs\<rparr>,
          case t of Some t \<Rightarrow> respond 200 (BTask t) | None \<Rightarrow> respond 204 BEmpty))"

definition finish_task ::
  "'g api_lib \<Rightarrow> tick \<Rightarrow> string \<Rightarrow> usize \<Rightarrow> bool \<Rightarrow> string option \<Rightarrow> api_state \<Rightarrow> handled" where
  "finish_task lib tk tid rows success err st =
     (case complete_task (api_cluster st) tid rows success err (tk_now tk) (tk_later tk) of
        Ok cs \<Rightarrow> (st\<lparr>api_cluster := cs\<rparr>, respond 200 BStatusOk)
      | Err e \<Rightarrow> (st, err_response lib e)
      | Panic m \<Rightarrow> (st, Panic m))"

definition api_complete_task :: "'g api_lib \<Rightarrow> tick \<Rightarrow> string \<Rightarrow> usize \<Rightarrow> api_state \<Rightarrow> handled" where
  "api_complete_task lib tk tid rows = finish_task lib tk tid rows True None"

definition api_fail_task :: "'g api_lib \<Rightarrow> tick \<Rightarrow> string \<Rightarrow> string \<Rightarrow> api_state \<Rightarrow> handled" where
  "api_fail_task lib tk tid err = finish_task lib tk tid 0 False (Some err)"

definition api_submit :: "'g api_lib \<Rightarrow> tick \<Rightarrow> job_request \<Rightarrow> api_state \<Rightarrow> (job \<times> stage option \<times> cluster_state) res" where
  "api_submit lib tk req st =
     submit_job (rn_sql (al_runner lib)) (session_catalog (api_catalog st)) (api_cluster st) req
       (tk_ids tk) (tk_now tk) (tk_later tk)"

definition api_submit_job :: "'g api_lib \<Rightarrow> tick \<Rightarrow> job_request \<Rightarrow> api_state \<Rightarrow> handled" where
  "api_submit_job lib tk req st =
     (case api_submit lib tk req st of
        Ok (j, _, cs) \<Rightarrow>
          (st\<lparr>api_cluster := snd (inc_running_round cs)\<rparr>,
           respond 201 (BSubmitted j (stages_for_job cs (job_id j)) (tasks_for_job cs (job_id j))))
      | Err e \<Rightarrow> (st, err_response lib e)
      | Panic m \<Rightarrow> (st, Panic m))"

definition api_list_jobs :: "api_state \<Rightarrow> handled" where
  "api_list_jobs st = (st, respond 200 (BJobs (list_jobs (api_cluster st))))"

definition api_get_job :: "string \<Rightarrow> api_state \<Rightarrow> handled" where
  "api_get_job jid st =
     (st, case get_job (api_cluster st) jid of
            Some j \<Rightarrow> respond 200 (BJob j) | None \<Rightarrow> respond 404 (BText ''job not found''))"

section \<open>SQL\<close>

definition ad_hoc_request :: "tick \<Rightarrow> string \<Rightarrow> string option \<Rightarrow> job_request" where
  "ad_hoc_request tk sql jname =
     req_with_parallelism (job_request_new (unwrap_or jname ''ad-hoc'') sql (tk_now tk)) 1"

definition succeeded_job :: "tick \<Rightarrow> job \<Rightarrow> nat \<Rightarrow> job" where
  "succeeded_job tk j n =
     j\<lparr>job_status := JbSucceeded, job_completed_at := Some (tk_later tk),
       job_result_rows := Some (word_of_nat n)\<rparr>"

definition failed_job :: "tick \<Rightarrow> job \<Rightarrow> error \<Rightarrow> job" where
  "failed_job tk j e =
     j\<lparr>job_status := JbFailed (show_error e), job_completed_at := Some (tk_later tk)\<rparr>"

definition sql_show_create :: "'g api_lib \<Rightarrow> tick \<Rightarrow> string \<Rightarrow> string option \<Rightarrow> string \<Rightarrow> api_state \<Rightarrow> handled" where
  "sql_show_create lib tk sql jname table st =
     (case submit_job_skip_plan (api_cluster st) (ad_hoc_request tk sql jname)
             (fresh_job (tk_ids tk)) (tk_now tk) (tk_now tk) of
        Err e \<Rightarrow> (st, err_response lib e)
      | Panic m \<Rightarrow> (st, Panic m)
      | Ok (j, cs) \<Rightarrow>
          let cs = snd (inc_running_round cs)
          in (case render_create_table (session_catalog (api_catalog st)) table of
               Err e \<Rightarrow> (st\<lparr>api_cluster := cs\<rparr>, err_response lib e)
             | Panic m \<Rightarrow> (st\<lparr>api_cluster := cs\<rparr>, Panic m)
             | Ok ddl \<Rightarrow>
                 let j = succeeded_job tk j 1;
                     cs = record_completed_round (update_job cs j)
                 in (st\<lparr>api_cluster := cs\<rparr>, respond 200 (BSql
                      \<lparr>sr_job = j,
                       sr_columns = [\<lparr>cm_name = ''create_statement'', cm_data_type = ''String''\<rparr>],
                       sr_rows = [[JString ddl]], sr_row_count = 1, sr_duration_ms = tk_elapsed tk\<rparr>))))"

definition batch_response :: "'g api_lib \<Rightarrow> tick \<Rightarrow> job \<Rightarrow> record_batch \<Rightarrow> sql_response" where
  "batch_response lib tk j b =
     \<lparr>sr_job = j, sr_columns = response_columns (batch_schema b),
      sr_rows = map (\<lambda>r. map (api_value_to_json (sl_json (rn_stream (al_runner lib)))) (row_values r))
        (batch_records b),
      sr_row_count = batch_len b, sr_duration_ms = tk_elapsed tk\<rparr>"

definition answer_query :: "'g api_lib \<Rightarrow> tick \<Rightarrow> string \<Rightarrow> string option \<Rightarrow> api_state \<Rightarrow> handled" where
  "answer_query lib tk sql jname st =
     (case api_submit lib tk (ad_hoc_request tk sql jname) st of
        Err e \<Rightarrow> (st, err_response lib e)
      | Panic m \<Rightarrow> (st, Panic m)
      | Ok (j, _, cs) \<Rightarrow>
          let cs = snd (inc_running_round cs)
          in (case plan_sql (rn_sql (al_runner lib)) (session_catalog (api_catalog st)) sql of
               Err e \<Rightarrow> (st\<lparr>api_cluster := cs\<rparr>, err_response lib e)
             | Panic m \<Rightarrow> (st\<lparr>api_cluster := cs\<rparr>, Panic m)
             | Ok p \<Rightarrow>
                 (case execute (rn_rx (al_runner lib)) (api_context lib st) p of
                    Err e \<Rightarrow> (st\<lparr>api_cluster := update_job cs (failed_job tk j e)\<rparr>, err_response lib e)
                  | Panic m \<Rightarrow> (st\<lparr>api_cluster := cs\<rparr>, Panic m)
                  | Ok b \<Rightarrow>
                      let j = succeeded_job tk j (batch_len b);
                          cs = update_job cs j;
                          cs = record_completed_round (snd (inc_running_round cs))
                      in (st\<lparr>api_cluster := cs\<rparr>, respond 200 (BSql (batch_response lib tk j b))))))"

definition api_execute_sql :: "'g api_lib \<Rightarrow> tick \<Rightarrow> string \<Rightarrow> string option \<Rightarrow> api_state \<Rightarrow> handled" where
  "api_execute_sql lib tk sql jname st =
     (case try_show_create (rn_sql (al_runner lib)) sql of
        Err e \<Rightarrow> (st, err_response lib e)
      | Panic m \<Rightarrow> (st, Panic m)
      | Ok (Some table) \<Rightarrow> sql_show_create lib tk sql jname table st
      | Ok None \<Rightarrow> answer_query lib tk sql jname st)"

section \<open>Catalog handlers\<close>

definition table_summary_of :: "session_state \<Rightarrow> string \<Rightarrow> table_summary option" where
  "table_summary_of cat name =
     (case session_table_schema cat name of
        Ok s \<Rightarrow>
          (case session_table_location cat name of
             Ok (path, source) \<Rightarrow>
               Some \<lparr>ts_name = name, ts_path = path, ts_source = source, ts_columns = response_columns s\<rparr>
           | _ \<Rightarrow> None)
      | _ \<Rightarrow> None)"

definition api_list_tables :: "'g api_lib \<Rightarrow> api_state \<Rightarrow> handled" where
  "api_list_tables lib st =
     (case session_list_tables (api_catalog st) of
        Err e \<Rightarrow> (st, err_response lib e)
      | Panic m \<Rightarrow> (st, Panic m)
      | Ok names \<Rightarrow>
          (st, respond 200 (BTables (sort_by (\<lambda>a b. cmp_of (ts_name a) (ts_name b))
             (List.map_filter (table_summary_of (api_catalog st)) names)))))"

definition ends_with :: "string \<Rightarrow> string \<Rightarrow> bool" where
  "ends_with suf s \<longleftrightarrow> strip_suffix suf s \<noteq> None"

definition source_for_path :: "string \<Rightarrow> string" where
  "source_for_path path = (if ends_with ''.json'' (to_ascii_lowercase path) then ''json'' else ''csv'')"

definition requested_kind :: "string option \<Rightarrow> table_kind" where
  "requested_kind kind =
     (case kind of
        Some k \<Rightarrow> if k = ''streaming_table'' then StreamingTable
          else if k = ''materialized_view'' then MaterializedView else Batch
      | None \<Rightarrow> Batch)"

definition api_register_table ::
  "'g api_lib \<Rightarrow> string \<Rightarrow> string \<Rightarrow> string option \<Rightarrow> string option \<Rightarrow> api_state \<Rightarrow> handled" where
  "api_register_table lib name path source kind st =
     (let source = unwrap_or source (source_for_path path)
      in case and_then (registry_get (source_registry (api_context lib st)) source) (\<lambda>src.
              and_then (ds_infer_schema src path) (\<lambda>s.
                register_with_kind (api_catalog st) name path source s (requested_kind kind))) of
           Ok cat \<Rightarrow> (st\<lparr>api_catalog := cat\<rparr>, respond 201 (BRegistered name))
         | Err e \<Rightarrow> (st, err_response lib e)
         | Panic m \<Rightarrow> (st, Panic m))"

definition api_unregister_table :: "'g api_lib \<Rightarrow> string \<Rightarrow> api_state \<Rightarrow> handled" where
  "api_unregister_table lib name st =
     (case session_unregister (api_catalog st) name of
        Ok cat \<Rightarrow> (st\<lparr>api_catalog := cat\<rparr>, respond 204 BEmpty)
      | Err e \<Rightarrow> (st, err_response lib e)
      | Panic m \<Rightarrow> (st, Panic m))"

definition sql_keywords :: "string list" where
  "sql_keywords =
     [''SELECT'', ''FROM'', ''WHERE'', ''GROUP'', ''BY'', ''ORDER'', ''HAVING'', ''LIMIT'', ''OFFSET'',
      ''JOIN'', ''INNER'', ''LEFT'', ''RIGHT'', ''FULL'', ''OUTER'', ''CROSS'', ''ON'', ''USING'', ''AS'',
      ''AND'', ''OR'', ''NOT'', ''IN'', ''BETWEEN'', ''LIKE'', ''IS'', ''NULL'', ''TRUE'', ''FALSE'',
      ''DISTINCT'', ''ALL'', ''UNION'', ''INTERSECT'', ''EXCEPT'', ''ASC'', ''DESC'', ''CASE'', ''WHEN'',
      ''THEN'', ''ELSE'', ''END'', ''COALESCE'', ''NVL'']"

definition sql_functions :: "string list" where
  "sql_functions =
     [''COUNT'', ''SUM'', ''AVG'', ''MIN'', ''MAX'', ''ABS'', ''UPPER'', ''UCASE'', ''LOWER'', ''LCASE'',
      ''LENGTH'', ''CHAR_LENGTH'', ''CHARACTER_LENGTH'', ''COALESCE'', ''NVL'']"

text \<open>The columns are collected in a \<^verbatim>\<open>BTreeSet\<close>.\<close>

definition table_columns :: "session_state \<Rightarrow> string \<Rightarrow> string list" where
  "table_columns cat name = (case session_table_schema cat name of Ok s \<Rightarrow> field_names s | _ \<Rightarrow> [])"

definition suggestions :: "'g api_lib \<Rightarrow> api_state \<Rightarrow> handled" where
  "suggestions lib st =
     (case list_tables_with_kind (api_catalog st) of
        Err e \<Rightarrow> (st, err_response lib e)
      | Panic m \<Rightarrow> (st, Panic m)
      | Ok named \<Rightarrow>
          let columns = foldl (\<lambda>cs c. btree_insert cs c ()) []
                (concat (map (\<lambda>(n, k). table_columns (api_catalog st) n) named))
          in (st, respond 200 (BSuggestions
               \<lparr>sg_tables = map (\<lambda>(n, k). (n, kind_as_str k)) named, sg_columns = map fst columns,
                sg_functions = sql_functions, sg_keywords = sql_keywords\<rparr>)))"

section \<open>Pipeline handlers\<close>

definition run_pipeline_now ::
  "'g api_lib \<Rightarrow> tick \<Rightarrow> nat \<Rightarrow> pipeline \<Rightarrow> api_state \<Rightarrow> (run_report res \<times> session_state run_state) option" where
  "run_pipeline_now lib tk fuel p st =
     run_pipeline (al_graph lib) (al_rank lib) ((al_runner lib)\<lparr>rn_catalog := session_dyn\<rparr>) fuel p
       (tk_text tk) (tk_elapsed tk)
       \<lparr>rs_world = api_world st, rs_catalog = api_catalog st, rs_progress = []\<rparr>"

text \<open>\<open>None\<close>: the run has not returned within the given number of polls of a live flow.\<close>

definition submit_pipeline :: "'g api_lib \<Rightarrow> tick \<Rightarrow> nat \<Rightarrow> string \<Rightarrow> api_state \<Rightarrow> handled option" where
  "submit_pipeline lib tk fuel body st =
     (case from_yaml (al_yaml lib) body of
        Inl e \<Rightarrow> Some (st, respond 400 (BSpecError e))
      | Inr p \<Rightarrow>
          let st = st\<lparr>api_pipelines := pipelines_insert (api_pipelines st) p\<rparr>
          in (case run_pipeline_now lib tk fuel p st of
               None \<Rightarrow> None
             | Some (r, rs) \<Rightarrow>
                 let st = st\<lparr>api_world := rs_world rs, api_catalog := rs_catalog rs\<rparr>
                 in Some (st, case r of
                      Ok report \<Rightarrow> respond 200
                        (BPipelineRun (pipeline_name p) (map flow_name (flows p)) report)
                    | Err e \<Rightarrow> err_response lib e
                    | Panic m \<Rightarrow> Panic m)))"

definition list_pipelines :: "api_state \<Rightarrow> handled" where
  "list_pipelines st =
     (st, respond 200 (BPipelines (map (\<lambda>p. (pipeline_name p, map flow_name (flows p)))
        (pipelines_list (api_pipelines st)))))"

definition pipeline_dag_handler :: "'g api_lib \<Rightarrow> string \<Rightarrow> api_state \<Rightarrow> handled" where
  "pipeline_dag_handler lib name st =
     (st, case pipelines_get (api_pipelines st) name of
            None \<Rightarrow> respond 404 (BNotFound (''pipeline '' @ squote name @ '' not found''))
          | Some p \<Rightarrow>
              (case and_then (from_pipeline (al_graph lib) p) (\<lambda>dag.
                      and_then (layers (al_graph lib) (al_rank lib) dag) (\<lambda>ls.
                        Ok (map (List.map_filter (dag_flow (al_graph lib) dag)) ls))) of
                 Ok ls \<Rightarrow> respond 200 (BDag (pipeline_name p) ls
                   (map (\<lambda>f. (flow_name f, flow_kind f, depends_on f)) (flows p)))
               | Err e \<Rightarrow> respond 400 (BSpecError (show_spec_error e))
               | Panic m \<Rightarrow> Panic m))"

section \<open>Routing\<close>

text \<open>A request by its method and path, with the decoded body.\<close>

datatype request =
    GetHealth
  | GetSnapshot
  | PostWorker worker_info
  | PostHeartbeat string
  | GetTask string
  | PostComplete string usize
  | PostFail string string
  | PostJob job_request
  | GetJobs
  | GetJob string
  | PostSql string "string option"
  | GetTables
  | PostTable string string "string option" "string option"
  | DeleteTable string
  | GetSuggestions
  | PostPipeline string
  | GetPipelines
  | GetDag string

definition route :: "'g api_lib \<Rightarrow> tick \<Rightarrow> nat \<Rightarrow> request \<Rightarrow> api_state \<Rightarrow> handled option" where
  "route lib tk fuel rq st =
     (case rq of
        GetHealth \<Rightarrow> Some (health tk st)
      | GetSnapshot \<Rightarrow> Some (api_snapshot tk st)
      | PostWorker w \<Rightarrow> Some (api_register_worker w st)
      | PostHeartbeat wid \<Rightarrow> Some (api_heartbeat tk wid st)
      | GetTask wid \<Rightarrow> Some (api_poll_task wid st)
      | PostComplete tid rows \<Rightarrow> Some (api_complete_task lib tk tid rows st)
      | PostFail tid err \<Rightarrow> Some (api_fail_task lib tk tid err st)
      | PostJob req \<Rightarrow> Some (api_submit_job lib tk req st)
      | GetJobs \<Rightarrow> Some (api_list_jobs st)
      | GetJob jid \<Rightarrow> Some (api_get_job jid st)
      | PostSql sql jname \<Rightarrow> Some (api_execute_sql lib tk sql jname st)
      | GetTables \<Rightarrow> Some (api_list_tables lib st)
      | PostTable name path source kind \<Rightarrow> Some (api_register_table lib name path source kind st)
      | DeleteTable name \<Rightarrow> Some (api_unregister_table lib name st)
      | GetSuggestions \<Rightarrow> Some (suggestions lib st)
      | PostPipeline body \<Rightarrow> submit_pipeline lib tk fuel body st
      | GetPipelines \<Rightarrow> Some (list_pipelines st)
      | GetDag name \<Rightarrow> Some (pipeline_dag_handler lib name st))"

end
