(* ===== verification/Api_Laws.thy ===== *)
theory Api_Laws
  imports Api Cluster_Laws Pipeline_Laws
begin

text \<open>
  The API against the master: up to the contents of the job records, which the SQL handler
  rewrites on its own, every state the handlers reach is one the master's state machine
  reaches, so the invariants of queue, tasks and stages carry over.
\<close>

section \<open>States with the same work\<close>

definition same_work :: "cluster_state \<Rightarrow> cluster_state \<Rightarrow> bool" where
  "same_work a b \<longleftrightarrow> tasks a = tasks b \<and> stages a = stages b \<and> pending a = pending b \<and>
     (\<forall>k. get_job a k = None \<longleftrightarrow> get_job b k = None)"

lemma same_work_refl [simp]: "same_work a a"
  by (simp add: same_work_def)

lemma same_work_trans: "same_work a b \<Longrightarrow> same_work b c \<Longrightarrow> same_work a c"
  by (simp add: same_work_def)

lemma same_work_get:
  assumes "same_work a b"
  shows "get_task a = get_task b" "get_stage a = get_stage b" "pending a = pending b"
    "get_job a k = None \<longleftrightarrow> get_job b k = None" "tasks_for_job a = tasks_for_job b"
    "tasks a = tasks b" "stages a = stages b"
  using assms by (simp_all add: same_work_def get_task_def get_stage_def tasks_for_job_def fun_eq_iff)

text \<open>Operations on tasks and stages take states with the same work to states with the same work.\<close>

lemma same_work_update [intro]:
  assumes "same_work a b"
  shows "same_work (update_task a t) (update_task b t)" "same_work (insert_task a t) (insert_task b t)"
    "same_work (update_stage a s) (update_stage b s)"
    "job_id j = job_id j' \<Longrightarrow> same_work (update_job a j) (update_job b j')"
    "same_work (a\<lparr>pending := q\<rparr>) (b\<lparr>pending := q\<rparr>)"
  using assms
  by (auto simp: same_work_def update_task_def insert_task_def update_stage_def update_job_def
      get_task_def get_job_def Let_def update_conv' split: option.splits)

lemma same_work_frame [intro]:
  "same_work (register_worker a w) a" "same_work (update_worker_heartbeat a wid now) a"
  "same_work (snd (inc_running_round a)) a" "same_work (record_completed_round a) a"
  "get_job a (job_id j) \<noteq> None \<Longrightarrow> same_work (update_job a j) a"
  by (auto simp: same_work_def register_worker_def update_worker_heartbeat_def inc_running_round_def
      record_completed_round_def update_job_def get_job_def update_conv' split: option.splits)

lemma same_work_assign:
  assumes "same_work a b"
  shows "fst (try_assign_task a wid) = fst (try_assign_task b wid)"
    "same_work (snd (try_assign_task a wid)) (snd (try_assign_task b wid))"
proof -
  note eq = same_work_get [OF assms]
  have pop: "fst (pop_pending_task a) = fst (pop_pending_task b)"
    "same_work (snd (pop_pending_task a)) (snd (pop_pending_task b))"
    using assms eq by (auto simp: pop_pending_task_def split: list.splits)
  obtain t a' b' where ab: "pop_pending_task a = (t, a')" "pop_pending_task b = (t, b')" "same_work a' b'"
    using pop by (metis prod.collapse)
  have stage: "get_stage (update_task c t) = get_stage c" for c t by (simp add: view_simps)
  show "fst (try_assign_task a wid) = fst (try_assign_task b wid)"
    by (simp add: try_assign_task_def Let_def ab split: option.splits)
  show "same_work (snd (try_assign_task a wid)) (snd (try_assign_task b wid))"
    using ab(3) same_work_get(2) [OF ab(3)]
    by (auto simp: try_assign_task_def Let_def stage ab(1,2) split: option.splits)
qed

lemma recomputed_job_id [simp]: "job_id (recomputed_job j ts now) = job_id j"
  by (simp add: recomputed_job_def)

text \<open>The state after the task and its stage are rewritten, before the job is.\<close>

definition finished :: "cluster_state \<Rightarrow> task \<Rightarrow> cluster_state" where
  "finished c t = (case get_stage (update_task c t) (task_stage_id t) of
      None \<Rightarrow> update_task c t | Some s \<Rightarrow> update_stage (update_task c t) (recomputed_stage s t))"

lemma get_job_finished [view_simps]: "get_job (finished c t) = get_job c"
  by (auto simp: finished_def view_simps split: option.splits)

lemma complete_task_unfold:
  assumes "get_task c tid = Some t0" "t = completed_task t0 rows success err now"
  shows "complete_task c tid rows success err now now' =
    (case get_job c (task_job_id t) of
       None \<Rightarrow> Panic unwrap_none
     | Some j \<Rightarrow> Ok (update_job (finished c t) (recomputed_job j (tasks_for_job (finished c t) (task_job_id t)) now')))"
proof -
  have "complete_task c tid rows success err now now' =
    (case get_job (finished c t) (task_job_id t) of
       None \<Rightarrow> Panic unwrap_none
     | Some j \<Rightarrow> Ok (update_job (finished c t) (recomputed_job j (tasks_for_job (finished c t) (task_job_id t)) now')))"
    unfolding complete_task_def assms ok_or_def option.case and_then.simps Let_def finished_def
    by (rule refl)
  then show ?thesis by (simp add: view_simps)
qed

lemma same_work_complete:
  assumes "same_work a b" "complete_task a tid rows success err now now' = Ok a'"
    and "\<And>k j. get_job a k = Some j \<Longrightarrow> job_id j = k" "\<And>k j. get_job b k = Some j \<Longrightarrow> job_id j = k"
  shows "\<exists>b'. complete_task b tid rows success err now now' = Ok b' \<and> same_work a' b'"
proof -
  note eq = same_work_get [OF assms(1)]
  obtain t0 where t0: "get_task a tid = Some t0"
    using assms(2) by (auto simp: complete_task_def and_then_eq_Ok ok_or_eq_Ok)
  then have t0': "get_task b tid = Some t0" using eq(1) by simp
  define t where "t = completed_task t0 rows success err now"
  have work: "same_work (finished a t) (finished b t)"
    using assms(1) eq(2) by (auto simp: finished_def view_simps split: option.splits)
  obtain j where j: "get_job a (task_job_id t) = Some j"
      "a' = update_job (finished a t) (recomputed_job j (tasks_for_job (finished a t) (task_job_id t)) now')"
    using assms(2) unfolding complete_task_unfold [OF t0 t_def] by (auto split: option.splits)
  obtain j' where j': "get_job b (task_job_id t) = Some j'" using j(1) eq(4) by (metis not_None_eq)
  have "job_id j = job_id j'" using assms(3,4) j(1) j' by simp
  then have "same_work a' (update_job (finished b t) (recomputed_job j' (tasks_for_job (finished b t) (task_job_id t)) now'))"
    unfolding j(2) using work by (intro same_work_update(4)) simp_all
  then show ?thesis unfolding complete_task_unfold [OF t0' t_def] using j' by simp
qed

lemma same_work_insert_tasks: "same_work a b \<Longrightarrow> same_work (foldl insert_task a ts) (foldl insert_task b ts)"
  by (induction ts arbitrary: a b) auto

lemma same_work_submit:
  assumes "same_work a b" "submit_job lib cat a req ids now now' = Ok (j, cb, a')"
  shows "\<exists>b'. submit_job lib cat b req ids now now' = Ok (j, cb, b') \<and> same_work a' b'"
proof -
  define body where "body = (\<lambda>c parts.
    let job = (job_new (fresh_job ids) (req_name req) (req_sql req) now) \<lparr>job_parallelism := max (req_parallelism req) 1\<rparr>;
        stage = (stage_new (fresh_stage ids) (job_id job) 0 ''main'') \<lparr>stage_tasks := new_tasks ids (req_sql req) parts\<rparr>;
        job = job\<lparr>job_stages := [stage_id stage]\<rparr>;
        c = insert_job (foldl insert_task (insert_stage c stage) (stage_tasks stage)) job
    in update_job c (job\<lparr>job_status := JbRunning, job_started_at := Some now'\<rparr>))"
  have body: "same_work (body a parts) (body b parts)" for parts
    unfolding body_def Let_def insert_stage_update
    by (intro same_work_update same_work_insert_tasks assms(1)) simp_all
  have views: "get_job (body c parts) (fresh_job ids) = get_job (body a parts) (fresh_job ids)" for c parts
    by (simp add: body_def Let_def view_simps job_new_def)
  have form: "submit_job lib cat c req ids now now' =
      and_then (plan_sql lib cat (req_sql req)) (\<lambda>p. and_then (plan_partitions p (req_parallelism req)) (\<lambda>parts.
        Ok (unwrap_or (get_job (body c parts) (fresh_job ids))
              ((job_new (fresh_job ids) (req_name req) (req_sql req) now)
                 \<lparr>job_parallelism := max (req_parallelism req) 1, job_stages := [fresh_stage ids]\<rparr>),
            get_stage (body c parts) (fresh_stage ids), body c parts)))" for c
    unfolding submit_job_def body_def Let_def
    by (simp add: insert_stage_update view_simps stage_new_def job_new_def)
  from assms(2) obtain p parts where p: "plan_sql lib cat (req_sql req) = Ok p"
      "plan_partitions p (req_parallelism req) = Ok parts"
      "a' = body a parts"
    unfolding form by (auto simp: and_then_eq_Ok)
  then show ?thesis
    using assms(2) body [of parts] same_work_get(2) [OF body [of parts]] views [of b parts]
    by (simp add: form)
qed

section \<open>Refinement of the master\<close>

definition jobs_keyed :: "cluster_state \<Rightarrow> bool" where
  "jobs_keyed st \<longleftrightarrow> (\<forall>k j. get_job st k = Some j \<longrightarrow> job_id j = k)"

definition refines_master :: "cluster_state \<Rightarrow> bool" where
  "refines_master cs \<longleftrightarrow> jobs_keyed cs \<and> (\<exists>ms. reachable ms \<and> same_work cs ms)"

lemma jobs_keyed_update_job: "jobs_keyed st \<Longrightarrow> jobs_keyed (update_job st j)"
  by (simp add: jobs_keyed_def view_simps)

lemma jobs_keyed_cong: "get_job a = get_job b \<Longrightarrow> jobs_keyed a = jobs_keyed b"
  by (simp add: jobs_keyed_def)

lemma get_job_frame [view_simps]:
  "get_job (register_worker st w) = get_job st" "get_job (update_worker_heartbeat st wid now) = get_job st"
  "get_job (snd (inc_running_round st)) = get_job st" "get_job (record_completed_round st) = get_job st"
  by (auto simp: fun_eq_iff get_job_def register_worker_def update_worker_heartbeat_def
      inc_running_round_def record_completed_round_def split: option.splits)

lemma refines_new: "refines_master (cluster_new mid)"
  using reachable.start [of mid] same_work_refl
  by (auto simp: refines_master_def jobs_keyed_def cluster_new_def get_job_def)

lemma refines_same: "refines_master cs \<Longrightarrow> same_work cs' cs \<Longrightarrow> jobs_keyed cs' \<Longrightarrow> refines_master cs'"
  by (meson refines_master_def same_work_trans)

lemma refines_frame:
  assumes "refines_master cs"
  shows "refines_master (register_worker cs w)" "refines_master (update_worker_heartbeat cs wid now)"
    "refines_master (snd (inc_running_round cs))" "refines_master (record_completed_round cs)"
    "get_job cs (job_id j) \<noteq> None \<Longrightarrow> refines_master (update_job cs j)"
proof -
  have keyed: "jobs_keyed cs" using assms by (simp add: refines_master_def)
  note cong = jobs_keyed_cong [THEN iffD2, OF _ keyed]
  show "refines_master (register_worker cs w)" "refines_master (update_worker_heartbeat cs wid now)"
    "refines_master (snd (inc_running_round cs))" "refines_master (record_completed_round cs)"
    by (intro refines_same [OF assms] same_work_frame cong get_job_frame)+
  show "get_job cs (job_id j) \<noteq> None \<Longrightarrow> refines_master (update_job cs j)"
    by (intro refines_same [OF assms] same_work_frame jobs_keyed_update_job keyed)
qed

lemma submit_get_job:
  assumes "submit_job lib cat st req ids now now' = Ok (j, cb, st')"
  shows "job_id j = fresh_job ids" "get_job st' k = (if k = fresh_job ids then Some j else get_job st k)"
proof -
  obtain p parts base s jb where r:
    "base = foldl insert_task (update_stage st s) (new_tasks ids (req_sql req) parts)"
    "job_id jb = fresh_job ids" "j = jb\<lparr>job_status := JbRunning, job_started_at := Some now'\<rparr>"
    "st' = update_job (update_job base jb) j"
    using submit_job_Ok [OF assms] by metis
  have "get_job (foldl insert_task c ts) = get_job c" for c ts
    by (induction ts arbitrary: c) (simp_all add: view_simps)
  then show "job_id j = fresh_job ids" "get_job st' k = (if k = fresh_job ids then Some j else get_job st k)"
    using r by (simp_all add: view_simps)
qed

lemma refines_submit:
  assumes "refines_master cs" "submit_job lib cat cs req ids now now' = Ok (j, cb, cs')" "ids_fresh cs ids"
  shows "refines_master cs'"
proof -
  obtain ms where ms: "reachable ms" "same_work cs ms" using assms(1) by (auto simp: refines_master_def)
  obtain ms' where ms': "submit_job lib cat ms req ids now now' = Ok (j, cb, ms')" "same_work cs' ms'"
    using same_work_submit [OF ms(2) assms(2)] by blast
  have "ids_fresh ms ids" using assms(3) same_work_get [OF ms(2)] by (simp add: ids_fresh_def)
  then have "reachable ms'" using ms(1) ms'(1) cluster_step.submit reachable.step by metis
  moreover have "jobs_keyed cs'"
    using assms(1) submit_get_job [OF assms(2)] by (auto simp: refines_master_def jobs_keyed_def)
  ultimately show ?thesis using ms'(2) by (auto simp: refines_master_def)
qed

lemma refines_skip:
  assumes "refines_master cs" "submit_job_skip_plan cs req jid now now' = Ok (j, cs')" "get_job cs jid = None"
  shows "refines_master cs'"
proof -
  obtain ms where ms: "reachable ms" "same_work cs ms" using assms(1) by (auto simp: refines_master_def)
  have j: "job_id j = jid" "cs' = update_job cs j"
    "submit_job_skip_plan ms req jid now now' = Ok (j, update_job ms j)"
    using assms(2) by (auto simp: submit_job_skip_plan_def Let_def insert_stage_update job_new_def)
  have "get_job ms jid = None" using assms(3) same_work_get(4) [OF ms(2)] by simp
  then have "reachable (update_job ms j)" using ms(1) j(3) cluster_step.skip reachable.step by metis
  moreover have "same_work cs' (update_job ms j)" unfolding j(2) using ms(2) by blast
  ultimately show ?thesis
    using assms(1) j(2) jobs_keyed_update_job by (auto simp: refines_master_def)
qed

lemma refines_assign:
  assumes "refines_master cs"
  shows "refines_master (snd (try_assign_task cs wid))"
proof -
  obtain ms where ms: "reachable ms" "same_work cs ms" using assms by (auto simp: refines_master_def)
  have "reachable (snd (try_assign_task ms wid))"
    using ms(1) cluster_step.assign reachable.step by (metis prod.collapse)
  moreover have "get_job (snd (pop_pending_task cs)) = get_job cs"
    by (auto simp: pop_pending_task_def view_simps split: list.splits)
  then have "get_job (snd (try_assign_task cs wid)) = get_job cs"
    by (auto simp: try_assign_task_def Let_def view_simps fun_eq_iff split: prod.splits option.splits)
  ultimately show ?thesis
    using assms same_work_assign(2) [OF ms(2)] jobs_keyed_cong unfolding refines_master_def by blast
qed

lemma refines_complete:
  assumes "refines_master cs"
  shows "complete_task cs tid rows success err now now' = Err (ErrNotFound (''task '' @ tid @ '' not found'')) \<or>
    (\<exists>cs'. complete_task cs tid rows success err now now' = Ok cs' \<and> refines_master cs')"
proof (cases "get_task cs tid")
  case None
  then show ?thesis by (simp add: complete_task_def ok_or_def)
next
  case (Some t)
  obtain ms where ms: "reachable ms" "same_work cs ms" using assms by (auto simp: refines_master_def)
  have inv: "jobs_ok ms" "keyed ms" using reachable_inv [OF ms(1)] by (auto simp: cluster_inv_def)
  have "get_job cs (task_job_id t) \<noteq> None"
    using inv(1) Some same_work_get(1,4) [OF ms(2)] unfolding jobs_ok_def by metis
  then obtain j where "get_job cs (task_job_id (completed_task t rows success err now)) = Some j" by auto
  from complete_task_unfold [OF Some refl, of rows success err now now'] this
  obtain cs' c j' where cs': "complete_task cs tid rows success err now now' = Ok cs'"
      "cs' = update_job c j'" "get_job c = get_job cs"
    by (simp add: view_simps)
  have keys: "\<And>k j. get_job cs k = Some j \<Longrightarrow> job_id j = k" "\<And>k j. get_job ms k = Some j \<Longrightarrow> job_id j = k"
    using assms inv(2) by (auto simp: refines_master_def jobs_keyed_def keyed_def)
  obtain ms' where ms': "complete_task ms tid rows success err now now' = Ok ms'" "same_work cs' ms'"
    using same_work_complete [OF ms(2) cs'(1) keys] by blast
  have "reachable ms'" using ms(1) ms'(1) cluster_step.complete reachable.step by metis
  moreover have "jobs_keyed cs'"
    unfolding cs'(2) using cs'(3) assms jobs_keyed_update_job jobs_keyed_cong by (metis refines_master_def)
  ultimately show ?thesis using cs'(1) ms'(2) by (auto simp: refines_master_def)
qed

section \<open>Handlers\<close>

lemma refines_finish_task:
  assumes "refines_master (api_cluster st)"
  shows "refines_master (api_cluster (fst (finish_task lib tk tid rows success err st)))"
    and "\<not> panics (snd (finish_task lib tk tid rows success err st))"
  using refines_complete [OF assms, of tid rows success err "tk_now tk" "tk_later tk"] assms
  by (auto simp: finish_task_def err_response_def respond_def)

lemma refines_submit_job:
  assumes "refines_master (api_cluster st)" "ids_fresh (api_cluster st) (tk_ids tk)"
  shows "refines_master (api_cluster (fst (api_submit_job lib tk req st)))"
  using assms refines_frame(3) refines_submit [OF assms(1) _ assms(2)]
  by (auto simp: api_submit_job_def api_submit_def split: result.splits)

lemma refines_show_create:
  assumes "refines_master (api_cluster st)" "ids_fresh (api_cluster st) (tk_ids tk)"
  shows "refines_master (api_cluster (fst (sql_show_create lib tk sql jname table st)))"
proof -
  obtain j where j: "submit_job_skip_plan (api_cluster st) (ad_hoc_request tk sql jname)
      (fresh_job (tk_ids tk)) (tk_now tk) (tk_now tk) = Ok (j, update_job (api_cluster st) j)"
    "job_id j = fresh_job (tk_ids tk)"
    by (simp add: submit_job_skip_plan_def Let_def insert_stage_update job_new_def)
  define cs where "cs = snd (inc_running_round (update_job (api_cluster st) j))"
  have "refines_master (update_job (api_cluster st) j)"
    using refines_skip [OF assms(1) j(1)] assms(2) by (simp add: ids_fresh_def)
  then have cs: "refines_master cs" unfolding cs_def by (rule refines_frame)
  moreover have "get_job cs (job_id (succeeded_job tk j 1)) \<noteq> None"
    by (simp add: cs_def view_simps succeeded_job_def)
  ultimately show ?thesis
    by (auto simp: sql_show_create_def j(1) Let_def refines_frame simp flip: cs_def split: result.splits)
qed

lemma refines_sql_query:
  assumes "refines_master (api_cluster st)" "ids_fresh (api_cluster st) (tk_ids tk)"
  shows "refines_master (api_cluster (fst (answer_query lib tk sql jname st)))"
proof (cases "api_submit lib tk (ad_hoc_request tk sql jname) st")
  case (Ok r)
  obtain j cb cs where r: "r = (j, cb, cs)" by (cases r)
  have sub: "submit_job (rn_sql (al_runner lib)) (session_catalog (api_catalog st)) (api_cluster st)
      (ad_hoc_request tk sql jname) (tk_ids tk) (tk_now tk) (tk_later tk) = Ok (j, cb, cs)"
    using Ok r by (simp add: api_submit_def)
  define cs1 where "cs1 = snd (inc_running_round cs)"
  have cs1: "refines_master cs1"
    unfolding cs1_def using refines_submit [OF assms(1) sub assms(2)] by (rule refines_frame)
  have "get_job cs1 (job_id j) \<noteq> None" using submit_get_job [OF sub] by (simp add: cs1_def view_simps)
  then have jobs: "get_job cs1 (job_id (failed_job tk j e)) \<noteq> None"
      "get_job cs1 (job_id (succeeded_job tk j n)) \<noteq> None" for e n
    by (simp_all add: failed_job_def succeeded_job_def)
  show ?thesis
    using cs1 refines_frame(5) [OF cs1 jobs(1)] refines_frame(5) [OF cs1 jobs(2)]
    by (auto simp: answer_query_def Ok r Let_def refines_frame simp flip: cs1_def split: result.splits)
qed (use assms in \<open>simp_all add: answer_query_def\<close>)

lemma refines_execute_sql:
  assumes "refines_master (api_cluster st)" "ids_fresh (api_cluster st) (tk_ids tk)"
  shows "refines_master (api_cluster (fst (api_execute_sql lib tk sql jname st)))"
  using assms refines_show_create [OF assms] refines_sql_query [OF assms]
  by (auto simp: api_execute_sql_def split: result.splits option.splits)

lemma other_handlers_keep_cluster:
  "api_cluster (fst (api_register_table lib name path source kind st)) = api_cluster st"
  "api_cluster (fst (api_unregister_table lib name st)) = api_cluster st"
  "api_cluster (fst (api_list_tables lib st)) = api_cluster st"
  "api_cluster (fst (suggestions lib st)) = api_cluster st"
  "submit_pipeline lib tk fuel body st = Some (st', r) \<Longrightarrow> api_cluster st' = api_cluster st"
  by (auto simp: api_register_table_def api_unregister_table_def api_list_tables_def suggestions_def
      submit_pipeline_def Let_def split: result.splits sum.splits option.splits)

lemma route_refines:
  assumes "refines_master (api_cluster st)" "ids_fresh (api_cluster st) (tk_ids tk)"
    and "route lib tk fuel rq st = Some (st', r)"
  shows "refines_master (api_cluster st')"
proof -
  have poll: "refines_master (api_cluster (fst (api_poll_task wid st)))" for wid
    using refines_assign [OF assms(1)] by (simp add: api_poll_task_def split_def Let_def)
  have beat: "refines_master (api_cluster (fst (api_heartbeat tk wid st)))" for wid
    using assms(1) refines_frame(2) by (simp add: api_heartbeat_def split: option.splits)
  have pipe: "refines_master (api_cluster (fst p))" if "submit_pipeline lib tk fuel body st = Some p" for body p
    using that assms(1) other_handlers_keep_cluster(5) [of lib tk fuel body st "fst p" "snd p"] by simp
  have "refines_master (api_cluster (fst p))" if "route lib tk fuel rq st = Some p" for p
    using that assms(1)
    by (cases rq)
      (auto simp: route_def health_def api_snapshot_def api_register_worker_def api_list_jobs_def
        api_get_job_def list_pipelines_def pipeline_dag_handler_def api_complete_task_def
        api_fail_task_def poll beat other_handlers_keep_cluster(1-4) refines_frame(1) [OF assms(1)]
        refines_finish_task(1) [OF assms(1)] refines_submit_job [OF assms(1,2)]
        refines_execute_sql [OF assms(1,2)] dest: pipe split: option.splits)
  from this [OF assms(3)] show ?thesis by simp
qed

text \<open>Sequences of requests; the identifiers a request draws are new.\<close>

inductive api_reachable :: "'g api_lib \<Rightarrow> api_state \<Rightarrow> bool" for lib where
  api_start: "api_reachable lib (api_state_new (cluster_new mid) cat w)"
| api_step: "api_reachable lib st \<Longrightarrow> ids_fresh (api_cluster st) (tk_ids tk) \<Longrightarrow>
    route lib tk fuel rq st = Some (st', r) \<Longrightarrow> api_reachable lib st'"

lemma api_reachable_refines: "api_reachable lib st \<Longrightarrow> refines_master (api_cluster st)"
  by (induction rule: api_reachable.induct) (auto simp: api_state_new_def refines_new intro: route_refines)

section \<open>The SQL handler\<close>

text \<open>An answer with rows comes from a query that was submitted, planned and executed.\<close>

lemma sql_query_answer:
  assumes "answer_query lib tk sql jname st = (st', Ok resp)" "resp_body resp = BSql r"
  obtains j cb cs p b where
    "submit_job (rn_sql (al_runner lib)) (session_catalog (api_catalog st)) (api_cluster st)
       (ad_hoc_request tk sql jname) (tk_ids tk) (tk_now tk) (tk_later tk) = Ok (j, cb, cs)"
    "plan_sql (rn_sql (al_runner lib)) (session_catalog (api_catalog st)) sql = Ok p"
    "execute (rn_rx (al_runner lib)) (api_context lib st) p = Ok b"
    "resp_status resp = 200" "r = batch_response lib tk (succeeded_job tk j (batch_len b)) b"
    "api_cluster st' = record_completed_round (snd (inc_running_round
       (update_job (snd (inc_running_round cs)) (succeeded_job tk j (batch_len b)))))"
  using assms
  by (fastforce simp: answer_query_def api_submit_def Let_def err_response_def respond_def
      split: result.splits prod.splits)

lemma sql_query_answer_job:
  assumes "answer_query lib tk sql jname st = (st', Ok resp)" "resp_body resp = BSql r"
  shows "resp_status resp = 200 \<and> sr_row_count r = length (sr_rows r) \<and>
    get_job (api_cluster st') (job_id (sr_job r)) = Some (sr_job r) \<and>
    job_status (sr_job r) = JbSucceeded \<and> job_result_rows (sr_job r) = Some (word_of_nat (sr_row_count r))"
  using assms
proof (rule sql_query_answer)
  fix j cs b
  let ?j = "succeeded_job tk j (batch_len b)"
  assume "resp_status resp = 200" "r = batch_response lib tk ?j b"
    "api_cluster st' = record_completed_round (snd (inc_running_round (update_job (snd (inc_running_round cs)) ?j)))"
  then show ?thesis by (simp add: batch_response_def batch_len_def succeeded_job_def view_simps)
qed

lemma show_create_answer:
  assumes "sql_show_create lib tk sql jname table st = (st', Ok resp)" "resp_body resp = BSql r"
  shows "resp_status resp = 200" "sr_row_count r = 1" "length (sr_rows r) = 1"
    "job_status (sr_job r) = JbSucceeded" "get_job (api_cluster st') (job_id (sr_job r)) = Some (sr_job r)"
    "job_result_rows (sr_job r) = Some 1"
  using assms
  by (auto simp: sql_show_create_def submit_job_skip_plan_def Let_def insert_stage_update respond_def
      err_response_def succeeded_job_def view_simps split: result.splits)

lemma same_work_answered:
  assumes "get_job cs (job_id j) \<noteq> None"
  shows "same_work (record_completed_round (snd (inc_running_round (update_job (snd (inc_running_round cs)) j)))) cs"
proof -
  have "get_job (snd (inc_running_round cs)) (job_id j) \<noteq> None" using assms by (simp add: view_simps)
  then have "same_work (update_job (snd (inc_running_round cs)) j) cs"
    using same_work_frame(3,5) same_work_trans by blast
  then show ?thesis using same_work_frame(3,4) same_work_trans by blast
qed

text \<open>The tasks of an answered query are still queued.\<close>

lemma answered_query_queued:
  assumes "refines_master (api_cluster st)" "ids_fresh (api_cluster st) (tk_ids tk)"
    and "answer_query lib tk sql jname st = (st', Ok resp)" "resp_body resp = BSql r"
  shows "\<exists>t. get_task (api_cluster st') (task_id t) = Some t \<and> task_job_id t = job_id (sr_job r) \<and>
    task_status t = TkPending \<and> task_id t \<in> set (pending (api_cluster st'))"
proof -
  from assms(3,4) obtain j cb cs b where sub: "submit_job (rn_sql (al_runner lib)) (session_catalog (api_catalog st))
      (api_cluster st) (ad_hoc_request tk sql jname) (tk_ids tk) (tk_now tk) (tk_later tk) = Ok (j, cb, cs)"
    and r: "job_id (sr_job r) = job_id j"
    and st': "api_cluster st' = record_completed_round (snd (inc_running_round
       (update_job (snd (inc_running_round cs)) (succeeded_job tk j (batch_len b)))))"
    by (rule sql_query_answer) (auto simp: batch_response_def succeeded_job_def)
  have jid: "job_id j = fresh_job (tk_ids tk)" "get_job cs (job_id j) = Some j"
    using submit_get_job [OF sub] by simp_all
  obtain ms where ms: "reachable ms" "same_work (api_cluster st) ms" using assms(1) by (auto simp: refines_master_def)
  obtain ms' where ms': "submit_job (rn_sql (al_runner lib)) (session_catalog (api_catalog st)) ms
      (ad_hoc_request tk sql jname) (tk_ids tk) (tk_now tk) (tk_later tk) = Ok (j, cb, ms')" "same_work cs ms'"
    using same_work_submit [OF ms(2) sub] by blast
  have fresh: "ids_fresh ms (tk_ids tk)" using assms(2) same_work_get [OF ms(2)] by (simp add: ids_fresh_def)
  have inv: "cluster_inv ms'" using ms(1) ms'(1) fresh cluster_step.submit reachable.step reachable_inv by metis
  obtain p parts where p: "plan_partitions p (req_parallelism (ad_hoc_request tk sql jname)) = Ok parts"
      "tasks_for_job ms' (fresh_job (tk_ids tk)) = new_tasks (tk_ids tk) sql parts"
    using submitted_tasks [OF ms'(1) fresh reachable_inv [OF ms(1)]]
    by (metis ad_hoc_request_def job_request.simps req_with_parallelism_def job_request_new_def)
  have "parts \<noteq> []" using p(1) by (auto simp: plan_partitions_def Let_def split: if_splits)
  then obtain t where t: "t \<in> set (new_tasks (tk_ids tk) sql parts)"
    using new_tasks_simps(3) [of "tk_ids tk" sql parts] by (metis length_0_conv list.set_intros(1) neq_Nil_conv)
  have "t \<in> set (tasks_for_job ms' (fresh_job (tk_ids tk)))" using p(2) t by simp
  then obtain k where k: "get_task ms' k = Some t" "task_job_id t = fresh_job (tk_ids tk)"
    using inv by (auto simp: cluster_inv_def keyed_def tasks_for_job_set)
  moreover have "task_id t = k" "task_status t = TkPending"
    using inv k(1) new_tasks_simps(2) [OF t] by (auto simp: cluster_inv_def keyed_def)
  moreover have "k \<in> set (pending ms')"
    using inv calculation by (auto simp: cluster_inv_def queue_ok_def)
  moreover have "same_work (api_cluster st') ms'"
    unfolding st' using same_work_answered [of cs "succeeded_job tk j (batch_len b)"] jid(2) ms'(2) same_work_trans
    by (simp add: succeeded_job_def)
  ultimately show ?thesis using same_work_get(1,3) [of "api_cluster st'" ms'] r jid(1) by auto
qed

text \<open>A failure reported for a task fails its job, whatever the job's state was.\<close>

lemma failed_report_fails_job:
  assumes "get_task cs tid = Some t" "get_job cs (task_job_id t) = Some j" "job_id j = task_job_id t"
    and "task_id t = tid"
  shows "\<exists>cs' j' m. complete_task cs tid rows False err now now' = Ok cs' \<and>
    get_job cs' (task_job_id t) = Some j' \<and> job_status j' = JbFailed m"
proof -
  define u where "u = completed_task t rows False err now"
  have u: "task_id u = tid" "task_job_id u = task_job_id t" "\<not> is_succeeded u" "is_failed u"
    using assms(4) by (simp_all add: u_def completed_task_def Let_def is_succeeded_def is_failed_def)
  have "(tid, u) \<in> set (tasks (update_task cs u))"
    using u(1) by (auto simp: update_task_def Let_def dest: map_of_SomeD intro!: map_of_SomeD
        simp: update_conv')
  then have "(tid, u) \<in> set (tasks (finished cs u))"
    by (auto simp: finished_def update_stage_def split: option.splits)
  then have "u \<in> set (tasks_for_job (finished cs u) (task_job_id u))"
    by (force simp: tasks_for_job_def)
  then have "\<exists>m. job_status (recomputed_job j (tasks_for_job (finished cs u) (task_job_id u)) now') = JbFailed m"
    using u(3,4) by (auto simp: recomputed_job_def list_all_iff list_ex_iff)
  then show ?thesis
    using assms(2,3) u(2) unfolding complete_task_unfold [OF assms(1) u_def] by (auto simp: view_simps)
qed

end
