(* ===== verification/Api_Properties.thy ===== *)
theory Api_Properties
  imports Api_Laws Cluster_Properties Pipeline_Properties Query_Properties
begin

text \<open>
  Properties of the HTTP API as a state machine over the master, the catalog and the registered
  pipelines.
\<close>

section \<open>A sample server\<close>

definition api_runner :: "session_state runner" where
  "api_runner = \<lparr>rn_catalog = session_dyn, rn_context = \<lambda>w. sales_ctx, rn_stream = stream_sample,
     rn_rx = no_regex, rn_sql = sales_lib, rn_csv_writer = \<lambda>rs. ([], None),
     rn_s3 = \<lparr>s3_get_object = \<lambda>c obs k. Inl ''none'', s3_put_object = \<lambda>c obs k t. None\<rparr>,
     rn_env = \<lambda>v. None, rn_interfere = \<lambda>f i fs. fs, rn_kafka = \<lambda>f i n. KafkaTimeout, rn_millis = \<lambda>f. 0\<rparr>"

definition api_sample :: "list_graph api_lib" where
  "api_sample = \<lparr>al_runner = api_runner, al_yaml = \<lambda>s. Inl ''no yaml'', al_graph = list_petgraph,
     al_rank = \<lambda>i n. n, al_err_debug = \<lambda>e. []\<rparr>"

definition tick_sample :: tick where
  "tick_sample = \<lparr>tk_ids = sample_ids, tk_now = 0, tk_later = 1, tk_elapsed = 1, tk_text = []\<rparr>"

definition server :: api_state where
  "server = api_state_new (cluster_new ''m'') sales_session \<lparr>w_files = Map.empty, w_objects = Map.empty\<rparr>"

lemma server_reachable: "api_reachable api_sample server"
  unfolding server_def by (rule api_reachable.api_start)

lemma server_fresh: "ids_fresh (api_cluster server) (tk_ids tick_sample)"
  using show_nat_inj
  by (simp add: ids_fresh_def sample_ids_def tick_sample_def server_def api_state_new_def cluster_new_def
      get_task_def get_stage_def get_job_def)

text \<open>The state after one query has been answered.\<close>

definition answered :: "api_state \<times> response res" where
  "answered = api_execute_sql api_sample tick_sample ''q'' None server"

lemma sample_answer: "\<exists>r. snd answered = Ok \<lparr>resp_status = 200, resp_body = BSql r\<rparr>"
proof -
  have "case snd answered of Ok resp \<Rightarrow> resp_status resp = 200 \<and>
      (case resp_body resp of BSql r \<Rightarrow> True | _ \<Rightarrow> False) | _ \<Rightarrow> False" by code_simp
  then show ?thesis
    by (auto split: result.splits api_body.splits) (metis response.surjective old.unit.exhaust)
qed

lemma answered_reachable: "api_reachable api_sample (fst answered)"
proof -
  have "route api_sample tick_sample 0 (PostSql ''q'' None) server = Some (fst answered, snd answered)"
    by (simp add: route_def answered_def)
  then show ?thesis by (rule api_reachable.api_step [OF server_reachable server_fresh])
qed

section \<open>The handlers and the master\<close>





section \<open>Queries\<close>

text \<open>C29. A query that is answered with rows is answered with status 200, with as many rows as it
  announces, and with the job as the master stores it from then on: succeeded, with that
  number of rows.\<close>

theorem sql_answer_matches_job:
  assumes "api_execute_sql lib tk sql jname st = (st', Ok resp)" "resp_body resp = BSql r"
  shows "resp_status resp = 200 \<and> sr_row_count r = length (sr_rows r) \<and>
    get_job (api_cluster st') (job_id (sr_job r)) = Some (sr_job r) \<and>
    job_status (sr_job r) = JbSucceeded \<and> job_result_rows (sr_job r) = Some (word_of_nat (sr_row_count r))"
proof (cases "\<exists>table. try_show_create (rn_sql (al_runner lib)) sql = Ok (Some table)")
  case True
  then obtain table where "sql_show_create lib tk sql jname table st = (st', Ok resp)"
    using assms(1) by (auto simp: api_execute_sql_def)
  from show_create_answer [OF this assms(2)] show ?thesis by simp
next
  case False
  then have "answer_query lib tk sql jname st = (st', Ok resp)"
    using assms by (auto simp: api_execute_sql_def err_response_def respond_def split: result.splits option.splits)
  from sql_query_answer_job [OF this assms(2)] show ?thesis .
qed

theorem sql_answer_matches_job_witness:
  "\<exists>r. snd answered = Ok \<lparr>resp_status = 200, resp_body = BSql r\<rparr> \<and> sr_row_count r = length (sr_rows r) \<and>
    get_job (api_cluster (fst answered)) (job_id (sr_job r)) = Some (sr_job r) \<and>
    job_status (sr_job r) = JbSucceeded \<and> job_result_rows (sr_job r) = Some (word_of_nat (sr_row_count r))"
proof -
  obtain r where r: "snd answered = Ok \<lparr>resp_status = 200, resp_body = BSql r\<rparr>" using sample_answer by blast
  then have "api_execute_sql api_sample tick_sample ''q'' None server =
      (fst answered, Ok \<lparr>resp_status = 200, resp_body = BSql r\<rparr>)"
    by (simp add: answered_def prod_eq_iff)
  from sql_answer_matches_job [OF this] r show ?thesis by simp
qed

text \<open>C16. A query that the server answers with rows is answered with an answer to the well-formed plan
  of its text over the tables of the session: the columns are those of the plan's output
  schema and the rows are the rows of the answer, rendered cell by cell.\<close>

theorem sql_reply_answers_query:
  assumes "ctx_ok (api_context lib st)"
    and "answer_query lib tk sql jname st = (st', Ok resp)" "resp_body resp = BSql r"
  shows "\<exists>p rows. plan_sql (rn_sql (al_runner lib)) (session_catalog (api_catalog st)) sql = Ok p \<and>
    plan_wf p \<and> answers (rn_rx (al_runner lib)) (api_context lib st) p rows \<and>
    sr_columns r = response_columns (output_schema p) \<and>
    sr_rows r = map (\<lambda>x. map (api_value_to_json (sl_json (rn_stream (al_runner lib)))) (row_values x)) rows"
  using assms(2,3)
proof (rule sql_query_answer)
  fix j p b
  assume p: "plan_sql (rn_sql (al_runner lib)) (session_catalog (api_catalog st)) sql = Ok p"
    and b: "execute (rn_rx (al_runner lib)) (api_context lib st) p = Ok b"
    and r: "r = batch_response lib tk (succeeded_job tk j (batch_len b)) b"
  have "answers (rn_rx (al_runner lib)) (api_context lib st) p (batch_records b)" "batch_schema b = output_schema p"
    using execution_answers [OF assms(1) b] execute_schema [OF assms(1) b] by simp_all
  then show ?thesis
    using p plan_sql_planned [OF p] by (auto simp: planned_def r batch_response_def)
qed

theorem sql_reply_answers_query_witness:
  "\<exists>r p rows. snd answered = Ok \<lparr>resp_status = 200, resp_body = BSql r\<rparr> \<and>
    plan_sql sales_lib (session_catalog sales_session) ''q'' = Ok p \<and> answers no_regex sales_ctx p rows \<and>
    length (sr_rows r) = length rows"
proof -
  obtain r where r: "snd answered = Ok \<lparr>resp_status = 200, resp_body = BSql r\<rparr>" using sample_answer by blast
  have "try_show_create (rn_sql (al_runner api_sample)) ''q'' = Ok None" by code_simp
  then have ans: "answer_query api_sample tick_sample ''q'' None server =
      (fst answered, Ok \<lparr>resp_status = 200, resp_body = BSql r\<rparr>)"
    using r by (simp add: answered_def api_execute_sql_def prod_eq_iff)
  have ctx: "api_context api_sample server = sales_ctx" "rn_rx (al_runner api_sample) = no_regex"
    "rn_sql (al_runner api_sample) = sales_lib" "api_catalog server = sales_session"
    by (simp_all add: api_context_def api_sample_def api_runner_def server_def api_state_new_def)
  show ?thesis
    using sql_reply_answers_query [OF _ ans, of r] sales_ctx_ok(1) r unfolding ctx by auto
qed

text \<open>C40. The server executes a query itself but also queues the tasks it was split into, and leaves
  them there: after a query has been answered as succeeded, one of its tasks is still in the
  queue, and a failure that is reported for it turns the job into a failed one.\<close>

theorem answered_job_can_still_fail:
  assumes "api_reachable lib st" "ids_fresh (api_cluster st) (tk_ids tk)"
    and "answer_query lib tk sql jname st = (st', Ok resp)" "resp_body resp = BSql r"
  shows "job_status (sr_job r) = JbSucceeded \<and> (\<exists>tid \<in> set (pending (api_cluster st')). \<forall>tk' err. \<exists>j m.
    get_job (api_cluster (fst (api_fail_task lib tk' tid err st'))) (job_id (sr_job r)) = Some j \<and>
    job_status j = JbFailed m)"
proof -
  obtain t where t: "get_task (api_cluster st') (task_id t) = Some t" "task_job_id t = job_id (sr_job r)"
      "task_id t \<in> set (pending (api_cluster st'))"
    using answered_query_queued [OF api_reachable_refines [OF assms(1)] assms(2-4)] by blast
  have job: "get_job (api_cluster st') (job_id (sr_job r)) = Some (sr_job r)" "job_status (sr_job r) = JbSucceeded"
    using sql_query_answer_job [OF assms(3,4)] by simp_all
  have "\<exists>j m. get_job (api_cluster (fst (api_fail_task lib tk' (task_id t) err st'))) (job_id (sr_job r)) = Some j \<and>
      job_status j = JbFailed m" for tk' err
  proof -
    obtain cs' j m where "complete_task (api_cluster st') (task_id t) 0 False (Some err) (tk_now tk') (tk_later tk') = Ok cs'"
        "get_job cs' (job_id (sr_job r)) = Some j" "job_status j = JbFailed m"
      using failed_report_fails_job [OF t(1), unfolded t(2), OF job(1) refl refl] by blast
    then show ?thesis by (simp add: api_fail_task_def finish_task_def)
  qed
  then show ?thesis using t(3) job(2) by blast
qed

theorem answered_job_can_still_fail_witness:
  "\<exists>r. snd answered = Ok \<lparr>resp_status = 200, resp_body = BSql r\<rparr> \<and> job_status (sr_job r) = JbSucceeded \<and>
    (\<exists>tid \<in> set (pending (api_cluster (fst answered))). \<forall>tk' err. \<exists>j m.
      get_job (api_cluster (fst (api_fail_task api_sample tk' tid err (fst answered)))) (job_id (sr_job r)) = Some j \<and>
      job_status j = JbFailed m)"
proof -
  obtain r where r: "snd answered = Ok \<lparr>resp_status = 200, resp_body = BSql r\<rparr>" using sample_answer by blast
  have "try_show_create (rn_sql (al_runner api_sample)) ''q'' = Ok None" by code_simp
  then have "answer_query api_sample tick_sample ''q'' None server =
      (fst answered, Ok \<lparr>resp_status = 200, resp_body = BSql r\<rparr>)"
    using r by (simp add: answered_def api_execute_sql_def prod_eq_iff)
  from answered_job_can_still_fail [OF server_reachable server_fresh this] r show ?thesis by simp
qed

end
