(* ===== verification/Crd.thy ===== *)
theory Crd
  imports Storage
begin

text \<open>
  \<^verbatim>\<open>rspark-operator/src/crd.rs\<close>: the \<^verbatim>\<open>SparkCluster\<close> resource with its defaults, and the parts of
  the Kubernetes objects that the operator fills in. A field that the source leaves at its
  default is absent from the record, or \<open>None\<close>.
\<close>

section \<open>The custom resource\<close>

record master_spec =
  ms_replicas :: i32
  ms_examples :: bool
  ms_load :: "string list"
  ms_cpu :: string
  ms_memory :: string

record workers_spec =
  ws_replicas :: i32
  ws_cores :: i32
  ws_memory_mb :: i32
  ws_cpu :: string
  ws_memory :: string

record spark_cluster_spec =
  sp_image :: string
  sp_image_pull_policy :: string
  sp_master :: master_spec
  sp_workers :: workers_spec

datatype phase = PhPending | PhReconciling | PhReady | PhFailed

record condition =
  cn_type :: string
  cn_status :: string
  cn_reason :: "string option"
  cn_message :: "string option"
  cn_last_transition_time :: "string option"

record spark_cluster_status =
  st_phase :: phase
  st_master_endpoint :: "string option"
  st_ready_workers :: i32
  st_ready_masters :: i32
  st_conditions :: "condition list"
  st_last_reconciled_at :: "string option"

record spark_cluster =
  sc_name :: "string option"
  sc_generate_name :: "string option"
  sc_namespace :: "string option"
  sc_uid :: "string option"
  sc_spec :: spark_cluster_spec

section \<open>Defaults\<close>

definition default_image :: string where "default_image = ''rspark:latest''"
definition default_pull_policy :: string where "default_pull_policy = ''Never''"
definition default_master_replicas :: i32 where "default_master_replicas = 1"
definition default_worker_replicas :: i32 where "default_worker_replicas = 2"
definition default_cores :: i32 where "default_cores = 2"
definition default_memory_mb :: i32 where "default_memory_mb = 1024"
definition default_master_cpu :: string where "default_master_cpu = ''200m''"
definition default_master_memory :: string where "default_master_memory = ''256Mi''"
definition default_worker_cpu :: string where "default_worker_cpu = ''200m''"
definition default_worker_memory :: string where "default_worker_memory = ''256Mi''"

text \<open>\<^verbatim>\<open>Default::default()\<close> as the \<^verbatim>\<open>derive\<close> generates it: every field at its type's default.\<close>

definition master_spec_default :: master_spec where
  "master_spec_default =
     \<lparr>ms_replicas = 0, ms_examples = False, ms_load = [], ms_cpu = [], ms_memory = []\<rparr>"

definition workers_spec_default :: workers_spec where
  "workers_spec_default =
     \<lparr>ws_replicas = 0, ws_cores = 0, ws_memory_mb = 0, ws_cpu = [], ws_memory = []\<rparr>"

text \<open>
  What a document gives: a field that it omits is \<open>None\<close>. Deserialising fills in the function
  that the field's \<^verbatim>\<open>serde(default = "...")\<close> names, or \<^verbatim>\<open>Default::default()\<close> for a plain
  \<^verbatim>\<open>serde(default)\<close>.
\<close>

record master_doc =
  md_replicas :: "i32 option"
  md_examples :: "bool option"
  md_load :: "string list option"
  md_cpu :: "string option"
  md_memory :: "string option"

record workers_doc =
  wd_replicas :: "i32 option"
  wd_cores :: "i32 option"
  wd_memory_mb :: "i32 option"
  wd_cpu :: "string option"
  wd_memory :: "string option"

record spec_doc =
  sd_image :: "string option"
  sd_image_pull_policy :: "string option"
  sd_master :: "master_doc option"
  sd_workers :: "workers_doc option"

definition master_of_doc :: "master_doc \<Rightarrow> master_spec" where
  "master_of_doc d =
     \<lparr>ms_replicas = unwrap_or (md_replicas d) default_master_replicas,
      ms_examples = unwrap_or (md_examples d) False,
      ms_load = unwrap_or (md_load d) [],
      ms_cpu = unwrap_or (md_cpu d) default_master_cpu,
      ms_memory = unwrap_or (md_memory d) default_master_memory\<rparr>"

definition workers_of_doc :: "workers_doc \<Rightarrow> workers_spec" where
  "workers_of_doc d =
     \<lparr>ws_replicas = unwrap_or (wd_replicas d) default_worker_replicas,
      ws_cores = unwrap_or (wd_cores d) default_cores,
      ws_memory_mb = unwrap_or (wd_memory_mb d) default_memory_mb,
      ws_cpu = unwrap_or (wd_cpu d) default_worker_cpu,
      ws_memory = unwrap_or (wd_memory d) default_worker_memory\<rparr>"

definition spec_of_doc :: "spec_doc \<Rightarrow> spark_cluster_spec" where
  "spec_of_doc d =
     \<lparr>sp_image = unwrap_or (sd_image d) default_image,
      sp_image_pull_policy = unwrap_or (sd_image_pull_policy d) default_pull_policy,
      sp_master = (case sd_master d of None \<Rightarrow> master_spec_default | Some m \<Rightarrow> master_of_doc m),
      sp_workers = (case sd_workers d of None \<Rightarrow> workers_spec_default | Some w \<Rightarrow> workers_of_doc w)\<rparr>"

section \<open>Kubernetes objects\<close>

type_synonym label_map = "(string \<times> string) list"

record owner_reference =
  or_api_version :: string
  or_kind :: string
  or_name :: string
  or_uid :: string
  or_controller :: "bool option"
  or_block_owner_deletion :: "bool option"

record object_meta =
  om_name :: "string option"
  om_namespace :: "string option"
  om_labels :: "label_map option"
  om_owner_references :: "owner_reference list option"

record service_port =
  svp_name :: "string option"
  svp_port :: i32
  svp_target_port :: "i32 option"

record service_spec =
  svs_type :: "string option"
  svs_selector :: "label_map option"
  svs_ports :: "service_port list option"

record env_var =
  ev_name :: string
  ev_value :: "string option"
  ev_field_path :: "string option"

record container_port =
  cp_name :: "string option"
  cp_container_port :: i32
  cp_protocol :: "string option"

record http_probe =
  pr_path :: "string option"
  pr_port :: i32
  pr_scheme :: "string option"
  pr_period_seconds :: "i32 option"
  pr_failure_threshold :: "i32 option"

record resource_requirements =
  rr_requests :: "label_map option"
  rr_limits :: "label_map option"

record volume_mount =
  vm_name :: string
  vm_mount_path :: string
  vm_read_only :: "bool option"

record container =
  co_name :: string
  co_image :: "string option"
  co_image_pull_policy :: "string option"
  co_command :: "string list option"
  co_args :: "string list option"
  co_env :: "env_var list option"
  co_ports :: "container_port list option"
  co_startup_probe :: "http_probe option"
  co_readiness_probe :: "http_probe option"
  co_liveness_probe :: "http_probe option"
  co_resources :: "resource_requirements option"
  co_volume_mounts :: "volume_mount list option"

record volume =
  vo_name :: string
  vo_config_map :: "string option"

record pod_spec =
  ps_service_account_name :: "string option"
  ps_containers :: "container list"
  ps_volumes :: "volume list option"
  ps_termination_grace_period_seconds :: "i64 option"

record label_requirement =
  lr_key :: string
  lr_operator :: string
  lr_values :: "string list option"

record label_selector =
  ls_match_labels :: "label_map option"
  ls_match_expressions :: "label_requirement list option"

record rolling_update =
  ru_max_surge :: "i32 option"
  ru_max_unavailable :: "i32 option"

record deployment_spec =
  dp_replicas :: "i32 option"
  dp_revision_history_limit :: "i32 option"
  dp_progress_deadline_seconds :: "i32 option"
  dp_strategy_type :: "string option"
  dp_rolling_update :: "rolling_update option"
  dp_selector :: label_selector
  dp_template_labels :: "label_map option"
  dp_template_spec :: "pod_spec option"

record pdb_spec =
  pd_min_available :: "i32 option"
  pd_max_unavailable :: "i32 option"
  pd_selector :: "label_selector option"

datatype k8s_object =
    KServiceAccount object_meta "bool option"
  | KService object_meta "service_spec option"
  | KConfigMap object_meta "label_map option"
  | KDeployment object_meta "deployment_spec option"
  | KPodDisruptionBudget object_meta "pdb_spec option"

record pod_condition =
  pc_type :: string
  pc_status :: string

record pod =
  pod_labels :: "label_map option"
  pod_status :: "pod_condition list option option"

end
