(* ===== verification/Reconcile.thy ===== *)
theory Reconcile
  imports Crd
begin

text \<open>
  \<^verbatim>\<open>rspark-operator/src/controller.rs\<close>: the objects a \<^verbatim>\<open>SparkCluster\<close> owns, how they are applied,
  and the status that is computed from the cluster. The Kubernetes client is the parameter
  \<open>kube_lib\<close> over the state of the cluster; \<open>kube_ok\<close> states what its documentation promises.
  Ordered maps of labels and quantities are association lists.
\<close>

section \<open>The client\<close>

datatype kube_error = KubeApi nat string | KubeOther string

datatype operator_error = OpKube kube_error | OpInvalid string

type_synonym 'a op_res = "('a, operator_error) result"

record 'k kube_lib =
  kb_patch :: "'k \<Rightarrow> string \<Rightarrow> string \<Rightarrow> k8s_object \<Rightarrow> kube_error option \<times> 'k"
  kb_create :: "'k \<Rightarrow> string \<Rightarrow> k8s_object \<Rightarrow> kube_error option \<times> 'k"
  kb_get_deployment :: "'k \<Rightarrow> string \<Rightarrow> string \<Rightarrow> kube_error + (object_meta \<times> deployment_spec option) option"
  kb_list_pods :: "'k \<Rightarrow> string \<Rightarrow> string \<Rightarrow> kube_error + pod list"
  kb_patch_status :: "'k \<Rightarrow> string \<Rightarrow> string \<Rightarrow> spark_cluster_status \<Rightarrow> kube_error option \<times> 'k"

text \<open>A step over the cluster that may fail.\<close>

type_synonym ('k, 'a) op_step = "'k \<Rightarrow> 'a op_res \<times> 'k"

fun op_then :: "'a op_res \<times> 'k \<Rightarrow> ('a \<Rightarrow> ('k, 'b) op_step) \<Rightarrow> 'b op_res \<times> 'k" where
  "op_then (Ok x, k) f = f x k"
| "op_then (Err e, k) f = (Err e, k)"
| "op_then (Panic m, k) f = (Panic m, k)"

definition kube_result :: "kube_error option \<times> 'k \<Rightarrow> unit op_res \<times> 'k" where
  "kube_result r = (case r of (None, k) \<Rightarrow> (Ok (), k) | (Some e, k) \<Rightarrow> (Err (OpKube e), k))"

definition apply_owned :: "'k kube_lib \<Rightarrow> string \<Rightarrow> string \<Rightarrow> k8s_object \<Rightarrow> ('k, unit) op_step" where
  "apply_owned lib ns name obj k =
     (case kb_patch lib k ns name obj of
        (None, k) \<Rightarrow> (Ok (), k)
      | (Some (KubeApi code m), k) \<Rightarrow>
          if code = 404 then kube_result (kb_create lib k ns obj) else (Err (OpKube (KubeApi code m)), k)
      | (Some e, k) \<Rightarrow> (Err (OpKube e), k))"

section \<open>Names and labels\<close>

text \<open>\<^verbatim>\<open>ResourceExt::name_any\<close>: the name, else the prefix for a generated name, else empty.\<close>

definition name_any :: "spark_cluster \<Rightarrow> string" where
  "name_any cr = (case sc_name cr of Some n \<Rightarrow> n | None \<Rightarrow> unwrap_or (sc_generate_name cr) [])"

definition owner_ref :: "spark_cluster \<Rightarrow> owner_reference" where
  "owner_ref cr =
     \<lparr>or_api_version = ''spark.rspark.io/v1alpha1'', or_kind = ''SparkCluster'',
      or_name = unwrap_or (sc_name cr) [], or_uid = unwrap_or (sc_uid cr) [],
      or_controller = Some True, or_block_owner_deletion = Some True\<rparr>"

definition app_label :: string where "app_label = ''app.kubernetes.io/name''"
definition managed_by_label :: string where "managed_by_label = ''app.kubernetes.io/managed-by''"
definition cluster_label :: string where "cluster_label = ''spark.rspark.io/cluster''"
definition role_label :: string where "role_label = ''spark.rspark.io/role''"
definition role_master :: string where "role_master = ''master''"
definition role_worker :: string where "role_worker = ''worker''"

definition labels :: "spark_cluster \<Rightarrow> string \<Rightarrow> label_map" where
  "labels cr role =
     (let l = [];
          l = btree_insert l app_label ''rspark'';
          l = btree_insert l managed_by_label ''rspark-operator'';
          l = btree_insert l cluster_label (name_any cr)
      in btree_insert l role_label role)"

definition sa_name :: "spark_cluster \<Rightarrow> string" where
  "sa_name cr = name_any cr @ ''-'' @ ''rspark''"

definition master_service_name :: "spark_cluster \<Rightarrow> string" where
  "master_service_name cr = name_any cr @ ''-master''"

definition master_config_name :: "spark_cluster \<Rightarrow> string" where
  "master_config_name cr = name_any cr @ ''-master-config''"

definition master_deployment_name :: "spark_cluster \<Rightarrow> string" where
  "master_deployment_name cr = master_service_name cr"

definition worker_deployment_name :: "spark_cluster \<Rightarrow> string" where
  "worker_deployment_name cr = name_any cr @ ''-worker''"

definition owned_meta :: "spark_cluster \<Rightarrow> string \<Rightarrow> string \<Rightarrow> string \<Rightarrow> object_meta" where
  "owned_meta cr ns name role =
     \<lparr>om_name = Some name, om_namespace = Some ns, om_labels = Some (labels cr role),
      om_owner_references = Some [owner_ref cr]\<rparr>"

section \<open>The owned objects\<close>

definition service_account :: "spark_cluster \<Rightarrow> string \<Rightarrow> k8s_object" where
  "service_account cr ns = KServiceAccount (owned_meta cr ns (sa_name cr) ''shared'') (Some False)"

definition ensure_service_account ::
  "'k kube_lib \<Rightarrow> spark_cluster \<Rightarrow> string \<Rightarrow> ('k, unit) op_step" where
  "ensure_service_account lib cr ns = apply_owned lib ns (sa_name cr) (service_account cr ns)"

definition svc_port :: "string \<Rightarrow> i32 \<Rightarrow> service_port" where
  "svc_port name port = \<lparr>svp_name = Some name, svp_port = port, svp_target_port = Some port\<rparr>"

definition master_service :: "spark_cluster \<Rightarrow> string \<Rightarrow> k8s_object" where
  "master_service cr ns =
     KService (owned_meta cr ns (master_service_name cr) role_master)
       (Some \<lparr>svs_type = Some ''ClusterIP'', svs_selector = Some (labels cr role_master),
              svs_ports = Some [svc_port ''api'' 7077, svc_port ''dashboard'' 8080]\<rparr>)"

definition ensure_master_service ::
  "'k kube_lib \<Rightarrow> spark_cluster \<Rightarrow> string \<Rightarrow> ('k, unit) op_step" where
  "ensure_master_service lib cr ns = apply_owned lib ns (master_service_name cr) (master_service cr ns)"

definition master_configmap :: "json_lib \<Rightarrow> spark_cluster \<Rightarrow> string \<Rightarrow> k8s_object" where
  "master_configmap js cr ns =
     (let data = js_text js (JObject
            [(''examples'', JString (show_bool (ms_examples (sp_master (sc_spec cr))))),
             (''load'', JString (join '','' (ms_load (sp_master (sc_spec cr)))))])
      in KConfigMap (owned_meta cr ns (master_config_name cr) role_master)
           (Some (btree_insert [] ''rspark.json'' data)))"

definition ensure_master_configmap ::
  "json_lib \<Rightarrow> 'k kube_lib \<Rightarrow> spark_cluster \<Rightarrow> string \<Rightarrow> ('k, unit) op_step" where
  "ensure_master_configmap js lib cr ns =
     apply_owned lib ns (master_config_name cr) (master_configmap js cr ns)"

definition build_master_args :: "spark_cluster \<Rightarrow> string list" where
  "build_master_args cr =
     (let args = [''master'', ''--api-addr'', ''0.0.0.0:7077'', ''--dashboard-addr'', ''0.0.0.0:8080'',
            ''--master-id'', ''master-$(POD_NAME)''];
          args = (if ms_examples (sp_master (sc_spec cr)) then args @ [''--examples''] else args)
      in foldl (\<lambda>args spec. args @ [''--load''] @ [spec]) args (ms_load (sp_master (sc_spec cr))))"

definition probe :: "string \<Rightarrow> i32 \<Rightarrow> i32 \<Rightarrow> i32 \<Rightarrow> http_probe" where
  "probe path port period failures =
     \<lparr>pr_path = Some path, pr_port = port, pr_scheme = Some ''HTTP'',
      pr_period_seconds = Some period, pr_failure_threshold = Some failures\<rparr>"

definition resources :: "string \<Rightarrow> string \<Rightarrow> resource_requirements" where
  "resources cpu memory =
     (let limits = btree_insert (btree_insert [] ''cpu'' cpu) ''memory'' memory
      in \<lparr>rr_requests = Some limits, rr_limits = Some limits\<rparr>)"

definition tcp_port :: "string \<Rightarrow> i32 \<Rightarrow> container_port" where
  "tcp_port name port = \<lparr>cp_name = Some name, cp_container_port = port, cp_protocol = Some ''TCP''\<rparr>"

definition master_container :: "spark_cluster \<Rightarrow> container" where
  "master_container cr =
     \<lparr>co_name = ''rspark'', co_image = Some (sp_image (sc_spec cr)),
      co_image_pull_policy = Some (sp_image_pull_policy (sc_spec cr)),
      co_command = Some [''/usr/local/bin/rspark-cli''], co_args = Some (build_master_args cr),
      co_env = Some [\<lparr>ev_name = ''POD_NAME'', ev_value = None, ev_field_path = Some ''metadata.name''\<rparr>],
      co_ports = Some [tcp_port ''api'' 7077, tcp_port ''dashboard'' 8080],
      co_startup_probe = Some (probe ''/health'' 7077 2 60),
      co_readiness_probe = Some (probe ''/health'' 7077 5 3),
      co_liveness_probe = Some (probe ''/health'' 7077 20 3),
      co_resources = Some (resources (ms_cpu (sp_master (sc_spec cr))) (ms_memory (sp_master (sc_spec cr)))),
      co_volume_mounts = Some [\<lparr>vm_name = master_config_name cr, vm_mount_path = ''/etc/rspark'',
        vm_read_only = Some True\<rparr>]\<rparr>"

definition deployment_of ::
  "spark_cluster \<Rightarrow> string \<Rightarrow> string \<Rightarrow> string \<Rightarrow> i32 \<Rightarrow> i32 \<Rightarrow> pod_spec \<Rightarrow> k8s_object" where
  "deployment_of cr ns name role replicas max_unavailable pod_sp =
     KDeployment (owned_meta cr ns name role)
       (Some \<lparr>dp_replicas = Some replicas, dp_revision_history_limit = Some 5,
              dp_progress_deadline_seconds = Some 120, dp_strategy_type = Some ''RollingUpdate'',
              dp_rolling_update = Some \<lparr>ru_max_surge = Some 1, ru_max_unavailable = Some max_unavailable\<rparr>,
              dp_selector = \<lparr>ls_match_labels = Some (labels cr role), ls_match_expressions = None\<rparr>,
              dp_template_labels = Some (labels cr role), dp_template_spec = Some pod_sp\<rparr>)"

definition master_deployment :: "spark_cluster \<Rightarrow> string \<Rightarrow> k8s_object" where
  "master_deployment cr ns =
     deployment_of cr ns (master_deployment_name cr) role_master (ms_replicas (sp_master (sc_spec cr))) 0
       \<lparr>ps_service_account_name = Some (sa_name cr), ps_containers = [master_container cr],
        ps_volumes = Some [\<lparr>vo_name = master_config_name cr, vo_config_map = Some (master_config_name cr)\<rparr>],
        ps_termination_grace_period_seconds = Some 30\<rparr>"

definition ensure_master_deployment ::
  "'k kube_lib \<Rightarrow> spark_cluster \<Rightarrow> string \<Rightarrow> ('k, unit) op_step" where
  "ensure_master_deployment lib cr ns =
     apply_owned lib ns (master_deployment_name cr) (master_deployment cr ns)"

definition worker_container :: "spark_cluster \<Rightarrow> container" where
  "worker_container cr =
     \<lparr>co_name = ''rspark'', co_image = Some (sp_image (sc_spec cr)),
      co_image_pull_policy = Some (sp_image_pull_policy (sc_spec cr)),
      co_command = Some [''/usr/local/bin/rspark-cli''],
      co_args = Some [''worker'', ''--master'', ''http://'' @ master_service_name cr @ '':7077'',
        ''--bind'', ''0.0.0.0:9090'', ''--cores'', show_i32 (ws_cores (sp_workers (sc_spec cr))),
        ''--memory-mb'', show_i32 (ws_memory_mb (sp_workers (sc_spec cr)))],
      co_env = Some [\<lparr>ev_name = ''RSPARK_LOG'', ev_value = Some ''info'', ev_field_path = None\<rparr>],
      co_ports = None, co_startup_probe = None, co_readiness_probe = None, co_liveness_probe = None,
      co_resources = Some (resources (ws_cpu (sp_workers (sc_spec cr))) (ws_memory (sp_workers (sc_spec cr)))),
      co_volume_mounts = None\<rparr>"

definition worker_deployment :: "spark_cluster \<Rightarrow> string \<Rightarrow> k8s_object" where
  "worker_deployment cr ns =
     deployment_of cr ns (worker_deployment_name cr) role_worker (ws_replicas (sp_workers (sc_spec cr))) 1
       \<lparr>ps_service_account_name = Some (sa_name cr), ps_containers = [worker_container cr],
        ps_volumes = None, ps_termination_grace_period_seconds = Some 20\<rparr>"

definition ensure_worker_deployment ::
  "'k kube_lib \<Rightarrow> spark_cluster \<Rightarrow> string \<Rightarrow> ('k, unit) op_step" where
  "ensure_worker_deployment lib cr ns =
     apply_owned lib ns (worker_deployment_name cr) (worker_deployment cr ns)"

definition role_selector :: "spark_cluster \<Rightarrow> string \<Rightarrow> label_selector" where
  "role_selector cr role =
     \<lparr>ls_match_labels = Some (labels cr role),
      ls_match_expressions = Some [\<lparr>lr_key = role_label, lr_operator = ''In'', lr_values = Some [role]\<rparr>]\<rparr>"

definition master_pdb_name :: "spark_cluster \<Rightarrow> string" where
  "master_pdb_name cr = name_any cr @ ''-master-pdb''"

definition worker_pdb_name :: "spark_cluster \<Rightarrow> string" where
  "worker_pdb_name cr = name_any cr @ ''-worker-pdb''"

definition master_pdb :: "spark_cluster \<Rightarrow> string \<Rightarrow> k8s_object" where
  "master_pdb cr ns =
     KPodDisruptionBudget (owned_meta cr ns (master_pdb_name cr) role_master)
       (Some \<lparr>pd_min_available = Some 1, pd_max_unavailable = None,
              pd_selector = Some (role_selector cr role_master)\<rparr>)"

definition worker_pdb :: "spark_cluster \<Rightarrow> string \<Rightarrow> k8s_object" where
  "worker_pdb cr ns =
     KPodDisruptionBudget (owned_meta cr ns (worker_pdb_name cr) role_worker)
       (Some \<lparr>pd_min_available = None, pd_max_unavailable = Some 1,
              pd_selector = Some (role_selector cr role_worker)\<rparr>)"

definition ensure_pdbs :: "'k kube_lib \<Rightarrow> spark_cluster \<Rightarrow> string \<Rightarrow> ('k, unit) op_step" where
  "ensure_pdbs lib cr ns k =
     op_then (apply_owned lib ns (master_pdb_name cr) (master_pdb cr ns) k) (\<lambda>_.
       apply_owned lib ns (worker_pdb_name cr) (worker_pdb cr ns))"

definition reconcile_children ::
  "json_lib \<Rightarrow> 'k kube_lib \<Rightarrow> spark_cluster \<Rightarrow> string \<Rightarrow> ('k, unit) op_step" where
  "reconcile_children js lib cr ns k =
     op_then (ensure_service_account lib cr ns k) (\<lambda>_ k.
     op_then (ensure_master_service lib cr ns k) (\<lambda>_ k.
     op_then (ensure_master_configmap js lib cr ns k) (\<lambda>_ k.
     op_then (ensure_master_deployment lib cr ns k) (\<lambda>_ k.
     op_then (ensure_worker_deployment lib cr ns k) (\<lambda>_ k.
     op_then (ensure_pdbs lib cr ns k) (\<lambda>_ k. (Ok (), k)))))))"

section \<open>Status\<close>

definition is_pod_ready :: "pod \<Rightarrow> bool" where
  "is_pod_ready p =
     (case Option.bind (pod_status p) (\<lambda>conds. conds) of
        None \<Rightarrow> False
      | Some cs \<Rightarrow> list_ex (\<lambda>c. pc_type c = ''Ready'' \<and> pc_status c = ''True'') cs)"

definition pod_role :: "pod \<Rightarrow> string" where
  "pod_role p = unwrap_or (Option.bind (pod_labels p) (\<lambda>l. map_of l role_label)) []"

definition count_pod :: "i32 \<times> i32 \<Rightarrow> pod \<Rightarrow> i32 \<times> i32" where
  "count_pod = (\<lambda>(m, w) p.
     if pod_role p = role_master \<and> is_pod_ready p then (m + 1, w)
     else if pod_role p = role_worker \<and> is_pod_ready p then (m, w + 1)
     else (m, w))"

definition deployed_replicas ::
  "kube_error + (object_meta \<times> deployment_spec option) option \<Rightarrow> i32 op_res" where
  "deployed_replicas r =
     (case r of
        Inl e \<Rightarrow> Err (OpKube e)
      | Inr None \<Rightarrow> Ok 0
      | Inr (Some (_, sp)) \<Rightarrow> Ok (unwrap_or (Option.bind sp dp_replicas) 0))"

definition phase_of :: "i32 \<Rightarrow> i32 \<Rightarrow> i32 \<Rightarrow> i32 \<Rightarrow> phase" where
  "phase_of masters workers ready_m ready_w =
     (if masters = 0 \<or> workers = 0 then PhReconciling
      else if sint masters \<le> sint ready_m \<and> sint workers \<le> sint ready_w then PhReady
      else PhReconciling)"

definition compute_status ::
  "'k kube_lib \<Rightarrow> spark_cluster \<Rightarrow> string \<Rightarrow> string \<Rightarrow> 'k \<Rightarrow> spark_cluster_status op_res" where
  "compute_status lib cr ns now k =
     and_then (deployed_replicas (kb_get_deployment lib k ns (master_deployment_name cr))) (\<lambda>masters.
     and_then (deployed_replicas (kb_get_deployment lib k ns (worker_deployment_name cr))) (\<lambda>workers.
     (case kb_list_pods lib k ns (cluster_label @ ''='' @ name_any cr) of
        Inl e \<Rightarrow> Err (OpKube e)
      | Inr pods \<Rightarrow>
          let (ready_m, ready_w) = foldl count_pod (0, 0) pods
          in Ok \<lparr>st_phase = phase_of masters workers ready_m ready_w,
                st_master_endpoint = Some (master_service_name cr @ ''.'' @ ns @ ''.svc.cluster.local:7077''),
                st_ready_workers = ready_w, st_ready_masters = ready_m, st_conditions = [],
                st_last_reconciled_at = Some now\<rparr>)))"

definition cr_namespace :: "spark_cluster \<Rightarrow> string" where
  "cr_namespace cr = unwrap_or (sc_namespace cr) ''default''"

definition apply_status ::
  "'k kube_lib \<Rightarrow> spark_cluster \<Rightarrow> spark_cluster_status \<Rightarrow> ('k, unit) op_step" where
  "apply_status lib cr status k = kube_result (kb_patch_status lib k (cr_namespace cr) (name_any cr) status)"

section \<open>Reconciliation\<close>

text \<open>An action is the delay in seconds after which the resource is looked at again.\<close>

definition reconcile :: "json_lib \<Rightarrow> 'k kube_lib \<Rightarrow> string \<Rightarrow> spark_cluster \<Rightarrow> ('k, nat) op_step" where
  "reconcile js lib now cr k =
     (let ns = cr_namespace cr
      in if sp_image (sc_spec cr) = [] then (Err (OpInvalid ''spec.image is empty''), k)
         else
           op_then (reconcile_children js lib cr ns k) (\<lambda>_ k.
           op_then (compute_status lib cr ns now k, k) (\<lambda>status k.
           op_then (apply_status lib cr status k) (\<lambda>_ k. (Ok 30, k)))))"

definition error_policy :: "operator_error \<Rightarrow> nat" where
  "error_policy e = 15"

end
