(* ===== verification/Reconcile_Laws.thy ===== *)
theory Reconcile_Laws
  imports Reconcile
begin

text \<open>
  The operator: what a reconciliation leaves in the cluster, which pods its selectors pick, and
  what the status reports.
\<close>

section \<open>What the client promises\<close>

datatype object_kind = KindServiceAccount | KindService | KindConfigMap | KindDeployment | KindPdb

type_synonym object_key = "string \<times> object_kind \<times> string"

fun kind_of :: "k8s_object \<Rightarrow> object_kind" where
  "kind_of (KServiceAccount _ _) = KindServiceAccount"
| "kind_of (KService _ _) = KindService"
| "kind_of (KConfigMap _ _) = KindConfigMap"
| "kind_of (KDeployment _ _) = KindDeployment"
| "kind_of (KPodDisruptionBudget _ _) = KindPdb"

fun meta_of :: "k8s_object \<Rightarrow> object_meta" where
  "meta_of (KServiceAccount m _) = m"
| "meta_of (KService m _) = m"
| "meta_of (KConfigMap m _) = m"
| "meta_of (KDeployment m _) = m"
| "meta_of (KPodDisruptionBudget m _) = m"

definition object_name :: "k8s_object \<Rightarrow> string" where
  "object_name obj = unwrap_or (om_name (meta_of obj)) []"

text \<open>
  \<open>stored k\<close> are the objects of the cluster \<open>k\<close>. A patch or a creation that succeeds stores the
  object under its name, one that fails stores nothing; deployments are read from the store;
  the status of the custom resource is kept apart from it.
\<close>

definition kube_ok :: "'k kube_lib \<Rightarrow> ('k \<Rightarrow> object_key \<rightharpoonup> k8s_object) \<Rightarrow> bool" where
  "kube_ok lib stored \<longleftrightarrow>
     (\<forall>k ns name obj e k'. kb_patch lib k ns name obj = (e, k') \<longrightarrow>
        stored k' = (if e = None then (stored k)((ns, kind_of obj, name) \<mapsto> obj) else stored k)) \<and>
     (\<forall>k ns obj e k'. kb_create lib k ns obj = (e, k') \<longrightarrow>
        stored k' = (if e = None then (stored k)((ns, kind_of obj, object_name obj) \<mapsto> obj) else stored k)) \<and>
     (\<forall>k ns name. case kb_get_deployment lib k ns name of
        Inl e \<Rightarrow> True
      | Inr d \<Rightarrow> d = (case stored k (ns, KindDeployment, name) of
           Some (KDeployment m sp) \<Rightarrow> Some (m, sp) | _ \<Rightarrow> None)) \<and>
     (\<forall>k ns name status. stored (snd (kb_patch_status lib k ns name status)) = stored k)"

lemma apply_owned_Ok:
  assumes "kube_ok lib stored" "object_name obj = name" "apply_owned lib ns name obj k = (Ok u, k')"
  shows "stored k' = (stored k)((ns, kind_of obj, name) \<mapsto> obj)"
proof (cases "kb_patch lib k ns name obj")
  case (Pair e j)
  have patch: "stored j = (if e = None then (stored k)((ns, kind_of obj, name) \<mapsto> obj) else stored k)"
    using assms(1) Pair unfolding kube_ok_def by blast
  have create: "stored j' = (if e' = None then (stored j)((ns, kind_of obj, name) \<mapsto> obj) else stored j)"
    if "kb_create lib j ns obj = (e', j')" for e' j'
    using assms(1,2) that unfolding kube_ok_def by blast
  show ?thesis
    using patch create assms(3) Pair
    by (cases e) (auto simp: apply_owned_def kube_result_def split: kube_error.splits if_splits option.splits prod.splits)
qed

lemma get_deployment_stored:
  assumes "kube_ok lib stored" "kb_get_deployment lib k ns name = Inr d"
    and "stored k (ns, KindDeployment, name) = Some (KDeployment m sp)"
  shows "d = Some (m, sp)"
  using assms(1) [unfolded kube_ok_def, THEN conjunct2, THEN conjunct2, THEN conjunct1, rule_format, of k ns name]
    assms(2,3) by simp

section \<open>Children\<close>

definition owned_objects :: "json_lib \<Rightarrow> spark_cluster \<Rightarrow> string \<Rightarrow> k8s_object list" where
  "owned_objects js cr ns =
     [service_account cr ns, master_service cr ns, master_configmap js cr ns, master_deployment cr ns,
      worker_deployment cr ns, master_pdb cr ns, worker_pdb cr ns]"

definition object_key :: "string \<Rightarrow> k8s_object \<Rightarrow> object_key" where
  "object_key ns obj = (ns, kind_of obj, object_name obj)"

lemmas child_defs = service_account_def master_service_def master_configmap_def master_deployment_def
  worker_deployment_def master_pdb_def worker_pdb_def deployment_of_def

lemma child_names:
  "object_name (service_account cr ns) = sa_name cr"
  "object_name (master_service cr ns) = master_service_name cr"
  "object_name (master_configmap js cr ns) = master_config_name cr"
  "object_name (master_deployment cr ns) = master_deployment_name cr"
  "object_name (worker_deployment cr ns) = worker_deployment_name cr"
  "object_name (master_pdb cr ns) = master_pdb_name cr"
  "object_name (worker_pdb cr ns) = worker_pdb_name cr"
  by (simp_all add: child_defs object_name_def owned_meta_def unwrap_or_def Let_def)

lemma child_kinds:
  "kind_of (service_account cr ns) = KindServiceAccount" "kind_of (master_service cr ns) = KindService"
  "kind_of (master_configmap js cr ns) = KindConfigMap" "kind_of (master_deployment cr ns) = KindDeployment"
  "kind_of (worker_deployment cr ns) = KindDeployment" "kind_of (master_pdb cr ns) = KindPdb"
  "kind_of (worker_pdb cr ns) = KindPdb"
  by (simp_all add: child_defs Let_def)

lemma child_owners:
  "obj \<in> set (owned_objects js cr ns) \<Longrightarrow> om_owner_references (meta_of obj) = Some [owner_ref cr] \<and>
     om_namespace (meta_of obj) = Some ns"
  by (auto simp: owned_objects_def child_defs owned_meta_def Let_def)

lemma children_keys_distinct: "distinct (map (object_key ns) (owned_objects js cr ns))"
  by (simp add: owned_objects_def object_key_def child_kinds child_names master_deployment_name_def
      master_service_name_def worker_deployment_name_def master_pdb_name_def worker_pdb_name_def)

lemma op_then_Ok: "op_then r f = (Ok y, k') \<longleftrightarrow> (\<exists>x k. r = (Ok x, k) \<and> f x k = (Ok y, k'))"
  by (cases "(r, f)" rule: op_then.cases) auto

lemma ensure_child:
  "ensure_service_account lib cr ns = apply_owned lib ns (object_name (service_account cr ns)) (service_account cr ns)"
  "ensure_master_service lib cr ns = apply_owned lib ns (object_name (master_service cr ns)) (master_service cr ns)"
  "ensure_master_configmap js lib cr ns =
     apply_owned lib ns (object_name (master_configmap js cr ns)) (master_configmap js cr ns)"
  "ensure_master_deployment lib cr ns =
     apply_owned lib ns (object_name (master_deployment cr ns)) (master_deployment cr ns)"
  "ensure_worker_deployment lib cr ns =
     apply_owned lib ns (object_name (worker_deployment cr ns)) (worker_deployment cr ns)"
  "ensure_pdbs lib cr ns k = op_then (apply_owned lib ns (object_name (master_pdb cr ns)) (master_pdb cr ns) k)
     (\<lambda>_. apply_owned lib ns (object_name (worker_pdb cr ns)) (worker_pdb cr ns))"
  by (simp_all add: fun_eq_iff child_names ensure_service_account_def ensure_master_service_def
      ensure_master_configmap_def ensure_master_deployment_def ensure_worker_deployment_def ensure_pdbs_def)

definition store_all :: "string \<Rightarrow> k8s_object list \<Rightarrow> (object_key \<rightharpoonup> k8s_object) \<Rightarrow> (object_key \<rightharpoonup> k8s_object)" where
  "store_all ns objs m = foldl (\<lambda>m obj. m(object_key ns obj \<mapsto> obj)) m objs"

lemma reconcile_children_Ok:
  assumes "kube_ok lib stored" "reconcile_children js lib cr ns k = (Ok u, k')"
  shows "stored k' = store_all ns (owned_objects js cr ns) (stored k)"
proof -
  have step: "stored k2 = (stored k1)(object_key ns obj \<mapsto> obj)"
    if "apply_owned lib ns (object_name obj) obj k1 = (Ok v, k2)" for obj v k1 k2
    using apply_owned_Ok [OF assms(1) refl that] by (simp add: object_key_def)
  from assms(2) show ?thesis
    unfolding reconcile_children_def ensure_child op_then_Ok store_all_def owned_objects_def
    by (auto dest!: step)
qed

lemma store_all_get:
  "obj \<in> set objs \<Longrightarrow> distinct (map (object_key ns) objs) \<Longrightarrow> store_all ns objs m (object_key ns obj) = Some obj"
proof (induction objs arbitrary: m)
  case (Cons o' objs)
  have other: "store_all ns objs m key = m key" if "key \<notin> object_key ns ` set objs" for key m
    using that by (induction objs arbitrary: m) (auto simp: store_all_def)
  show ?case
  proof (cases "obj \<in> set objs")
    case True
    then show ?thesis using Cons by (simp add: store_all_def)
  next
    case False
    then show ?thesis using Cons.prems other [of "object_key ns o'"] by (auto simp: store_all_def)
  qed
qed simp

lemma store_all_other: "key \<notin> object_key ns ` set objs \<Longrightarrow> store_all ns objs m key = m key"
  by (induction objs arbitrary: m) (auto simp: store_all_def)

lemma deployments_stored:
  assumes "kube_ok lib stored" "reconcile_children js lib cr ns k = (Ok u, k1)"
  shows "stored k1 (ns, KindDeployment, master_deployment_name cr) = Some (master_deployment cr ns)"
    "stored k1 (ns, KindDeployment, worker_deployment_name cr) = Some (worker_deployment cr ns)"
proof -
  have "stored k1 (object_key ns obj) = Some obj" if "obj \<in> set (owned_objects js cr ns)" for obj
    unfolding reconcile_children_Ok [OF assms] using that by (rule store_all_get [OF _ children_keys_distinct])
  from this [of "master_deployment cr ns"] this [of "worker_deployment cr ns"]
  show "stored k1 (ns, KindDeployment, master_deployment_name cr) = Some (master_deployment cr ns)"
    "stored k1 (ns, KindDeployment, worker_deployment_name cr) = Some (worker_deployment cr ns)"
    by (simp_all add: owned_objects_def object_key_def child_kinds child_names)
qed

lemma reconcile_Ok:
  assumes "reconcile js lib now cr k = (Ok d, k')"
  obtains k1 k2 status u where "sp_image (sc_spec cr) \<noteq> []"
    "reconcile_children js lib cr (cr_namespace cr) k = (Ok u, k1)"
    "compute_status lib cr (cr_namespace cr) now k1 = Ok status"
    "kb_patch_status lib k1 (cr_namespace cr) (name_any cr) status = (None, k')" "d = 30"
proof -
  have image: "sp_image (sc_spec cr) \<noteq> []" using assms by (auto simp: reconcile_def Let_def)
  from assms image obtain u k1 status where r:
      "reconcile_children js lib cr (cr_namespace cr) k = (Ok u, k1)"
      "compute_status lib cr (cr_namespace cr) now k1 = Ok status"
      "apply_status lib cr status k1 = (Ok (), k')" "d = 30"
    by (auto simp: reconcile_def Let_def op_then_Ok)
  have "kb_patch_status lib k1 (cr_namespace cr) (name_any cr) status = (None, k')"
    using r(3) by (auto simp: apply_status_def kube_result_def split: prod.splits option.splits)
  then show thesis using that image r by blast
qed

section \<open>Status\<close>

lemma count_pods:
  "foldl count_pod (m, w) ps =
     (m + word_of_nat (length (filter (\<lambda>p. pod_role p = role_master \<and> is_pod_ready p) ps)),
      w + word_of_nat (length (filter (\<lambda>p. pod_role p = role_worker \<and> is_pod_ready p) ps)))"
  by (induction ps arbitrary: m w) (auto simp: count_pod_def role_master_def role_worker_def)

definition ready_pods :: "string \<Rightarrow> pod list \<Rightarrow> nat" where
  "ready_pods role ps = length (filter (\<lambda>p. pod_role p = role \<and> is_pod_ready p) ps)"

lemma compute_status_Ok:
  assumes "kube_ok lib stored" "compute_status lib cr ns now k = Ok status"
    and "stored k (ns, KindDeployment, master_deployment_name cr) = Some (master_deployment cr ns)"
    and "stored k (ns, KindDeployment, worker_deployment_name cr) = Some (worker_deployment cr ns)"
  obtains pods where "kb_list_pods lib k ns (cluster_label @ ''='' @ name_any cr) = Inr pods"
    "st_ready_masters status = word_of_nat (ready_pods role_master pods)"
    "st_ready_workers status = word_of_nat (ready_pods role_worker pods)"
    "st_phase status = phase_of (ms_replicas (sp_master (sc_spec cr))) (ws_replicas (sp_workers (sc_spec cr)))
       (st_ready_masters status) (st_ready_workers status)"
proof -
  from assms(2) obtain masters workers where d:
      "deployed_replicas (kb_get_deployment lib k ns (master_deployment_name cr)) = Ok masters"
      "deployed_replicas (kb_get_deployment lib k ns (worker_deployment_name cr)) = Ok workers"
    by (auto simp: compute_status_def and_then_eq_Ok)
  obtain pods where pods: "kb_list_pods lib k ns (cluster_label @ ''='' @ name_any cr) = Inr pods"
    using assms(2) d by (cases "kb_list_pods lib k ns (cluster_label @ ''='' @ name_any cr)")
      (simp_all add: compute_status_def)
  have s: "st_phase status = phase_of masters workers (st_ready_masters status) (st_ready_workers status)"
      "st_ready_masters status = word_of_nat (ready_pods role_master pods)"
      "st_ready_workers status = word_of_nat (ready_pods role_worker pods)"
    using assms(2) unfolding compute_status_def d pods by (auto simp: count_pods ready_pods_def)
  have replicas: "masters = r" if "deployed_replicas (kb_get_deployment lib k ns name) = Ok masters"
      "stored k (ns, KindDeployment, name) = Some (deployment_of cr ns n role r u p)" for name masters n role r u p
  proof (cases "kb_get_deployment lib k ns name")
    case (Inr d)
    from get_deployment_stored [OF assms(1) Inr] that(2) show ?thesis
      using that(1) Inr by (auto simp: deployment_of_def deployed_replicas_def unwrap_or_def)
  qed (use that(1) in \<open>simp add: deployed_replicas_def\<close>)
  have "masters = ms_replicas (sp_master (sc_spec cr))" "workers = ws_replicas (sp_workers (sc_spec cr))"
    using replicas [OF d(1)] replicas [OF d(2)] assms(3,4) unfolding master_deployment_def worker_deployment_def
    by blast+
  then show thesis using that pods s by simp
qed

section \<open>Selectors\<close>

text \<open>How Kubernetes matches the labels of a pod against a selector with \<^verbatim>\<open>In\<close> requirements.\<close>

definition label_matches :: "label_map \<Rightarrow> label_map \<Rightarrow> bool" where
  "label_matches want have \<longleftrightarrow> (\<forall>(k, v) \<in> set want. map_of have k = Some v)"

definition requirement_matches :: "label_requirement \<Rightarrow> label_map \<Rightarrow> bool" where
  "requirement_matches r have \<longleftrightarrow> lr_operator r = ''In'' \<and>
     (case map_of have (lr_key r) of None \<Rightarrow> False | Some v \<Rightarrow> v \<in> set (unwrap_or (lr_values r) []))"

definition selector_matches :: "label_selector \<Rightarrow> label_map \<Rightarrow> bool" where
  "selector_matches s have \<longleftrightarrow> label_matches (unwrap_or (ls_match_labels s) []) have \<and>
     (\<forall>r \<in> set (unwrap_or (ls_match_expressions s) []). requirement_matches r have)"

lemma labels_eq:
  "labels cr role = [(managed_by_label, ''rspark-operator''), (app_label, ''rspark''),
     (cluster_label, name_any cr), (role_label, role)]"
  by (simp add: labels_def app_label_def managed_by_label_def cluster_label_def role_label_def)

lemma label_matches_labels: "label_matches (labels cr r) (labels cr' r') \<longleftrightarrow> name_any cr = name_any cr' \<and> r = r'"
  by (auto simp: label_matches_def labels_eq app_label_def managed_by_label_def cluster_label_def role_label_def)

lemma role_of_labels: "map_of (labels cr role) role_label = Some role"
  by (simp add: labels_eq app_label_def managed_by_label_def cluster_label_def role_label_def)

end
