(* ===== verification/Reconcile_Properties.thy ===== *)
theory Reconcile_Properties
  imports Reconcile_Laws
begin

text \<open>
  Properties of the Kubernetes operator: the objects a reconciliation leaves behind, the pods
  they select and the status that is reported.
\<close>

section \<open>A sample cluster\<close>

text \<open>A client over a map of objects that always succeeds and lists two ready pods.\<close>

type_synonym object_store = "object_key \<rightharpoonup> k8s_object"

definition ready_pod :: "label_map \<Rightarrow> pod" where
  "ready_pod l = \<lparr>pod_labels = Some l, pod_status = Some (Some [\<lparr>pc_type = ''Ready'', pc_status = ''True''\<rparr>])\<rparr>"

definition map_kube :: "pod list \<Rightarrow> object_store kube_lib" where
  "map_kube pods =
     \<lparr>kb_patch = \<lambda>k ns name obj. (if k (ns, kind_of obj, name) = None then (Some (KubeApi 404 ''not found''), k)
        else (None, k((ns, kind_of obj, name) \<mapsto> obj))),
      kb_create = \<lambda>k ns obj. (None, k((ns, kind_of obj, object_name obj) \<mapsto> obj)),
      kb_get_deployment = \<lambda>k ns name. Inr (case k (ns, KindDeployment, name) of
        Some (KDeployment m sp) \<Rightarrow> Some (m, sp) | _ \<Rightarrow> None),
      kb_list_pods = \<lambda>k ns sel. Inr pods,
      kb_patch_status = \<lambda>k ns name status. (None, k)\<rparr>"

lemma map_kube_ok: "kube_ok (map_kube pods) (\<lambda>k. k)"
  by (auto simp: kube_ok_def map_kube_def)

definition demo_doc :: spec_doc where
  "demo_doc = \<lparr>sd_image = None, sd_image_pull_policy = None,
     sd_master = Some \<lparr>md_replicas = None, md_examples = Some True, md_load = None, md_cpu = None, md_memory = None\<rparr>,
     sd_workers = Some \<lparr>wd_replicas = Some 1, wd_cores = None, wd_memory_mb = None, wd_cpu = None, wd_memory = None\<rparr>\<rparr>"

definition cluster_of :: "spec_doc \<Rightarrow> spark_cluster" where
  "cluster_of d = \<lparr>sc_name = Some ''demo'', sc_generate_name = None, sc_namespace = None, sc_uid = None,
     sc_spec = spec_of_doc d\<rparr>"

abbreviation demo :: spark_cluster where
  "demo \<equiv> cluster_of demo_doc"

definition demo_pods :: "pod list" where
  "demo_pods = [ready_pod (labels demo role_master), ready_pod (labels demo role_worker)]"

definition plain_json :: json_lib where
  "plain_json = \<lparr>js_stream = \<lambda>s. [], js_text = \<lambda>j. ''{}'', js_from_i32 = \<lambda>i. JNull,
     js_from_i64 = \<lambda>i. JNull, js_from_f32 = \<lambda>f. JNull, js_from_f64 = \<lambda>f. JNull\<rparr>"

definition demo_objects :: object_store where
  "demo_objects = snd (reconcile_children plain_json (map_kube demo_pods) demo ''default'' Map.empty)"

lemma map_kube_apply: "\<exists>k'. apply_owned (map_kube pods) ns name obj k = (Ok (), k')"
  by (simp add: apply_owned_def map_kube_def kube_result_def)

lemma map_kube_children: "\<exists>k'. reconcile_children js (map_kube pods) cr ns k = (Ok (), k')"
  unfolding reconcile_children_def ensure_child using map_kube_apply op_then.simps(1) by metis

lemma map_kube_status: "\<exists>s. compute_status (map_kube pods) cr ns now k = Ok s"
  by (simp add: compute_status_def map_kube_def deployed_replicas_def split: option.split k8s_object.split prod.split)

lemma demo_children:
  "reconcile_children plain_json (map_kube demo_pods) demo ''default'' Map.empty = (Ok (), demo_objects)"
  using map_kube_children [of plain_json demo_pods demo "''default''" Map.empty] by (auto simp: demo_objects_def)

lemma map_kube_reconcile:
  assumes "sp_image (sc_spec cr) \<noteq> []"
  shows "\<exists>k'. reconcile js (map_kube pods) now cr k = (Ok 30, k')"
proof -
  obtain k1 where k1: "reconcile_children js (map_kube pods) cr (cr_namespace cr) k = (Ok (), k1)"
    using map_kube_children by blast
  obtain s where "compute_status (map_kube pods) cr (cr_namespace cr) now k1 = Ok s" using map_kube_status by blast
  then show ?thesis using assms k1 by (simp add: reconcile_def Let_def apply_status_def kube_result_def map_kube_def)
qed

section \<open>Objects\<close>



section \<open>Pods\<close>

text \<open>The service, the deployments and the disruption budgets of a cluster select the pods that
  carry the labels of that cluster and role, and no pod of another role or of a cluster with
  another name.\<close>

theorem selectors_pick_own_pods:
  "(label_matches (labels cr role) (labels cr' role') \<longleftrightarrow> name_any cr = name_any cr' \<and> role = role') \<and>
   (selector_matches (role_selector cr role) (labels cr' role') \<longleftrightarrow> name_any cr = name_any cr' \<and> role = role') \<and>
   (selector_matches \<lparr>ls_match_labels = Some (labels cr role), ls_match_expressions = None\<rparr> (labels cr' role') \<longleftrightarrow>
      name_any cr = name_any cr' \<and> role = role')"
  by (auto simp: label_matches_labels selector_matches_def role_selector_def requirement_matches_def
      role_of_labels unwrap_or_def)

section \<open>Status\<close>

lemma sint_of_small: "n < 2 ^ 31 \<Longrightarrow> sint (word_of_nat n :: i32) = int n"
  by (simp add: signed_of_nat signed_take_bit_int_eq_self)

text \<open>The status computed after the objects were applied says Ready exactly when the resource
  asks for at least one replica of either role and at least as many pods of the role as it asks
  for are ready; otherwise it says Reconciling.\<close>

theorem status_ready_iff:
  assumes "kube_ok lib stored" "reconcile_children js lib cr ns k = (Ok u, k1)"
    and "compute_status lib cr ns now k1 = Ok status"
    and "kb_list_pods lib k1 ns (cluster_label @ ''='' @ name_any cr) = Inr pods" "length pods < 2 ^ 31"
  shows "st_phase status = (if ms_replicas (sp_master (sc_spec cr)) \<noteq> 0 \<and> ws_replicas (sp_workers (sc_spec cr)) \<noteq> 0 \<and>
      sint (ms_replicas (sp_master (sc_spec cr))) \<le> int (ready_pods role_master pods) \<and>
      sint (ws_replicas (sp_workers (sc_spec cr))) \<le> int (ready_pods role_worker pods)
    then PhReady else PhReconciling)"
proof -
  from compute_status_Ok [OF assms(1,3) deployments_stored [OF assms(1,2)]] assms(4) have s:
      "st_ready_masters status = word_of_nat (ready_pods role_master pods)"
      "st_ready_workers status = word_of_nat (ready_pods role_worker pods)"
      "st_phase status = phase_of (ms_replicas (sp_master (sc_spec cr))) (ws_replicas (sp_workers (sc_spec cr)))
         (st_ready_masters status) (st_ready_workers status)"
    by (metis sum.inject(2))+
  have "ready_pods role pods < 2 ^ 31" for role
    using length_filter_le [of _ pods] assms(5) unfolding ready_pods_def by (rule le_less_trans)
  then show ?thesis unfolding s(3) s(1,2) by (simp add: phase_of_def sint_of_small)
qed

theorem status_ready_iff_witness:
  "\<exists>status. compute_status (map_kube demo_pods) demo ''default'' ''now'' demo_objects = Ok status \<and>
    st_phase status = PhReady"
proof -
  obtain status where s: "compute_status (map_kube demo_pods) demo ''default'' ''now'' demo_objects = Ok status"
    using map_kube_status by blast
  have pods: "kb_list_pods (map_kube demo_pods) demo_objects ''default'' (cluster_label @ ''='' @ name_any demo) =
      Inr demo_pods" by (simp add: map_kube_def)
  have "length demo_pods < 2 ^ 31" by (simp add: demo_pods_def)
  from status_ready_iff [OF map_kube_ok demo_children s pods this] s show ?thesis
    by (simp add: demo_pods_def ready_pods_def ready_pod_def pod_role_def is_pod_ready_def role_of_labels
        role_master_def role_worker_def cluster_of_def spec_of_doc_def demo_doc_def master_of_doc_def
        workers_of_doc_def default_master_replicas_def unwrap_or_def)
qed

text \<open>A resource that leaves out the section of the master or of the workers asks for no replicas
  of it, since the section as a whole defaults to zero and not to its documented field values;
  such a cluster never becomes Ready, however many pods there are.\<close>

theorem omitted_section_never_ready:
  assumes "sc_spec cr = spec_of_doc doc" "sd_master doc = None \<or> sd_workers doc = None"
    and "kube_ok lib stored" "reconcile_children js lib cr ns k = (Ok u, k1)"
    and "compute_status lib cr ns now k1 = Ok status"
  shows "(ms_replicas (sp_master (sc_spec cr)) = 0 \<or> ws_replicas (sp_workers (sc_spec cr)) = 0) \<and>
    st_phase status = PhReconciling"
proof -
  have "ms_replicas (sp_master (sc_spec cr)) = 0 \<or> ws_replicas (sp_workers (sc_spec cr)) = 0"
    using assms(1,2) by (auto simp: spec_of_doc_def master_spec_default_def workers_spec_default_def)
  then show ?thesis
    using compute_status_Ok [OF assms(3,5) deployments_stored [OF assms(3,4)]] by (metis phase_of_def)
qed

definition bare_doc :: spec_doc where
  "bare_doc = \<lparr>sd_image = None, sd_image_pull_policy = None, sd_master = None, sd_workers = None\<rparr>"

theorem omitted_section_never_ready_witness:
  "\<exists>k1 status. reconcile_children plain_json (map_kube demo_pods) (cluster_of bare_doc) ''default'' Map.empty = (Ok (), k1) \<and>
    compute_status (map_kube demo_pods) (cluster_of bare_doc) ''default'' ''now'' k1 = Ok status \<and>
    st_phase status = PhReconciling"
proof -
  obtain k1 where k1: "reconcile_children plain_json (map_kube demo_pods) (cluster_of bare_doc) ''default'' Map.empty =
      (Ok (), k1)" using map_kube_children by blast
  obtain status where s: "compute_status (map_kube demo_pods) (cluster_of bare_doc) ''default'' ''now'' k1 = Ok status"
    using map_kube_status by blast
  have "sc_spec (cluster_of bare_doc) = spec_of_doc bare_doc" "sd_master bare_doc = None \<or> sd_workers bare_doc = None"
    by (simp_all add: cluster_of_def bare_doc_def)
  from omitted_section_never_ready [OF this map_kube_ok k1 s] k1 s show ?thesis by blast
qed

end
