(* ===== verification/Cli.thy ===== *)
theory Cli
  imports Api
begin

text \<open>
  \<^verbatim>\<open>rspark-cli/src/cli.rs\<close>, \<^verbatim>\<open>commands.rs\<close> and \<^verbatim>\<open>repl.rs\<close>: the commands of the command line, the worker's
  loops over the master's replies, the interactive shell, and the servers they start
  (\<^verbatim>\<open>rspark-api/src/server.rs\<close>). What the network and the terminal deliver are sequences; a loop
  that need not end counts its turns with fuel, and \<open>None\<close> means that it is still running.
\<close>

section \<open>Environment\<close>

record cli_lib =
  cl_os :: os_lib
  cl_csv :: csv_lib
  cl_json :: json_lib
  cl_json_parse :: "string \<Rightarrow> string + json"
  cl_csv_writer :: csv_writer
  cl_rx :: regex_lib
  cl_sql :: sql_lib
  cl_s3 :: s3_lib
  cl_env :: env_vars
  cl_parse_addr :: "string \<Rightarrow> string + string"
  cl_parallelism :: nat

definition default_registry :: "cli_lib \<Rightarrow> files \<Rightarrow> source_registry" where
  "default_registry lib fs =
     registry_with_defaults (csv_source (os_open (cl_os lib) fs) (cl_csv lib))
       (json_source (os_open (cl_os lib) fs) (cl_json lib))"

text \<open>The registry with the S3 source when the environment configures one; a failure is ignored.\<close>

definition s3_registry :: "cli_lib \<Rightarrow> world \<Rightarrow> source_registry" where
  "s3_registry lib w =
     (case try_register_s3 (cl_s3 lib) (cl_csv lib) (cl_json lib) (cl_env lib) (w_objects w)
             (default_registry lib (w_files w)) of
        Ok (_, reg) \<Rightarrow> reg | _ \<Rightarrow> default_registry lib (w_files w))"

definition context_new :: "cli_lib \<Rightarrow> source_registry \<Rightarrow> execution_context" where
  "context_new lib reg = \<lparr>source_registry = reg, default_parallelism = cl_parallelism lib\<rparr>"

section \<open>Sessions\<close>

definition cli_infer_schema :: "cli_lib \<Rightarrow> files \<Rightarrow> string \<Rightarrow> string \<Rightarrow> schema res" where
  "cli_infer_schema lib fs path source =
     and_then (registry_get (default_registry lib fs) source) (\<lambda>src. ds_infer_schema src path)"

definition read_to_string :: "cli_lib \<Rightarrow> files \<Rightarrow> string \<Rightarrow> string res" where
  "read_to_string lib fs path =
     (case os_open (cl_os lib) fs path of
        Inl e \<Rightarrow> Err (ErrStorage e)
      | Inr c \<Rightarrow> if valid_utf8 c then Ok c else Err (ErrStorage ''stream did not contain valid UTF-8''))"

text \<open>\<^verbatim>\<open>Path::file_stem\<close>: the file name up to its last dot, unless the dot comes first.\<close>

definition file_stem :: "string \<Rightarrow> string" where
  "file_stem name =
     (case file_extension name of None \<Rightarrow> name | Some ext \<Rightarrow> take (length name - Suc (length ext)) name)"

definition json_str_field :: "json \<Rightarrow> string \<Rightarrow> string option" where
  "json_str_field entry key =
     (case entry of
        JObject kvs \<Rightarrow> (case map_of kvs key of Some (JString s) \<Rightarrow> Some s | _ \<Rightarrow> None)
      | _ \<Rightarrow> None)"

definition catalog_entry ::
  "cli_lib \<Rightarrow> files \<Rightarrow> string \<Rightarrow> session_state \<Rightarrow> json \<Rightarrow> session_state res" where
  "catalog_entry lib fs input_format session entry =
     and_then (ok_or (json_str_field entry ''name'') (ErrStorage (''catalog entry missing '' @ squote ''name''))) (\<lambda>name.
     and_then (ok_or (json_str_field entry ''path'') (ErrStorage (''catalog entry missing '' @ squote ''path''))) (\<lambda>path.
     let source = unwrap_or (json_str_field entry ''source'') input_format
     in and_then (cli_infer_schema lib fs path source) (\<lambda>s.
        session_register session name path source s)))"

definition load_catalog ::
  "cli_lib \<Rightarrow> files \<Rightarrow> string \<Rightarrow> session_state \<Rightarrow> string option \<Rightarrow> session_state res" where
  "load_catalog lib fs input_format session cat_path =
     (case cat_path of
        None \<Rightarrow> Ok session
      | Some p \<Rightarrow>
          and_then (read_to_string lib fs p) (\<lambda>content.
          (case cl_json_parse lib content of
             Inl e \<Rightarrow> Err (ErrSerde e)
           | Inr (JArray arr) \<Rightarrow> fold_res (catalog_entry lib fs input_format) session arr
           | Inr _ \<Rightarrow> Ok session)))"

definition input_table ::
  "cli_lib \<Rightarrow> files \<Rightarrow> string \<Rightarrow> session_state \<Rightarrow> string \<Rightarrow> session_state res" where
  "input_table lib fs input_format session path =
     (let name = (case path_file_name path of Some n \<Rightarrow> file_stem n | None \<Rightarrow> ''table'')
      in and_then (cli_infer_schema lib fs path input_format) (\<lambda>s.
         session_register session name path input_format s))"

definition build_session ::
  "cli_lib \<Rightarrow> files \<Rightarrow> string option \<Rightarrow> string \<Rightarrow> string list \<Rightarrow> session_state res" where
  "build_session lib fs cat_path input_format inputs =
     and_then (load_catalog lib fs input_format session_new cat_path) (\<lambda>session.
       fold_res (input_table lib fs input_format) session inputs)"

section \<open>Queries\<close>

text \<open>The result, what is printed, and the files.\<close>

type_synonym cli_result = "unit res \<times> string \<times> files"

fun cli_then :: "'a res \<Rightarrow> files \<Rightarrow> ('a \<Rightarrow> cli_result) \<Rightarrow> cli_result" where
  "cli_then (Ok x) fs f = f x"
| "cli_then (Err e) fs f = (Err e, [], fs)"
| "cli_then (Panic m) fs f = (Panic m, [], fs)"

definition sql_text :: "cli_lib \<Rightarrow> files \<Rightarrow> string option \<Rightarrow> string option \<Rightarrow> string res" where
  "sql_text lib fs file sql =
     (case (file, sql) of
        (Some path, _) \<Rightarrow> read_to_string lib fs path
      | (None, Some s) \<Rightarrow> Ok s
      | (None, None) \<Rightarrow> Err (ErrSql ''either --file or a positional sql argument is required''))"

definition run_sql ::
  "cli_lib \<Rightarrow> files \<Rightarrow> string option \<Rightarrow> string option \<Rightarrow> string \<Rightarrow> string list \<Rightarrow> string option \<Rightarrow>
   string option \<Rightarrow> cli_result" where
  "run_sql lib fs file sql input_format inputs cat_path out =
     cli_then (sql_text lib fs file sql) fs (\<lambda>text.
     let ctx = context_new lib (default_registry lib fs)
     in cli_then (build_session lib fs cat_path input_format inputs) fs (\<lambda>session.
        cli_then (try_show_create (cl_sql lib) text) fs (\<lambda>shown.
        (case shown of
           Some table \<Rightarrow>
             cli_then (render_create_table (session_catalog session) table) fs (\<lambda>ddl.
               (Ok (), ddl @ newline, fs))
         | None \<Rightarrow>
             cli_then (plan_sql (cl_sql lib) (session_catalog session) text) fs (\<lambda>p.
             cli_then (execute (cl_rx lib) ctx p) fs (\<lambda>b.
             (case out of
                Some path \<Rightarrow>
                  (case output_write (cl_os lib) (cl_csv_writer lib) (cl_json lib) fs b path of
                     (Ok _, fs) \<Rightarrow>
                       (Ok (), ''wrote '' @ show_nat (batch_len b) @ '' rows to '' @ path @ newline, fs)
                   | (Err e, fs) \<Rightarrow> (Err e, [], fs)
                   | (Panic m, fs) \<Rightarrow> (Panic m, [], fs))
              | None \<Rightarrow> cli_then (render_table b) fs (\<lambda>t. (Ok (), t, fs)))))))))"

section \<open>The master\<close>

text \<open>A table whose source or schema cannot be had is left out without an error.\<close>

definition preload :: "source_registry \<Rightarrow> session_state \<Rightarrow> string \<times> string \<times> string \<Rightarrow> session_state res" where
  "preload reg session = (\<lambda>(name, path, source).
     (case registry_get reg source of
        Ok src \<Rightarrow>
          (case ds_infer_schema src path of
             Ok s \<Rightarrow> (case session_register session name path source s of Ok session \<Rightarrow> Ok session | _ \<Rightarrow> Ok session)
           | Err e \<Rightarrow> Ok session
           | Panic m \<Rightarrow> Panic m)
      | Err e \<Rightarrow> Ok session
      | Panic m \<Rightarrow> Panic m))"

definition json_or_csv :: "string \<Rightarrow> string" where
  "json_or_csv path = (if ends_with ''.json'' path then ''json'' else ''csv'')"

definition example_tables :: "(string \<times> string) list" where
  "example_tables =
     [(''employees'', ''examples/data/employees.csv''), (''sales'', ''examples/data/sales.csv''),
      (''events'', ''examples/data/events.json'')]"

definition load_table :: "source_registry \<Rightarrow> session_state \<Rightarrow> string \<Rightarrow> session_state res" where
  "load_table reg session spec =
     (case split_once (CHR ''='') spec of
        None \<Rightarrow> Ok session
      | Some (name, path) \<Rightarrow> preload reg session (name, path, json_or_csv (to_ascii_lowercase path)))"

definition master_catalog :: "cli_lib \<Rightarrow> world \<Rightarrow> string list \<Rightarrow> bool \<Rightarrow> session_state res" where
  "master_catalog lib w load examples =
     (let reg = s3_registry lib w
      in and_then
           (if examples
            then fold_res (\<lambda>s (name, path). preload reg s (name, path, json_or_csv path)) session_new example_tables
            else Ok session_new)
           (\<lambda>session. fold_res (load_table reg) session load))"

text \<open>\<^verbatim>\<open>run_master\<close> up to the start of its two servers, which share the master and the catalog.\<close>

definition run_master ::
  "cli_lib \<Rightarrow> world \<Rightarrow> string \<Rightarrow> string \<Rightarrow> string \<Rightarrow> string list \<Rightarrow> bool \<Rightarrow> api_state res" where
  "run_master lib w api_addr dashboard_addr master load examples =
     and_then (master_catalog lib w load examples) (\<lambda>session.
     and_then (case cl_parse_addr lib api_addr of
                 Inl e \<Rightarrow> Err (ErrInvalidState (''bad api addr: '' @ e)) | Inr a \<Rightarrow> Ok a) (\<lambda>_.
     and_then (case cl_parse_addr lib dashboard_addr of
                 Inl e \<Rightarrow> Err (ErrInvalidState (''bad dashboard addr: '' @ e)) | Inr a \<Rightarrow> Ok a) (\<lambda>_.
     Ok (api_state_new (cluster_new master) session w))))"

definition build_state :: "string \<Rightarrow> cluster_state \<times> session_state" where
  "build_state master = (cluster_new master, session_new)"

section \<open>The worker\<close>

text \<open>Registration: the reply to an attempt is a decoded record, a body that is not one, another
  status, or a network error. The loop yields the worker and the delays it slept, in ms.\<close>

datatype register_reply = RegWorker worker_info | RegNotJson | RegStatus nat | RegNetwork

definition next_backoff :: "u64 \<Rightarrow> u64" where
  "next_backoff b = min (b * 2) 5000"

fun register_loop ::
  "(nat \<Rightarrow> register_reply) \<Rightarrow> nat \<Rightarrow> nat \<Rightarrow> u64 \<Rightarrow> u64 list \<Rightarrow> (worker_info \<times> u64 list) option" where
  "register_loop reply i 0 backoff slept = None"
| "register_loop reply i (Suc fuel) backoff slept =
     (case reply i of
        RegWorker w \<Rightarrow> Some (w, slept)
      | _ \<Rightarrow> register_loop reply (Suc i) fuel (next_backoff backoff) (slept @ [backoff]))"

definition register_with_retry :: "(nat \<Rightarrow> register_reply) \<Rightarrow> nat \<Rightarrow> (worker_info \<times> u64 list) option" where
  "register_with_retry reply fuel = register_loop reply 0 fuel 200 []"

text \<open>One turn of the polling loop: the requests the worker sends and the delays it sleeps.\<close>

datatype poll_reply = PollTask task | PollNotTask | PollEmpty | PollStatus nat | PollNetwork

datatype worker_action =
    SendComplete string usize | SendFail string string | SendHeartbeat string | SleepMs nat

definition run_task :: "cli_lib \<Rightarrow> execution_context \<Rightarrow> task \<Rightarrow> worker_action res" where
  "run_task lib ctx t =
     (case execute_task (cl_rx lib) (cl_sql lib) ctx (session_catalog session_new) t of
        Ok b \<Rightarrow> Ok (SendComplete (task_id t) (word_of_nat (batch_len b)))
      | Err e \<Rightarrow> Ok (SendFail (task_id t) (show_error e))
      | Panic m \<Rightarrow> Panic m)"

definition worker_turn ::
  "cli_lib \<Rightarrow> execution_context \<Rightarrow> string \<Rightarrow> poll_reply \<Rightarrow> worker_action list res" where
  "worker_turn lib ctx wid reply =
     and_then
       (case reply of
          PollTask t \<Rightarrow> and_then (run_task lib ctx t) (\<lambda>a. Ok [a])
        | PollNotTask \<Rightarrow> Ok []
        | PollEmpty \<Rightarrow> Ok [SleepMs 500]
        | PollStatus code \<Rightarrow> Ok [SleepMs 2000]
        | PollNetwork \<Rightarrow> Ok [SleepMs 2000])
       (\<lambda>acts. Ok (acts @ [SendHeartbeat wid]))"

text \<open>The worker's turn against the master's handlers: poll, execute, report, heartbeat.\<close>

definition deliver :: "'g api_lib \<Rightarrow> tick \<Rightarrow> api_state \<Rightarrow> worker_action \<Rightarrow> api_state" where
  "deliver api tk st a =
     (case a of
        SendComplete tid rows \<Rightarrow> fst (api_complete_task api tk tid rows st)
      | SendFail tid err \<Rightarrow> fst (api_fail_task api tk tid err st)
      | SendHeartbeat wid \<Rightarrow> fst (api_heartbeat tk wid st)
      | SleepMs ms \<Rightarrow> st)"

definition poll_reply_of :: "response res \<Rightarrow> poll_reply" where
  "poll_reply_of r =
     (case r of
        Ok resp \<Rightarrow>
          (if resp_status resp = 200
           then (case resp_body resp of BTask t \<Rightarrow> PollTask t | _ \<Rightarrow> PollNotTask)
           else if resp_status resp = 204 then PollEmpty else PollStatus (resp_status resp))
      | _ \<Rightarrow> PollNetwork)"

definition worker_round ::
  "cli_lib \<Rightarrow> 'g api_lib \<Rightarrow> execution_context \<Rightarrow> string \<Rightarrow> tick \<Rightarrow> api_state \<Rightarrow> api_state res" where
  "worker_round lib api ctx wid tk st =
     (let (st, resp) = api_poll_task wid st
      in and_then (worker_turn lib ctx wid (poll_reply_of resp)) (\<lambda>acts.
         Ok (foldl (deliver api tk) st acts)))"

section \<open>Clients of a remote master\<close>

text \<open>A reply: a network error, or a status and a body, decoded or with the decoding error.\<close>

datatype 'b http_reply = HttpError string | HttpReply nat "string + 'b"

definition is_success :: "nat \<Rightarrow> bool" where
  "is_success code \<longleftrightarrow> 200 \<le> code \<and> code < 300"

definition decode_reply :: "string \<Rightarrow> (nat \<Rightarrow> string) \<Rightarrow> 'b http_reply \<Rightarrow> 'b res" where
  "decode_reply what status_text reply =
     (case reply of
        HttpError e \<Rightarrow> Err (ErrNetwork e)
      | HttpReply code body \<Rightarrow>
          if \<not> is_success code then Err (ErrCluster (what @ status_text code))
          else (case body of Inl e \<Rightarrow> Err (ErrNetwork e) | Inr b \<Rightarrow> Ok b))"

definition submit_url :: "string option \<Rightarrow> string" where
  "submit_url master =
     (case master of
        Some addr \<Rightarrow> trim_end_matches (CHR ''/'') addr @ ''/v1/jobs''
      | None \<Rightarrow> ''http://127.0.0.1:7077/v1/jobs'')"

definition run_submit ::
  "cli_lib \<Rightarrow> files \<Rightarrow> (string \<Rightarrow> job_request \<Rightarrow> json http_reply) \<Rightarrow> (nat \<Rightarrow> string) \<Rightarrow> (json \<Rightarrow> string) \<Rightarrow>
   time \<Rightarrow> string option \<Rightarrow> string \<Rightarrow> string \<Rightarrow> nat \<Rightarrow> cli_result" where
  "run_submit lib fs post status_text pretty now master file name parallelism =
     cli_then (read_to_string lib fs file) fs (\<lambda>sql.
     let request = req_with_parallelism (job_request_new name sql now) parallelism
     in cli_then (decode_reply ''submit failed: '' status_text (post (submit_url master) request)) fs (\<lambda>body.
        (Ok (), pretty body @ newline, fs)))"

definition rebuild_state :: "cluster_snapshot \<Rightarrow> cluster_state" where
  "rebuild_state snap =
     (let st = cluster_new (snap_master_id snap);
          st = foldl register_worker st (snap_workers snap);
          st = foldl insert_job st (snap_jobs snap);
          st = foldl insert_stage st (snap_stages snap)
      in foldl insert_task st (snap_tasks snap))"

definition fetch_remote_state ::
  "(string \<Rightarrow> cluster_snapshot http_reply) \<Rightarrow> (nat \<Rightarrow> string) \<Rightarrow> string \<Rightarrow> (cluster_state \<times> session_state) res" where
  "fetch_remote_state fetch status_text master =
     and_then (decode_reply ''remote snapshot fetch failed: '' status_text
         (fetch (trim_end_matches (CHR ''/'') master @ ''/v1/cluster/snapshot'')))
       (\<lambda>snap. Ok (rebuild_state snap, session_new))"

definition run_dashboard ::
  "cli_lib \<Rightarrow> world \<Rightarrow> (string \<Rightarrow> cluster_snapshot http_reply) \<Rightarrow> (nat \<Rightarrow> string) \<Rightarrow> string \<Rightarrow> string option \<Rightarrow>
   api_state res" where
  "run_dashboard lib w fetch status_text addr master =
     and_then (case cl_parse_addr lib addr of
                 Inl e \<Rightarrow> Err (ErrInvalidState (''bad dashboard addr: '' @ e)) | Inr a \<Rightarrow> Ok a) (\<lambda>_.
     and_then (case master of
                 Some url \<Rightarrow> fetch_remote_state fetch status_text url
               | None \<Rightarrow> Ok (build_state ''dashboard-local'')) (\<lambda>(cs, cat).
     Ok (api_state_new cs cat w)))"

section \<open>The shell\<close>

datatype read_result = ReadLine string | ReadError string

definition trim_end :: "string \<Rightarrow> string" where
  "trim_end s = concat (rev (dropWhile is_whitespace (rev (chars s))))"

definition repl_run_one :: "cli_lib \<Rightarrow> execution_context \<Rightarrow> session_state \<Rightarrow> string \<Rightarrow> string res" where
  "repl_run_one lib ctx session sql =
     and_then (plan_sql (cl_sql lib) (session_catalog session) sql) (\<lambda>p.
     and_then (execute (cl_rx lib) ctx p) render_table)"

text \<open>What the shell writes, to the terminal or as an error.\<close>

datatype repl_output = Prompt string | Printed string | Complaint string

datatype repl_state = Reading string "repl_output list" | Exited "repl_output list" | Crashed string

definition repl_prompt :: "string \<Rightarrow> repl_output" where
  "repl_prompt buffer = Prompt (if trim buffer = [] then ''rspark> '' else ''...> '')"

definition repl_line ::
  "cli_lib \<Rightarrow> execution_context \<Rightarrow> session_state \<Rightarrow> string \<Rightarrow> repl_output list \<Rightarrow> read_result \<Rightarrow> repl_state" where
  "repl_line lib ctx session buffer shown r =
     (let shown = shown @ [repl_prompt buffer]
      in case r of
           ReadError e \<Rightarrow> Exited (shown @ [Complaint (''read error: '' @ e)])
         | ReadLine line \<Rightarrow>
             let trimmed = trim line
             in if trimmed = '':quit'' \<or> trimmed = '':exit'' then Exited shown
                else if trimmed = '':tables'' then
                  (case session_list_tables session of
                     Ok ts \<Rightarrow> Reading [] (shown @ map (\<lambda>t. Printed (t @ newline)) ts)
                   | Err e \<Rightarrow> Reading [] (shown @ [Complaint (''error: '' @ show_error e)])
                   | Panic m \<Rightarrow> Crashed m)
                else
                  let buffer = buffer @ line
                  in if \<not> ends_with '';'' (trim_end buffer) then Reading buffer shown
                     else
                       let stmt = trim_end_matches (CHR '';'') (trim buffer)
                       in if stmt = [] then Reading [] shown
                          else (case repl_run_one lib ctx session stmt of
                                  Ok text \<Rightarrow> Reading [] (shown @ [Printed text])
                                | Err e \<Rightarrow> Reading [] (shown @ [Complaint (''error: '' @ show_error e)])
                                | Panic m \<Rightarrow> Crashed m))"

fun repl_loop ::
  "cli_lib \<Rightarrow> execution_context \<Rightarrow> session_state \<Rightarrow> (nat \<Rightarrow> read_result) \<Rightarrow> nat \<Rightarrow> nat \<Rightarrow> repl_state \<Rightarrow> repl_state" where
  "repl_loop lib ctx session reader i 0 s = s"
| "repl_loop lib ctx session reader i (Suc fuel) s =
     (case s of
        Reading buffer shown \<Rightarrow>
          repl_loop lib ctx session reader (Suc i) fuel (repl_line lib ctx session buffer shown (reader i))
      | _ \<Rightarrow> s)"

definition repl_banner :: repl_output where
  "repl_banner = Printed (''rspark shell '' @ utf8 [0xE2, 0x80, 0x94] @
     '' type SQL terminated by '' @ squote '';'' @ ''. Use `:tables` to list, `:quit` to exit.'' @ newline)"

definition start_repl ::
  "cli_lib \<Rightarrow> world \<Rightarrow> session_state \<Rightarrow> (nat \<Rightarrow> read_result) \<Rightarrow> nat \<Rightarrow> repl_state" where
  "start_repl lib w session reader fuel =
     repl_loop lib (context_new lib (s3_registry lib w)) session reader 0 fuel (Reading [] [repl_banner])"

definition run_shell ::
  "cli_lib \<Rightarrow> world \<Rightarrow> string \<Rightarrow> string list \<Rightarrow> (nat \<Rightarrow> read_result) \<Rightarrow> nat \<Rightarrow> repl_state res" where
  "run_shell lib w input_format inputs reader fuel =
     and_then (build_session lib (w_files w) None input_format inputs) (\<lambda>session.
       Ok (start_repl lib w session reader fuel))"

end
