(* ===== verification/Cli_Laws.thy ===== *)
theory Cli_Laws
  imports Cli Api_Laws Sql_Laws
begin

text \<open>
  The command line: registration with growing delays, a worker's rounds against the master, the
  copy of a remote master's state, the tables a worker can read, and when the shell ends.
\<close>

section \<open>Registration\<close>

definition delay :: "nat \<Rightarrow> nat" where
  "delay k = min (200 * 2 ^ k) 5000"

lemma delay_le: "delay k \<le> 5000"
  by (simp add: delay_def)

lemma unat_of_nat_delay: "unat (word_of_nat (delay k) :: u64) = delay k"
  using delay_le [of k] by (simp add: unat_of_nat)

lemma next_backoff_delay: "next_backoff (word_of_nat (delay k)) = word_of_nat (delay (Suc k))"
proof -
  have double: "(word_of_nat (delay k) * 2 :: u64) = word_of_nat (2 * delay k)" by simp
  have unat: "unat (word_of_nat (2 * delay k) :: u64) = 2 * delay k"
    using delay_le [of k] by (simp add: unat_of_nat del: of_nat_mult)
  have "unat (next_backoff (word_of_nat (delay k))) = min (2 * delay k) 5000"
    unfolding next_backoff_def double min_def word_le_nat_alt unat by (simp add: unat del: of_nat_mult)
  moreover have "min (2 * delay k) 5000 = delay (Suc k)" by (auto simp: delay_def min_def)
  ultimately show ?thesis by (metis word_unat_eq_iff unat_of_nat_delay)
qed

lemma register_loop_eq:
  "register_loop reply i fuel (word_of_nat (delay i)) slept =
     (case List.find (\<lambda>k. \<exists>w. reply k = RegWorker w) [i..<i + fuel] of
        None \<Rightarrow> None
      | Some k \<Rightarrow> (case reply k of RegWorker w \<Rightarrow> Some (w, slept @ map (\<lambda>j. word_of_nat (delay j)) [i..<k]) | _ \<Rightarrow> None))"
proof (induction fuel arbitrary: i slept)
  case (Suc fuel)
  have "[i..<i + Suc fuel] = i # [Suc i..<Suc i + fuel]" by (simp add: upt_conv_Cons)
  moreover have "Suc i \<le> k" if "List.find (\<lambda>k. \<exists>w. reply k = RegWorker w) [Suc i..<Suc i + fuel] = Some k" for k
    using that by (metis atLeastLessThan_iff find_Some_iff nth_mem set_upt)
  ultimately show ?case
    using Suc.IH [of "Suc i" "slept @ [word_of_nat (delay i)]"]
    by (auto simp: next_backoff_delay upt_conv_Cons split: register_reply.splits option.splits)
qed simp

section \<open>Worker rounds\<close>

lemma poll_head:
  assumes "refines_master (api_cluster st)" "pending (api_cluster st) = tid # rest"
  shows "\<exists>t st1. api_poll_task wid st = (st1, respond 200 (BTask t)) \<and> task_id t = tid \<and>
    get_task (api_cluster st1) tid = Some t \<and> \<not> is_terminal t \<and> pending (api_cluster st1) = rest \<and>
    tid \<notin> set rest \<and> (\<exists>t0. get_task (api_cluster st) tid = Some t0 \<and> task_sql t = task_sql t0) \<and>
    (\<forall>k. k \<noteq> tid \<longrightarrow> get_task (api_cluster st1) k = get_task (api_cluster st) k)"
proof -
  obtain ms where ms: "reachable ms" "same_work (api_cluster st) ms" using assms(1) by (auto simp: refines_master_def)
  have inv: "queue_ok ms" "keyed ms" using reachable_inv [OF ms(1)] by (simp_all add: cluster_inv_def)
  note eq = same_work_get [OF ms(2)]
  obtain t where t: "get_task (api_cluster st) tid = Some t" "task_id t = tid"
    using inv assms(2) eq(1,3) unfolding queue_ok_def keyed_def by (metis list.set_intros(1))
  have d: "tid \<notin> set rest" using inv(1) unfolding queue_ok_def eq(3) [symmetric] assms(2) by simp
  let ?t = "t\<lparr>task_assigned_worker := Some wid, task_status := TkAssigned\<rparr>"
  let ?cs = "update_task ((api_cluster st)\<lparr>pending := rest\<rparr>) ?t"
  have "try_assign_task (api_cluster st) wid = (Some ?t, case get_stage ?cs (task_stage_id ?t) of
      None \<Rightarrow> ?cs | Some s \<Rightarrow> update_stage ?cs (s\<lparr>stage_tasks := update_slot (task_id ?t)
        (\<lambda>u. u\<lparr>task_assigned_worker := Some wid, task_status := TkAssigned\<rparr>) (stage_tasks s)\<rparr>))"
    using t by (simp add: try_assign_task_def pop_pending_task_def assms(2) Let_def split: option.split)
  moreover have "\<not> is_terminal ?t" by (simp add: is_terminal_def is_succeeded_def is_failed_def)
  ultimately show ?thesis
    using t d
    by (auto simp: api_poll_task_def view_simps split: option.splits)
qed

lemma finish_assigned:
  assumes "refines_master (api_cluster st)" "get_task (api_cluster st) tid = Some t" "task_id t = tid"
    and "\<not> is_terminal t" "tid \<notin> set (pending (api_cluster st))"
  shows "\<exists>u. get_task (api_cluster (fst (finish_task lib tk tid rows success err st))) tid = Some u \<and> is_terminal u \<and>
    pending (api_cluster (fst (finish_task lib tk tid rows success err st))) = pending (api_cluster st) \<and>
    (\<forall>k. k \<noteq> tid \<longrightarrow> get_task (api_cluster (fst (finish_task lib tk tid rows success err st))) k =
       get_task (api_cluster st) k)"
proof -
  let ?u = "completed_task t rows success err (tk_now tk)"
  have "complete_task (api_cluster st) tid rows success err (tk_now tk) (tk_later tk) \<noteq> Err e" for e
    by (simp add: complete_task_unfold [OF assms(2) refl] split: option.splits)
  then obtain cs' where cs': "complete_task (api_cluster st) tid rows success err (tk_now tk) (tk_later tk) = Ok cs'"
    using refines_complete [OF assms(1), of tid rows success err "tk_now tk" "tk_later tk"] by blast
  then obtain j' where "cs' = update_job (finished (api_cluster st) ?u) j'"
    by (auto simp: complete_task_unfold [OF assms(2) refl] split: option.splits)
  moreover have "pending (finished (api_cluster st) ?u) = pending (api_cluster st)"
    "get_task (finished (api_cluster st) ?u) tid = Some ?u"
    "\<forall>k. k \<noteq> tid \<longrightarrow> get_task (finished (api_cluster st) ?u) k = get_task (api_cluster st) k"
    using assms(2-5)
    by (auto simp: finished_def view_simps filter_id_conv split: option.splits)
  ultimately show ?thesis
    using cs' by (auto simp: finish_task_def view_simps)
qed

lemma deliver_heartbeat:
  "api_cluster (deliver api tk st (SendHeartbeat wid)) =
     (case map_of (workers (api_cluster st)) wid of None \<Rightarrow> api_cluster st
      | Some w \<Rightarrow> update_worker_heartbeat (api_cluster st) wid (tk_now tk))"
  by (simp add: deliver_def api_heartbeat_def split: option.splits)

lemma heartbeat_keeps_work:
  "same_work (api_cluster (deliver api tk st (SendHeartbeat wid))) (api_cluster st)"
  "get_job (api_cluster (deliver api tk st (SendHeartbeat wid))) = get_job (api_cluster st)"
  unfolding deliver_heartbeat by (auto simp: view_simps split: option.splits)

lemma refines_deliver:
  assumes "refines_master (api_cluster st)"
  shows "refines_master (api_cluster (deliver api tk st a))"
proof (cases a)
  case (SendHeartbeat wid)
  then show ?thesis
    using assms heartbeat_keeps_work jobs_keyed_cong refines_same by (metis refines_master_def)
qed (use assms refines_finish_task(1) in
    \<open>auto simp: deliver_def api_complete_task_def api_fail_task_def\<close>)

lemma refines_poll:
  assumes "refines_master (api_cluster st)"
  shows "refines_master (api_cluster (fst (api_poll_task wid st)))"
  using refines_assign [OF assms] by (simp add: api_poll_task_def split_def Let_def)

lemma refines_round:
  assumes "refines_master (api_cluster st)" "worker_round lib api ctx wid tk st = Ok st'"
  shows "refines_master (api_cluster st')"
proof -
  have fold: "refines_master (api_cluster (foldl (deliver api tk) s acts))" if "refines_master (api_cluster s)" for s acts
    using that by (induction acts arbitrary: s) (auto intro: refines_deliver)
  show ?thesis
    using assms(2) fold [OF refines_poll [OF assms(1), of wid]]
    by (auto simp: worker_round_def split_def Let_def and_then_eq_Ok)
qed

text \<open>Executing the queued task does not bring the worker down.\<close>

definition executes :: "cli_lib \<Rightarrow> execution_context \<Rightarrow> task \<Rightarrow> bool" where
  "executes lib ctx t \<longleftrightarrow>
     (case execute_task (cl_rx lib) (cl_sql lib) ctx (session_catalog session_new) t of Panic m \<Rightarrow> False | _ \<Rightarrow> True)"

lemma executes_same_sql: "task_sql t = task_sql u \<Longrightarrow> executes lib ctx t = executes lib ctx u"
  by (simp add: executes_def execute_task_def)

lemma executes_run_task:
  assumes "executes lib ctx t"
  obtains a rows success err where "run_task lib ctx t = Ok a"
    "\<And>st. deliver api tk st a = fst (finish_task api tk (task_id t) rows success err st)"
  using assms that
  by (cases "execute_task (cl_rx lib) (cl_sql lib) ctx (session_catalog session_new) t")
    (auto simp: executes_def run_task_def deliver_def api_complete_task_def api_fail_task_def)

lemma worker_round_settles_head:
  assumes "refines_master (api_cluster st)" "pending (api_cluster st) = tid # rest"
    and "\<And>t. get_task (api_cluster st) tid = Some t \<Longrightarrow> executes lib ctx t"
  shows "\<exists>st' u. worker_round lib api ctx wid tk st = Ok st' \<and> get_task (api_cluster st') tid = Some u \<and>
    is_terminal u \<and> pending (api_cluster st') = rest \<and>
    (\<forall>k. k \<noteq> tid \<longrightarrow> get_task (api_cluster st') k = get_task (api_cluster st) k)"
proof -
  obtain t st1 where t: "api_poll_task wid st = (st1, respond 200 (BTask t))" "task_id t = tid"
      "get_task (api_cluster st1) tid = Some t" "\<not> is_terminal t" "pending (api_cluster st1) = rest" "tid \<notin> set rest"
      and frame: "\<forall>k. k \<noteq> tid \<longrightarrow> get_task (api_cluster st1) k = get_task (api_cluster st) k"
      and ex: "executes lib ctx t"
    using poll_head [OF assms(1,2)] assms(3) executes_same_sql by metis
  have st1: "refines_master (api_cluster st1)" using refines_poll [OF assms(1), of wid] t(1) by simp
  obtain a rows success err where a: "run_task lib ctx t = Ok a"
      "deliver api tk st1 a = fst (finish_task api tk tid rows success err st1)"
    using executes_run_task [OF ex, of api tk] t(2) by metis
  let ?st' = "deliver api tk (deliver api tk st1 a) (SendHeartbeat wid)"
  have "worker_round lib api ctx wid tk st = Ok ?st'"
    using t(1) a(1) by (simp add: worker_round_def poll_reply_of_def respond_def worker_turn_def)
  moreover obtain u where "get_task (api_cluster (deliver api tk st1 a)) tid = Some u" "is_terminal u"
      "pending (api_cluster (deliver api tk st1 a)) = rest"
      "\<forall>k. k \<noteq> tid \<longrightarrow> get_task (api_cluster (deliver api tk st1 a)) k = get_task (api_cluster st1) k"
    using finish_assigned [OF st1 t(3,2,4)] t(5,6) a(2) by metis
  ultimately show ?thesis
    using frame same_work_get(1,3) [OF heartbeat_keeps_work(1) [of api tk "deliver api tk st1 a" wid]] by metis
qed

text \<open>Rounds of one worker, with the clock of each round.\<close>

fun worker_rounds ::
  "cli_lib \<Rightarrow> 'g api_lib \<Rightarrow> execution_context \<Rightarrow> string \<Rightarrow> tick list \<Rightarrow> api_state \<Rightarrow> api_state res" where
  "worker_rounds lib api ctx wid [] st = Ok st"
| "worker_rounds lib api ctx wid (tk # tks) st =
     and_then (worker_round lib api ctx wid tk st) (worker_rounds lib api ctx wid tks)"

lemma worker_rounds_drain:
  assumes "refines_master (api_cluster st)" "length tks = length (pending (api_cluster st))"
    and "\<And>tid t. tid \<in> set (pending (api_cluster st)) \<Longrightarrow> get_task (api_cluster st) tid = Some t \<Longrightarrow> executes lib ctx t"
    and "distinct (pending (api_cluster st))"
  shows "\<exists>st'. worker_rounds lib api ctx wid tks st = Ok st' \<and> pending (api_cluster st') = [] \<and>
    (\<forall>tid \<in> set (pending (api_cluster st)). \<exists>u. get_task (api_cluster st') tid = Some u \<and> is_terminal u) \<and>
    (\<forall>k. k \<notin> set (pending (api_cluster st)) \<longrightarrow> get_task (api_cluster st') k = get_task (api_cluster st) k)"
  using assms
proof (induction tks arbitrary: st)
  case (Cons tk tks)
  obtain tid rest where q: "pending (api_cluster st) = tid # rest"
    using Cons.prems(2) by (cases "pending (api_cluster st)") auto
  then have tid: "tid \<notin> set rest" using Cons.prems(4) by simp
  obtain st1 u where st1: "worker_round lib api ctx wid tk st = Ok st1" "get_task (api_cluster st1) tid = Some u"
      "is_terminal u" "pending (api_cluster st1) = rest"
      "\<forall>k. k \<noteq> tid \<longrightarrow> get_task (api_cluster st1) k = get_task (api_cluster st) k"
    using worker_round_settles_head [OF Cons.prems(1) q] Cons.prems(3) q by (metis list.set_intros(1))
  have "executes lib ctx t" if "k \<in> set rest" "get_task (api_cluster st1) k = Some t" for k t
    using that st1(5) tid Cons.prems(3) q by (metis list.set_intros(2))
  then obtain st' where st': "worker_rounds lib api ctx wid tks st1 = Ok st'" "pending (api_cluster st') = []"
      "\<forall>k \<in> set rest. \<exists>u. get_task (api_cluster st') k = Some u \<and> is_terminal u"
      "\<forall>k. k \<notin> set rest \<longrightarrow> get_task (api_cluster st') k = get_task (api_cluster st1) k"
    using Cons.IH [OF refines_round [OF Cons.prems(1) st1(1)]] Cons.prems(2,4) q st1(4) by auto
  then show ?case using st1 tid q by auto
qed simp

section \<open>What a worker can read\<close>

lemma no_scans_from_empty: "scans_from (session_catalog session_new) p \<Longrightarrow> scan_count p = 0"
proof (induction p rule: scan_count.induct)
  case (1 table path source projection flt s)
  then show ?case
    by (simp add: session_catalog_def session_table_location_def session_lookup_def session_new_def ok_or_def)
qed (auto simp: list_all_iff)

section \<open>A copied state\<close>

lemma foldl_insert_tasks:
  "tasks (foldl insert_task st ts) = foldl (\<lambda>al t. AList.update (task_id t) t al) (tasks st) ts"
  "pending (foldl insert_task st ts) = pending st @ map task_id ts"
  "stages (foldl insert_task st ts) = stages st" "jobs (foldl insert_task st ts) = jobs st"
  by (induction ts arbitrary: st) (simp_all add: insert_task_def)

lemma foldl_update_fresh:
  assumes "distinct (map fst al @ map key xs)"
  shows "foldl (\<lambda>al x. AList.update (key x) x al) al xs = al @ map (\<lambda>x. (key x, x)) xs"
  using assms
proof (induction xs arbitrary: al)
  case (Cons x xs)
  have "AList.update (key x) x al = al @ [(key x, x)]" using Cons.prems by (intro update_new_key) auto
  then show ?case using Cons.IH [of "al @ [(key x, x)]"] Cons.prems by simp
qed simp

lemma rekey:
  assumes "distinct (map fst al)" "\<forall>(k, x) \<in> set al. key x = k"
  shows "foldl (\<lambda>al x. AList.update (key x) x al) [] (map snd al) = al"
proof -
  have keys: "map key (map snd al) = map fst al" using assms(2) by (auto simp: case_prod_unfold)
  then have "foldl (\<lambda>al x. AList.update (key x) x al) [] (map snd al) = map (\<lambda>x. (key x, x)) (map snd al)"
    using foldl_update_fresh [of "[]" key "map snd al"] assms(1) by (simp del: map_map)
  also have "\<dots> = al" using assms(2) by (auto intro!: map_idI simp: comp_def case_prod_unfold)
  finally show ?thesis .
qed

text \<open>Every entry of the state is stored under its own identifier, once.\<close>

definition well_keyed :: "cluster_state \<Rightarrow> bool" where
  "well_keyed st \<longleftrightarrow>
     distinct (map fst (workers st)) \<and> (\<forall>(k, w) \<in> set (workers st). worker_id w = k) \<and>
     distinct (map fst (jobs st)) \<and> (\<forall>(k, j) \<in> set (jobs st). job_id j = k) \<and>
     distinct (map fst (stages st)) \<and> (\<forall>(k, s) \<in> set (stages st). stage_id s = k) \<and>
     distinct (map fst (tasks st)) \<and> (\<forall>(k, t) \<in> set (tasks st). task_id t = k)"

lemma foldl_stages_jobs_workers:
  "foldl insert_stage st ss = st\<lparr>stages := foldl (\<lambda>al x. AList.update (stage_id x) x al) (stages st) ss\<rparr>"
  "foldl insert_job st js = st\<lparr>jobs := foldl (\<lambda>al x. AList.update (job_id x) x al) (jobs st) js\<rparr>"
  "foldl register_worker st ws = st\<lparr>workers := foldl (\<lambda>al x. AList.update (worker_id x) x al) (workers st) ws\<rparr>"
  by (induction ss arbitrary: st) (simp_all add: insert_stage_def,
      induction js arbitrary: st, simp_all add: insert_job_def,
      induction ws arbitrary: st, simp_all add: register_worker_def)

lemma rebuild_snapshot:
  assumes "well_keyed st"
  shows "tasks (rebuild_state (snapshot st now)) = tasks st" "stages (rebuild_state (snapshot st now)) = stages st"
    "jobs (rebuild_state (snapshot st now)) = jobs st" "workers (rebuild_state (snapshot st now)) = workers st"
    "pending (rebuild_state (snapshot st now)) = map fst (tasks st)"
proof -
  note keys = assms [unfolded well_keyed_def]
  have "map (task_id \<circ> snd) (tasks st) = map fst (tasks st)" using keys by (auto simp: case_prod_unfold)
  moreover have "workers (foldl insert_task s ts) = workers s" for s ts
    by (induction ts arbitrary: s) (simp_all add: insert_task_def)
  ultimately show "tasks (rebuild_state (snapshot st now)) = tasks st" "stages (rebuild_state (snapshot st now)) = stages st"
    "jobs (rebuild_state (snapshot st now)) = jobs st" "workers (rebuild_state (snapshot st now)) = workers st"
    "pending (rebuild_state (snapshot st now)) = map fst (tasks st)"
    using keys
    by (simp_all add: rebuild_state_def snapshot_def Let_def foldl_insert_tasks foldl_stages_jobs_workers
        cluster_new_def list_tasks_def list_jobs_def list_workers_def rekey)
qed

section \<open>The shell\<close>

definition leaves :: "read_result \<Rightarrow> bool" where
  "leaves r \<longleftrightarrow> (case r of ReadError e \<Rightarrow> True | ReadLine l \<Rightarrow> trim l \<in> {'':quit'', '':exit''})"

lemma repl_line_exits:
  "(\<exists>out. repl_line lib ctx session buffer shown r = Exited out) \<longleftrightarrow> leaves r"
  by (auto simp: repl_line_def leaves_def Let_def split: read_result.splits result.splits if_splits)

lemma repl_loop_exits:
  assumes "repl_loop lib ctx session reader i fuel (Reading buffer shown) = Exited out"
  shows "\<exists>k. i \<le> k \<and> k < i + fuel \<and> leaves (reader k)"
  using assms
proof (induction fuel arbitrary: i buffer shown)
  case (Suc fuel)
  show ?case
  proof (cases "repl_line lib ctx session buffer shown (reader i)")
    case (Reading b s)
    then obtain k where "Suc i \<le> k" "k < Suc i + fuel" "leaves (reader k)"
      using Suc.IH [of "Suc i" b s] Suc.prems by auto
    then show ?thesis by (intro exI [of _ k]) simp
  next
    case (Exited o')
    then show ?thesis using repl_line_exits [of lib ctx session buffer shown "reader i"] by (auto intro: exI [of _ i])
  next
    case (Crashed m)
    then show ?thesis using Suc.prems by (cases fuel) simp_all
  qed
qed simp

lemma trim_empty: "trim [] = []"
  by (simp add: trim_def)

text \<open>At the end of the input every read yields the empty line.\<close>

lemma repl_line_eof:
  assumes "\<not> ends_with '';'' (trim_end buffer)"
  shows "repl_line lib ctx session buffer shown (ReadLine []) = Reading buffer (shown @ [repl_prompt buffer])"
  using assms by (simp add: repl_line_def Let_def trim_empty)

lemma repl_loop_eof:
  assumes "\<And>k. i \<le> k \<Longrightarrow> reader k = ReadLine []" "\<not> ends_with '';'' (trim_end buffer)"
  shows "repl_loop lib ctx session reader i fuel (Reading buffer shown) =
    Reading buffer (shown @ replicate fuel (repl_prompt buffer))"
  using assms
proof (induction fuel arbitrary: i shown)
  case (Suc fuel)
  then show ?case
    using Suc.IH [of "Suc i" "shown @ [repl_prompt buffer]"] repl_line_eof [OF Suc.prems(2)] by simp
qed simp

end
