(* ===== verification/Ingest.thy ===== *)
theory Ingest
  imports Cli
begin

text \<open>
  \<^verbatim>\<open>rspark-ingest/src/lib.rs\<close>, the command that starts it, and the \<^verbatim>\<open>rspark-pipeline\<close> program
  (\<^verbatim>\<open>rspark-pipelines/src/bin/rspark_pipeline.rs\<close>). Encoding an event and sending a payload to
  Kafka are parameters; \<open>send i payload\<close> is the error of the \<open>i\<close>-th event of the request, if any.
\<close>

section \<open>Ingest\<close>

record ingest_config =
  ic_brokers :: string
  ic_topic :: string
  ic_bind :: string

definition ingest_config_from_env :: "env_vars \<Rightarrow> ingest_config" where
  "ingest_config_from_env env =
     \<lparr>ic_brokers = unwrap_or (env ''KAFKA_BROKERS'') ''kafka.rspark.svc.cluster.local:9092'',
      ic_topic = unwrap_or (env ''KAFKA_TOPIC'') ''rspark.page_events'',
      ic_bind = unwrap_or (env ''RSPORT_INGEST'') ''0.0.0.0:8081''\<rparr>"

text \<open>\<^verbatim>\<open>run_ingest\<close> of the command line sets the variables that the service reads.\<close>

definition run_ingest :: "env_vars \<Rightarrow> string \<Rightarrow> string \<Rightarrow> string \<Rightarrow> ingest_config" where
  "run_ingest env addr brokers topic =
     ingest_config_from_env
       (env(''RSPORT_INGEST'' := Some addr, ''KAFKA_BROKERS'' := Some brokers, ''KAFKA_TOPIC'' := Some topic))"

record ingest_response =
  in_received :: nat
  in_produced :: nat
  in_failed :: nat

text \<open>The counters of the loop and the payloads that were sent, with their topic.\<close>

record ingest_state =
  is_produced :: nat
  is_failed_count :: nat
  is_sent :: "(string \<times> string) list"

definition ingest_event ::
  "(json \<Rightarrow> string + string) \<Rightarrow> (nat \<Rightarrow> string \<Rightarrow> string option) \<Rightarrow> string \<Rightarrow> ingest_state \<Rightarrow> nat \<times> json \<Rightarrow>
   ingest_state" where
  "ingest_event encode send topic s = (\<lambda>(i, ev).
     (case encode ev of
        Inl e \<Rightarrow> s\<lparr>is_failed_count := is_failed_count s + 1\<rparr>
      | Inr payload \<Rightarrow>
          (case send i payload of
             None \<Rightarrow> s\<lparr>is_produced := is_produced s + 1, is_sent := is_sent s @ [(topic, payload)]\<rparr>
           | Some e \<Rightarrow> s\<lparr>is_failed_count := is_failed_count s + 1\<rparr>)))"

definition ingest ::
  "(json \<Rightarrow> string + string) \<Rightarrow> (nat \<Rightarrow> string \<Rightarrow> string option) \<Rightarrow> string \<Rightarrow> json list \<Rightarrow>
   nat \<times> ingest_response \<times> (string \<times> string) list" where
  "ingest encode send topic events =
     (let s = foldl (ingest_event encode send topic) \<lparr>is_produced = 0, is_failed_count = 0, is_sent = []\<rparr>
            (enumerate 0 events);
          body = \<lparr>in_received = length events, in_produced = is_produced s, in_failed = is_failed_count s\<rparr>
      in (if 0 < is_failed_count s \<and> is_produced s = 0 then 502 else 202, body, is_sent s))"

definition healthz :: nat where
  "healthz = 200"

section \<open>The pipeline program\<close>

definition pipeline_main ::
  "yaml_lib \<Rightarrow> 'g petgraph \<Rightarrow> (nat \<Rightarrow> nat \<Rightarrow> nat) \<Rightarrow> cli_lib \<Rightarrow> unit runner \<Rightarrow> (run_report \<Rightarrow> string) \<Rightarrow> nat \<Rightarrow> string \<Rightarrow>
   string \<Rightarrow> nat \<Rightarrow> world \<Rightarrow> ((string, string) result \<times> world) option" where
  "pipeline_main yaml g rank lib rn pretty fuel file now elapsed w =
     (case from_file yaml (os_open (cl_os lib) (w_files w)) file of
        Err e \<Rightarrow> Some (Err (''spec error: '' @ show_spec_error e), w)
      | Panic m \<Rightarrow> Some (Panic m, w)
      | Ok p \<Rightarrow>
          (let rn = rn\<lparr>rn_catalog := empty_catalog,
                  rn_context := \<lambda>w. context_new lib (s3_registry lib w)\<rparr>
           in case run_pipeline g rank rn fuel p now elapsed \<lparr>rs_world = w, rs_catalog = (), rs_progress = []\<rparr> of
                None \<Rightarrow> None
              | Some (Ok report, st) \<Rightarrow> Some (Ok (pretty report @ newline), rs_world st)
              | Some (Err e, st) \<Rightarrow> Some (Err (''run failed: '' @ show_error e), rs_world st)
              | Some (Panic m, st) \<Rightarrow> Some (Panic m, rs_world st)))"

section \<open>Commands\<close>

text \<open>The subcommands with their arguments (\<^verbatim>\<open>cli.rs\<close>); the parser fills in the defaults.\<close>

datatype command =
    CmdMaster string string string "string list" bool
  | CmdWorker string string nat nat
  | CmdSql "string option" "string option" string "string list" "string option" "string option"
  | CmdSubmit "string option" string string nat
  | CmdShell string "string list"
  | CmdDashboard string "string option"
  | CmdIngest string string string

text \<open>The first group of an identifier follows \<^verbatim>\<open>master-\<close>.\<close>

definition default_master_id :: "string \<Rightarrow> string" where
  "default_master_id uuid = ''master-'' @ hd (split_on (CHR ''-'') uuid)"

text \<open>What the network and the terminal answer.\<close>

record cli_net =
  net_post_job :: "string \<Rightarrow> job_request \<Rightarrow> json http_reply"
  net_snapshot :: "string \<Rightarrow> cluster_snapshot http_reply"
  net_register :: "nat \<Rightarrow> register_reply"
  net_status_text :: "nat \<Rightarrow> string"
  net_pretty :: "json \<Rightarrow> string"
  net_lines :: "nat \<Rightarrow> read_result"
  net_now :: time

text \<open>
  What a command comes to: a server with its initial state, a registered worker (\<open>None\<close> while it is
  still trying), a finished command, a shell, or the ingest service with its configuration.
\<close>

datatype cli_outcome =
    Serves "api_state res"
  | Works "(worker_info \<times> u64 list) option"
  | Finishes cli_result
  | Shells "repl_state res"
  | Ingests ingest_config

definition dispatch :: "cli_lib \<Rightarrow> cli_net \<Rightarrow> world \<Rightarrow> nat \<Rightarrow> command \<Rightarrow> cli_outcome" where
  "dispatch lib net w fuel cmd =
     (case cmd of
        CmdMaster api_addr dashboard_addr mid load examples \<Rightarrow>
          Serves (run_master lib w api_addr dashboard_addr mid load examples)
      | CmdWorker master bind cores memory_mb \<Rightarrow> Works (register_with_retry (net_register net) fuel)
      | CmdSql file sql input_format inputs cat_path out \<Rightarrow>
          Finishes (run_sql lib (w_files w) file sql input_format inputs cat_path out)
      | CmdSubmit master file name parallelism \<Rightarrow>
          Finishes (run_submit lib (w_files w) (net_post_job net) (net_status_text net) (net_pretty net)
            (net_now net) master file name parallelism)
      | CmdShell input_format inputs \<Rightarrow> Shells (run_shell lib w input_format inputs (net_lines net) fuel)
      | CmdDashboard addr master \<Rightarrow>
          Serves (run_dashboard lib w (net_snapshot net) (net_status_text net) addr master)
      | CmdIngest addr brokers topic \<Rightarrow> Ingests (run_ingest (cl_env lib) addr brokers topic))"

section \<open>Accounting\<close>

lemma ingest_event_counts:
  "is_produced (ingest_event encode send topic s e) + is_failed_count (ingest_event encode send topic s e) =
     Suc (is_produced s + is_failed_count s)"
  "length (is_sent (ingest_event encode send topic s e)) + is_produced s =
     is_produced (ingest_event encode send topic s e) + length (is_sent s)"
  by (cases e; simp add: ingest_event_def split: sum.split option.split)+

lemma ingest_loop:
  "is_produced (foldl (ingest_event encode send topic) s evs) +
     is_failed_count (foldl (ingest_event encode send topic) s evs) =
   is_produced s + is_failed_count s + length evs \<and>
   length (is_sent (foldl (ingest_event encode send topic) s evs)) + is_produced s =
   is_produced (foldl (ingest_event encode send topic) s evs) + length (is_sent s)"
proof (induction evs arbitrary: s)
  case (Cons e evs)
  show ?case
    using Cons.IH [of "ingest_event encode send topic s e"] ingest_event_counts [of encode send topic s e]
    by simp
qed simp

lemma ingest_sent:
  "is_sent (foldl (ingest_event encode send topic) s evs) = is_sent s @
     List.map_filter (\<lambda>(i, ev). case encode ev of Inl e \<Rightarrow> None
       | Inr payload \<Rightarrow> if send i payload = None then Some (topic, payload) else None) evs"
  by (induction evs arbitrary: s)
    (auto simp: ingest_event_def map_filter_simps split: sum.splits option.splits if_splits)

end
