(* ===== verification/Cli_Properties.thy ===== *)
theory Cli_Properties
  imports Cli_Laws Ingest Api_Properties
begin

text \<open>
  Properties of the command line, of the worker against the master, and of the ingest service.
\<close>

section \<open>Samples\<close>

definition cli_sample :: cli_lib where
  "cli_sample = \<lparr>cl_os = os_sample, cl_csv = \<lparr>csv_headers = \<lambda>c. Inr [], csv_records = \<lambda>c. []\<rparr>,
     cl_json = json_sample, cl_json_parse = \<lambda>s. Inl ''no'', cl_csv_writer = \<lambda>rs. ([], None),
     cl_rx = no_regex, cl_sql = sales_lib,
     cl_s3 = \<lparr>s3_get_object = \<lambda>c obs k. Inl ''none'', s3_put_object = \<lambda>c obs k t. None\<rparr>,
     cl_env = \<lambda>v. None, cl_parse_addr = \<lambda>s. Inr s, cl_parallelism = 1\<rparr>"

section \<open>Workers\<close>

text \<open>C35. A worker registers with the first attempt that the master answers with a record, however
  many fail before it, and the delay after attempt \<open>k\<close> is \<open>200 * 2 ^ k\<close> ms, at most five seconds.\<close>

theorem registration_retries_until_answered:
  assumes "reply n = RegWorker w" "\<forall>k < n. \<forall>v. reply k \<noteq> RegWorker v" "n < fuel"
  shows "register_with_retry reply fuel = Some (w, map (\<lambda>k. word_of_nat (min (200 * 2 ^ k) 5000)) [0..<n])"
proof -
  have "List.find (\<lambda>k. \<exists>w. reply k = RegWorker w) [0..<fuel] = Some n"
    using assms by (auto simp: find_Some_iff)
  moreover have "(word_of_nat (delay 0) :: u64) = 200" by (simp add: delay_def)
  ultimately show ?thesis
    using register_loop_eq [of reply 0 fuel "[]"] assms(1)
    by (simp add: register_with_retry_def delay_def)
qed

theorem registration_retries_until_answered_witness:
  "register_with_retry (\<lambda>k. if k = 6 then RegWorker (worker_info_new ''w'' ''a'' 2 1024 0) else RegNetwork) 9 =
     Some (worker_info_new ''w'' ''a'' 2 1024 0, map (\<lambda>k. word_of_nat (min (200 * 2 ^ k) 5000)) [0..<6])"
  by (rule registration_retries_until_answered) simp_all

text \<open>C18. Against a server in any state it can reach, a worker that makes as many rounds as tasks are
  queued, none of which makes it panic, empties the queue: every queued task is taken, executed
  and reported, and ends as succeeded or failed; no other task changes.\<close>

theorem worker_rounds_settle_queue:
  assumes "api_reachable api st" "length tks = length (pending (api_cluster st))"
    and "\<forall>tid \<in> set (pending (api_cluster st)). \<forall>t. get_task (api_cluster st) tid = Some t \<longrightarrow> executes lib ctx t"
  shows "\<exists>st'. worker_rounds lib api ctx wid tks st = Ok st' \<and> pending (api_cluster st') = [] \<and>
    (\<forall>tid \<in> set (pending (api_cluster st)). \<exists>u. get_task (api_cluster st') tid = Some u \<and> is_terminal u) \<and>
    (\<forall>k. k \<notin> set (pending (api_cluster st)) \<longrightarrow> get_task (api_cluster st') k = get_task (api_cluster st) k)"
proof (rule worker_rounds_drain [OF _ assms(2)])
  show st: "refines_master (api_cluster st)" by (rule api_reachable_refines [OF assms(1)])
  then show "distinct (pending (api_cluster st))"
    using reachable_inv same_work_get(3) by (fastforce simp: refines_master_def cluster_inv_def queue_ok_def)
qed (use assms(3) in blast)

definition settled :: api_state where
  "settled = (case worker_rounds cli_sample api_sample sales_ctx ''w'' [tick_sample] (fst answered) of
     Ok st \<Rightarrow> st | _ \<Rightarrow> server)"

theorem worker_rounds_settle_queue_witness:
  "pending (api_cluster (fst answered)) \<noteq> [] \<and>
    worker_rounds cli_sample api_sample sales_ctx ''w'' [tick_sample] (fst answered) = Ok settled \<and>
    pending (api_cluster settled) = []"
proof -
  have "list_all (\<lambda>(k, t). executes cli_sample sales_ctx t) (tasks (api_cluster (fst answered)))" by code_simp
  then have "\<forall>tid \<in> set (pending (api_cluster (fst answered))). \<forall>t.
      get_task (api_cluster (fst answered)) tid = Some t \<longrightarrow> executes cli_sample sales_ctx t"
    by (auto simp: list_all_iff get_task_def dest!: map_of_SomeD)
  moreover have "length [tick_sample] = length (pending (api_cluster (fst answered)))" by code_simp
  ultimately show ?thesis
    using worker_rounds_settle_queue [OF answered_reachable, of "[tick_sample]" cli_sample sales_ctx "''w''"]
    by (fastforce simp: settled_def)
qed

text \<open>A worker plans a task against a catalog of its own that is empty, so it can only complete
  tasks whose query reads no table: every task that scans a table is reported as failed.\<close>

theorem worker_completes_only_tableless_tasks:
  assumes "run_task lib ctx t = Ok (SendComplete tid rows)"
  shows "\<exists>p. plan_sql (cl_sql lib) (session_catalog session_new) (task_sql t) = Ok p \<and> scan_count p = 0"
proof -
  obtain b where "execute_task (cl_rx lib) (cl_sql lib) ctx (session_catalog session_new) t = Ok b"
    using assms by (auto simp: run_task_def split: result.splits)
  then obtain p where p: "plan_sql (cl_sql lib) (session_catalog session_new) (task_sql t) = Ok p"
    by (auto simp: execute_task_def and_then_eq_Ok)
  then show ?thesis using plan_sql_planned [OF p] no_scans_from_empty by (auto simp: planned_def)
qed

text \<open>A parser that reads every text as SELECT 1.\<close>

definition select_one :: cli_lib where
  "select_one = cli_sample\<lparr>cl_sql := sales_lib\<lparr>parse_statements := \<lambda>s. Inr [StQuery (Query False
     (SeSelect \<lparr>sel_distinct = False, sel_projection = [ItemUnnamed (int_lit 1)], sel_from = [],
       sel_selection = None, sel_group_by = GroupExprs [], sel_having = None\<rparr>) None None None)]\<rparr>\<rparr>"

theorem worker_completes_only_tableless_tasks_witness:
  "\<exists>p rows. run_task select_one sales_ctx (task_new ''t'' ''j'' ''s'' ''p'' ''q'') = Ok (SendComplete ''t'' rows) \<and>
    plan_sql (cl_sql select_one) (session_catalog session_new) ''q'' = Ok p \<and> scan_count p = 0"
proof -
  let ?t = "task_new ''t'' ''j'' ''s'' ''p'' ''q''"
  have "case run_task select_one sales_ctx ?t of Ok (SendComplete tid rows) \<Rightarrow> tid = ''t'' | _ \<Rightarrow> False"
    by code_simp
  then obtain rows where r: "run_task select_one sales_ctx ?t = Ok (SendComplete ''t'' rows)"
    by (auto split: result.splits worker_action.splits)
  have "task_sql ?t = ''q''" by (simp add: task_new_def)
  with worker_completes_only_tableless_tasks [OF r] r show ?thesis by auto
qed

section \<open>A copied master\<close>

text \<open>A dashboard that copies a master's state from its snapshot has the master's workers, jobs,
  stages and tasks, but its queue holds every task, those that have ended too; a task that has
  ended would be handed out again.\<close>

theorem remote_copy_requeues_every_task:
  assumes "well_keyed st"
  shows "workers (rebuild_state (snapshot st now)) = workers st \<and> jobs (rebuild_state (snapshot st now)) = jobs st \<and>
    stages (rebuild_state (snapshot st now)) = stages st \<and> tasks (rebuild_state (snapshot st now)) = tasks st \<and>
    pending (rebuild_state (snapshot st now)) = map fst (tasks st)"
  using rebuild_snapshot [OF assms, of now] by simp

text \<open>A master whose only task has left the queue.\<close>

definition drained :: cluster_state where
  "drained = (insert_task (cluster_new ''m'') (task_new ''t'' ''j'' ''s'' ''p'' ''q''))\<lparr>pending := []\<rparr>"

theorem remote_copy_requeues_every_task_witness:
  "pending drained = [] \<and> pending (rebuild_state (snapshot drained 5)) = [''t'']"
proof -
  have "well_keyed drained" "map fst (tasks drained) = [''t'']" "pending drained = []"
    by (simp_all add: drained_def insert_task_def cluster_new_def task_new_def well_keyed_def)
  with remote_copy_requeues_every_task [of drained 5] show ?thesis by simp
qed

section \<open>The shell\<close>

text \<open>The shell ends only when a read fails or a line says \<^verbatim>\<open>:quit\<close> or \<^verbatim>\<open>:exit\<close>. The end of the input
  is neither: it is read as an empty line for ever, and the shell prompts again and again.\<close>

theorem shell_ignores_end_of_input:
  "(start_repl lib w session reader fuel = Exited out \<longrightarrow>
      (\<exists>k < fuel. case reader k of ReadError e \<Rightarrow> True | ReadLine l \<Rightarrow> trim l \<in> {'':quit'', '':exit''})) \<and>
   ((\<forall>k. reader k = ReadLine []) \<longrightarrow>
      start_repl lib w session reader fuel = Reading [] (repl_banner # replicate fuel (Prompt ''rspark> '')))"
proof -
  have "\<not> ends_with '';'' (trim_end [])" by (simp add: trim_end_def ends_with_def strip_suffix_def)
  then show ?thesis
    using repl_loop_exits [of lib _ session reader 0 fuel "[]" "[repl_banner]" out]
      repl_loop_eof [of 0 reader "[]" lib _ session fuel "[repl_banner]"]
    by (auto simp: start_repl_def leaves_def repl_prompt_def trim_empty)
qed

theorem shell_ignores_end_of_input_witness:
  "start_repl cli_sample \<lparr>w_files = Map.empty, w_objects = Map.empty\<rparr> session_new (\<lambda>k. ReadLine []) 3 =
     Reading [] (repl_banner # replicate 3 (Prompt ''rspark> ''))"
  using shell_ignores_end_of_input [of cli_sample "\<lparr>w_files = Map.empty, w_objects = Map.empty\<rparr>" session_new
    "\<lambda>k. ReadLine []" 3 "[]"] by simp

section \<open>Ingest\<close>

text \<open>The answer to a batch of events accounts for each of them: the numbers of produced and
  failed events add up to those received, the produced ones are what was sent to the topic, in
  order, and the status is 502 exactly when there were events and none was produced.\<close>

theorem ingest_accounts_for_events:
  "\<exists>code body sent. ingest encode send topic events = (code, body, sent) \<and>
    in_received body = length events \<and> in_produced body + in_failed body = in_received body \<and>
    in_produced body = length sent \<and>
    sent = List.map_filter (\<lambda>(i, ev). case encode ev of Inl e \<Rightarrow> None
       | Inr payload \<Rightarrow> if send i payload = None then Some (topic, payload) else None) (enumerate 0 events) \<and>
    code = (if events \<noteq> [] \<and> sent = [] then 502 else 202)"
  using ingest_loop [of encode send topic "\<lparr>is_produced = 0, is_failed_count = 0, is_sent = []\<rparr>" "enumerate 0 events"]
    ingest_sent [of encode send topic "\<lparr>is_produced = 0, is_failed_count = 0, is_sent = []\<rparr>" "enumerate 0 events"]
  by (auto simp: ingest_def Let_def)

end
