(* ===== verification/Spec2Isabelle.thy ===== *)
theory Spec2Isabelle
  imports Core_Properties Exec_Properties Query_Properties Sql_Properties Cluster_Properties Interleaving_Properties
    Interchange_Properties Pipeline_Properties Api_Properties Reconcile_Properties Cli_Properties
begin

text \<open>
  A model of rspark, a small Spark-like SQL engine written in Rust, and of what makes it
  correct. A query enters as SQL text. \<^verbatim>\<open>rspark-sql\<close> parses it (with the \<^verbatim>\<open>sqlparser\<close> crate),
  translates the expressions and plans it against a catalog of tables; \<^verbatim>\<open>rspark-exec\<close> walks the
  plan and computes batches of rows, which it reads through the sources of
  \<^verbatim>\<open>rspark-storage\<close>; \<^verbatim>\<open>rspark-core\<close> holds the values, schemas, rows and expressions they share.
  In a cluster, the master of \<^verbatim>\<open>rspark-cluster\<close> plans a submitted query, splits it into tasks,
  queues them, hands them to workers and recomputes the states of stages and jobs as tasks
  complete; a worker plans and executes the task's SQL text locally. \<^verbatim>\<open>rspark-api\<close> puts the master,
  a session catalog and a pipeline registry behind HTTP handlers; \<^verbatim>\<open>rspark-cli\<close> starts masters,
  workers, dashboards and a shell, and submits queries; \<^verbatim>\<open>rspark-pipelines\<close> runs graphs of flows,
  each a source, a query and a destination, once or for ever; \<^verbatim>\<open>rspark-operator\<close> keeps the
  Kubernetes objects of a cluster resource in place; \<^verbatim>\<open>rspark-ingest\<close> passes events on to Kafka.

  \<^bold>\<open>Theories and sources.\<close> \<open>Prelude\<close> holds the outcome type \<open>result\<close> (\<open>Ok\<close>, \<open>Err\<close>, and \<open>Panic\<close> for a
  Rust panic) with the loops over it; \<open>Rust_Std\<close> the machine integers, comparators with their
  contract \<open>total_preorder_cmp\<close>, the stable sort and ordered maps with their contract
  \<open>keyed_store\<close>; \<open>Rust_Text\<close> UTF-8 strings, trimming, decimal integers; \<open>IEEE_Float\<close> the binary32
  and binary64 formats as words, with rounding, comparison, casts, parsing and printing.
  \<open>Value\<close>, \<open>Schema\<close>, \<open>Records\<close> and \<open>Expr\<close> model the files of \<^verbatim>\<open>rspark-core/src\<close> (\<^verbatim>\<open>value.rs\<close> and
  \<^verbatim>\<open>error.rs\<close>, \<^verbatim>\<open>schema.rs\<close>, \<^verbatim>\<open>record.rs\<close>, \<^verbatim>\<open>expr.rs\<close>). \<open>Plan\<close>, \<open>Sql_Ast\<close>, \<open>Expr_Builder\<close>, \<open>Planner\<close> and
  \<open>Show_Create\<close> model \<^verbatim>\<open>rspark-sql/src\<close>: \<^verbatim>\<open>plan.rs\<close>, the syntax trees, \<^verbatim>\<open>expr_builder.rs\<close>, then
  \<^verbatim>\<open>parser.rs\<close>, \<^verbatim>\<open>planner.rs\<close>, \<^verbatim>\<open>session.rs\<close> and \<^verbatim>\<open>table_kind.rs\<close>, and \<^verbatim>\<open>show_create.rs\<close>. \<open>Storage\<close> models
  the CSV and JSON sources, the registry and the writers of \<^verbatim>\<open>rspark-storage/src\<close>. \<open>Operators\<close> and
  \<open>Executor\<close> model \<^verbatim>\<open>operators.rs\<close>, \<^verbatim>\<open>partition.rs\<close> and \<^verbatim>\<open>executor.rs\<close> of \<^verbatim>\<open>rspark-exec/src\<close>. \<open>Cluster\<close>
  models \<^verbatim>\<open>rspark-cluster/src\<close>: jobs, stages, tasks, workers, the shared state, the partitioner,
  the master's handlers and a worker's execution of a task. \<open>Arrow\<close> models \<^verbatim>\<open>arrow_batch.rs\<close> and
  \<^verbatim>\<open>arrow_ops.rs\<close>; \<open>Object_Store\<close> the file writers, \<^verbatim>\<open>s3_source.rs\<close> and \<^verbatim>\<open>s3_writer.rs\<close>. \<open>Pipeline_Spec\<close>,
  \<open>Streaming\<close> and \<open>Pipeline_Runner\<close> model \<^verbatim>\<open>rspark-pipelines/src\<close> (\<^verbatim>\<open>spec.rs\<close> and \<^verbatim>\<open>dag.rs\<close>; \<^verbatim>\<open>source.rs\<close>;
  \<^verbatim>\<open>sink.rs\<close> and \<^verbatim>\<open>runner.rs\<close>). \<open>Api\<close> models \<^verbatim>\<open>rspark-api/src/routes.rs\<close>, one definition per handler and
  the router as a function \<open>route\<close> on requests. \<open>Crd\<close> and \<open>Reconcile\<close> model \<^verbatim>\<open>crd.rs\<close> and \<^verbatim>\<open>controller.rs\<close>
  of \<^verbatim>\<open>rspark-operator/src\<close>, \<open>Cli\<close> the commands and the shell of \<^verbatim>\<open>rspark-cli/src\<close>, \<open>Ingest\<close> the ingest
  service, the pipeline program and the dispatch of the subcommands.

  \<^bold>\<open>How code corresponds to definitions.\<close> A struct is a record and an enum a datatype, with
  constructor prefixes (\<open>V\<close> values, \<open>T\<close> types, \<open>L\<close> literals, \<open>Op\<close> operators, \<open>E\<close> expressions, \<open>P\<close> plan
  nodes, \<open>Err\<close> errors). A function or method is a definition of the same name where HOL has no
  constant of that name; error messages are those of the source. Integers are words, and
  \<^verbatim>\<open>+\<close>, \<^verbatim>\<open>-\<close>, \<^verbatim>\<open>*\<close> wrap as in the release build; \<^verbatim>\<open>usize\<close> row limits and indices are naturals. A hash
  map is an association list or a map, of whose iteration order the theorems do not depend.
  Fresh identifiers and clock readings are arguments. Code outside the repository is a
  parameter: a regular expression engine, the SQL parser, the CSV, JSON and YAML crates, the file
  system, the object store, directory listings, Kafka, the \<^verbatim>\<open>arrow\<close>, \<^verbatim>\<open>petgraph\<close> and \<^verbatim>\<open>kube\<close> crates, the
  network (\<open>regex_lib\<close>, \<open>sql_lib\<close>, \<open>csv_lib\<close>, \<open>json_lib\<close>, \<open>yaml_lib\<close>, \<open>os_lib\<close>, \<open>s3_lib\<close>, \<open>stream_lib\<close>,
  \<open>arrow_lib\<close>, \<open>petgraph\<close>, \<open>kube_lib\<close>, \<open>cli_net\<close>). Theorems hold for every value of them, and a theorem
  that needs more says what: that the CSV reader returns the rows the writer was given, that
  drawn identifiers are new, that arrays hold what was appended and kernels compute what they
  document (\<open>arrow_ok\<close>), that graphs hold the nodes and edges they were given and a topological
  sort finds a cycle if there is one (\<open>petgraph_ok\<close>), that patching and creating an object store
  it (\<open>kube_ok\<close>), that writing to a file succeeds (\<open>os_ok\<close>); instances of these over lists and maps
  are the witnesses.

  \<^bold>\<open>Loops.\<close> Every recursion of the model terminates. Three loops of the program need not: the polls
  of a live flow, the attempts of a worker to register, and the turns of the shell. They take
  the number of turns as fuel and return a value that says that they are still going (\<open>None\<close>, \<open>Inl\<close>
  or \<open>Reading\<close>); the theorems about them hold for every fuel, or for every fuel above the number
  of turns they name. The fuel of \<open>thread_steps\<close> counts lock accesses, of which a handler makes at
  most \<open>remaining\<close>.

  \<^bold>\<open>Concurrency.\<close> The locks of \<^verbatim>\<open>state.rs\<close> protect single accesses to a table. The model has both
  grains. In \<open>Cluster\<close> and \<open>Api\<close> a handler is one atomic step, and concurrent requests are
  sequences of such steps (\<open>cluster_step\<close>, \<open>api_reachable\<close>). In \<open>Interleaving\<close> submission,
  assignment and completion are sequences of single accesses: the program points of each are a
  datatype whose constructors hold the live local variables, \<open>submit_step\<close>, \<open>assign_step\<close> and
  \<open>complete_step\<close> make one access, and a net of any number of handlers runs over the shared state
  in any order (\<open>net_step\<close>, \<open>net_reachable\<close>). Run alone the sequences are the atomic handlers. What
  the atomic model promises of jobs does not survive interleaving: two windows lose the final
  status of a job and one makes a completion panic, each a theorem.

  \<^bold>\<open>What is shown.\<close> \<open>Operator_Laws\<close>: on each comparison class the comparison of values is a total
  preorder, so sorting by key vectors is a stable sort of the rows; a join computes the
  relational join. \<open>Aggregation\<close>: the grouping loop builds one group per key, in key order, and
  what each accumulator holds. \<open>Executor_Laws\<close>: results carry the plan's schema and validate
  against it when the sources keep \<open>source_contract\<close> (which the CSV and JSON sources are shown
  to), and no query panics unless it uses the remainder operator. \<open>Query_Properties\<close>: the relational
  meaning of plans (\<open>answers\<close>) and that executing a plan, a worker's task or a query sent to the
  API returns an answer. \<open>Sql_Laws\<close>: planned trees are
  well formed and read what the catalog holds (\<open>catalog_contract\<close>, provided by the session);
  executing them cannot fail validation in LIMIT, DISTINCT, ORDER BY and planned joins;
  COALESCE, IN and BETWEEN evaluate as they should, NVL does not. \<open>Cluster_Laws\<close>: the steps of
  the master as an inductive relation and the invariant of its reachable states. \<open>Interleaving_Laws\<close>:
  running alone, and the assertions at the program points; \<open>Interleaving_Invariant\<close>: they hold in
  every reachable net, no identifier is queued or taken twice, and every task's job is recorded
  or being submitted. \<open>Arrow_Laws\<close>:
  what the columns of a converted batch hold and what the kernels make of them. \<open>Pipeline_Dag_Laws\<close>
  and \<open>Pipeline_Laws\<close>: acceptance, the layers, the order of a run, what it reports, what a live
  flow has written after any number of polls. \<open>Pipeline_Interfaces\<close>: the contract of a streaming
  source (\<open>batch_stream\<close>), which every source keeps, and that of the catalog for flow outputs.
  \<open>Api_Laws\<close>: every handler is a sequence of steps of the master, as far as tasks, stages and queue
  are concerned. \<open>Reconcile_Laws\<close>: what applying the owned objects does to the stored objects.
  \<open>Cli_Laws\<close>: the delays of registration, and the rounds of a worker against the API.
  The properties stand in the theories named \<open>_Properties\<close>, each with a concrete instance where it
  has premises; beside the numbered ones these theories keep further theorems, among them the
  exact conditions of the defects found (NVL, the remainder, seeded execution, workers with
  an empty catalog, the shell at the end of its input, Null columns, omitted sections).

  \<^bold>\<open>Not modelled.\<close> The dashboard (\<^verbatim>\<open>rspark-dashboard\<close>): a page of HTML, CSS and JavaScript held in
  string constants, served next to the modelled router. The servers and runtimes themselves:
  axum and tokio, the controller runtime of \<^verbatim>\<open>kube\<close> that calls \<open>reconcile\<close>, argument parsing by
  \<^verbatim>\<open>clap\<close>, logging, the \<^verbatim>\<open>main\<close> functions that set them up, and the construction of Kafka and S3
  clients, all of which only call third-party crates. Tests are not part of the model.
\<close>

end
